(* ===== verification/Prelude.thy ===== *)
theory Prelude
  imports Complex_Main "HOL-Library.Sublist"
begin

text \<open>
  Shared foundations of the ElectroLend library: rounding of rational numbers to a number of
  decimal places, decimal numerals as strings, and the result type of functions that may throw.

  The lemma collections are filled by the component theories: \<open>bn_simps\<close> holds the
  finiteness and value rules of big-number expressions, \<open>fin_intros\<close> the finiteness
  of composite expressions and \<open>rounding_simps\<close> the facts about rounding.
\<close>

named_theorems bn_simps \<open>finiteness and value of big-number operations\<close>
named_theorems rounding_simps \<open>rounding of rational numbers\<close>

section \<open>Rounding\<close>

text \<open>
  The two rounding modes the program names (\<open>ROUND_DOWN\<close> truncates towards zero,
  \<open>ROUND_HALF_UP\<close> rounds to the nearest neighbour and halves away from zero).
\<close>

datatype rounding_mode = ROUND_DOWN | ROUND_HALF_UP

definition truncate_rat :: "rat \<Rightarrow> int" where
  "truncate_rat q = (if 0 \<le> q then floor q else ceiling q)"

fun round_rat :: "rounding_mode \<Rightarrow> rat \<Rightarrow> int" where
  "round_rat ROUND_DOWN q = truncate_rat q"
| "round_rat ROUND_HALF_UP q = (if 0 \<le> q then floor (q + 1/2) else ceiling (q - 1/2))"

definition round_places :: "rounding_mode \<Rightarrow> nat \<Rightarrow> rat \<Rightarrow> rat" where
  "round_places rm dp q = of_int (round_rat rm (q * 10 ^ dp)) / 10 ^ dp"

text \<open>The same roundings of a fraction of integers, computed without rationals.\<close>

definition quot_trunc :: "int \<Rightarrow> int \<Rightarrow> int" where
  "quot_trunc n d = sgn n * sgn d * (\<bar>n\<bar> div \<bar>d\<bar>)"

fun quot_round :: "rounding_mode \<Rightarrow> int \<Rightarrow> int \<Rightarrow> int" where
  "quot_round ROUND_DOWN n d = quot_trunc n d"
| "quot_round ROUND_HALF_UP n d = sgn n * sgn d * ((2 * \<bar>n\<bar> + \<bar>d\<bar>) div (2 * \<bar>d\<bar>))"

lemma truncate_rat_of_int [simp, rounding_simps]: "truncate_rat (of_int n) = n"
  by (simp add: truncate_rat_def)

lemma truncate_rat_of_nat [simp, rounding_simps]: "truncate_rat (of_nat n) = int n"
  using truncate_rat_of_int[of "int n"] by simp

lemma truncate_rat_numeral [simp]:
  "truncate_rat (numeral k) = numeral k" "truncate_rat 0 = 0" "truncate_rat 1 = 1"
  by (simp_all add: truncate_rat_def)

lemma truncate_rat_nonneg: "0 \<le> q \<Longrightarrow> truncate_rat q = floor q"
  by (simp add: truncate_rat_def)

lemma truncate_rat_mono:
  assumes "p \<le> q"
  shows "truncate_rat p \<le> truncate_rat q"
proof -
  have "ceiling p \<le> floor q" if "p \<le> 0" "0 \<le> q"
    using order_trans[of "ceiling p" 0 "floor q"] that by simp
  then show ?thesis
    using assms floor_mono[OF assms] ceiling_mono[OF assms]
    unfolding truncate_rat_def by (cases "0 \<le> p"; cases "0 \<le> q") simp_all
qed

lemma truncate_rat_ge_0 [simp]: "0 \<le> q \<Longrightarrow> 0 \<le> truncate_rat q"
  by (simp add: truncate_rat_def)

lemma truncate_rat_uminus: "truncate_rat (- q) = - truncate_rat q"
  by (auto simp: truncate_rat_def floor_minus ceiling_minus)

lemma floor_div_int: "floor ((of_int n :: rat) / of_int d) = n div d"
  by (simp add: floor_divide_of_int_eq)

lemma truncate_rat_frac:
  "truncate_rat (of_int n / of_int d) = quot_trunc n d"
proof (cases "d = 0")
  case False
  have pos: "truncate_rat (of_int \<bar>m\<bar> / of_int \<bar>d\<bar>) = \<bar>m\<bar> div \<bar>d\<bar>" for m
    using floor_div_int[of "\<bar>m\<bar>" "\<bar>d\<bar>"] by (simp add: truncate_rat_nonneg)
  have "(of_int n / of_int d :: rat) = of_int (sgn n * sgn d) * (of_int \<bar>n\<bar> / of_int \<bar>d\<bar>)"
    by (cases n "0::int" rule: linorder_cases; cases d "0::int" rule: linorder_cases) auto
  moreover have "truncate_rat (of_int s * x) = s * truncate_rat x" if "s \<in> {-1, 0, 1}" for s x
    using that by (auto simp: truncate_rat_uminus)
  moreover have "sgn n * sgn d \<in> {-1, 0, 1}"
    by (cases n "0::int" rule: linorder_cases; cases d "0::int" rule: linorder_cases) auto
  ultimately show ?thesis
    by (simp only: pos quot_trunc_def)
qed (simp add: quot_trunc_def)

lemma round_half_up_frac:
  "d \<noteq> 0 \<Longrightarrow> round_rat ROUND_HALF_UP (of_int n / of_int d) = quot_round ROUND_HALF_UP n d"
proof -
  assume d: "d \<noteq> 0"
  have pos: "floor (of_int \<bar>n\<bar> / of_int \<bar>d\<bar> + 1/2 :: rat) = (2 * \<bar>n\<bar> + \<bar>d\<bar>) div (2 * \<bar>d\<bar>)"
  proof -
    have "(of_int \<bar>n\<bar> / of_int \<bar>d\<bar> + 1/2 :: rat) = of_int (2 * \<bar>n\<bar> + \<bar>d\<bar>) / of_int (2 * \<bar>d\<bar>)"
      using d by (simp add: field_simps)
    then show ?thesis by (simp only: floor_div_int)
  qed
  have eq: "(of_int n / of_int d :: rat) = of_int (sgn n * sgn d) * (of_int \<bar>n\<bar> / of_int \<bar>d\<bar>)"
    by (cases n "0::int" rule: linorder_cases; cases d "0::int" rule: linorder_cases) auto
  consider "n = 0" | "sgn n * sgn d = 1" | "n \<noteq> 0" "sgn n * sgn d = -1"
    using d by (cases n "0::int" rule: linorder_cases; cases d "0::int" rule: linorder_cases) auto
  then show ?thesis
  proof cases
    case 1
    then show ?thesis by (simp add: floor_eq_iff)
  next
    case 2
    with eq pos show ?thesis by simp
  next
    case 3
    define x :: rat where "x = of_int \<bar>n\<bar> / of_int \<bar>d\<bar>"
    have "0 < x" using 3 d by (simp add: x_def)
    have "ceiling (- x - 1/2) = - floor (x + 1/2)"
      using ceiling_minus[of "x + 1/2"] by simp
    moreover have "(of_int n / of_int d :: rat) = - x" using eq 3 by (simp add: x_def)
    ultimately show ?thesis using pos 3 \<open>0 < x\<close> d by (simp add: x_def)
  qed
qed

lemma round_rat_frac:
  "d \<noteq> 0 \<Longrightarrow> round_rat rm (of_int n / of_int d) = quot_round rm n d"
  by (cases rm) (simp_all add: truncate_rat_frac round_half_up_frac del: round_rat.simps(2) quot_round.simps(2))

lemma round_places_of_int [simp, rounding_simps]: "round_places rm dp (of_int n) = of_int n"
proof -
  have "(of_int n * 10 ^ dp :: rat) = of_int (n * 10 ^ dp)" by simp
  moreover have "round_rat rm (of_int (n * 10 ^ dp)) = n * 10 ^ dp"
    by (cases rm) (simp_all add: floor_unique ceiling_unique del: of_int_mult)
  ultimately have "round_places rm dp (of_int n) = of_int (n * 10 ^ dp) / 10 ^ dp"
    by (simp only: round_places_def)
  then show ?thesis by simp
qed

lemma round_places_down_0 [simp]: "round_places ROUND_DOWN 0 q = of_int (truncate_rat q)"
  by (simp add: round_places_def)

lemma truncate_rat_round_down_0 [rounding_simps]:
  "truncate_rat (round_places ROUND_DOWN 0 q) = truncate_rat q"
  by (simp add: round_places_down_0)

lemma round_places_nonneg: "0 \<le> q \<Longrightarrow> 0 \<le> round_places rm dp q"
  by (cases rm) (simp_all add: round_places_def)

lemma round_half_up_error: "\<bar>round_places ROUND_HALF_UP dp q - q\<bar> \<le> 1 / (2 * 10 ^ dp)"
proof -
  have bound: "\<bar>x - p\<bar> \<le> 1/2" if "x \<le> p + 1/2" "p - 1/2 \<le> x" for x p :: rat
    using that by (intro abs_leI) (simp_all only: le_diff_eq diff_le_eq minus_diff_eq add.commute)
  have err: "\<bar>of_int (round_rat ROUND_HALF_UP p) - p\<bar> \<le> 1/2" for p :: rat
  proof (cases "0 \<le> p")
    case True
    have "p - 1/2 \<le> of_int (floor (p + 1/2))"
      using floor_correct[of "p + 1/2"] by simp
    with True show ?thesis using bound of_int_floor_le[of "p + 1/2"] by simp
  next
    case False
    have "of_int (ceiling (p - 1/2)) \<le> p + 1/2"
      using ceiling_correct[of "p - 1/2"] by simp
    with False show ?thesis using bound le_of_int_ceiling[of "p - 1/2"] by simp
  qed
  define r :: rat where "r = of_int (round_rat ROUND_HALF_UP (q * 10 ^ dp))"
  have "r / 10 ^ dp - q = (r - q * 10 ^ dp) / 10 ^ dp"
    by (simp add: diff_divide_distrib)
  then have "\<bar>round_places ROUND_HALF_UP dp q - q\<bar> = \<bar>r - q * 10 ^ dp\<bar> / 10 ^ dp"
    by (simp only: round_places_def r_def abs_divide) simp
  also have "\<dots> \<le> (1/2) / 10 ^ dp"
    unfolding r_def using err by (intro divide_right_mono) (simp_all del: round_rat.simps)
  finally show ?thesis by simp
qed

text \<open>Fractions of natural numbers.\<close>

lemma truncate_nat_frac: "truncate_rat (of_nat n / of_nat d) = int (n div d)"
  by (simp add: truncate_rat_nonneg floor_divide_of_nat_eq)

lemma round_places_half_up_nat_frac:
  assumes "0 < d"
  shows "round_places ROUND_HALF_UP dp (of_nat n / of_nat d)
         = of_nat ((2 * (n * 10 ^ dp) + d) div (2 * d)) / 10 ^ dp"
proof -
  have "of_nat n / of_nat d * 10 ^ dp = (of_int (int (n * 10 ^ dp)) / of_int (int d) :: rat)"
    by simp
  moreover have "quot_round ROUND_HALF_UP (int (n * 10 ^ dp)) (int d) = int ((2 * (n * 10 ^ dp) + d) div (2 * d))"
  proof (cases "n = 0")
    case False
    then show ?thesis
      using assms by (simp add: sgn_if zdiv_int del: of_nat_mult of_nat_add of_nat_power)
        (simp add: zdiv_int)
  qed (use assms in simp)
  ultimately show ?thesis
    using round_rat_frac[of "int d" ROUND_HALF_UP "int (n * 10 ^ dp)"] assms
    by (simp add: round_places_def del: round_rat.simps quot_round.simps of_nat_mult of_nat_add of_nat_power)
qed

lemma truncate_round_half_up_nat_frac:
  assumes "0 < d"
  shows "truncate_rat (round_places ROUND_HALF_UP dp (of_nat n / of_nat d))
         = int ((2 * (n * 10 ^ dp) + d) div (2 * d * 10 ^ dp))"
  using truncate_nat_frac[of "(2 * (n * 10 ^ dp) + d) div (2 * d)" "10 ^ dp"]
  by (simp add: round_places_half_up_nat_frac[OF assms] div_mult2_eq del: of_nat_add of_nat_mult)

lemma div_add_carry:
  fixes n k d :: nat
  assumes "0 < k" "k < d"
  shows "(n + k) div d = (if d - k \<le> n mod d then Suc (n div d) else n div d)"
proof -
  have "(n mod d + k + n div d * d) div d = n div d + (n mod d + k) div d"
    using assms by (intro div_mult_self1) simp
  moreover have "n mod d + k + n div d * d = n + k"
    using div_mult_mod_eq[of n d] by linarith
  ultimately have eq: "(n + k) div d = n div d + (n mod d + k) div d" by simp
  define r where "r = n mod d"
  have "r < d" using assms by (simp add: r_def)
  have carry: "(r + k) div d = (if d - k \<le> r then 1 else 0)"
  proof (cases "d - k \<le> r")
    case True
    then have "(r + k) div d = 1" using assms \<open>r < d\<close> by (intro div_nat_eqI) auto
    then show ?thesis using True by simp
  qed (use assms in simp)
  show ?thesis using eq carry by (simp add: r_def)
qed

section \<open>Letter case\<close>

text \<open>\<open>toUpperCase\<close> of a string of ASCII characters.\<close>

definition upper_char :: "char \<Rightarrow> char" where
  "upper_char c = (if 97 \<le> (of_char c :: nat) \<and> (of_char c :: nat) \<le> 122 then char_of ((of_char c :: nat) - 32) else c)"

definition toUpperCase :: "string \<Rightarrow> string" where
  "toUpperCase s = map upper_char s"

text \<open>\<open>toLowerCase\<close> of a string of ASCII characters.\<close>

definition lower_char :: "char \<Rightarrow> char" where
  "lower_char c = (if 65 \<le> (of_char c :: nat) \<and> (of_char c :: nat) \<le> 90 then char_of ((of_char c :: nat) + 32) else c)"

definition toLowerCase :: "string \<Rightarrow> string" where
  "toLowerCase s = map lower_char s"

lemma lower_letters:
  "lower_char (CHR ''A'') = CHR ''a''" "lower_char (CHR ''B'') = CHR ''b''" "lower_char (CHR ''C'') = CHR ''c''"
  "lower_char (CHR ''D'') = CHR ''d''" "lower_char (CHR ''E'') = CHR ''e''" "lower_char (CHR ''N'') = CHR ''n''"
  "lower_char (CHR ''S'') = CHR ''s''" "lower_char (CHR ''T'') = CHR ''t''" "lower_char (CHR ''U'') = CHR ''u''"
  "lower_char (CHR ''W'') = CHR ''w''"
proof -
  have "map lower_char ''ABCDENSTUW'' = ''abcdenstuw''" by code_simp
  then show
    "lower_char (CHR ''A'') = CHR ''a''" "lower_char (CHR ''B'') = CHR ''b''" "lower_char (CHR ''C'') = CHR ''c''"
    "lower_char (CHR ''D'') = CHR ''d''" "lower_char (CHR ''E'') = CHR ''e''" "lower_char (CHR ''N'') = CHR ''n''"
    "lower_char (CHR ''S'') = CHR ''s''" "lower_char (CHR ''T'') = CHR ''t''" "lower_char (CHR ''U'') = CHR ''u''"
    "lower_char (CHR ''W'') = CHR ''w''"
    by simp_all
qed

end
