(* ===== verification/Big_Number.thy ===== *)
theory Big_Number
  imports Prelude
begin

text \<open>
  The decimal arithmetic package the program imports (\<open>bignumber.js\<close>) is not part of the
  repository, so its operations are a parameter of the model: a record of the operations the
  program calls. The locale \<open>bignumber\<close> states the documented behaviour the program
  relies on; \<open>fin\<close> says that a value is a finite number (neither \<open>NaN\<close> nor an infinity
  nor \<open>undefined\<close>) and \<open>val\<close> is the number it denotes. Addition, subtraction and
  multiplication are exact; division rounds to \<open>DECIMAL_PLACES\<close> places in the
  \<open>ROUNDING_MODE\<close> of the configuration in force. The last section implements the interface by
  decimals with an integer coefficient and interprets the locale on it.
\<close>

section \<open>Decimal numerals\<close>

definition is_digit :: "char \<Rightarrow> bool" where
  "is_digit c \<longleftrightarrow> 48 \<le> (of_char c :: nat) \<and> (of_char c :: nat) \<le> 57"

definition digit_val :: "char \<Rightarrow> nat" where
  "digit_val c = of_char c - 48"

definition digits_val :: "string \<Rightarrow> nat" where
  "digits_val ds = foldl (\<lambda>acc c. 10 * acc + digit_val c) 0 ds"

text \<open>
  A numeral is an optional minus sign, digits, an optional fraction and an optional positive
  exponent (\<open>1e+27\<close>, which is how large numbers print). It denotes \<open>m / 10 ^ e\<close>.
\<close>

definition parse_exponent :: "int \<Rightarrow> nat \<Rightarrow> string \<Rightarrow> (int \<times> nat) option" where
  "parse_exponent m e r =
     (if r = [] then Some (m, e)
      else if take 2 r = ''e+'' \<and> drop 2 r \<noteq> [] \<and> list_all is_digit (drop 2 r)
      then Some (m * 10 ^ digits_val (drop 2 r), e)
      else None)"

definition parse_unsigned :: "string \<Rightarrow> (int \<times> nat) option" where
  "parse_unsigned s =
     (let i = takeWhile is_digit s; r = dropWhile is_digit s
      in if i = [] then None
         else if take 1 r = ''.''
         then (let f = takeWhile is_digit (drop 1 r)
               in if f = [] then None
                  else parse_exponent (int (digits_val (i @ f))) (length f)
                         (dropWhile is_digit (drop 1 r)))
         else parse_exponent (int (digits_val i)) 0 r)"

definition parse_decimal :: "string \<Rightarrow> (int \<times> nat) option" where
  "parse_decimal s =
     (if take 1 s = ''-'' then map_option (\<lambda>(m, e). (- m, e)) (parse_unsigned (drop 1 s))
      else parse_unsigned s)"

text \<open>Rules that evaluate a numeral.\<close>

lemma digit_facts:
  "is_digit CHR ''0''" "is_digit CHR ''1''" "is_digit CHR ''2''" "is_digit CHR ''3''" "is_digit CHR ''4''"
  "is_digit CHR ''5''" "is_digit CHR ''6''" "is_digit CHR ''7''" "is_digit CHR ''8''" "is_digit CHR ''9''"
  "\<not> is_digit CHR ''.''" "\<not> is_digit CHR ''e''"
  by (simp_all add: is_digit_def)
lemma digit_vals:
  "digit_val CHR ''0'' = 0" "digit_val CHR ''1'' = 1" "digit_val CHR ''2'' = 2" "digit_val CHR ''3'' = 3" "digit_val CHR ''4'' = 4"
  "digit_val CHR ''5'' = 5" "digit_val CHR ''6'' = 6" "digit_val CHR ''7'' = 7" "digit_val CHR ''8'' = 8" "digit_val CHR ''9'' = 9"
  by (simp_all add: digit_val_def)
lemmas parse_eval = parse_decimal_def parse_unsigned_def parse_exponent_def digits_val_def digit_facts digit_vals Let_def

section \<open>The interface\<close>

record bn_config =
  DECIMAL_PLACES :: nat
  ROUNDING_MODE :: rounding_mode

record 'n bn =
  bn_undefined :: 'n
  bn_new :: "string \<Rightarrow> 'n"
  bn_plus :: "'n \<Rightarrow> 'n \<Rightarrow> 'n"
  bn_minus :: "'n \<Rightarrow> 'n \<Rightarrow> 'n"
  bn_times :: "'n \<Rightarrow> 'n \<Rightarrow> 'n"
  bn_div :: "'n \<Rightarrow> 'n \<Rightarrow> 'n"
  bn_pow :: "'n \<Rightarrow> nat \<Rightarrow> 'n"
  bn_negated :: "'n \<Rightarrow> 'n"
  bn_abs :: "'n \<Rightarrow> 'n"
  bn_decimalPlaces :: "'n \<Rightarrow> nat \<Rightarrow> rounding_mode \<Rightarrow> 'n"
  bn_decimalPlaces_default :: "'n \<Rightarrow> nat \<Rightarrow> 'n"
  bn_eq :: "'n \<Rightarrow> 'n \<Rightarrow> bool"
  bn_gt :: "'n \<Rightarrow> 'n \<Rightarrow> bool"
  bn_lt :: "'n \<Rightarrow> 'n \<Rightarrow> bool"
  bn_toFixed :: "'n \<Rightarrow> string"
  bn_toFixed0 :: "'n \<Rightarrow> string"
  bn_toString16 :: "'n \<Rightarrow> string"
  bn_defined :: "'n \<Rightarrow> bool"

locale bignumber =
  fixes B :: "'n bn"
    and cfg :: bn_config
    and fin :: "'n \<Rightarrow> bool"
    and val :: "'n \<Rightarrow> rat"
  assumes undefined_fin [simp]: "\<not> fin (bn_undefined B)"
    and new_fin: "parse_decimal s = Some (m, e) \<Longrightarrow> fin (bn_new B s)"
    and new_val: "parse_decimal s = Some (m, e) \<Longrightarrow> val (bn_new B s) = of_int m / 10 ^ e"
    and plus_fin [simp]: "fin (bn_plus B a b) \<longleftrightarrow> fin a \<and> fin b"
    and plus_val [simp]: "fin a \<Longrightarrow> fin b \<Longrightarrow> val (bn_plus B a b) = val a + val b"
    and minus_fin [simp]: "fin (bn_minus B a b) \<longleftrightarrow> fin a \<and> fin b"
    and minus_val [simp]: "fin a \<Longrightarrow> fin b \<Longrightarrow> val (bn_minus B a b) = val a - val b"
    and times_fin [simp]: "fin (bn_times B a b) \<longleftrightarrow> fin a \<and> fin b"
    and times_val [simp]: "fin a \<Longrightarrow> fin b \<Longrightarrow> val (bn_times B a b) = val a * val b"
    and div_fin [simp]: "fin b \<Longrightarrow> fin (bn_div B a b) \<longleftrightarrow> fin a \<and> val b \<noteq> 0"
    and div_val [simp]: "fin a \<Longrightarrow> fin b \<Longrightarrow> val b \<noteq> 0 \<Longrightarrow>
          val (bn_div B a b) = round_places (ROUNDING_MODE cfg) (DECIMAL_PLACES cfg) (val a / val b)"
    and pow_fin [simp]: "fin a \<Longrightarrow> fin (bn_pow B a n)"
    and pow_val [simp]: "fin a \<Longrightarrow> val (bn_pow B a n) = val a ^ n"
    and negated_fin [simp]: "fin (bn_negated B a) \<longleftrightarrow> fin a"
    and negated_val [simp]: "fin a \<Longrightarrow> val (bn_negated B a) = - val a"
    and abs_fin [simp]: "fin (bn_abs B a) \<longleftrightarrow> fin a"
    and abs_val [simp]: "fin a \<Longrightarrow> val (bn_abs B a) = \<bar>val a\<bar>"
    and decimalPlaces_fin [simp]: "fin (bn_decimalPlaces B a dp rm) \<longleftrightarrow> fin a"
    and decimalPlaces_val [simp]: "fin a \<Longrightarrow> val (bn_decimalPlaces B a dp rm) = round_places rm dp (val a)"
    and decimalPlaces_default_fin [simp]: "fin (bn_decimalPlaces_default B a dp) \<longleftrightarrow> fin a"
    and decimalPlaces_default_val [simp]: "fin a \<Longrightarrow>
          val (bn_decimalPlaces_default B a dp) = round_places (ROUNDING_MODE cfg) dp (val a)"
    and eq_val [simp]: "fin a \<Longrightarrow> fin b \<Longrightarrow> bn_eq B a b \<longleftrightarrow> val a = val b"
    and gt_val [simp]: "fin a \<Longrightarrow> fin b \<Longrightarrow> bn_gt B a b \<longleftrightarrow> val b < val a"
    and lt_val [simp]: "fin a \<Longrightarrow> fin b \<Longrightarrow> bn_lt B a b \<longleftrightarrow> val a < val b"
    and toFixed_numeral: "fin a \<Longrightarrow>
          \<exists>m e. parse_decimal (bn_toFixed B a) = Some (m, e) \<and> val a = of_int m / 10 ^ e"
    and toFixed0_numeral: "fin a \<Longrightarrow>
          \<exists>m e. parse_decimal (bn_toFixed0 B a) = Some (m, e)
                \<and> round_places (ROUNDING_MODE cfg) 0 (val a) = of_int m / 10 ^ e"
    and toString16_fin [simp]: "fin a \<Longrightarrow> val a = of_nat n \<Longrightarrow> fin (bn_new B (''0x'' @ bn_toString16 B a))"
    and toString16_val [simp]: "fin a \<Longrightarrow> val a = of_nat n \<Longrightarrow> val (bn_new B (''0x'' @ bn_toString16 B a)) = val a"
    and undefined_defined [simp]: "\<not> bn_defined B (bn_undefined B)"
    and fin_defined: "fin a \<Longrightarrow> bn_defined B a"
begin

lemma new_toFixed [simp]:
  assumes "fin a"
  shows "fin (bn_new B (bn_toFixed B a))" and "val (bn_new B (bn_toFixed B a)) = val a"
  using toFixed_numeral[OF assms] new_fin new_val by auto

lemma new_toFixed0 [simp]:
  assumes "fin a"
  shows "fin (bn_new B (bn_toFixed0 B a))"
    and "val (bn_new B (bn_toFixed0 B a)) = round_places (ROUNDING_MODE cfg) 0 (val a)"
  using toFixed0_numeral[OF assms] new_fin new_val by auto

lemma dp0_down_val [simp]:
  "fin a \<Longrightarrow> val (bn_decimalPlaces B a 0 ROUND_DOWN) = of_int (truncate_rat (val a))"
  by (simp add: round_places_down_0)

lemma new_0: "fin (bn_new B ''0'')" "val (bn_new B ''0'') = 0"
proof -
  have "parse_decimal ''0'' = Some (0, 0)" by (simp add: parse_eval)
  then show "fin (bn_new B ''0'')" "val (bn_new B ''0'') = 0"
    by (auto dest: new_fin new_val)
qed

lemma new_1: "fin (bn_new B ''1'')" "val (bn_new B ''1'') = 1"
proof -
  have "parse_decimal ''1'' = Some (1, 0)" by (simp add: parse_eval)
  then show "fin (bn_new B ''1'')" "val (bn_new B ''1'') = 1"
    by (auto dest: new_fin new_val)
qed

lemma new_2: "fin (bn_new B ''2'')" "val (bn_new B ''2'') = 2"
proof -
  have "parse_decimal ''2'' = Some (2, 0)" by (simp add: parse_eval)
  then show "fin (bn_new B ''2'')" "val (bn_new B ''2'') = 2"
    by (auto dest: new_fin new_val)
qed

lemma new_3: "fin (bn_new B ''3'')" "val (bn_new B ''3'') = 3"
proof -
  have "parse_decimal ''3'' = Some (3, 0)" by (simp add: parse_eval)
  then show "fin (bn_new B ''3'')" "val (bn_new B ''3'') = 3"
    by (auto dest: new_fin new_val)
qed

lemma new_6: "fin (bn_new B ''6'')" "val (bn_new B ''6'') = 6"
proof -
  have "parse_decimal ''6'' = Some (6, 0)" by (simp add: parse_eval)
  then show "fin (bn_new B ''6'')" "val (bn_new B ''6'') = 6"
    by (auto dest: new_fin new_val)
qed

lemma new_10: "fin (bn_new B ''10'')" "val (bn_new B ''10'') = 10"
proof -
  have "parse_decimal ''10'' = Some (10, 0)" by (simp add: parse_eval)
  then show "fin (bn_new B ''10'')" "val (bn_new B ''10'') = 10"
    by (auto dest: new_fin new_val)
qed

lemmas new_literals [simp] = new_0 new_1 new_2 new_3 new_6 new_10

end

text \<open>
  The scenario tests run with \<open>BigNumber.config({DECIMAL_PLACES: 0, ROUNDING_MODE: ROUND_DOWN})\<close>;
  everything else with the defaults of the package, which the tests restore at the end.
\<close>

definition scenario_config :: bn_config where
  "scenario_config = \<lparr>DECIMAL_PLACES = 0, ROUNDING_MODE = ROUND_DOWN\<rparr>"

definition default_config :: bn_config where
  "default_config = \<lparr>DECIMAL_PLACES = 20, ROUNDING_MODE = ROUND_HALF_UP\<rparr>"

locale scenario_bignumber = bignumber B scenario_config fin val
  for B :: "'n bn" and fin val
begin

lemma scenario_div [simp]:
  "fin a \<Longrightarrow> fin b \<Longrightarrow> val b \<noteq> 0 \<Longrightarrow> val (bn_div B a b) = of_int (truncate_rat (val a / val b))"
  by (simp add: scenario_config_def round_places_down_0)

end

locale default_bignumber = bignumber B default_config fin val
  for B :: "'n bn" and fin val
begin

lemma default_div_error:
  assumes "fin a" "fin b" "val b \<noteq> 0"
  shows "\<bar>val (bn_div B a b) - val a / val b\<bar> \<le> 1 / (2 * 10 ^ 20)"
  using round_half_up_error[of 20 "val a / val b"] assms by (simp add: default_config_def)

end

text \<open>
  \<open>denotes fin val a n\<close>: the value \<open>a\<close> is the unsigned integer \<open>n\<close>, as the numbers read
  from a contract are.
\<close>

definition denotes :: "('n \<Rightarrow> bool) \<Rightarrow> ('n \<Rightarrow> rat) \<Rightarrow> 'n \<Rightarrow> nat \<Rightarrow> bool" where
  "denotes fin val a n \<longleftrightarrow> fin a \<and> val a = of_nat n"

context bignumber
begin

lemma denotesI: "fin a \<Longrightarrow> val a = of_nat n \<Longrightarrow> denotes fin val a n"
  by (simp add: denotes_def)

lemma plus_denotes: "denotes fin val a x \<Longrightarrow> denotes fin val b y \<Longrightarrow> denotes fin val (bn_plus B a b) (x + y)"
  by (simp add: denotes_def)

lemma minus_denotes:
  "denotes fin val a x \<Longrightarrow> denotes fin val b y \<Longrightarrow> y \<le> x \<Longrightarrow> denotes fin val (bn_minus B a b) (x - y)"
  by (simp add: denotes_def of_nat_diff)

lemma times_denotes: "denotes fin val a x \<Longrightarrow> denotes fin val b y \<Longrightarrow> denotes fin val (bn_times B a b) (x * y)"
  by (simp add: denotes_def)

lemma dp0_denotes: "denotes fin val a x \<Longrightarrow> denotes fin val (bn_decimalPlaces B a 0 ROUND_DOWN) x"
  using truncate_rat_of_int[of "int x"] by (simp add: denotes_def)

lemma compare_denotes:
  "denotes fin val a x \<Longrightarrow> denotes fin val b y \<Longrightarrow> bn_eq B a b \<longleftrightarrow> x = y"
  "denotes fin val a x \<Longrightarrow> denotes fin val b y \<Longrightarrow> bn_gt B a b \<longleftrightarrow> y < x"
  "denotes fin val a x \<Longrightarrow> denotes fin val b y \<Longrightarrow> bn_lt B a b \<longleftrightarrow> x < y"
  by (simp_all add: denotes_def)

lemma literal_denotes:
  "denotes fin val (bn_new B ''0'') 0" "denotes fin val (bn_new B ''1'') 1"
  "denotes fin val (bn_new B ''2'') 2" "denotes fin val (bn_new B ''6'') 6"
  by (simp_all add: denotes_def)

lemma toFixed_denotes: "denotes fin val a x \<Longrightarrow> denotes fin val (bn_new B (bn_toFixed B a)) x"
  by (simp add: denotes_def)

lemma denotes_unique: "denotes fin val a x \<Longrightarrow> denotes fin val a y \<longleftrightarrow> x = y"
  by (auto simp: denotes_def)

lemmas denotes_intros =
  plus_denotes minus_denotes times_denotes dp0_denotes literal_denotes toFixed_denotes

end

context scenario_bignumber
begin

lemma div_denotes:
  "denotes fin val a x \<Longrightarrow> denotes fin val b y \<Longrightarrow> y \<noteq> 0 \<Longrightarrow> denotes fin val (bn_div B a b) (x div y)"
  using truncate_nat_frac[of x y] by (simp add: denotes_def scenario_config_def)

lemma toFixed0_denotes: "denotes fin val a x \<Longrightarrow> denotes fin val (bn_new B (bn_toFixed0 B a)) x"
  using truncate_rat_of_int[of "int x"] by (simp add: denotes_def scenario_config_def)

end

section \<open>Decimals with an integer coefficient\<close>

text \<open>\<open>Dec m e\<close> is \<open>m / 10 ^ e\<close>; \<open>Non_finite\<close> stands for \<open>NaN\<close> and the infinities.\<close>

datatype dec = Dec int nat | Non_finite | Undefined

fun dec_fin :: "dec \<Rightarrow> bool" where
  "dec_fin (Dec m e) = True"
| "dec_fin _ = False"

fun dec_val :: "dec \<Rightarrow> rat" where
  "dec_val (Dec m e) = of_int m / 10 ^ e"
| "dec_val _ = 0"

text \<open>Numerals with the prefix \<open>0x\<close> are hexadecimal.\<close>

definition hex_val :: "char \<Rightarrow> nat" where
  "hex_val c = (if is_digit c then digit_val c else of_char c - 87)"

definition hex_char :: "nat \<Rightarrow> char" where
  "hex_char d = (if d < 10 then char_of (48 + d) else char_of (87 + d))"

definition parse_hex :: "string \<Rightarrow> nat" where
  "parse_hex ds = foldl (\<lambda>acc c. 16 * acc + hex_val c) 0 ds"

fun show_hex :: "nat \<Rightarrow> string" where
  "show_hex n = (if n < 16 then [hex_char n] else show_hex (n div 16) @ [hex_char (n mod 16)])"

declare show_hex.simps [simp del]

definition dec_new :: "string \<Rightarrow> dec" where
  "dec_new s =
     (if take 2 s = ''0x'' then Dec (int (parse_hex (drop 2 s))) 0
      else case parse_decimal s of Some (m, e) \<Rightarrow> Dec m e | None \<Rightarrow> Non_finite)"

fun dec_toString16 :: "dec \<Rightarrow> string" where
  "dec_toString16 (Dec m e) = show_hex (nat (quot_trunc m (10 ^ e)))"
| "dec_toString16 _ = ''NaN''"

fun dec_plus :: "dec \<Rightarrow> dec \<Rightarrow> dec" where
  "dec_plus (Dec m e) (Dec n f) =
     (if e \<le> f then Dec (m * 10 ^ (f - e) + n) f else Dec (m + n * 10 ^ (e - f)) e)"
| "dec_plus _ _ = Non_finite"

fun dec_negated :: "dec \<Rightarrow> dec" where
  "dec_negated (Dec m e) = Dec (- m) e"
| "dec_negated _ = Non_finite"

definition dec_minus :: "dec \<Rightarrow> dec \<Rightarrow> dec" where
  "dec_minus a b = dec_plus a (dec_negated b)"

fun dec_times :: "dec \<Rightarrow> dec \<Rightarrow> dec" where
  "dec_times (Dec m e) (Dec n f) = Dec (m * n) (e + f)"
| "dec_times _ _ = Non_finite"

fun dec_div :: "bn_config \<Rightarrow> dec \<Rightarrow> dec \<Rightarrow> dec" where
  "dec_div cfg (Dec m e) (Dec n f) =
     (if n = 0 then Non_finite
      else Dec (quot_round (ROUNDING_MODE cfg) (m * 10 ^ (f + DECIMAL_PLACES cfg)) (n * 10 ^ e))
             (DECIMAL_PLACES cfg))"
| "dec_div cfg _ _ = Non_finite"

fun dec_pow :: "dec \<Rightarrow> nat \<Rightarrow> dec" where
  "dec_pow (Dec m e) n = Dec (m ^ n) (e * n)"
| "dec_pow _ n = Non_finite"

fun dec_abs :: "dec \<Rightarrow> dec" where
  "dec_abs (Dec m e) = Dec \<bar>m\<bar> e"
| "dec_abs _ = Non_finite"

fun dec_decimalPlaces :: "dec \<Rightarrow> nat \<Rightarrow> rounding_mode \<Rightarrow> dec" where
  "dec_decimalPlaces (Dec m e) dp rm = Dec (quot_round rm (m * 10 ^ dp) (10 ^ e)) dp"
| "dec_decimalPlaces _ dp rm = Non_finite"

fun dec_eq :: "dec \<Rightarrow> dec \<Rightarrow> bool" where
  "dec_eq (Dec m e) (Dec n f) = (m * 10 ^ f = n * 10 ^ e)"
| "dec_eq _ _ = False"

fun dec_lt :: "dec \<Rightarrow> dec \<Rightarrow> bool" where
  "dec_lt (Dec m e) (Dec n f) = (m * 10 ^ f < n * 10 ^ e)"
| "dec_lt _ _ = False"

definition digit_char :: "nat \<Rightarrow> char" where
  "digit_char d = char_of (48 + d)"

fun show_digits :: "nat \<Rightarrow> string" where
  "show_digits n = (if n < 10 then [digit_char n] else show_digits (n div 10) @ [digit_char (n mod 10)])"

declare show_digits.simps [simp del]

fun pad_digits :: "nat \<Rightarrow> nat \<Rightarrow> string" where
  "pad_digits 0 n = []"
| "pad_digits (Suc k) n = pad_digits k (n div 10) @ [digit_char (n mod 10)]"

fun strip_zeros :: "int \<Rightarrow> nat \<Rightarrow> int \<times> nat" where
  "strip_zeros m 0 = (m, 0)"
| "strip_zeros m (Suc e) = (if m mod 10 = 0 then strip_zeros (m div 10) e else (m, Suc e))"

definition show_coefficient :: "int \<Rightarrow> nat \<Rightarrow> string" where
  "show_coefficient m e =
     (let n = nat \<bar>m\<bar>
      in (if m < 0 then ''-'' else '''') @ show_digits (n div 10 ^ e) @
         (if e = 0 then '''' else ''.'' @ pad_digits e (n mod 10 ^ e)))"

fun dec_toFixed :: "dec \<Rightarrow> string" where
  "dec_toFixed (Dec m e) = (case strip_zeros m e of (m', e') \<Rightarrow> show_coefficient m' e')"
| "dec_toFixed _ = ''NaN''"

definition dec_toFixed0 :: "bn_config \<Rightarrow> dec \<Rightarrow> string" where
  "dec_toFixed0 cfg a = dec_toFixed (dec_decimalPlaces a 0 (ROUNDING_MODE cfg))"

definition decimal :: "bn_config \<Rightarrow> dec bn" where
  "decimal cfg =
     \<lparr>bn_undefined = Undefined, bn_new = dec_new, bn_plus = dec_plus, bn_minus = dec_minus,
      bn_times = dec_times, bn_div = dec_div cfg, bn_pow = dec_pow, bn_negated = dec_negated,
      bn_abs = dec_abs, bn_decimalPlaces = dec_decimalPlaces,
      bn_decimalPlaces_default = (\<lambda>a dp. dec_decimalPlaces a dp (ROUNDING_MODE cfg)), bn_eq = dec_eq,
      bn_gt = (\<lambda>a b. dec_lt b a), bn_lt = dec_lt, bn_toFixed = dec_toFixed,
      bn_toFixed0 = dec_toFixed0 cfg, bn_toString16 = dec_toString16,
      bn_defined = (\<lambda>a. a \<noteq> Undefined)\<rparr>"

text \<open>Printing a coefficient and parsing it back.\<close>

lemma is_digit_digit_char [simp]: "d < 10 \<Longrightarrow> is_digit (digit_char d)"
  by (simp add: is_digit_def digit_char_def)

lemma digit_val_digit_char [simp]: "d < 10 \<Longrightarrow> digit_val (digit_char d) = d"
  by (simp add: digit_val_def digit_char_def)

lemma digits_val_snoc: "digits_val (ds @ [c]) = 10 * digits_val ds + digit_val c"
  by (simp add: digits_val_def)

lemma digits_val_Nil [simp]: "digits_val [] = 0"
  by (simp add: digits_val_def)

lemma show_digits_digits: "list_all is_digit (show_digits n)"
proof (induction n rule: show_digits.induct)
  case (1 n)
  then show ?case by (subst show_digits.simps) simp
qed

lemma show_digits_nonempty: "show_digits n \<noteq> []"
  by (subst show_digits.simps) simp

lemma digits_val_show_digits: "digits_val (show_digits n) = n"
proof (induction n rule: show_digits.induct)
  case (1 n)
  then show ?case
    by (subst show_digits.simps) (auto simp: digits_val_snoc digits_val_def)
qed

lemma pad_digits_digits: "list_all is_digit (pad_digits k n)"
  by (induction k arbitrary: n) simp_all

lemma length_pad_digits [simp]: "length (pad_digits k n) = k"
  by (induction k arbitrary: n) simp_all

lemma digits_val_append_pad:
  "n < 10 ^ k \<Longrightarrow> digits_val (ds @ pad_digits k n) = digits_val ds * 10 ^ k + n"
proof (induction k arbitrary: n)
  case (Suc k)
  then have "n div 10 < 10 ^ k" by (simp add: less_mult_imp_div_less)
  with Suc.IH[of "n div 10"] show ?case
    by (simp add: append_assoc [symmetric] digits_val_snoc algebra_simps del: append_assoc)
qed simp

lemma takeWhile_digits: "list_all is_digit ds \<Longrightarrow> takeWhile is_digit (ds @ CHR ''.'' # r) = ds"
  by (induction ds) (simp_all add: is_digit_def)

lemma dropWhile_digits: "list_all is_digit ds \<Longrightarrow> dropWhile is_digit (ds @ CHR ''.'' # r) = CHR ''.'' # r"
  by (induction ds) (simp_all add: is_digit_def)

lemma takeWhile_all: "list_all is_digit ds \<Longrightarrow> takeWhile is_digit ds = ds"
  by (induction ds) simp_all

lemma dropWhile_all: "list_all is_digit ds \<Longrightarrow> dropWhile is_digit ds = []"
  by (induction ds) simp_all

lemma parse_unsigned_show:
  "parse_unsigned (show_digits (n div 10 ^ e) @ (if e = 0 then '''' else ''.'' @ pad_digits e (n mod 10 ^ e)))
   = Some (int n, e)"
proof (cases "e = 0")
  case True
  then show ?thesis
    using show_digits_digits[of n] show_digits_nonempty[of n]
    by (simp add: parse_unsigned_def takeWhile_all dropWhile_all parse_exponent_def digits_val_show_digits)
next
  case False
  let ?i = "show_digits (n div 10 ^ e)" and ?f = "pad_digits e (n mod 10 ^ e)"
  have "?f \<noteq> []" using False length_pad_digits[of e "n mod 10 ^ e"] by (metis length_0_conv)
  moreover have "digits_val (?i @ ?f) = n"
    using div_mult_mod_eq[of n "10 ^ e"]
    by (simp add: digits_val_append_pad digits_val_show_digits del: div_mult_mod_eq)
  ultimately show ?thesis
    using False show_digits_nonempty[of "n div 10 ^ e"]
    by (simp add: parse_unsigned_def Let_def takeWhile_digits dropWhile_digits show_digits_digits
        takeWhile_all dropWhile_all pad_digits_digits parse_exponent_def)
qed

lemma show_digits_no_minus: "take 1 (show_digits n @ r) \<noteq> ''-''"
proof -
  obtain c cs where c: "show_digits n = c # cs"
    using show_digits_nonempty by (cases "show_digits n") auto
  then have "is_digit c" using show_digits_digits[of n] by simp
  then show ?thesis using c by (auto simp: is_digit_def)
qed

lemma parse_show_coefficient: "parse_decimal (show_coefficient m e) = Some (m, e)"
proof (cases "m < 0")
  case True
  then show ?thesis
    using parse_unsigned_show[of "nat (- m)" e]
    by (simp add: parse_decimal_def show_coefficient_def Let_def split: if_splits)
next
  case False
  let ?s = "show_digits (nat m div 10 ^ e) @
            (if e = 0 then [] else ''.'' @ pad_digits e (nat m mod 10 ^ e))"
  have "show_coefficient m e = ?s" using False by (simp add: show_coefficient_def Let_def)
  moreover have "parse_decimal ?s = parse_unsigned ?s"
    unfolding parse_decimal_def using show_digits_no_minus by (simp only: if_False)
  ultimately show ?thesis
    using parse_unsigned_show[of "nat m" e] False by simp
qed

lemma strip_zeros_val:
  "strip_zeros m e = (m', e') \<Longrightarrow> (of_int m / 10 ^ e :: rat) = of_int m' / 10 ^ e'"
proof (induction m e rule: strip_zeros.induct)
  case (2 m e)
  show ?case
  proof (cases "m mod 10 = 0")
    case True
    then have "m = 10 * (m div 10)" by presburger
    then have "(of_int m :: rat) = 10 * of_int (m div 10)"
      by (metis of_int_mult of_int_numeral)
    with True 2 show ?thesis by simp
  qed (use 2 in simp)
qed simp

lemma dec_toFixed_numeral:
  "dec_fin a \<Longrightarrow> \<exists>m e. parse_decimal (dec_toFixed a) = Some (m, e) \<and> dec_val a = of_int m / 10 ^ e"
  by (cases a) (auto simp: parse_show_coefficient strip_zeros_val split: prod.split)

text \<open>The operations satisfy the interface.\<close>

lemma shift_coefficient: "e \<le> f \<Longrightarrow> (x::rat) * 10 ^ (f - e) / 10 ^ f = x / 10 ^ e"
  by (simp add: power_diff field_simps)

lemma dec_plus_val: "dec_fin a \<Longrightarrow> dec_fin b \<Longrightarrow> dec_val (dec_plus a b) = dec_val a + dec_val b"
  by (cases a; cases b) (auto simp: add_divide_distrib shift_coefficient)

lemma dec_fin_plus: "dec_fin (dec_plus a b) \<longleftrightarrow> dec_fin a \<and> dec_fin b"
  by (cases a; cases b) auto

lemma dec_negated_val: "dec_fin a \<Longrightarrow> dec_val (dec_negated a) = - dec_val a"
  by (cases a) auto

lemma dec_fin_negated: "dec_fin (dec_negated a) \<longleftrightarrow> dec_fin a"
  by (cases a) auto

lemma dec_times_val: "dec_fin a \<Longrightarrow> dec_fin b \<Longrightarrow> dec_val (dec_times a b) = dec_val a * dec_val b"
  by (cases a; cases b) (auto simp: power_add)

lemma dec_fin_times: "dec_fin (dec_times a b) \<longleftrightarrow> dec_fin a \<and> dec_fin b"
  by (cases a; cases b) auto

lemma dec_div_val:
  assumes "dec_fin a" "dec_fin b" "dec_val b \<noteq> 0"
  shows "dec_val (dec_div cfg a b)
         = round_places (ROUNDING_MODE cfg) (DECIMAL_PLACES cfg) (dec_val a / dec_val b)"
proof -
  obtain m e n f where ab: "a = Dec m e" "b = Dec n f" and n: "n \<noteq> 0"
    using assms by (cases a; cases b) auto
  have "(of_int m / 10 ^ e) / (of_int n / 10 ^ f) * 10 ^ DECIMAL_PLACES cfg
        = (of_int (m * 10 ^ (f + DECIMAL_PLACES cfg)) / of_int (n * 10 ^ e) :: rat)"
    using n by (simp add: field_simps power_add)
  then show ?thesis
    using ab n round_rat_frac[of "n * 10 ^ e" "ROUNDING_MODE cfg" "m * 10 ^ (f + DECIMAL_PLACES cfg)"]
    by (simp add: round_places_def del: of_int_mult of_int_power)
qed

lemma dec_fin_div: "dec_fin b \<Longrightarrow> dec_fin (dec_div cfg a b) \<longleftrightarrow> dec_fin a \<and> dec_val b \<noteq> 0"
  by (cases a; cases b) auto

lemma dec_pow_val: "dec_fin a \<Longrightarrow> dec_val (dec_pow a n) = dec_val a ^ n"
  by (cases a) (auto simp: power_divide power_mult)

lemma dec_fin_pow: "dec_fin a \<Longrightarrow> dec_fin (dec_pow a n)"
  by (cases a) auto

lemma dec_abs_val: "dec_fin a \<Longrightarrow> dec_val (dec_abs a) = \<bar>dec_val a\<bar>"
  by (cases a) auto

lemma dec_fin_abs: "dec_fin (dec_abs a) \<longleftrightarrow> dec_fin a"
  by (cases a) auto

lemma dec_decimalPlaces_val:
  assumes "dec_fin a"
  shows "dec_val (dec_decimalPlaces a dp rm) = round_places rm dp (dec_val a)"
proof -
  obtain m e where a: "a = Dec m e" using assms by (cases a) auto
  have "(of_int m / 10 ^ e) * 10 ^ dp = (of_int (m * 10 ^ dp) / of_int (10 ^ e) :: rat)"
    by simp
  then show ?thesis
    using a round_rat_frac[of "10 ^ e" rm "m * 10 ^ dp"]
    by (simp add: round_places_def del: of_int_mult of_int_power)
qed

lemma dec_fin_decimalPlaces: "dec_fin (dec_decimalPlaces a dp rm) \<longleftrightarrow> dec_fin a"
  by (cases a) auto

lemma dec_compare:
  assumes "dec_fin a" "dec_fin b"
  shows "dec_eq a b \<longleftrightarrow> dec_val a = dec_val b" and "dec_lt a b \<longleftrightarrow> dec_val a < dec_val b"
proof -
  obtain m e n f where ab: "a = Dec m e" "b = Dec n f"
    using assms by (cases a; cases b) auto
  have cross: "(of_int (m * 10 ^ f) :: rat) = of_int m * 10 ^ f" "(of_int (n * 10 ^ e) :: rat) = of_int n * 10 ^ e"
    by simp_all
  have "m * 10 ^ f = n * 10 ^ e \<longleftrightarrow> (of_int m * 10 ^ f :: rat) = of_int n * 10 ^ e"
    unfolding cross [symmetric] by (simp only: of_int_eq_iff)
  then show "dec_eq a b \<longleftrightarrow> dec_val a = dec_val b" using ab by (simp add: frac_eq_eq)
  have "m * 10 ^ f < n * 10 ^ e \<longleftrightarrow> (of_int m * 10 ^ f :: rat) < of_int n * 10 ^ e"
    unfolding cross [symmetric] by (simp only: of_int_less_iff)
  then show "dec_lt a b \<longleftrightarrow> dec_val a < dec_val b" using ab by (simp add: divide_less_eq less_divide_eq field_simps)
qed

lemma parse_decimal_not_hex: "take 2 s = ''0x'' \<Longrightarrow> parse_decimal s = None"
proof -
  assume "take 2 s = ''0x''"
  then obtain r where s: "s = ''0x'' @ r" by (metis append_take_drop_id)
  have "is_digit CHR ''0''" "\<not> is_digit CHR ''x''" by (simp_all add: is_digit_def)
  then show ?thesis by (simp add: s parse_decimal_def parse_unsigned_def parse_exponent_def Let_def)
qed

lemma dec_new_val:
  "parse_decimal s = Some (m, e) \<Longrightarrow> dec_fin (dec_new s) \<and> dec_val (dec_new s) = of_int m / 10 ^ e"
  using parse_decimal_not_hex by (auto simp: dec_new_def)

lemma hex_val_hex_char [simp]: "d < 16 \<Longrightarrow> hex_val (hex_char d) = d"
  by (simp add: hex_val_def hex_char_def is_digit_def digit_val_def)

lemma parse_hex_show_hex: "parse_hex (show_hex n) = n"
proof (induction n rule: show_hex.induct)
  case (1 n)
  then show ?case by (subst show_hex.simps) (auto simp: parse_hex_def)
qed

lemma dec_toString16_val:
  assumes "dec_fin a" "dec_val a = of_nat n"
  shows "dec_new (''0x'' @ dec_toString16 a) = Dec (int n) 0"
proof -
  obtain m e where a: "a = Dec m e" using assms by (cases a) auto
  have "truncate_rat (of_int m / of_int (10 ^ e)) = quot_trunc m (10 ^ e)"
    by (rule truncate_rat_frac)
  then have "quot_trunc m (10 ^ e) = int n" using assms a by simp
  then show ?thesis by (simp add: a dec_new_def parse_hex_show_hex)
qed

lemma decimal_bignumber: "bignumber (decimal cfg) cfg dec_fin dec_val"
proof (unfold_locales, goal_cases)
  case (26 a)
  then show ?case
    using dec_toFixed_numeral[of "dec_decimalPlaces a 0 (ROUNDING_MODE cfg)"]
    by (auto simp: decimal_def dec_toFixed0_def dec_fin_decimalPlaces dec_decimalPlaces_val)
qed (auto simp: decimal_def dec_minus_def dec_new_val dec_plus_val dec_fin_plus dec_negated_val
      dec_fin_negated dec_times_val dec_fin_times dec_div_val dec_fin_div dec_pow_val dec_fin_pow
      dec_abs_val dec_fin_abs dec_decimalPlaces_val dec_fin_decimalPlaces dec_compare
      dec_toFixed_numeral dec_toString16_val[simplified])

interpretation decimal_default: default_bignumber "decimal default_config" dec_fin dec_val
  by (simp add: default_bignumber_def decimal_bignumber)

interpretation decimal_scenario: scenario_bignumber "decimal scenario_config" dec_fin dec_val
  by (simp add: scenario_bignumber_def decimal_bignumber)

end
