(* ===== verification/Contract_Math.thy ===== *)
theory Contract_Math
  imports Main "HOL-Library.Monad_Syntax"
begin

text \<open>
  The fixed-point libraries of the contracts (\<open>SafeMath\<close>, \<open>WadRayMath\<close>, \<open>PercentageMath\<close> and
  \<open>MathUtils\<close>) on unsigned integers below \<open>2 ^ 256\<close>. A revert is \<open>None\<close>; arithmetic outside
  \<open>SafeMath\<close> wraps, as it does in Solidity 0.6. These definitions are the reference that the
  TypeScript arithmetic of the tests is compared with.
\<close>

definition uint256_max :: nat where
  "uint256_max = 2 ^ 256 - 1"

definition wrap256 :: "nat \<Rightarrow> nat" where
  "wrap256 n = n mod 2 ^ 256"

definition safe_add :: "nat \<Rightarrow> nat \<Rightarrow> nat option" where
  "safe_add a b = (let c = wrap256 (a + b) in if a \<le> c then Some c else None)"

definition safe_sub :: "nat \<Rightarrow> nat \<Rightarrow> nat option" where
  "safe_sub a b = (if b \<le> a then Some (a - b) else None)"

definition safe_mul :: "nat \<Rightarrow> nat \<Rightarrow> nat option" where
  "safe_mul a b =
     (if a = 0 then Some 0
      else let c = wrap256 (a * b) in if c div a = b then Some c else None)"

definition contract_WAD :: nat where "contract_WAD = 10 ^ 18"
definition contract_halfWAD :: nat where "contract_halfWAD = contract_WAD div 2"
definition contract_RAY :: nat where "contract_RAY = 10 ^ 27"
definition contract_halfRAY :: nat where "contract_halfRAY = contract_RAY div 2"
definition contract_WAD_RAY_RATIO :: nat where "contract_WAD_RAY_RATIO = 10 ^ 9"

definition contract_wadMul :: "nat \<Rightarrow> nat \<Rightarrow> nat option" where
  "contract_wadMul a b =
     (if a = 0 \<or> b = 0 then Some 0
      else if a \<le> (uint256_max - contract_halfWAD) div b
      then Some (wrap256 (a * b + contract_halfWAD) div contract_WAD)
      else None)"

definition contract_wadDiv :: "nat \<Rightarrow> nat \<Rightarrow> nat option" where
  "contract_wadDiv a b =
     (if b = 0 then None
      else if a \<le> (uint256_max - b div 2) div contract_WAD
      then Some (wrap256 (a * contract_WAD + b div 2) div b)
      else None)"

definition contract_rayMul :: "nat \<Rightarrow> nat \<Rightarrow> nat option" where
  "contract_rayMul a b =
     (if a = 0 \<or> b = 0 then Some 0
      else if a \<le> (uint256_max - contract_halfRAY) div b
      then Some (wrap256 (a * b + contract_halfRAY) div contract_RAY)
      else None)"

definition contract_rayDiv :: "nat \<Rightarrow> nat \<Rightarrow> nat option" where
  "contract_rayDiv a b =
     (if b = 0 then None
      else if a \<le> (uint256_max - b div 2) div contract_RAY
      then Some (wrap256 (a * contract_RAY + b div 2) div b)
      else None)"

definition contract_rayToWad :: "nat \<Rightarrow> nat option" where
  "contract_rayToWad a =
     (let halfRatio = contract_WAD_RAY_RATIO div 2;
          result = wrap256 (halfRatio + a)
      in if halfRatio \<le> result then Some (result div contract_WAD_RAY_RATIO) else None)"

definition contract_wadToRay :: "nat \<Rightarrow> nat option" where
  "contract_wadToRay a =
     (let result = wrap256 (a * contract_WAD_RAY_RATIO)
      in if result div contract_WAD_RAY_RATIO = a then Some result else None)"

definition contract_PERCENTAGE_FACTOR :: nat where "contract_PERCENTAGE_FACTOR = 10 ^ 4"
definition contract_HALF_PERCENT :: nat where
  "contract_HALF_PERCENT = contract_PERCENTAGE_FACTOR div 2"

definition contract_percentMul :: "nat \<Rightarrow> nat \<Rightarrow> nat option" where
  "contract_percentMul v percentage =
     (if v = 0 \<or> percentage = 0 then Some 0
      else if v \<le> (uint256_max - contract_HALF_PERCENT) div percentage
      then Some (wrap256 (v * percentage + contract_HALF_PERCENT) div contract_PERCENTAGE_FACTOR)
      else None)"

definition contract_percentDiv :: "nat \<Rightarrow> nat \<Rightarrow> nat option" where
  "contract_percentDiv v percentage =
     (if percentage = 0 then None
      else if v \<le> (uint256_max - percentage div 2) div contract_PERCENTAGE_FACTOR
      then Some (wrap256 (v * contract_PERCENTAGE_FACTOR + percentage div 2) div percentage)
      else None)"

definition contract_SECONDS_PER_YEAR :: nat where
  "contract_SECONDS_PER_YEAR = 365 * 24 * 60 * 60"

definition contract_calculateLinearInterest :: "nat \<Rightarrow> nat \<Rightarrow> nat \<Rightarrow> nat option" where
  "contract_calculateLinearInterest rate lastUpdateTimestamp blockTimestamp = do {
     timeDifference \<leftarrow> safe_sub blockTimestamp lastUpdateTimestamp;
     accrued \<leftarrow> safe_mul rate timeDifference;
     safe_add (accrued div contract_SECONDS_PER_YEAR) contract_RAY }"

definition contract_calculateCompoundedInterest :: "nat \<Rightarrow> nat \<Rightarrow> nat \<Rightarrow> nat option" where
  "contract_calculateCompoundedInterest rate lastUpdateTimestamp currentTimestamp = do {
     ex \<leftarrow> safe_sub currentTimestamp lastUpdateTimestamp;
     if ex = 0 then Some contract_RAY
     else do {
       let expMinusOne = ex - 1;
       let expMinusTwo = (if 2 < ex then ex - 2 else 0);
       let ratePerSecond = rate div contract_SECONDS_PER_YEAR;
       basePowerTwo \<leftarrow> contract_rayMul ratePerSecond ratePerSecond;
       basePowerThree \<leftarrow> contract_rayMul basePowerTwo ratePerSecond;
       s1 \<leftarrow> safe_mul ex expMinusOne;
       s2 \<leftarrow> safe_mul s1 basePowerTwo;
       t2 \<leftarrow> safe_mul s1 expMinusTwo;
       t3 \<leftarrow> safe_mul t2 basePowerThree;
       linear \<leftarrow> safe_mul ratePerSecond ex;
       a1 \<leftarrow> safe_add contract_RAY linear;
       a2 \<leftarrow> safe_add a1 (s2 div 2);
       safe_add a2 (t3 div 6) } }"

text \<open>When an operation does not revert, it computes the mathematical result.\<close>

lemma wrap256_le: "n \<le> uint256_max \<Longrightarrow> wrap256 n = n"
  by (simp add: wrap256_def uint256_max_def)

lemma safe_add_Some: "a \<le> uint256_max \<Longrightarrow> b \<le> uint256_max \<Longrightarrow> safe_add a b = Some c \<Longrightarrow> c = a + b"
proof -
  assume ab: "a \<le> uint256_max" "b \<le> uint256_max" and c: "safe_add a b = Some c"
  then have lt: "a < 2 ^ 256" "b < 2 ^ 256" by (simp_all add: uint256_max_def)
  show "c = a + b"
  proof (cases "a + b < 2 ^ 256")
    case True
    with c show ?thesis by (simp add: safe_add_def wrap256_def Let_def split: if_splits)
  next
    case False
    then have "wrap256 (a + b) = a + b - 2 ^ 256"
      using lt by (simp add: wrap256_def mod_if)
    with c lt False show ?thesis by (simp add: safe_add_def Let_def split: if_splits)
  qed
qed

lemma safe_sub_Some: "safe_sub a b = Some c \<Longrightarrow> b \<le> a \<and> c = a - b"
  by (simp add: safe_sub_def split: if_splits)

lemma safe_mul_Some: "safe_mul a b = Some c \<Longrightarrow> c = a * b"
proof -
  assume c: "safe_mul a b = Some c"
  show "c = a * b"
  proof (cases "a = 0")
    case False
    with c have eq: "c = wrap256 (a * b)" "c div a = b"
      by (auto simp: safe_mul_def Let_def split: if_splits)
    have "c \<le> a * b" by (simp add: eq(1) wrap256_def)
    moreover have "a * b \<le> c"
      using eq(2) by (metis div_times_less_eq_dividend mult.commute)
    ultimately show ?thesis by simp
  qed (use c in \<open>simp add: safe_mul_def\<close>)
qed

lemma fixed_mul_guard:
  fixes a b h :: nat
  assumes "b \<noteq> 0" "h \<le> uint256_max" "a \<le> (uint256_max - h) div b"
  shows "wrap256 (a * b + h) = a * b + h"
proof -
  have "a * b \<le> uint256_max - h"
    using assms(1,3) by (simp add: less_eq_div_iff_mult_less_eq)
  then show ?thesis using assms(2) by (intro wrap256_le) simp
qed

lemma contract_constants:
  "contract_halfRAY = 5 * 10 ^ 26" "contract_RAY = 10 ^ 27"
  "contract_halfWAD = 5 * 10 ^ 17" "contract_WAD = 10 ^ 18"
  "contract_HALF_PERCENT = 5000" "contract_PERCENTAGE_FACTOR = 10000"
  "contract_WAD_RAY_RATIO = 10 ^ 9" "contract_SECONDS_PER_YEAR = 31536000"
  by (simp_all add: contract_halfRAY_def contract_RAY_def contract_halfWAD_def contract_WAD_def
      contract_HALF_PERCENT_def contract_PERCENTAGE_FACTOR_def contract_WAD_RAY_RATIO_def
      contract_SECONDS_PER_YEAR_def)

lemma half_le_uint256_max:
  "contract_halfRAY \<le> uint256_max" "contract_halfWAD \<le> uint256_max" "contract_HALF_PERCENT \<le> uint256_max"
  by (simp_all add: contract_constants uint256_max_def)

lemma contract_rayMul_Some:
  "contract_rayMul a b = Some c \<Longrightarrow> c = (a * b + 5 * 10 ^ 26) div 10 ^ 27"
  using fixed_mul_guard[of b contract_halfRAY a] half_le_uint256_max
  by (auto simp: contract_rayMul_def contract_constants split: if_splits)

lemma contract_wadMul_Some:
  "contract_wadMul a b = Some c \<Longrightarrow> c = (a * b + 5 * 10 ^ 17) div 10 ^ 18"
  using fixed_mul_guard[of b contract_halfWAD a] half_le_uint256_max
  by (auto simp: contract_wadMul_def contract_constants split: if_splits)

lemma contract_percentMul_Some:
  "contract_percentMul a b = Some c \<Longrightarrow> c = (a * b + 5000) div 10000"
  using fixed_mul_guard[of b contract_HALF_PERCENT a] half_le_uint256_max
  by (auto simp: contract_percentMul_def contract_constants split: if_splits)

lemma contract_rayDiv_Some:
  assumes "b \<le> uint256_max" "contract_rayDiv a b = Some c"
  shows "b \<noteq> 0 \<and> c = (a * 10 ^ 27 + b div 2) div b"
  using assms fixed_mul_guard[of contract_RAY "b div 2" a]
  by (auto simp: contract_rayDiv_def contract_constants split: if_splits)

lemma contract_wadDiv_Some:
  assumes "b \<le> uint256_max" "contract_wadDiv a b = Some c"
  shows "b \<noteq> 0 \<and> c = (a * 10 ^ 18 + b div 2) div b"
  using assms fixed_mul_guard[of contract_WAD "b div 2" a]
  by (auto simp: contract_wadDiv_def contract_constants split: if_splits)

lemma contract_percentDiv_Some:
  assumes "b \<le> uint256_max" "contract_percentDiv a b = Some c"
  shows "b \<noteq> 0 \<and> c = (a * 10000 + b div 2) div b"
  using assms fixed_mul_guard[of contract_PERCENTAGE_FACTOR "b div 2" a]
  by (auto simp: contract_percentDiv_def contract_constants split: if_splits)

lemma contract_wadToRay_Some: "contract_wadToRay a = Some c \<Longrightarrow> c = a * 10 ^ 9"
proof -
  assume "contract_wadToRay a = Some c"
  then have c: "c = wrap256 (a * 10 ^ 9)" "c div 10 ^ 9 = a"
    by (auto simp: contract_wadToRay_def Let_def contract_constants split: if_splits)
  have "c \<le> a * 10 ^ 9" unfolding c(1) wrap256_def by (rule mod_less_eq_dividend)
  moreover have "a * 10 ^ 9 \<le> c"
    using c(2) by (metis div_times_less_eq_dividend)
  ultimately show ?thesis by simp
qed

lemma contract_rayToWad_Some:
  assumes "a \<le> uint256_max" "contract_rayToWad a = Some c"
  shows "c = (a + 500000000) div 10 ^ 9"
proof -
  have "safe_add 500000000 a = Some (wrap256 (500000000 + a))" and c: "c = wrap256 (500000000 + a) div 10 ^ 9"
    using assms(2) by (auto simp: contract_rayToWad_def safe_add_def Let_def contract_constants split: if_splits)
  then have "wrap256 (500000000 + a) = 500000000 + a"
    using safe_add_Some[of 500000000 a] assms(1) by (simp add: uint256_max_def)
  then show ?thesis using c by (simp add: add.commute)
qed

text \<open>Results are unsigned 256-bit values again.\<close>

lemma safe_add_le: "safe_add a b = Some c \<Longrightarrow> c \<le> uint256_max"
  by (auto simp: safe_add_def wrap256_def uint256_max_def Let_def split: if_splits
      intro: order_trans[OF _ less_imp_le_nat])

lemma safe_mul_le: "safe_mul a b = Some c \<Longrightarrow> c \<le> uint256_max"
  by (auto simp: safe_mul_def wrap256_def uint256_max_def Let_def split: if_splits)

lemma bind_Some_iff: "Option.bind x f = Some z \<longleftrightarrow> (\<exists>y. x = Some y \<and> f y = Some z)"
  by (cases x) auto

text \<open>What the interest libraries compute when they do not revert.\<close>

lemma contract_calculateLinearInterest_Some:
  assumes "contract_calculateLinearInterest r l t = Some z"
  shows "l \<le> t \<and> z = r * (t - l) div 31536000 + 10 ^ 27"
proof -
  obtain d m where d: "safe_sub t l = Some d" and m: "safe_mul r d = Some m"
    and z: "safe_add (m div contract_SECONDS_PER_YEAR) contract_RAY = Some z"
    using assms by (auto simp: contract_calculateLinearInterest_def bind_Some_iff)
  have "m div contract_SECONDS_PER_YEAR \<le> uint256_max"
    using safe_mul_le[OF m] div_le_dividend order_trans by blast
  then show ?thesis
    using safe_add_Some[OF _ _ z] safe_sub_Some[OF d] safe_mul_Some[OF m]
    by (simp add: contract_constants uint256_max_def)
qed

definition compounded_interest :: "nat \<Rightarrow> nat \<Rightarrow> nat" where
  "compounded_interest rate d =
     (let r = rate div 31536000;
          r2 = (r * r + 5 * 10 ^ 26) div 10 ^ 27;
          r3 = (r2 * r + 5 * 10 ^ 26) div 10 ^ 27
      in 10 ^ 27 + r * d + d * (d - 1) * r2 div 2 + d * (d - 1) * (d - 2) * r3 div 6)"

lemma contract_calculateCompoundedInterest_Some:
  assumes "contract_calculateCompoundedInterest r l t = Some z"
  shows "l \<le> t \<and> z = compounded_interest r (t - l)"
proof -
  obtain d where d: "safe_sub t l = Some d"
    using assms by (auto simp: contract_calculateCompoundedInterest_def bind_Some_iff)
  then have lt: "l \<le> t" "d = t - l" using safe_sub_Some by auto
  show ?thesis
  proof (cases "d = 0")
    case True
    then have "z = 10 ^ 27"
      using assms d by (simp add: contract_calculateCompoundedInterest_def contract_constants)
    then show ?thesis using lt True by (simp add: compounded_interest_def Let_def)
  next
    case False
    let ?r = "r div contract_SECONDS_PER_YEAR"
    obtain b2 b3 s1 s2 t2 t3 li a1 a2 where
      b: "contract_rayMul ?r ?r = Some b2" "contract_rayMul b2 ?r = Some b3" and
      s: "safe_mul d (d - 1) = Some s1" "safe_mul s1 b2 = Some s2"
        "safe_mul s1 (if 2 < d then d - 2 else 0) = Some t2" "safe_mul t2 b3 = Some t3"
        "safe_mul ?r d = Some li" and
      a: "safe_add contract_RAY li = Some a1" "safe_add a1 (s2 div 2) = Some a2"
        "safe_add a2 (t3 div 6) = Some z"
      using assms d False
      by (auto simp: contract_calculateCompoundedInterest_def bind_Some_iff Let_def)
    have le: "contract_RAY \<le> uint256_max" "li \<le> uint256_max" "a1 \<le> uint256_max" "a2 \<le> uint256_max"
      "s2 div 2 \<le> uint256_max" "t3 div 6 \<le> uint256_max"
      using safe_mul_le[OF s(2)] safe_mul_le[OF s(4)] safe_mul_le[OF s(5)] safe_add_le[OF a(1)]
        safe_add_le[OF a(2)] by (simp_all add: contract_constants uint256_max_def)
    have "z = contract_RAY + li + s2 div 2 + t3 div 6"
      using safe_add_Some[OF le(1,2) a(1)] safe_add_Some[OF le(3,5) a(2)] safe_add_Some[OF le(4,6) a(3)]
      by simp
    moreover have "(if 2 < d then d - 2 else 0) = d - 2" by simp
    moreover note b[THEN contract_rayMul_Some] s[THEN safe_mul_Some]
    ultimately have "z = compounded_interest r d"
      by (simp only: compounded_interest_def Let_def contract_constants)
    then show ?thesis using lt by simp
  qed
qed

section \<open>When the operations succeed\<close>

text \<open>
  The converse: an operation whose exact intermediate result fits in 256 bits does not revert. These
  equations also evaluate the contracts on concrete arguments.
\<close>

lemma safe_add_ok: "a + b \<le> uint256_max \<Longrightarrow> safe_add a b = Some (a + b)"
  using wrap256_le[of "a + b"] by (simp add: safe_add_def Let_def)

lemma safe_sub_ok: "b \<le> a \<Longrightarrow> safe_sub a b = Some (a - b)"
  by (simp add: safe_sub_def)

lemma safe_mul_ok: "a * b \<le> uint256_max \<Longrightarrow> safe_mul a b = Some (a * b)"
  using wrap256_le[of "a * b"] by (simp add: safe_mul_def Let_def)

lemma fixed_guard_ok:
  fixes a b h :: nat
  assumes "a * b + h \<le> uint256_max" "b \<noteq> 0"
  shows "a \<le> (uint256_max - h) div b"
  using assms by (simp add: less_eq_div_iff_mult_less_eq)

lemma contract_rayMul_ok:
  assumes "a * b + 5 * 10 ^ 26 \<le> uint256_max"
  shows "contract_rayMul a b = Some ((a * b + 5 * 10 ^ 26) div 10 ^ 27)"
proof (cases "a = 0 \<or> b = 0")
  case False
  then show ?thesis
    using wrap256_le[OF assms] fixed_guard_ok[OF assms] by (simp add: contract_rayMul_def contract_constants)
qed (auto simp: contract_rayMul_def)

lemma contract_rayDiv_ok:
  assumes "a * 10 ^ 27 + b div 2 \<le> uint256_max" "b \<noteq> 0"
  shows "contract_rayDiv a b = Some ((a * 10 ^ 27 + b div 2) div b)"
  using wrap256_le[OF assms(1)] fixed_guard_ok[OF assms(1)] assms(2)
  by (simp add: contract_rayDiv_def contract_constants)

lemma contract_percentMul_ok:
  assumes "a * b + 5000 \<le> uint256_max"
  shows "contract_percentMul a b = Some ((a * b + 5000) div 10000)"
proof (cases "a = 0 \<or> b = 0")
  case False
  then show ?thesis
    using wrap256_le[OF assms] fixed_guard_ok[OF assms] by (simp add: contract_percentMul_def contract_constants)
qed (auto simp: contract_percentMul_def)

lemma contract_wadToRay_ok:
  assumes "a * 10 ^ 9 \<le> uint256_max"
  shows "contract_wadToRay a = Some (a * 10 ^ 9)"
  using wrap256_le[OF assms] by (simp add: contract_wadToRay_def Let_def contract_constants)

lemma uint256_max_eval:
  "uint256_max = 115792089237316195423570985008687907853269984665640564039457584007913129639935"
  by (simp add: uint256_max_def)

lemmas contract_eval =
  safe_add_ok safe_sub_ok safe_mul_ok contract_rayMul_ok contract_rayDiv_ok contract_percentMul_ok
  contract_wadToRay_ok contract_constants uint256_max_eval

section \<open>The interest-rate strategy contract\<close>

text \<open>
  \<open>DefaultReserveInterestRateStrategy\<close>: its immutable parameters and its rates. The market rate is
  the answer of the lending-rate oracle.
\<close>

record rate_strategy =
  c_OPTIMAL_UTILIZATION_RATE :: nat
  c_baseVariableBorrowRate :: nat
  c_variableRateSlope1 :: nat
  c_variableRateSlope2 :: nat
  c_stableRateSlope1 :: nat
  c_stableRateSlope2 :: nat

definition contract_getOverallBorrowRate :: "nat \<Rightarrow> nat \<Rightarrow> nat \<Rightarrow> nat \<Rightarrow> nat option" where
  "contract_getOverallBorrowRate stableDebt variableDebt variableRate averageStableRate = do {
     totalDebt \<leftarrow> safe_add stableDebt variableDebt;
     if totalDebt = 0 then Some 0
     else do {
       v \<leftarrow> contract_wadToRay variableDebt;
       weightedVariableRate \<leftarrow> contract_rayMul v variableRate;
       s \<leftarrow> contract_wadToRay stableDebt;
       weightedStableRate \<leftarrow> contract_rayMul s averageStableRate;
       w \<leftarrow> safe_add weightedVariableRate weightedStableRate;
       t \<leftarrow> contract_wadToRay totalDebt;
       contract_rayDiv w t } }"

definition contract_borrow_rates :: "rate_strategy \<Rightarrow> nat \<Rightarrow> nat \<Rightarrow> (nat \<times> nat) option" where
  "contract_borrow_rates st marketRate utilization =
     (if c_OPTIMAL_UTILIZATION_RATE st < utilization
      then do {
        excess \<leftarrow> safe_sub contract_RAY (c_OPTIMAL_UTILIZATION_RATE st);
        over \<leftarrow> safe_sub utilization (c_OPTIMAL_UTILIZATION_RATE st);
        ratio \<leftarrow> contract_rayDiv over excess;
        s1 \<leftarrow> safe_add marketRate (c_stableRateSlope1 st);
        s2 \<leftarrow> contract_rayMul (c_stableRateSlope2 st) ratio;
        stableRate \<leftarrow> safe_add s1 s2;
        v1 \<leftarrow> safe_add (c_baseVariableBorrowRate st) (c_variableRateSlope1 st);
        v2 \<leftarrow> contract_rayMul (c_variableRateSlope2 st) ratio;
        variableRate \<leftarrow> safe_add v1 v2;
        Some (stableRate, variableRate) }
      else do {
        ratio \<leftarrow> contract_rayDiv utilization (c_OPTIMAL_UTILIZATION_RATE st);
        s2 \<leftarrow> contract_rayMul (c_stableRateSlope1 st) ratio;
        stableRate \<leftarrow> safe_add marketRate s2;
        scaled \<leftarrow> contract_rayMul utilization (c_variableRateSlope1 st);
        v2 \<leftarrow> contract_rayDiv scaled (c_OPTIMAL_UTILIZATION_RATE st);
        variableRate \<leftarrow> safe_add (c_baseVariableBorrowRate st) v2;
        Some (stableRate, variableRate) })"

definition contract_calculateInterestRates ::
  "rate_strategy \<Rightarrow> nat \<Rightarrow> nat \<Rightarrow> nat \<Rightarrow> nat \<Rightarrow> nat \<Rightarrow> nat \<Rightarrow> (nat \<times> nat \<times> nat) option" where
  "contract_calculateInterestRates st marketRate availableLiquidity stableDebt variableDebt
     averageStableRate reserveFactor = do {
     totalDebt \<leftarrow> safe_add stableDebt variableDebt;
     utilization \<leftarrow>
       (if totalDebt = 0 then Some 0
        else do {
          total \<leftarrow> safe_add availableLiquidity totalDebt;
          contract_rayDiv totalDebt total });
     (stableRate, variableRate) \<leftarrow> contract_borrow_rates st marketRate utilization;
     overall \<leftarrow> contract_getOverallBorrowRate stableDebt variableDebt variableRate averageStableRate;
     l1 \<leftarrow> contract_rayMul overall utilization;
     factor \<leftarrow> safe_sub contract_PERCENTAGE_FACTOR reserveFactor;
     liquidityRate \<leftarrow> contract_percentMul l1 factor;
     Some (liquidityRate, stableRate, variableRate) }"

text \<open>The rates without the overflow checks.\<close>

definition overall_rate :: "nat \<Rightarrow> nat \<Rightarrow> nat \<Rightarrow> nat \<Rightarrow> nat" where
  "overall_rate s v vr sr =
     (if s + v = 0 then 0
      else (((v * 10 ^ 9 * vr + 5 * 10 ^ 26) div 10 ^ 27 + (s * 10 ^ 9 * sr + 5 * 10 ^ 26) div 10 ^ 27) * 10 ^ 27
             + (s + v) * 10 ^ 9 div 2) div ((s + v) * 10 ^ 9))"

lemma contract_rayMul_le: "contract_rayMul a b = Some c \<Longrightarrow> c \<le> uint256_max"
proof -
  have "n div contract_RAY \<le> uint256_max" if "n \<le> uint256_max" for n
    using div_le_dividend that order_trans by blast
  moreover have "wrap256 n \<le> uint256_max" for n by (auto simp: wrap256_def uint256_max_def intro: less_imp_le_nat)
  ultimately show "contract_rayMul a b = Some c \<Longrightarrow> c \<le> uint256_max"
    by (auto simp: contract_rayMul_def split: if_splits)
qed

lemma contract_wadToRay_le: "contract_wadToRay a = Some c \<Longrightarrow> c \<le> uint256_max"
  by (auto simp: contract_wadToRay_def wrap256_def uint256_max_def Let_def split: if_splits)

lemma contract_getOverallBorrowRate_Some:
  assumes "contract_getOverallBorrowRate s v vr sr = Some z" "s \<le> uint256_max" "v \<le> uint256_max"
  shows "z = overall_rate s v vr sr"
proof -
  obtain t where t: "safe_add s v = Some t"
    using assms by (auto simp: contract_getOverallBorrowRate_def bind_Some_iff)
  then have tv: "t = s + v" using safe_add_Some assms by blast
  show ?thesis
  proof (cases "t = 0")
    case True
    then show ?thesis using assms t tv by (simp add: contract_getOverallBorrowRate_def overall_rate_def)
  next
    case False
    then obtain v9 wv s9 ws w t9 where
      v: "contract_wadToRay v = Some v9" "contract_rayMul v9 vr = Some wv" and
      s: "contract_wadToRay s = Some s9" "contract_rayMul s9 sr = Some ws" and
      w: "safe_add wv ws = Some w" "contract_wadToRay t = Some t9" "contract_rayDiv w t9 = Some z"
      using assms t by (auto simp: contract_getOverallBorrowRate_def bind_Some_iff)
    have "w = wv + ws"
      using safe_add_Some[OF _ _ w(1)] contract_rayMul_le v(2) s(2) by blast
    have z: "z = (w * 10 ^ 27 + t9 div 2) div t9"
      using contract_rayDiv_Some[OF contract_wadToRay_le[OF w(2)] w(3)] by (rule conjunct2)
    have nz: "\<not> s + v = 0" using False tv by simp
    show ?thesis
      unfolding z \<open>w = wv + ws\<close> v(2)[THEN contract_rayMul_Some] s(2)[THEN contract_rayMul_Some]
        v(1)[THEN contract_wadToRay_Some] s(1)[THEN contract_wadToRay_Some] w(2)[THEN contract_wadToRay_Some]
        tv overall_rate_def if_not_P[OF nz]
      by (rule refl)
  qed
qed

definition nat_rayMul :: "nat \<Rightarrow> nat \<Rightarrow> nat" where
  "nat_rayMul a b = (a * b + 5 * 10 ^ 26) div 10 ^ 27"

definition nat_rayDiv :: "nat \<Rightarrow> nat \<Rightarrow> nat" where
  "nat_rayDiv a b = (a * 10 ^ 27 + b div 2) div b"

lemma contract_ray_Some:
  "contract_rayMul a b = Some c \<Longrightarrow> c = nat_rayMul a b"
  "b \<le> uint256_max \<Longrightarrow> contract_rayDiv a b = Some c \<Longrightarrow> b \<noteq> 0 \<and> c = nat_rayDiv a b"
  using contract_rayMul_Some contract_rayDiv_Some by (auto simp: nat_rayMul_def nat_rayDiv_def)

text \<open>The error of a quotient rounded to the nearest unit, and of the fixed-point operations.\<close>

lemma abs_combine4:
  fixes a b c d :: int
  shows "2 * \<bar>a\<bar> \<le> A \<Longrightarrow> 2 * \<bar>b\<bar> \<le> B \<Longrightarrow> 2 * \<bar>c\<bar> \<le> C \<Longrightarrow> 2 * \<bar>d\<bar> \<le> D \<Longrightarrow>
         2 * \<bar>a + b - c - d\<bar> \<le> A + B + C + D"
  using abs_ge_self[of a] abs_ge_minus_self[of a] abs_ge_self[of b] abs_ge_minus_self[of b]
    abs_ge_self[of c] abs_ge_minus_self[of c] abs_ge_self[of d] abs_ge_minus_self[of d]
  by (cases "0 \<le> a + b - c - d") (simp_all add: abs_if [of "a + b - c - d"])

lemma rounded_quotient_error:
  fixes n d :: nat
  assumes "0 < d"
  shows "2 * \<bar>int ((n + d div 2) div d) * int d - int n\<bar> \<le> int d"
proof -
  let ?m = "n + d div 2"
  have "?m mod d < d" "?m div d * d + ?m mod d = ?m" using assms by auto
  then have "int (?m div d) * int d = int ?m - int (?m mod d)"
    by (metis add_diff_cancel_right' of_nat_add of_nat_mult)
  then have "int (?m div d) * int d - int n = int (d div 2) - int (?m mod d)" by simp
  moreover have "2 * \<bar>int (d div 2) - int (?m mod d)\<bar> \<le> int d"
  proof -
    define x y where "x = d div 2" "y = ?m mod d"
    then have "y < d" "2 * x \<le> d" "d \<le> 2 * x + 1" using \<open>?m mod d < d\<close> by auto
    then have "2 * \<bar>int x - int y\<bar> \<le> int d" by (cases "y \<le> x") (simp_all add: abs_if)
    then show ?thesis by (simp add: x_y_def)
  qed
  ultimately show ?thesis by simp
qed

lemma nat_rayMul_error: "2 * \<bar>int (nat_rayMul a b) * 10 ^ 27 - int a * int b\<bar> \<le> 10 ^ 27"
  using rounded_quotient_error[of "10 ^ 27" "a * b"] by (simp add: nat_rayMul_def)

lemma nat_rayDiv_error:
  "b \<noteq> 0 \<Longrightarrow> 2 * \<bar>int (nat_rayDiv a b) * int b - int a * 10 ^ 27\<bar> \<le> int b"
  using rounded_quotient_error[of b "a * 10 ^ 27"] by (simp add: nat_rayDiv_def)

lemma nat_rayMul_mono: "a \<le> a' \<Longrightarrow> b \<le> b' \<Longrightarrow> nat_rayMul a b \<le> nat_rayMul a' b'"
  unfolding nat_rayMul_def by (intro div_le_mono add_right_mono mult_mono) simp_all

lemma nat_rayDiv_mono: "a \<le> a' \<Longrightarrow> nat_rayDiv a b \<le> nat_rayDiv a' b"
  unfolding nat_rayDiv_def by (intro div_le_mono add_right_mono mult_right_mono) simp_all

lemma nat_rayMul_0 [simp]: "nat_rayMul 0 b = 0" "nat_rayMul a 0 = 0"
  by (simp_all add: nat_rayMul_def)

lemma nat_rayMul_unit [simp]:
  "nat_rayMul a (10 ^ 27) = a" "nat_rayMul (10 ^ 27) a = a"
  by (simp_all add: nat_rayMul_def)

lemma nat_rayMul_unit' [simp]:
  "nat_rayMul a 1000000000000000000000000000 = a" "nat_rayMul 1000000000000000000000000000 a = a"
  using nat_rayMul_unit by simp_all

lemma nat_rayMul_le: "b \<le> 10 ^ 27 \<Longrightarrow> nat_rayMul a b \<le> a"
  using nat_rayMul_mono[of a a b "10 ^ 27"] by simp

lemma nat_rayMul_ge: "10 ^ 27 \<le> b \<Longrightarrow> a \<le> nat_rayMul a b" "10 ^ 27 \<le> b \<Longrightarrow> a \<le> nat_rayMul b a"
  using nat_rayMul_mono[of a a "10 ^ 27" b] nat_rayMul_mono[of "10 ^ 27" b a a] by simp_all

lemma nat_rayDiv_le: "a \<le> b \<Longrightarrow> nat_rayDiv a b \<le> 10 ^ 27"
proof (cases "b = 0")
  case False
  assume "a \<le> b"
  then have "nat_rayDiv a b \<le> nat_rayDiv b b" by (rule nat_rayDiv_mono)
  also have "nat_rayDiv b b = 10 ^ 27" using False by (simp add: nat_rayDiv_def)
  finally show ?thesis .
qed (simp add: nat_rayDiv_def)

lemma nat_rayDiv_0 [simp]: "nat_rayDiv 0 b = 0"
  by (cases "b = 0") (simp_all add: nat_rayDiv_def)

text \<open>Multiplying and dividing in either order differs by the rounding of each step.\<close>

lemma nat_ray_order_error:
  assumes "p \<noteq> 0"
  shows "2 * (10 ^ 27 * int p) * \<bar>int (nat_rayMul (nat_rayDiv u p) s) - int (nat_rayDiv (nat_rayMul u s) p)\<bar>
         \<le> int s * int p + 10 ^ 27 * 10 ^ 27 + 2 * (10 ^ 27 * int p)"
proof -
  define R :: int where "R = 10 ^ 27"
  define a b v w where "a = nat_rayDiv u p" "b = nat_rayMul u s" "v = nat_rayMul a s" "w = nat_rayDiv b p"
  have e: "2 * \<bar>int a * int p - int u * R\<bar> \<le> int p" "2 * \<bar>int b * R - int u * int s\<bar> \<le> R"
    "2 * \<bar>int v * R - int a * int s\<bar> \<le> R" "2 * \<bar>int w * int p - int b * R\<bar> \<le> int p"
    unfolding a_b_v_w_def R_def by (intro nat_rayDiv_error nat_rayMul_error assms)+
  have R: "0 \<le> R" by (simp add: R_def)
  have "(int v - int w) * (R * int p)
        = int p * (int v * R - int a * int s) + int s * (int a * int p - int u * R)
          - R * (int w * int p - int b * R) - R * (int b * R - int u * int s)"
    by (simp add: algebra_simps)
  also have "2 * \<bar>\<dots>\<bar> \<le> int p * R + int s * int p + R * int p + R * R"
  proof -
    have "2 * \<bar>int p * (int v * R - int a * int s)\<bar> \<le> int p * R"
      using mult_left_mono[OF e(3), of "int p"] by (simp add: abs_mult)
    moreover have "2 * \<bar>int s * (int a * int p - int u * R)\<bar> \<le> int s * int p"
      using mult_left_mono[OF e(1), of "int s"] by (simp add: abs_mult)
    moreover have "2 * \<bar>R * (int w * int p - int b * R)\<bar> \<le> R * int p"
      using mult_left_mono[OF e(4) R] R by (simp add: abs_mult)
    moreover have "2 * \<bar>R * (int b * R - int u * int s)\<bar> \<le> R * R"
      using mult_left_mono[OF e(2) R] R by (simp add: abs_mult)
    ultimately show ?thesis by (rule abs_combine4)
  qed
  finally have "2 * (\<bar>int v - int w\<bar> * (R * int p)) \<le> int p * R + int s * int p + R * int p + R * R"
    using R by (simp only: abs_mult)
  then have "2 * (R * int p) * \<bar>int v - int w\<bar> \<le> int s * int p + R * R + 2 * (R * int p)"
    by (simp add: ac_simps)
  then show ?thesis unfolding a_b_v_w_def R_def .
qed

lemma contract_rayDiv_le: "contract_rayDiv a b = Some c \<Longrightarrow> c \<le> uint256_max"
proof -
  have "wrap256 n div b \<le> uint256_max" for n
  proof -
    have "wrap256 n \<le> uint256_max" by (auto simp: wrap256_def uint256_max_def intro: less_imp_le_nat)
    then show ?thesis using div_le_dividend order_trans by blast
  qed
  then show "contract_rayDiv a b = Some c \<Longrightarrow> c \<le> uint256_max"
    by (auto simp: contract_rayDiv_def split: if_splits)
qed

definition strategy_fits :: "rate_strategy \<Rightarrow> bool" where
  "strategy_fits st \<longleftrightarrow>
     c_OPTIMAL_UTILIZATION_RATE st < 10 ^ 27 \<and> c_baseVariableBorrowRate st \<le> uint256_max
     \<and> c_variableRateSlope1 st \<le> uint256_max \<and> c_variableRateSlope2 st \<le> uint256_max
     \<and> c_stableRateSlope1 st \<le> uint256_max \<and> c_stableRateSlope2 st \<le> uint256_max"

lemma small_le_uint256_max: "n < 10 ^ 27 \<Longrightarrow> n \<le> uint256_max" "n \<le> 10 ^ 27 \<Longrightarrow> n \<le> uint256_max"
  by (simp_all add: uint256_max_def)

lemma contract_borrow_rates_above:
  assumes "contract_borrow_rates st m u = Some (sr, vr)" "strategy_fits st" "m \<le> uint256_max"
    and "c_OPTIMAL_UTILIZATION_RATE st < u"
  defines "ratio \<equiv> nat_rayDiv (u - c_OPTIMAL_UTILIZATION_RATE st) (10 ^ 27 - c_OPTIMAL_UTILIZATION_RATE st)"
  shows "sr = m + c_stableRateSlope1 st + nat_rayMul (c_stableRateSlope2 st) ratio"
    and "vr = c_baseVariableBorrowRate st + c_variableRateSlope1 st + nat_rayMul (c_variableRateSlope2 st) ratio"
proof -
  obtain e ov q s1 s2 v1 v2 where
    e: "safe_sub contract_RAY (c_OPTIMAL_UTILIZATION_RATE st) = Some e"
      "safe_sub u (c_OPTIMAL_UTILIZATION_RATE st) = Some ov" "contract_rayDiv ov e = Some q" and
    s: "safe_add m (c_stableRateSlope1 st) = Some s1" "contract_rayMul (c_stableRateSlope2 st) q = Some s2"
      "safe_add s1 s2 = Some sr" and
    v: "safe_add (c_baseVariableBorrowRate st) (c_variableRateSlope1 st) = Some v1"
      "contract_rayMul (c_variableRateSlope2 st) q = Some v2" "safe_add v1 v2 = Some vr"
    using assms(1,4) by (auto simp: contract_borrow_rates_def bind_Some_iff)
  note fits = assms(2)[unfolded strategy_fits_def]
  have "e \<le> uint256_max"
    using safe_sub_Some[OF e(1)] small_le_uint256_max(2)[of e] by (simp add: contract_constants)
  then have q: "q = ratio"
    using contract_ray_Some(2)[OF _ e(3)] safe_sub_Some[OF e(1)] safe_sub_Some[OF e(2)]
    by (simp add: ratio_def contract_constants)
  have "s1 \<le> uint256_max" "s2 \<le> uint256_max" "v1 \<le> uint256_max" "v2 \<le> uint256_max"
    using safe_add_le s v contract_rayMul_le by blast+
  then show "sr = m + c_stableRateSlope1 st + nat_rayMul (c_stableRateSlope2 st) ratio"
    and "vr = c_baseVariableBorrowRate st + c_variableRateSlope1 st + nat_rayMul (c_variableRateSlope2 st) ratio"
    using safe_add_Some[OF _ _ s(1)] safe_add_Some[OF _ _ s(3)] safe_add_Some[OF _ _ v(1)]
      safe_add_Some[OF _ _ v(3)] contract_ray_Some(1)[OF s(2)] contract_ray_Some(1)[OF v(2)] q fits assms(3)
    by simp_all
qed

lemma contract_borrow_rates_below:
  assumes "contract_borrow_rates st m u = Some (sr, vr)" "strategy_fits st" "m \<le> uint256_max"
    and "\<not> c_OPTIMAL_UTILIZATION_RATE st < u"
  shows "sr = m + nat_rayMul (c_stableRateSlope1 st) (nat_rayDiv u (c_OPTIMAL_UTILIZATION_RATE st))"
    and "vr = c_baseVariableBorrowRate st
              + nat_rayDiv (nat_rayMul u (c_variableRateSlope1 st)) (c_OPTIMAL_UTILIZATION_RATE st)"
proof -
  obtain q s2 v1 v2 where
    s: "contract_rayDiv u (c_OPTIMAL_UTILIZATION_RATE st) = Some q"
      "contract_rayMul (c_stableRateSlope1 st) q = Some s2" "safe_add m s2 = Some sr" and
    v: "contract_rayMul u (c_variableRateSlope1 st) = Some v1"
      "contract_rayDiv v1 (c_OPTIMAL_UTILIZATION_RATE st) = Some v2"
      "safe_add (c_baseVariableBorrowRate st) v2 = Some vr"
    using assms(1,4) by (auto simp: contract_borrow_rates_def bind_Some_iff)
  note fits = assms(2)[unfolded strategy_fits_def]
  have o: "c_OPTIMAL_UTILIZATION_RATE st \<le> uint256_max" using fits small_le_uint256_max by blast
  have "s2 \<le> uint256_max" "v2 \<le> uint256_max"
    using contract_rayMul_le[OF s(2)] contract_rayDiv_le[OF v(2)] by auto
  then show "sr = m + nat_rayMul (c_stableRateSlope1 st) (nat_rayDiv u (c_OPTIMAL_UTILIZATION_RATE st))"
    and "vr = c_baseVariableBorrowRate st
              + nat_rayDiv (nat_rayMul u (c_variableRateSlope1 st)) (c_OPTIMAL_UTILIZATION_RATE st)"
    using safe_add_Some[OF _ _ s(3)] safe_add_Some[OF _ _ v(3)] contract_ray_Some(1)[OF s(2)]
      contract_ray_Some(1)[OF v(1)] contract_ray_Some(2)[OF o s(1)] contract_ray_Some(2)[OF o v(2)]
      fits assms(3) by simp_all
qed

end
