(* ===== verification/Ray_Math.thy ===== *)
theory Ray_Math
  imports Big_Number Contract_Math
begin

text \<open>
  The constants of \<open>helpers/constants.ts\<close> and the fixed-point operations that
  \<open>test-suites/test-palmy/helpers/utils/math.ts\<close> adds to the prototype of the big-number class.
  Every operation takes the big-number operations \<open>B\<close> as its first argument. The locale lemmas
  give their values; the properties compare them with the contracts' libraries.
\<close>

section \<open>Constants\<close>

definition PERCENTAGE_FACTOR :: string where "PERCENTAGE_FACTOR = ''10000''"
definition HALF_PERCENTAGE :: string where "HALF_PERCENTAGE = ''5000''"

text \<open>\<open>Math.pow(10, 18).toString()\<close> prints all the digits, as numbers below \<open>10 ^ 21\<close> do.\<close>

definition WAD :: string where "WAD = ''1000000000000000000''"

definition HALF_WAD :: "'n bn \<Rightarrow> string" where
  "HALF_WAD B = bn_toFixed B (bn_times B (bn_new B WAD) (bn_new B ''0.5''))"

definition RAY :: "'n bn \<Rightarrow> string" where
  "RAY B = bn_toFixed B (bn_pow B (bn_new B ''10'') 27)"

definition HALF_RAY :: "'n bn \<Rightarrow> string" where
  "HALF_RAY B = bn_toFixed B (bn_times B (bn_new B (RAY B)) (bn_new B ''0.5''))"

definition WAD_RAY_RATIO :: string where "WAD_RAY_RATIO = ''1000000000''"

definition oneEther :: "'n bn \<Rightarrow> 'n" where "oneEther B = bn_new B ''1000000000000000000''"
definition oneUsd :: "'n bn \<Rightarrow> 'n" where "oneUsd B = bn_new B ''100000000''"
definition oneRay :: "'n bn \<Rightarrow> 'n" where "oneRay B = bn_new B ''1e+27''"

definition MAX_UINT_AMOUNT :: string where
  "MAX_UINT_AMOUNT =
     ''115792089237316195423570985008687907853269984665640564039457584007913129639935''"

definition ONE_YEAR :: string where "ONE_YEAR = ''31536000''"

definition OPTIMAL_UTILIZATION_RATE :: "'n bn \<Rightarrow> 'n" where
  "OPTIMAL_UTILIZATION_RATE B = bn_times B (bn_new B ''0.8'') (bn_new B (RAY B))"

definition EXCESS_UTILIZATION_RATE :: "'n bn \<Rightarrow> 'n" where
  "EXCESS_UTILIZATION_RATE B = bn_times B (bn_new B ''0.2'') (bn_new B (RAY B))"

section \<open>Operations\<close>

definition ray :: "'n bn \<Rightarrow> 'n" where
  "ray B = bn_decimalPlaces_default B (bn_new B (RAY B)) 0"

definition wad :: "'n bn \<Rightarrow> 'n" where
  "wad B = bn_decimalPlaces_default B (bn_new B WAD) 0"

definition halfRay :: "'n bn \<Rightarrow> 'n" where
  "halfRay B = bn_decimalPlaces B (bn_new B (HALF_RAY B)) 0 ROUND_DOWN"

definition halfWad :: "'n bn \<Rightarrow> 'n" where
  "halfWad B = bn_decimalPlaces B (bn_new B (HALF_WAD B)) 0 ROUND_DOWN"

definition wadMul :: "'n bn \<Rightarrow> 'n \<Rightarrow> 'n \<Rightarrow> 'n" where
  "wadMul B this b =
     bn_decimalPlaces B
       (bn_div B (bn_plus B (halfWad B) (bn_times B this b)) (bn_new B WAD)) 0 ROUND_DOWN"

definition wadDiv :: "'n bn \<Rightarrow> 'n \<Rightarrow> 'n \<Rightarrow> 'n" where
  "wadDiv B this a =
     (let halfA = bn_decimalPlaces B (bn_div B a (bn_new B ''2'')) 0 ROUND_DOWN
      in bn_decimalPlaces B
           (bn_div B (bn_plus B halfA (bn_times B this (bn_new B WAD))) a) 0 ROUND_DOWN)"

definition rayMul :: "'n bn \<Rightarrow> 'n \<Rightarrow> 'n \<Rightarrow> 'n" where
  "rayMul B this a =
     bn_decimalPlaces B
       (bn_div B (bn_plus B (halfRay B) (bn_times B this a)) (bn_new B (RAY B))) 0 ROUND_DOWN"

definition rayDiv :: "'n bn \<Rightarrow> 'n \<Rightarrow> 'n \<Rightarrow> 'n" where
  "rayDiv B this a =
     (let halfA = bn_decimalPlaces B (bn_div B a (bn_new B ''2'')) 0 ROUND_DOWN
      in bn_decimalPlaces B
           (bn_div B
             (bn_decimalPlaces B (bn_plus B halfA (bn_times B this (bn_new B (RAY B)))) 0 ROUND_DOWN)
             a) 0 ROUND_DOWN)"

definition rayToWad :: "'n bn \<Rightarrow> 'n \<Rightarrow> 'n" where
  "rayToWad B this =
     (let halfRatio = bn_div B (bn_new B WAD_RAY_RATIO) (bn_new B ''2'')
      in bn_decimalPlaces B
           (bn_div B (bn_plus B halfRatio this) (bn_new B WAD_RAY_RATIO)) 0 ROUND_DOWN)"

definition wadToRay :: "'n bn \<Rightarrow> 'n \<Rightarrow> 'n" where
  "wadToRay B this =
     bn_decimalPlaces B (bn_times B this (bn_new B WAD_RAY_RATIO)) 0 ROUND_DOWN"

definition halfPercentage :: "'n bn \<Rightarrow> 'n" where
  "halfPercentage B = bn_decimalPlaces B (bn_new B HALF_PERCENTAGE) 0 ROUND_DOWN"

definition percentMul :: "'n bn \<Rightarrow> 'n \<Rightarrow> 'n \<Rightarrow> 'n" where
  "percentMul B this b =
     bn_decimalPlaces B
       (bn_div B (bn_plus B (halfPercentage B) (bn_times B this b)) (bn_new B PERCENTAGE_FACTOR))
       0 ROUND_DOWN"

definition percentDiv :: "'n bn \<Rightarrow> 'n \<Rightarrow> 'n \<Rightarrow> 'n" where
  "percentDiv B this a =
     (let halfA = bn_decimalPlaces B (bn_div B a (bn_new B ''2'')) 0 ROUND_DOWN
      in bn_decimalPlaces B
           (bn_div B (bn_plus B halfA (bn_times B this (bn_new B PERCENTAGE_FACTOR))) a)
           0 ROUND_DOWN)"

section \<open>Values of the constants and operations\<close>

lemma parse_constants:
  "parse_decimal PERCENTAGE_FACTOR = Some (10000, 0)"
  "parse_decimal HALF_PERCENTAGE = Some (5000, 0)"
  "parse_decimal WAD = Some (1000000000000000000, 0)"
  "parse_decimal WAD_RAY_RATIO = Some (1000000000, 0)"
  "parse_decimal ONE_YEAR = Some (31536000, 0)"
  "parse_decimal ''0.5'' = Some (5, 1)"
  "parse_decimal ''0.8'' = Some (8, 1)"
  "parse_decimal ''0.2'' = Some (2, 1)"
  "parse_decimal ''1e+27'' = Some (10 ^ 27, 0)"
  "parse_decimal ''100000000'' = Some (100000000, 0)"
  by (simp_all add: parse_eval PERCENTAGE_FACTOR_def HALF_PERCENTAGE_def WAD_def WAD_RAY_RATIO_def
      ONE_YEAR_def)

lemma parse_MAX_UINT_AMOUNT: "parse_decimal MAX_UINT_AMOUNT = Some (2 ^ 256 - 1, 0)"
  by (simp add: parse_eval MAX_UINT_AMOUNT_def)

context bignumber
begin

lemma constants_val [simp]:
  "fin (bn_new B PERCENTAGE_FACTOR)" "val (bn_new B PERCENTAGE_FACTOR) = 10000"
  "fin (bn_new B HALF_PERCENTAGE)" "val (bn_new B HALF_PERCENTAGE) = 5000"
  "fin (bn_new B WAD)" "val (bn_new B WAD) = 10 ^ 18"
  "fin (bn_new B WAD_RAY_RATIO)" "val (bn_new B WAD_RAY_RATIO) = 10 ^ 9"
  "fin (bn_new B ONE_YEAR)" "val (bn_new B ONE_YEAR) = 31536000"
  "fin (bn_new B ''0.5'')" "val (bn_new B ''0.5'') = 1 / 2"
  "fin (bn_new B ''0.8'')" "val (bn_new B ''0.8'') = 8 / 10"
  "fin (bn_new B ''0.2'')" "val (bn_new B ''0.2'') = 2 / 10"
  using parse_constants[THEN new_fin] parse_constants[THEN new_val] by auto

lemma max_uint_val [simp]:
  "fin (bn_new B MAX_UINT_AMOUNT)" "val (bn_new B MAX_UINT_AMOUNT) = 2 ^ 256 - 1"
  using parse_MAX_UINT_AMOUNT[THEN new_fin] parse_MAX_UINT_AMOUNT[THEN new_val] by auto

lemma units_val [simp]:
  "fin (oneEther B)" "val (oneEther B) = 10 ^ 18"
  "fin (oneUsd B)" "val (oneUsd B) = 10 ^ 8"
  "fin (oneRay B)" "val (oneRay B) = 10 ^ 27"
  using parse_constants[THEN new_fin] parse_constants[THEN new_val]
  by (auto simp: oneEther_def oneUsd_def oneRay_def WAD_def)

lemma RAY_val [simp]: "fin (bn_new B (RAY B))" "val (bn_new B (RAY B)) = 10 ^ 27"
  by (simp_all add: RAY_def)

lemma halves_val [simp]:
  "fin (halfRay B)" "val (halfRay B) = 5 * 10 ^ 26"
  "fin (halfWad B)" "val (halfWad B) = 5 * 10 ^ 17"
  "fin (halfPercentage B)" "val (halfPercentage B) = 5000"
  by (simp_all add: halfRay_def halfWad_def halfPercentage_def HALF_RAY_def HALF_WAD_def)

lemma ray_wad_val [simp]:
  "fin (ray B)" "val (ray B) = 10 ^ 27" "fin (wad B)" "val (wad B) = 10 ^ 18"
  using round_places_of_int[of "ROUNDING_MODE cfg" 0 "10 ^ 27"] round_places_of_int[of "ROUNDING_MODE cfg" 0 "10 ^ 18"]
  by (simp_all add: ray_def wad_def)

abbreviation rounded :: "rat \<Rightarrow> rat" where
  "rounded q \<equiv> round_places (ROUNDING_MODE cfg) (DECIMAL_PLACES cfg) q"

lemma rayMul_fin [simp]: "fin (rayMul B a b) \<longleftrightarrow> fin a \<and> fin b"
  by (simp add: rayMul_def)

lemma rayMul_val:
  "fin a \<Longrightarrow> fin b \<Longrightarrow>
   val (rayMul B a b) = of_int (truncate_rat (rounded ((5 * 10 ^ 26 + val a * val b) / 10 ^ 27)))"
  by (simp add: rayMul_def)

lemma wadMul_val:
  "fin a \<Longrightarrow> fin b \<Longrightarrow>
   val (wadMul B a b) = of_int (truncate_rat (rounded ((5 * 10 ^ 17 + val a * val b) / 10 ^ 18)))"
  by (simp add: wadMul_def)

lemma wadMul_fin [simp]: "fin (wadMul B a b) \<longleftrightarrow> fin a \<and> fin b"
  by (simp add: wadMul_def)

lemma percentMul_fin [simp]: "fin (percentMul B a b) \<longleftrightarrow> fin a \<and> fin b"
  by (simp add: percentMul_def)

lemma percentMul_val:
  "fin a \<Longrightarrow> fin b \<Longrightarrow>
   val (percentMul B a b) = of_int (truncate_rat (rounded ((5000 + val a * val b) / 10000)))"
  by (simp add: percentMul_def)

lemma rayDiv_fin [simp]: "fin b \<Longrightarrow> fin (rayDiv B a b) \<longleftrightarrow> fin a \<and> val b \<noteq> 0"
  by (auto simp: rayDiv_def)

lemma rayDiv_val:
  "fin a \<Longrightarrow> fin b \<Longrightarrow> val b \<noteq> 0 \<Longrightarrow>
   val (rayDiv B a b) =
     of_int (truncate_rat (rounded
       (of_int (truncate_rat (of_int (truncate_rat (rounded (val b / 2))) + val a * 10 ^ 27)) / val b)))"
  by (simp add: rayDiv_def)

lemma wadDiv_fin [simp]: "fin b \<Longrightarrow> fin (wadDiv B a b) \<longleftrightarrow> fin a \<and> val b \<noteq> 0"
  by (auto simp: wadDiv_def)

lemma wadDiv_val:
  "fin a \<Longrightarrow> fin b \<Longrightarrow> val b \<noteq> 0 \<Longrightarrow>
   val (wadDiv B a b) =
     of_int (truncate_rat (rounded
       ((of_int (truncate_rat (rounded (val b / 2))) + val a * 10 ^ 18) / val b)))"
  by (simp add: wadDiv_def)

lemma percentDiv_fin [simp]: "fin b \<Longrightarrow> fin (percentDiv B a b) \<longleftrightarrow> fin a \<and> val b \<noteq> 0"
  by (auto simp: percentDiv_def)

lemma percentDiv_val:
  "fin a \<Longrightarrow> fin b \<Longrightarrow> val b \<noteq> 0 \<Longrightarrow>
   val (percentDiv B a b) =
     of_int (truncate_rat (rounded
       ((of_int (truncate_rat (rounded (val b / 2))) + val a * 10000) / val b)))"
  by (simp add: percentDiv_def)

lemma wadToRay_fin [simp]: "fin (wadToRay B a) \<longleftrightarrow> fin a"
  by (simp add: wadToRay_def)

lemma wadToRay_val: "fin a \<Longrightarrow> val (wadToRay B a) = of_int (truncate_rat (val a * 10 ^ 9))"
  by (simp add: wadToRay_def)

lemma rayToWad_fin [simp]: "fin (rayToWad B a) \<longleftrightarrow> fin a"
  by (simp add: rayToWad_def)

lemma rayToWad_val:
  "fin a \<Longrightarrow> val (rayToWad B a) = of_int (truncate_rat (rounded ((500000000 + val a) / 10 ^ 9)))"
  using round_places_of_int[of "ROUNDING_MODE cfg" "DECIMAL_PLACES cfg" 500000000]
  by (simp add: rayToWad_def)

end

section \<open>Agreement with the contracts under the configuration of the scenario tests\<close>

context scenario_bignumber
begin

lemma rounded_scenario [simp]: "rounded q = of_int (truncate_rat q)"
  by (simp add: scenario_config_def)

lemma trunc_scaled:
  "truncate_rat ((of_nat c + of_nat x * of_nat y) / of_nat d) = int ((x * y + c) div d)"
  using truncate_nat_frac[of "x * y + c" d] by (simp add: add.commute)

lemma rayMul_denotes:
  "denotes fin val a x \<Longrightarrow> denotes fin val b y \<Longrightarrow>
   denotes fin val (rayMul B a b) ((x * y + 5 * 10 ^ 26) div 10 ^ 27)"
  using trunc_scaled[of "5 * 10 ^ 26" x y "10 ^ 27"] by (simp add: denotes_def rayMul_val)

lemma wadMul_denotes:
  "denotes fin val a x \<Longrightarrow> denotes fin val b y \<Longrightarrow>
   denotes fin val (wadMul B a b) ((x * y + 5 * 10 ^ 17) div 10 ^ 18)"
  using trunc_scaled[of "5 * 10 ^ 17" x y "10 ^ 18"] by (simp add: denotes_def wadMul_val)

lemma percentMul_denotes:
  "denotes fin val a x \<Longrightarrow> denotes fin val b y \<Longrightarrow>
   denotes fin val (percentMul B a b) ((x * y + 5000) div 10000)"
  using trunc_scaled[of 5000 x y 10000] by (simp add: denotes_def percentMul_val)

lemma constant_denotes:
  "denotes fin val (bn_new B ONE_YEAR) 31536000" "denotes fin val (bn_new B (RAY B)) (10 ^ 27)"
  "denotes fin val (bn_new B PERCENTAGE_FACTOR) 10000"
  by (simp_all add: denotes_def)

lemma half_scenario: "truncate_rat (of_nat y / 2) = int (y div 2)"
  using truncate_nat_frac[of y 2] by simp

lemma trunc_quotient:
  "truncate_rat ((of_nat h + of_nat x * of_nat s) / of_nat y) = int ((x * s + h) div y)"
  by (rule trunc_scaled)

lemma rayDiv_denotes:
  assumes "denotes fin val a x" "denotes fin val b y" "y \<noteq> 0"
  shows "denotes fin val (rayDiv B a b) ((x * 10 ^ 27 + y div 2) div y)"
proof -
  have ab: "fin a" "fin b" "val a = of_nat x" "val b = of_nat y"
    using assms by (auto simp: denotes_def)
  let ?s = "10 ^ 27 :: nat"
  have "of_int (truncate_rat (of_nat y / 2)) + of_nat x * 10 ^ 27 = (of_nat (y div 2) + of_nat x * of_nat ?s :: rat)"
    by (simp add: half_scenario)
  moreover have "truncate_rat (of_nat (y div 2) + of_nat x * of_nat ?s) = int (y div 2 + x * ?s)"
    using truncate_rat_of_int[of "int (y div 2 + x * ?s)"] by simp
  ultimately have inner:
    "truncate_rat (of_int (truncate_rat (of_nat y / 2)) + of_nat x * 10 ^ 27) = int (y div 2 + x * ?s)"
    by (simp only:)
  have "val (rayDiv B a b) = of_int (truncate_rat (of_nat (y div 2 + x * ?s) / of_nat y))"
    using rayDiv_val[OF ab(1,2)] assms(3) inner by (simp only: ab rounded_scenario) simp
  then show ?thesis
    using ab assms(3) truncate_nat_frac[of "y div 2 + x * ?s" y]
    by (simp add: denotes_def add.commute)
qed

lemma wadDiv_denotes:
  assumes "denotes fin val a x" "denotes fin val b y" "y \<noteq> 0"
  shows "denotes fin val (wadDiv B a b) ((x * 10 ^ 18 + y div 2) div y)"
  using assms trunc_quotient[of "y div 2" x "10 ^ 18" y]
  by (simp add: denotes_def wadDiv_val half_scenario)

lemma percentDiv_denotes:
  assumes "denotes fin val a x" "denotes fin val b y" "y \<noteq> 0"
  shows "denotes fin val (percentDiv B a b) ((x * 10000 + y div 2) div y)"
  using assms trunc_quotient[of "y div 2" x "10000" y]
  by (simp add: denotes_def percentDiv_val half_scenario)

lemma wadToRay_denotes: "denotes fin val a x \<Longrightarrow> denotes fin val (wadToRay B a) (x * 10 ^ 9)"
  using truncate_rat_of_int[of "int x * 10 ^ 9"] by (simp add: denotes_def wadToRay_val)

lemma rayToWad_denotes:
  "denotes fin val a x \<Longrightarrow> denotes fin val (rayToWad B a) ((x + 500000000) div 10 ^ 9)"
  using truncate_nat_frac[of "500000000 + x" "10 ^ 9"]
  by (simp add: denotes_def rayToWad_val add.commute)

lemmas fixed_point_denotes =
  rayMul_denotes rayDiv_denotes wadMul_denotes wadDiv_denotes percentMul_denotes percentDiv_denotes
  wadToRay_denotes rayToWad_denotes

end

text \<open>
  \<open>agrees fin val r a\<close>: whenever the contract's computation \<open>r\<close> does not revert, its result is
  the unsigned value that \<open>a\<close> denotes.
\<close>

definition agrees :: "('n \<Rightarrow> bool) \<Rightarrow> ('n \<Rightarrow> rat) \<Rightarrow> nat option \<Rightarrow> 'n \<Rightarrow> bool" where
  "agrees fin val r a \<longleftrightarrow> (\<forall>z. r = Some z \<longrightarrow> denotes fin val a z)"

context scenario_bignumber
begin

lemma agrees_rayMul:
  "denotes fin val a x \<Longrightarrow> denotes fin val b y \<Longrightarrow> agrees fin val (contract_rayMul x y) (rayMul B a b)"
  unfolding agrees_def by (metis rayMul_denotes contract_rayMul_Some)

lemma agrees_wadMul:
  "denotes fin val a x \<Longrightarrow> denotes fin val b y \<Longrightarrow> agrees fin val (contract_wadMul x y) (wadMul B a b)"
  unfolding agrees_def by (metis wadMul_denotes contract_wadMul_Some)

lemma agrees_percentMul:
  "denotes fin val a x \<Longrightarrow> denotes fin val b y \<Longrightarrow>
   agrees fin val (contract_percentMul x y) (percentMul B a b)"
  unfolding agrees_def by (metis percentMul_denotes contract_percentMul_Some)

lemma agrees_rayDiv:
  "denotes fin val a x \<Longrightarrow> denotes fin val b y \<Longrightarrow> y \<le> uint256_max \<Longrightarrow>
   agrees fin val (contract_rayDiv x y) (rayDiv B a b)"
  unfolding agrees_def by (metis rayDiv_denotes contract_rayDiv_Some)

lemma agrees_wadDiv:
  "denotes fin val a x \<Longrightarrow> denotes fin val b y \<Longrightarrow> y \<le> uint256_max \<Longrightarrow>
   agrees fin val (contract_wadDiv x y) (wadDiv B a b)"
  unfolding agrees_def by (metis wadDiv_denotes contract_wadDiv_Some)

lemma agrees_percentDiv:
  "denotes fin val a x \<Longrightarrow> denotes fin val b y \<Longrightarrow> y \<le> uint256_max \<Longrightarrow>
   agrees fin val (contract_percentDiv x y) (percentDiv B a b)"
  unfolding agrees_def by (metis percentDiv_denotes contract_percentDiv_Some)

lemma agrees_wadToRay:
  "denotes fin val a x \<Longrightarrow> agrees fin val (contract_wadToRay x) (wadToRay B a)"
  unfolding agrees_def by (metis wadToRay_denotes contract_wadToRay_Some)

lemma agrees_rayToWad:
  "denotes fin val a x \<Longrightarrow> x \<le> uint256_max \<Longrightarrow> agrees fin val (contract_rayToWad x) (rayToWad B a)"
  unfolding agrees_def by (metis rayToWad_denotes contract_rayToWad_Some)

lemmas agrees_fixed_point =
  agrees_rayMul agrees_rayDiv agrees_wadMul agrees_wadDiv agrees_percentMul agrees_percentDiv
  agrees_wadToRay agrees_rayToWad

end

text \<open>
  C1. Under the configuration of the scenario tests (no decimal places, truncation) each
  fixed-point operation of \<open>math.ts\<close>, applied to unsigned 256-bit values, gives what the
  corresponding function of \<open>WadRayMath\<close> or \<open>PercentageMath\<close> returns whenever that function
  does not revert.
\<close>

theorem math_agrees_with_contracts:
  assumes "scenario_bignumber B fin val"
    and "denotes fin val a x" and "denotes fin val b y"
    and "x \<le> uint256_max" and "y \<le> uint256_max"
  shows "agrees fin val (contract_rayMul x y) (rayMul B a b)
       \<and> agrees fin val (contract_rayDiv x y) (rayDiv B a b)
       \<and> agrees fin val (contract_wadMul x y) (wadMul B a b)
       \<and> agrees fin val (contract_wadDiv x y) (wadDiv B a b)
       \<and> agrees fin val (contract_percentMul x y) (percentMul B a b)
       \<and> agrees fin val (contract_percentDiv x y) (percentDiv B a b)
       \<and> agrees fin val (contract_wadToRay x) (wadToRay B a)
       \<and> agrees fin val (contract_rayToWad x) (rayToWad B a)"
  using assms by (intro conjI scenario_bignumber.agrees_fixed_point[OF assms(1)])

theorem math_agrees_with_contracts_witness:
  "agrees dec_fin dec_val (contract_rayMul 7 3) (rayMul (decimal scenario_config) (Dec 7 0) (Dec 3 0))
   \<and> contract_rayMul 7 3 = Some 0"
  using math_agrees_with_contracts[OF decimal_scenario.scenario_bignumber_axioms, of "Dec 7 0" 7 "Dec 3 0" 3]
  by (simp add: denotes_def contract_eval)

section \<open>Rounding under the default configuration\<close>

context default_bignumber
begin

lemma rounded_default: "rounded q = round_places ROUND_HALF_UP 20 q"
  by (simp add: default_config_def)

lemma trunc_rounded_scaled:
  assumes "0 < d"
  shows "truncate_rat (rounded ((of_nat c + of_nat x * of_nat y) / of_nat d))
         = int ((2 * ((x * y + c) * 10 ^ 20) + d) div (2 * d * 10 ^ 20))"
  using truncate_round_half_up_nat_frac[OF assms, of 20 "x * y + c"]
  by (simp only: rounded_default of_nat_add of_nat_mult) (simp add: add.commute)

lemma rayMul_default:
  assumes "denotes fin val a x" "denotes fin val b y"
  shows "denotes fin val (rayMul B a b) ((x * y + 5 * 10 ^ 26 + 5000000) div 10 ^ 27)"
proof -
  have "(2 * ((x * y + 5 * 10 ^ 26) * 10 ^ 20) + 10 ^ 27) div (2 * 10 ^ 27 * 10 ^ 20 :: nat)
        = (2 * 10 ^ 20 * (x * y + 5 * 10 ^ 26 + 5000000)) div (2 * 10 ^ 20 * 10 ^ 27)"
    by (simp add: algebra_simps)
  also have "\<dots> = (x * y + 5 * 10 ^ 26 + 5000000) div 10 ^ 27"
    by (rule div_mult_mult1) simp
  finally show ?thesis
    using assms trunc_rounded_scaled[of "10 ^ 27" "5 * 10 ^ 26" x y]
    by (simp add: denotes_def rayMul_val)
qed

end

text \<open>
  Under the default configuration (20 places, half up) the quotient of \<open>rayMul\<close> is rounded
  before it is truncated, so the TypeScript result is the contract's result, or one more; it is
  one more exactly when the discarded fraction is within \<open>5 * 10^6 / 10^27\<close> of the next unit.
\<close>

theorem rayMul_default_rounding:
  assumes "default_bignumber B fin val"
    and "denotes fin val a x" and "denotes fin val b y"
    and "contract_rayMul x y = Some z"
  shows "denotes fin val (rayMul B a b)
          (if 10 ^ 27 - 5 * 10 ^ 6 \<le> (x * y + 5 * 10 ^ 26) mod 10 ^ 27 then Suc z else z)"
proof -
  define n where "n = x * y + 5 * 10 ^ 26"
  have z: "z = n div 10 ^ 27"
    using contract_rayMul_Some[OF assms(4)] by (simp add: n_def)
  have "(n + 5000000) div 10 ^ 27 = (if 10 ^ 27 - 5 * 10 ^ 6 \<le> n mod 10 ^ 27 then Suc z else z)"
    unfolding z using div_add_carry[of 5000000 "10 ^ 27" n] by simp
  then show ?thesis
    using default_bignumber.rayMul_default[OF assms(1-3)] by (simp add: n_def)
qed

theorem rayMul_default_rounding_witness:
  "contract_rayMul 1 499999999999999999999999999 = Some 0
   \<and> denotes dec_fin dec_val
       (rayMul (decimal default_config) (Dec 1 0) (Dec 499999999999999999999999999 0)) 1"
  using rayMul_default_rounding[OF decimal_default.default_bignumber_axioms,
      of "Dec 1 0" 1 "Dec 499999999999999999999999999 0" 499999999999999999999999999 0]
  by (simp add: denotes_def contract_eval)

end
