(* ===== verification/Protocol_Types.thy ===== *)
theory Protocol_Types
  imports Prelude
begin

text \<open>
  The enumerations and configuration types of \<open>helpers/types.ts\<close>. An enumeration whose values
  select behaviour is a datatype with a function to the string it stands for at run time; the
  contract identifiers are the object the enumeration compiles to.
\<close>

section \<open>Networks and pools\<close>

datatype eEthereumNetwork =
    buidlerevm
  | coverage
  | hardhat
  | tenderly

fun eEthereumNetwork_name :: "eEthereumNetwork \<Rightarrow> string" where
  "eEthereumNetwork_name buidlerevm = ''buidlerevm''"
| "eEthereumNetwork_name coverage = ''coverage''"
| "eEthereumNetwork_name hardhat = ''hardhat''"
| "eEthereumNetwork_name tenderly = ''tenderly''"

datatype eElectroneumNetwork =
    mainnet
  | testnet

fun eElectroneumNetwork_name :: "eElectroneumNetwork \<Rightarrow> string" where
  "eElectroneumNetwork_name mainnet = ''mainnet''"
| "eElectroneumNetwork_name testnet = ''testnet''"

datatype eOasysNetwork =
    oasys
  | shiden

fun eOasysNetwork_name :: "eOasysNetwork \<Rightarrow> string" where
  "eOasysNetwork_name oasys = ''oasys''"
| "eOasysNetwork_name shiden = ''shiden''"

datatype eNetwork =
    eEthereum eEthereumNetwork
  | eElectroneum eElectroneumNetwork
  | eOasys eOasysNetwork

fun eNetwork_name :: "eNetwork \<Rightarrow> string" where
  "eNetwork_name (eEthereum n) = eEthereumNetwork_name n"
| "eNetwork_name (eElectroneum n) = eElectroneumNetwork_name n"
| "eNetwork_name (eOasys n) = eOasysNetwork_name n"

datatype ElectroPools =
    proto

fun ElectroPools_name :: "ElectroPools \<Rightarrow> string" where
  "ElectroPools_name proto = ''proto''"

datatype RateMode =
    RateMode_None
  | RateMode_Stable
  | RateMode_Variable

fun RateMode_name :: "RateMode \<Rightarrow> string" where
  "RateMode_name RateMode_None = ''0''"
| "RateMode_name RateMode_Stable = ''1''"
| "RateMode_name RateMode_Variable = ''2''"

section \<open>Contract identifiers\<close>

definition eContractid :: "(string \<times> string) list" where
  "eContractid =
    [(''Example'', ''Example''),
     (''LendingPoolAddressesProvider'', ''LendingPoolAddressesProvider''),
     (''MintableERC20'', ''MintableERC20''),
     (''MintableDelegationERC20'', ''MintableDelegationERC20''),
     (''LendingPoolAddressesProviderRegistry'', ''LendingPoolAddressesProviderRegistry''),
     (''LendingPoolParametersProvider'', ''LendingPoolParametersProvider''),
     (''LendingPoolConfigurator'', ''LendingPoolConfigurator''),
     (''ValidationLogic'', ''ValidationLogic''),
     (''ReserveLogic'', ''ReserveLogic''),
     (''GenericLogic'', ''GenericLogic''),
     (''LendingPool'', ''LendingPool''),
     (''PriceOracle'', ''PriceOracle''),
     (''Proxy'', ''Proxy''),
     (''MockAggregator'', ''MockAggregator''),
     (''LendingRateOracle'', ''LendingRateOracle''),
     (''ElectroOracle'', ''ElectroOracle''),
     (''ElectroFallbackOracle'', ''ElectroFallbackOracle''),
     (''DefaultReserveInterestRateStrategy'', ''DefaultReserveInterestRateStrategy''),
     (''LendingPoolCollateralManager'', ''LendingPoolCollateralManager''),
     (''InitializableAdminUpgradeabilityProxy'', ''InitializableAdminUpgradeabilityProxy''),
     (''MockFlashLoanReceiver'', ''MockFlashLoanReceiver''),
     (''WalletBalanceProvider'', ''WalletBalanceProvider''),
     (''ELToken'', ''ELToken''),
     (''MockELToken'', ''MockELToken''),
     (''DelegationAwareELToken'', ''DelegationAwareELToken''),
     (''MockStableDebtToken'', ''MockStableDebtToken''),
     (''MockVariableDebtToken'', ''MockVariableDebtToken''),
     (''ElectroProtocolDataProvider'', ''ElectroProtocolDataProvider''),
     (''IERC20Detailed'', ''IERC20Detailed''),
     (''StableDebtToken'', ''StableDebtToken''),
     (''VariableDebtToken'', ''VariableDebtToken''),
     (''FeeProvider'', ''FeeProvider''),
     (''StableAndVariableTokensHelper'', ''StableAndVariableTokensHelper''),
     (''ELTokensAndRatesHelper'', ''ELTokensAndRatesHelper''),
     (''UiPoolDataProviderV2'', ''UiPoolDataProviderV2''),
     (''WETHGateway'', ''WETHGateway''),
     (''WETH'', ''WETH''),
     (''WETNMocked'', ''WETNMocked''),
     (''SelfdestructTransferMock'', ''SelfdestructTransferMock''),
     (''LendingPoolImpl'', ''LendingPoolImpl''),
     (''LendingPoolTmpImpl'', ''LendingPoolTmpImpl''),
     (''LendingPoolV4Impl'', ''LendingPoolV4Impl''),
     (''LendingPoolConfiguratorImpl'', ''LendingPoolConfiguratorImpl''),
     (''LendingPoolCollateralManagerImpl'', ''LendingPoolCollateralManagerImpl''),
     (''PriceAggregatorAdapterSimpleImpl'', ''PriceAggregatorAdapterSimpleImpl''),
     (''UiIncentiveDataProviderV2'', ''UiIncentiveDataProviderV2''),
     (''SimplePriceFeed'', ''SimplePriceFeed''),
     (''SimplePriceFeedAdapter'', ''SimplePriceFeedAdapter'')]"

section \<open>Reserve parameters\<close>

record IInterestRateStrategyParams =
  name :: string
  optimalUtilizationRate :: string
  baseVariableBorrowRate :: string
  variableRateSlope1 :: string
  variableRateSlope2 :: string
  stableRateSlope1 :: string
  stableRateSlope2 :: string

record IReserveBorrowParams =
  borrowingEnabled :: bool
  stableBorrowRateEnabled :: bool
  reserveDecimals :: string

text \<open>
  \<open>IReserveParams\<close> extends the borrowing and the collateral parameters; the record extends the
  first and repeats the fields of the second, since a record has one parent.
\<close>

record IReserveParams = IReserveBorrowParams +
  baseLTVAsCollateral :: string
  liquidationThreshold :: string
  liquidationBonus :: string
  elTokenImpl :: string
  reserveFactor :: string
  strategy :: IInterestRateStrategyParams

text \<open>An object indexed by strings is an association list in the order of its keys.\<close>

type_synonym 'a SymbolMap = "(string \<times> 'a) list"
type_synonym tEthereumAddress = string

end
