(* ===== verification/Effects.thy ===== *)
theory Effects
  imports Prelude
begin

text \<open>
  Code with effects as state transformers that may fail: an effect takes the state of the outside
  world to an error or a value, and the new state. An exception keeps the changes made before it.
  \<open>eff_bind\<close> is sequencing (an \<open>await\<close> followed by the rest), \<open>eff_catch\<close> is \<open>try\<close>/\<open>catch\<close>,
  \<open>eff_each\<close> is a \<open>for\<close> loop over a list.
\<close>

text \<open>What the program throws: instances of the error classes, and strings.\<close>

datatype js_error = TypeError string | Error string | AssertionError string | Thrown string

type_synonym ('s, 'e, 'a) eff = "'s \<Rightarrow> ('e + 'a) \<times> 's"

definition eff_return :: "'a \<Rightarrow> ('s, 'e, 'a) eff" where
  "eff_return a s = (Inr a, s)"

definition eff_throw :: "'e \<Rightarrow> ('s, 'e, 'a) eff" where
  "eff_throw e s = (Inl e, s)"

definition eff_bind :: "('s, 'e, 'a) eff \<Rightarrow> ('a \<Rightarrow> ('s, 'e, 'b) eff) \<Rightarrow> ('s, 'e, 'b) eff" where
  "eff_bind m f s = (case m s of (Inl e, s') \<Rightarrow> (Inl e, s') | (Inr a, s') \<Rightarrow> f a s')"

definition eff_then :: "('s, 'e, 'a) eff \<Rightarrow> ('s, 'e, 'b) eff \<Rightarrow> ('s, 'e, 'b) eff" where
  "eff_then m m' = eff_bind m (\<lambda>_. m')"

text \<open>A look at the state that changes nothing, and a computation that may fail.\<close>

definition eff_read :: "('s \<Rightarrow> 'a) \<Rightarrow> ('s, 'e, 'a) eff" where
  "eff_read f s = (Inr (f s), s)"

definition eff_lift :: "'e + 'a \<Rightarrow> ('s, 'e, 'a) eff" where
  "eff_lift r s = (r, s)"

definition eff_modify :: "('s \<Rightarrow> 's) \<Rightarrow> ('s, 'e, unit) eff" where
  "eff_modify f s = (Inr (), f s)"

definition eff_catch :: "('s, 'e, 'a) eff \<Rightarrow> ('e \<Rightarrow> ('s, 'e, 'a) eff) \<Rightarrow> ('s, 'e, 'a) eff" where
  "eff_catch m h s = (case m s of (Inl e, s') \<Rightarrow> h e s' | (Inr a, s') \<Rightarrow> (Inr a, s'))"

fun eff_each :: "('a \<Rightarrow> ('s, 'e, unit) eff) \<Rightarrow> 'a list \<Rightarrow> ('s, 'e, unit) eff" where
  "eff_each f [] = eff_return ()"
| "eff_each f (x # xs) = eff_then (f x) (eff_each f xs)"

named_theorems eff_simps \<open>what an effect does to a state\<close>

lemma eff_basic [eff_simps]:
  "eff_return a s = (Inr a, s)" "eff_throw e s = (Inl e, s)" "eff_read f s = (Inr (f s), s)"
  "eff_lift r s = (r, s)" "eff_modify g s = (Inr (), g s)"
  by (simp_all add: eff_return_def eff_throw_def eff_read_def eff_lift_def eff_modify_def)

lemma eff_bind_eq [eff_simps]:
  "m s = (Inl e, s') \<Longrightarrow> eff_bind m f s = (Inl e, s')"
  "m s = (Inr a, s') \<Longrightarrow> eff_bind m f s = f a s'"
  by (simp_all add: eff_bind_def)

lemma eff_bind_Inr_iff:
  "eff_bind m f s = (Inr b, s'') \<longleftrightarrow> (\<exists>a s'. m s = (Inr a, s') \<and> f a s' = (Inr b, s''))"
  by (auto simp: eff_bind_def split: prod.splits sum.splits)

lemma eff_bind_Inl_iff:
  "eff_bind m f s = (Inl e, s'') \<longleftrightarrow> m s = (Inl e, s'') \<or> (\<exists>a s'. m s = (Inr a, s') \<and> f a s' = (Inl e, s''))"
  by (auto simp: eff_bind_def split: prod.splits sum.splits)

lemma eff_then_Inr_iff:
  "eff_then m m' s = (Inr b, s'') \<longleftrightarrow> (\<exists>a s'. m s = (Inr a, s') \<and> m' s' = (Inr b, s''))"
  by (auto simp: eff_then_def eff_bind_Inr_iff)

lemma eff_then_Inl_iff:
  "eff_then m m' s = (Inl e, s'') \<longleftrightarrow> m s = (Inl e, s'') \<or> (\<exists>a s'. m s = (Inr a, s') \<and> m' s' = (Inl e, s''))"
  by (auto simp: eff_then_def eff_bind_Inl_iff)

lemmas eff_result_iff = eff_bind_Inr_iff eff_bind_Inl_iff eff_then_Inr_iff eff_then_Inl_iff

lemma eff_bind_assoc: "eff_bind (eff_bind m f) g = eff_bind m (\<lambda>a. eff_bind (f a) g)"
  by (rule ext) (auto simp: eff_bind_def split: prod.splits sum.splits)

lemma eff_each_append: "eff_each f (xs @ ys) = eff_then (eff_each f xs) (eff_each f ys)"
  by (induction xs) (auto simp: eff_then_def eff_bind_def eff_return_def split: prod.splits sum.splits)

text \<open>Effects that never change the state, and effects whose errors satisfy a predicate.\<close>

definition eff_pure :: "('s, 'e, 'a) eff \<Rightarrow> bool" where
  "eff_pure m \<longleftrightarrow> (\<forall>s. snd (m s) = s)"

lemma eff_pure_basic [intro, simp]:
  "eff_pure (eff_return a)" "eff_pure (eff_throw e)" "eff_pure (eff_read f)" "eff_pure (eff_lift r)"
  by (simp_all add: eff_pure_def eff_simps)

lemma eff_pure_bind [intro]: "eff_pure m \<Longrightarrow> (\<And>a. eff_pure (f a)) \<Longrightarrow> eff_pure (eff_bind m f)"
  by (auto simp: eff_pure_def eff_bind_def split: prod.splits sum.splits) (metis snd_conv)+

lemma eff_pure_then [intro]: "eff_pure m \<Longrightarrow> eff_pure m' \<Longrightarrow> eff_pure (eff_then m m')"
  by (simp add: eff_then_def eff_pure_bind)

lemma eff_pureD: "eff_pure m \<Longrightarrow> m s = (r, s') \<Longrightarrow> s' = s"
  unfolding eff_pure_def by (metis snd_conv)

text \<open>
  \<open>eff_errors_before P m\<close>: an error that satisfies \<open>P\<close> is raised before the state changes.
\<close>

definition eff_errors_before :: "('e \<Rightarrow> bool) \<Rightarrow> ('s, 'e, 'a) eff \<Rightarrow> bool" where
  "eff_errors_before P m \<longleftrightarrow> (\<forall>s e s'. m s = (Inl e, s') \<longrightarrow> P e \<longrightarrow> s' = s)"

definition eff_no_errors :: "('e \<Rightarrow> bool) \<Rightarrow> ('s, 'e, 'a) eff \<Rightarrow> bool" where
  "eff_no_errors P m \<longleftrightarrow> (\<forall>s e s'. m s = (Inl e, s') \<longrightarrow> \<not> P e)"

lemma eff_errors_before_pure: "eff_pure m \<Longrightarrow> eff_errors_before P m"
  by (auto simp: eff_errors_before_def dest: eff_pureD)

lemma eff_errors_before_none: "eff_no_errors P m \<Longrightarrow> eff_errors_before P m"
  by (auto simp: eff_errors_before_def eff_no_errors_def)

lemma eff_errors_before_bind:
  "eff_pure m \<Longrightarrow> (\<And>a. eff_errors_before P (f a)) \<Longrightarrow> eff_errors_before P (eff_bind m f)"
  by (auto simp: eff_errors_before_def eff_bind_Inl_iff dest: eff_pureD)

lemma eff_no_errors_bind [intro]:
  "eff_no_errors P m \<Longrightarrow> (\<And>a. eff_no_errors P (f a)) \<Longrightarrow> eff_no_errors P (eff_bind m f)"
  unfolding eff_no_errors_def eff_bind_Inl_iff by blast

lemma eff_no_errors_basic [intro, simp]:
  "eff_no_errors P (eff_return a)" "eff_no_errors P (eff_read f)" "eff_no_errors P (eff_modify g)"
  "\<not> P e \<Longrightarrow> eff_no_errors P (eff_throw e)"
  "(\<And>e. r = Inl e \<Longrightarrow> \<not> P e) \<Longrightarrow> eff_no_errors P (eff_lift r)"
  by (auto simp: eff_no_errors_def eff_simps)

lemma eff_bind_pure_iff:
  "eff_pure m \<Longrightarrow> eff_bind m f s = (Inr b, s'') \<longleftrightarrow> (\<exists>a. m s = (Inr a, s) \<and> f a s = (Inr b, s''))"
  by (auto simp: eff_bind_Inr_iff dest: eff_pureD)

text \<open>Effects that relate every state to the one they leave, for a reflexive and transitive relation.\<close>

definition frames :: "('s \<Rightarrow> 's \<Rightarrow> bool) \<Rightarrow> ('s, 'e, 'a) eff \<Rightarrow> bool" where
  "frames same m \<longleftrightarrow> (\<forall>s. same s (snd (m s)))"

locale frame =
  fixes same :: "'s \<Rightarrow> 's \<Rightarrow> bool"
  assumes same_refl: "same s s"
    and same_trans: "same s t \<Longrightarrow> same t u \<Longrightarrow> same s u"
begin

lemma pure: "eff_pure m \<Longrightarrow> frames same m"
  by (simp add: frames_def eff_pure_def same_refl)

lemma bind: "frames same m \<Longrightarrow> (\<And>a. frames same (f a)) \<Longrightarrow> frames same (eff_bind m f)"
  unfolding frames_def eff_bind_def
  by (auto split: prod.splits sum.splits) (metis same_trans snd_conv)+

lemma after: "frames same m \<Longrightarrow> frames same m' \<Longrightarrow> frames same (eff_then m m')"
  by (simp add: eff_then_def bind)

lemma each: "(\<And>x. frames same (f x)) \<Longrightarrow> frames same (eff_each f xs)"
  by (induction xs) (auto intro: after pure)

lemma caught: "frames same m \<Longrightarrow> (\<And>e. frames same (h e)) \<Longrightarrow> frames same (eff_catch m h)"
  unfolding frames_def eff_catch_def
  by (auto split: prod.splits sum.splits) (metis same_trans snd_conv)+

lemma choice: "frames same m \<Longrightarrow> frames same m' \<Longrightarrow> frames same (if b then m else m')"
  by simp

lemma option_case: "frames same m \<Longrightarrow> (\<And>a. frames same (f a)) \<Longrightarrow> frames same (case x of None \<Rightarrow> m | Some a \<Rightarrow> f a)"
  by (cases x) auto

lemma prod_case: "(\<And>a b. frames same (f a b)) \<Longrightarrow> frames same (case x of (a, b) \<Rightarrow> f a b)"
  by (cases x) auto

lemma list_case: "frames same m \<Longrightarrow> (\<And>a l. frames same (f a l)) \<Longrightarrow> frames same (case x of [] \<Rightarrow> m | a # l \<Rightarrow> f a l)"
  by (cases x) auto

lemmas rules = bind after each caught choice option_case prod_case list_case

end

end
