(* ===== verification/Reserve_Data.thy ===== *)
theory Reserve_Data
  imports Ray_Math Protocol_Types Effects
begin

text \<open>
  The data of the expected-state calculator: the interfaces \<open>ReserveData\<close> and
  \<open>UserReserveData\<close> of \<open>test-suites/test-palmy/helpers/utils/interfaces/index.ts\<close> and the
  configuration object of \<open>calculations.ts\<close>. Fields of the user record carry the prefix
  \<open>u_\<close>, since the two interfaces share names. The user interface has an index signature; the two
  further keys that \<open>calculations.ts\<close> assigns (\<open>variableBorrowIndex\<close> and
  \<open>principalVariableDebt\<close>) are fields here. A field that a function does not assign is
  \<open>undefined\<close>: \<open>bn_undefined B\<close> for a number, \<open>None\<close> otherwise.
\<close>

record 'n ReserveData =
  address :: "string option"
  symbol :: "string option"
  decimals :: 'n
  totalLiquidity :: 'n
  availableLiquidity :: 'n
  totalStableDebt :: 'n
  totalVariableDebt :: 'n
  principalStableDebt :: 'n
  scaledVariableDebt :: 'n
  averageStableBorrowRate :: 'n
  variableBorrowRate :: 'n
  stableBorrowRate :: 'n
  utilizationRate :: 'n
  liquidityIndex :: 'n
  variableBorrowIndex :: 'n
  lTokenAddress :: "string option"
  marketStableRate :: 'n
  lastUpdateTimestamp :: 'n
  totalStableDebtLastUpdated :: 'n
  liquidityRate :: 'n

record 'n UserReserveData =
  u_scaledLTokenBalance :: 'n
  u_currentLTokenBalance :: 'n
  u_currentStableDebt :: 'n
  u_currentVariableDebt :: 'n
  u_principalStableDebt :: 'n
  u_scaledVariableDebt :: 'n
  u_liquidityRate :: 'n
  u_stableBorrowRate :: 'n
  u_stableRateLastUpdated :: 'n
  u_usageAsCollateralEnabled :: "bool option"
  u_walletBalance :: 'n
  u_variableBorrowIndex :: 'n
  u_principalVariableDebt :: 'n

definition empty_ReserveData :: "'n bn \<Rightarrow> 'n ReserveData" where
  "empty_ReserveData B =
     \<lparr>address = None, symbol = None, decimals = bn_undefined B, totalLiquidity = bn_undefined B,
      availableLiquidity = bn_undefined B, totalStableDebt = bn_undefined B,
      totalVariableDebt = bn_undefined B, principalStableDebt = bn_undefined B,
      scaledVariableDebt = bn_undefined B, averageStableBorrowRate = bn_undefined B,
      variableBorrowRate = bn_undefined B, stableBorrowRate = bn_undefined B,
      utilizationRate = bn_undefined B, liquidityIndex = bn_undefined B,
      variableBorrowIndex = bn_undefined B, lTokenAddress = None,
      marketStableRate = bn_undefined B, lastUpdateTimestamp = bn_undefined B,
      totalStableDebtLastUpdated = bn_undefined B, liquidityRate = bn_undefined B\<rparr>"

definition empty_UserReserveData :: "'n bn \<Rightarrow> 'n UserReserveData" where
  "empty_UserReserveData B =
     \<lparr>u_scaledLTokenBalance = bn_undefined B, u_currentLTokenBalance = bn_undefined B,
      u_currentStableDebt = bn_undefined B, u_currentVariableDebt = bn_undefined B,
      u_principalStableDebt = bn_undefined B, u_scaledVariableDebt = bn_undefined B,
      u_liquidityRate = bn_undefined B, u_stableBorrowRate = bn_undefined B,
      u_stableRateLastUpdated = bn_undefined B, u_usageAsCollateralEnabled = None,
      u_walletBalance = bn_undefined B, u_variableBorrowIndex = bn_undefined B,
      u_principalVariableDebt = bn_undefined B\<rparr>"

text \<open>
  The configuration object starts out empty; the scenario tests assign its \<open>reservesParams\<close>, an
  object from symbols to parameters.
\<close>

record Configuration =
  reservesParams :: "IReserveParams SymbolMap option"

definition configuration :: Configuration where
  "configuration = \<lparr>reservesParams = None\<rparr>"

text \<open>Assigning a field by \<open>a.f = v\<close> leaves the other fields as they are; the empty records.\<close>

lemma empty_ReserveData_simps [simp]:
  "symbol (empty_ReserveData B) = None" "address (empty_ReserveData B) = None"
  by (simp_all add: empty_ReserveData_def)

end
