(* ===== verification/Market_Config.thy ===== *)
theory Market_Config
  imports Ray_Math Protocol_Types
begin

text \<open>
  The market configuration: \<open>markets/electrolend/rateStrategies.ts\<close>, \<open>reservesConfigs.ts\<close>,
  \<open>commons.ts\<close> and \<open>index.ts\<close>, and the price tables of \<open>helpers/constants.ts\<close>. An object
  indexed by the network name is an association list; a key whose value is \<open>undefined\<close> is kept
  with the value \<open>None\<close>. Numbers printed by the big-number package are terms over its operations.
\<close>

section \<open>Rate strategies and reserves\<close>

definition rateStrategyStable :: "'n bn \<Rightarrow> IInterestRateStrategyParams" where
  "rateStrategyStable B =
     \<lparr>name = ''rateStrategyStable'',
      optimalUtilizationRate = bn_toFixed B (bn_times B (bn_new B ''0.9'') (oneRay B)),
      baseVariableBorrowRate = bn_toFixed B (bn_times B (bn_new B ''0'') (oneRay B)),
      variableRateSlope1 = bn_toFixed B (bn_times B (bn_new B ''0.04'') (oneRay B)),
      variableRateSlope2 = bn_toFixed B (bn_times B (bn_new B ''0.6'') (oneRay B)),
      stableRateSlope1 = bn_toFixed B (bn_times B (bn_new B ''0.02'') (oneRay B)),
      stableRateSlope2 = bn_toFixed B (bn_times B (bn_new B ''0.6'') (oneRay B))\<rparr>"

definition rateStrategyWETN :: "'n bn \<Rightarrow> IInterestRateStrategyParams" where
  "rateStrategyWETN B =
     \<lparr>name = ''rateStrategyWETN'',
      optimalUtilizationRate = bn_toFixed B (bn_times B (bn_new B ''0.65'') (oneRay B)),
      baseVariableBorrowRate = bn_toFixed B (bn_times B (bn_new B ''0'') (oneRay B)),
      variableRateSlope1 = bn_toFixed B (bn_times B (bn_new B ''0.08'') (oneRay B)),
      variableRateSlope2 = bn_toFixed B (bn_times B (bn_new B ''1'') (oneRay B)),
      stableRateSlope1 = bn_toFixed B (bn_times B (bn_new B ''0.1'') (oneRay B)),
      stableRateSlope2 = bn_toFixed B (bn_times B (bn_new B ''1'') (oneRay B))\<rparr>"

definition strategyTUSDC :: "'n bn \<Rightarrow> IReserveParams" where
  "strategyTUSDC B =
     \<lparr>borrowingEnabled = True, stableBorrowRateEnabled = False, reserveDecimals = ''6'',
      baseLTVAsCollateral = ''8000'', liquidationThreshold = ''8500'', liquidationBonus = ''10500'',
      elTokenImpl = ''ELToken'', reserveFactor = ''1000'', strategy = rateStrategyStable B\<rparr>"

definition strategyTUSDT :: "'n bn \<Rightarrow> IReserveParams" where
  "strategyTUSDT B =
     \<lparr>borrowingEnabled = True, stableBorrowRateEnabled = False, reserveDecimals = ''18'',
      baseLTVAsCollateral = ''8000'', liquidationThreshold = ''8500'', liquidationBonus = ''10500'',
      elTokenImpl = ''ELToken'', reserveFactor = ''1000'', strategy = rateStrategyStable B\<rparr>"

definition strategyWETN :: "'n bn \<Rightarrow> IReserveParams" where
  "strategyWETN B =
     \<lparr>borrowingEnabled = True, stableBorrowRateEnabled = False, reserveDecimals = ''18'',
      baseLTVAsCollateral = ''8000'', liquidationThreshold = ''8500'', liquidationBonus = ''10500'',
      elTokenImpl = ''ELToken'', reserveFactor = ''1000'', strategy = rateStrategyWETN B\<rparr>"

section \<open>Addresses and prices\<close>

definition ZERO_ADDRESS :: string where
  "ZERO_ADDRESS = ''0x0000000000000000000000000000000000000000''"

definition ONE_ADDRESS :: string where
  "ONE_ADDRESS = ''0x0000000000000000000000000000000000000001''"

definition INITIAL_PRICES :: "'n bn \<Rightarrow> string SymbolMap" where
  "INITIAL_PRICES B =
     [(''USD'', bn_toFixed B (oneUsd B)), (''WETN'', bn_toFixed B (oneUsd B)),
      (''TUSDC'', bn_toFixed B (oneUsd B)), (''TUSDT'', bn_toFixed B (oneUsd B))]"

definition MOCK_PRICE_AGGREGATORS_PRICES :: "'n bn \<Rightarrow> string SymbolMap" where
  "MOCK_PRICE_AGGREGATORS_PRICES B =
     [(''WETN'', bn_toFixed B (oneUsd B)), (''TUSDC'', bn_toFixed B (oneUsd B)),
      (''TUSDT'', bn_toFixed B (oneUsd B)), (''USD'', bn_toFixed B (oneUsd B))]"

definition ALL_ASSETS_PRICES_FOR_TESTING :: "'n bn \<Rightarrow> string SymbolMap" where
  "ALL_ASSETS_PRICES_FOR_TESTING B = MOCK_PRICE_AGGREGATORS_PRICES B"

section \<open>The common configuration\<close>

definition Commons_PoolAdmin :: "string option SymbolMap" where
  "Commons_PoolAdmin =
    [(eEthereumNetwork_name buidlerevm, None),
     (eEthereumNetwork_name coverage, None),
     (eEthereumNetwork_name hardhat, None),
     (eEthereumNetwork_name tenderly, None),
     (eElectroneumNetwork_name testnet, Some ''0x917999645773E99d03d44817B7318861F018Cb74''),
     (eElectroneumNetwork_name mainnet, Some ''0x917999645773E99d03d44817B7318861F018Cb74'')]"

definition Commons_EmergencyAdmin :: "string option SymbolMap" where
  "Commons_EmergencyAdmin =
    [(eEthereumNetwork_name buidlerevm, None),
     (eEthereumNetwork_name coverage, None),
     (eEthereumNetwork_name hardhat, None),
     (eEthereumNetwork_name tenderly, None),
     (eElectroneumNetwork_name testnet, Some ''0x917999645773E99d03d44817B7318861F018Cb74''),
     (eElectroneumNetwork_name mainnet, Some ''0x917999645773E99d03d44817B7318861F018Cb74'')]"

definition Commons_ProviderRegistryOwner :: "string SymbolMap" where
  "Commons_ProviderRegistryOwner =
    [(eEthereumNetwork_name buidlerevm, ''''),
     (eEthereumNetwork_name coverage, ''''),
     (eEthereumNetwork_name hardhat, ''''),
     (eEthereumNetwork_name tenderly, ''0xB9062896ec3A615a4e4444DF183F0531a77218AE''),
     (eElectroneumNetwork_name testnet, ''0x917999645773E99d03d44817B7318861F018Cb74''),
     (eElectroneumNetwork_name mainnet, ''0x917999645773E99d03d44817B7318861F018Cb74'')]"

definition Commons_ProviderRegistry :: "string SymbolMap" where
  "Commons_ProviderRegistry =
    [(eEthereumNetwork_name buidlerevm, ''''),
     (eEthereumNetwork_name coverage, ''''),
     (eEthereumNetwork_name hardhat, ''''),
     (eEthereumNetwork_name tenderly, ''''),
     (eElectroneumNetwork_name testnet, ''''),
     (eElectroneumNetwork_name mainnet, '''')]"

definition Commons_DIAAggregator :: "string SymbolMap SymbolMap" where
  "Commons_DIAAggregator =
    [(eEthereumNetwork_name buidlerevm, []),
     (eEthereumNetwork_name coverage, []),
     (eEthereumNetwork_name hardhat, []),
     (eEthereumNetwork_name tenderly, []),
     (eElectroneumNetwork_name testnet, [(''WETN'', ''0x154c9fD7F006b92b6afa746098d8081A831DC1FC''), (''TUSDC'', ''0x9a110A3Ecc8704e93Bd4FA1bA44D5CF93327202B''), (''TUSDT'', ''0x02FeC8c559fB598762df8D033bD7A3Df9b374771'')]),
     (eElectroneumNetwork_name mainnet, [])]"

definition Commons_ReserveAssets :: "string SymbolMap SymbolMap" where
  "Commons_ReserveAssets =
    [(eEthereumNetwork_name buidlerevm, []),
     (eEthereumNetwork_name coverage, []),
     (eEthereumNetwork_name hardhat, []),
     (eEthereumNetwork_name tenderly, []),
     (eElectroneumNetwork_name testnet, [(''WETN'', ''0x154c9fD7F006b92b6afa746098d8081A831DC1FC''), (''TUSDC'', ''0x9a110A3Ecc8704e93Bd4FA1bA44D5CF93327202B''), (''TUSDT'', ''0x02FeC8c559fB598762df8D033bD7A3Df9b374771'')]),
     (eElectroneumNetwork_name mainnet, [])]"

definition Commons_ELTokenDomainSeparator :: "string SymbolMap" where
  "Commons_ELTokenDomainSeparator =
    [(eEthereumNetwork_name buidlerevm, ''0xbae024d959c6a022dc5ed37294cd39c141034b2ae5f02a955cce75c930a81bf5''),
     (eEthereumNetwork_name coverage, ''0x95b73a72c6ecf4ccbbba5178800023260bad8e75cdccdb8e4827a2977a37c820''),
     (eEthereumNetwork_name hardhat, ''0xbae024d959c6a022dc5ed37294cd39c141034b2ae5f02a955cce75c930a81bf5''),
     (eEthereumNetwork_name tenderly, ''''),
     (eElectroneumNetwork_name testnet, ''''),
     (eElectroneumNetwork_name mainnet, '''')]"

definition Commons_WETH :: "string SymbolMap" where
  "Commons_WETH =
    [(eEthereumNetwork_name buidlerevm, ''''),
     (eEthereumNetwork_name coverage, ''''),
     (eEthereumNetwork_name hardhat, ''''),
     (eEthereumNetwork_name tenderly, ''0xc02aaa39b223fe8d0a0e5c4f27ead9083c756cc2''),
     (eElectroneumNetwork_name testnet, ''''),
     (eElectroneumNetwork_name mainnet, '''')]"

definition Commons_WrappedNativeToken :: "string SymbolMap" where
  "Commons_WrappedNativeToken =
    [(eEthereumNetwork_name buidlerevm, ''''),
     (eEthereumNetwork_name coverage, ''''),
     (eEthereumNetwork_name hardhat, ''''),
     (eEthereumNetwork_name tenderly, ''0xc02aaa39b223fe8d0a0e5c4f27ead9083c756cc2''),
     (eElectroneumNetwork_name testnet, ''0x154c9fD7F006b92b6afa746098d8081A831DC1FC''),
     (eElectroneumNetwork_name mainnet, '''')]"

definition Commons_ReserveFactorTreasuryAddress :: "string SymbolMap" where
  "Commons_ReserveFactorTreasuryAddress =
    [(eEthereumNetwork_name buidlerevm, ''0x464c71f6c2f760dda6093dcb91c24c39e5d6e18c''),
     (eEthereumNetwork_name coverage, ''0x464c71f6c2f760dda6093dcb91c24c39e5d6e18c''),
     (eEthereumNetwork_name hardhat, ''0x464c71f6c2f760dda6093dcb91c24c39e5d6e18c''),
     (eEthereumNetwork_name tenderly, ''0x464c71f6c2f760dda6093dcb91c24c39e5d6e18c''),
     (eElectroneumNetwork_name testnet, ''0x917999645773E99d03d44817B7318861F018Cb74''),
     (eElectroneumNetwork_name mainnet, '''')]"

definition Commons_IncentivesController :: "string SymbolMap" where
  "Commons_IncentivesController =
    [(eEthereumNetwork_name buidlerevm, ZERO_ADDRESS),
     (eEthereumNetwork_name coverage, ZERO_ADDRESS),
     (eEthereumNetwork_name hardhat, ZERO_ADDRESS),
     (eEthereumNetwork_name tenderly, ZERO_ADDRESS),
     (eElectroneumNetwork_name testnet, ZERO_ADDRESS),
     (eElectroneumNetwork_name mainnet, ZERO_ADDRESS)]"

definition Commons_StakedOas :: "string SymbolMap" where
  "Commons_StakedOas =
    [(eEthereumNetwork_name buidlerevm, ZERO_ADDRESS),
     (eEthereumNetwork_name coverage, ZERO_ADDRESS),
     (eEthereumNetwork_name hardhat, ZERO_ADDRESS),
     (eEthereumNetwork_name tenderly, ZERO_ADDRESS),
     (eElectroneumNetwork_name testnet, ZERO_ADDRESS),
     (eElectroneumNetwork_name mainnet, ZERO_ADDRESS)]"

definition Commons_OracleSenderAddress :: "string SymbolMap" where
  "Commons_OracleSenderAddress =
    [(eEthereumNetwork_name buidlerevm, ZERO_ADDRESS),
     (eEthereumNetwork_name coverage, ZERO_ADDRESS),
     (eEthereumNetwork_name hardhat, ZERO_ADDRESS),
     (eEthereumNetwork_name tenderly, ZERO_ADDRESS),
     (eElectroneumNetwork_name testnet, ZERO_ADDRESS),
     (eElectroneumNetwork_name mainnet, ZERO_ADDRESS)]"

definition Commons_OraclePriceKey :: "string SymbolMap SymbolMap" where
  "Commons_OraclePriceKey =
    [(eEthereumNetwork_name buidlerevm, []),
     (eEthereumNetwork_name coverage, []),
     (eEthereumNetwork_name hardhat, []),
     (eEthereumNetwork_name tenderly, []),
     (eElectroneumNetwork_name testnet, []),
     (eElectroneumNetwork_name mainnet, [])]"

definition Commons_LendingPoolConfigurator :: "string SymbolMap" where
  "Commons_LendingPoolConfigurator =
    [(eEthereumNetwork_name buidlerevm, ZERO_ADDRESS),
     (eEthereumNetwork_name coverage, ZERO_ADDRESS),
     (eEthereumNetwork_name hardhat, ZERO_ADDRESS),
     (eEthereumNetwork_name tenderly, ZERO_ADDRESS),
     (eElectroneumNetwork_name testnet, ZERO_ADDRESS),
     (eElectroneumNetwork_name mainnet, ZERO_ADDRESS)]"

definition Commons_SimplePriceFeed :: "string SymbolMap" where
  "Commons_SimplePriceFeed =
    [(eEthereumNetwork_name buidlerevm, ZERO_ADDRESS),
     (eEthereumNetwork_name coverage, ZERO_ADDRESS),
     (eEthereumNetwork_name hardhat, ZERO_ADDRESS),
     (eEthereumNetwork_name tenderly, ZERO_ADDRESS),
     (eElectroneumNetwork_name testnet, ''0xFba006047BCeCc6E7402D8ae7a3ddCB8DB1CFf53''),
     (eElectroneumNetwork_name mainnet, ZERO_ADDRESS)]"

record IProtocolGlobalConfig =
  MockUsdPriceInWei :: string
  UsdAddress :: string
  NilAddress :: string
  OneAddress :: string
  ElectroReferral :: string

record PoolConfiguration =
  MarketId :: string
  ELTokenNamePrefix :: string
  StableDebtTokenNamePrefix :: string
  VariableDebtTokenNamePrefix :: string
  SymbolPrefix :: string
  ProviderId :: nat
  OracleQuoteCurrency :: string
  OracleQuoteUnit :: string
  ProtocolGlobalParams :: IProtocolGlobalConfig
  Mocks_AllAssetsInitialPrices :: "string SymbolMap"
  LendingRateOracleRatesCommon :: "string SymbolMap"
  PoolAdminIndex :: nat
  EmergencyAdminIndex :: nat
  ReservesConfig :: "IReserveParams SymbolMap"
  PoolAdmin :: "string option SymbolMap"
  EmergencyAdmin :: "string option SymbolMap"
  ProviderRegistryOwner :: "string SymbolMap"
  ProviderRegistry :: "string SymbolMap"
  DIAAggregator :: "string SymbolMap SymbolMap"
  ReserveAssets :: "string SymbolMap SymbolMap"
  ELTokenDomainSeparator :: "string SymbolMap"
  WETH :: "string SymbolMap"
  WrappedNativeToken :: "string SymbolMap"
  ReserveFactorTreasuryAddress :: "string SymbolMap"
  IncentivesController :: "string SymbolMap"
  StakedOas :: "string SymbolMap"
  OracleSenderAddress :: "string SymbolMap"
  OraclePriceKey :: "string SymbolMap SymbolMap"
  LendingPoolConfigurator :: "string SymbolMap"
  SimplePriceFeed :: "string SymbolMap"

definition CommonsConfig :: "'n bn \<Rightarrow> PoolConfiguration" where
  "CommonsConfig B =
     \<lparr>MarketId = ''Commons'', ELTokenNamePrefix = ''ElectroLend interest bearing'',
      StableDebtTokenNamePrefix = ''ElectroLend stable debt bearing'',
      VariableDebtTokenNamePrefix = ''ElectroLend variable debt bearing'', SymbolPrefix = '''',
      ProviderId = 0, OracleQuoteCurrency = ''USD'', OracleQuoteUnit = bn_toFixed B (oneUsd B),
      ProtocolGlobalParams =
        \<lparr>MockUsdPriceInWei = ''5848466240000000'',
         UsdAddress = ''0x10F7Fc1F91Ba351f9C629c5947AD69bD03C05b96'',
         NilAddress = ''0x0000000000000000000000000000000000000000'',
         OneAddress = ''0x0000000000000000000000000000000000000001'', ElectroReferral = ''0''\<rparr>,
      Mocks_AllAssetsInitialPrices = MOCK_PRICE_AGGREGATORS_PRICES B,
      LendingRateOracleRatesCommon =
        [(''WETN'', bn_toFixed B (bn_times B (oneRay B) (bn_new B ''0.03''))),
         (''TUSDC'', bn_toFixed B (bn_times B (oneRay B) (bn_new B ''0.039''))),
         (''TUSDT'', bn_toFixed B (bn_times B (oneRay B) (bn_new B ''0.039'')))],
      PoolAdminIndex = 0, EmergencyAdminIndex = 1, ReservesConfig = [],
      PoolAdmin = Commons_PoolAdmin,
      EmergencyAdmin = Commons_EmergencyAdmin,
      ProviderRegistryOwner = Commons_ProviderRegistryOwner,
      ProviderRegistry = Commons_ProviderRegistry,
      DIAAggregator = Commons_DIAAggregator,
      ReserveAssets = Commons_ReserveAssets,
      ELTokenDomainSeparator = Commons_ELTokenDomainSeparator,
      WETH = Commons_WETH,
      WrappedNativeToken = Commons_WrappedNativeToken,
      ReserveFactorTreasuryAddress = Commons_ReserveFactorTreasuryAddress,
      IncentivesController = Commons_IncentivesController,
      StakedOas = Commons_StakedOas,
      OracleSenderAddress = Commons_OracleSenderAddress,
      OraclePriceKey = Commons_OraclePriceKey,
      LendingPoolConfigurator = Commons_LendingPoolConfigurator,
      SimplePriceFeed = Commons_SimplePriceFeed\<rparr>"

section \<open>The pool\<close>

definition ElectroConfig :: "'n bn \<Rightarrow> PoolConfiguration" where
  "ElectroConfig B =
     (CommonsConfig B)
       \<lparr>MarketId := ''ElectroLend genesis market'', ProviderId := 1,
        ReservesConfig :=
          [(''WETN'', strategyWETN B), (''TUSDC'', strategyTUSDC B), (''TUSDT'', strategyTUSDT B)],
        ReserveAssets :=
          [(eEthereumNetwork_name buidlerevm, []), (eEthereumNetwork_name hardhat, []),
           (eEthereumNetwork_name coverage, []), (eEthereumNetwork_name tenderly, []),
           (eElectroneumNetwork_name testnet,
            [(''WETN'', ''0x154c9fD7F006b92b6afa746098d8081A831DC1FC''),
             (''TUSDC'', ''0x9a110A3Ecc8704e93Bd4FA1bA44D5CF93327202B''),
             (''TUSDT'', ''0x02FeC8c559fB598762df8D033bD7A3Df9b374771'')]),
           (eElectroneumNetwork_name mainnet, [])]\<rparr>"

section \<open>The configured parameters\<close>

lemma parse_market:
  "parse_decimal ''0.9'' = Some (9, 1)" "parse_decimal ''0.04'' = Some (4, 2)"
  "parse_decimal ''0.6'' = Some (6, 1)" "parse_decimal ''0.02'' = Some (2, 2)"
  "parse_decimal ''0.65'' = Some (65, 2)" "parse_decimal ''0.08'' = Some (8, 2)"
  "parse_decimal ''0.1'' = Some (1, 1)" "parse_decimal ''8000'' = Some (8000, 0)"
  "parse_decimal ''8500'' = Some (8500, 0)" "parse_decimal ''10500'' = Some (10500, 0)"
  "parse_decimal ''1000'' = Some (1000, 0)" "parse_decimal ''0.03'' = Some (3, 2)"
  "parse_decimal ''0.039'' = Some (39, 3)"
  by (simp_all add: parse_eval)

text \<open>
  The conditions \<open>LendingPoolConfigurator.configureReserveAsCollateral\<close> imposes on the risk
  parameters, and those the rate-strategy contract imposes on the utilization.
\<close>

definition reserve_params_valid :: "('n \<Rightarrow> bool) \<Rightarrow> ('n \<Rightarrow> rat) \<Rightarrow> 'n bn \<Rightarrow> IReserveParams \<Rightarrow> bool" where
  "reserve_params_valid fin val B p \<longleftrightarrow>
     (let n = (\<lambda>s. val (bn_new B s));
          ltv = n (baseLTVAsCollateral p); threshold = n (liquidationThreshold p);
          bonus = n (liquidationBonus p); opt = n (optimalUtilizationRate (strategy p))
      in list_all (\<lambda>s. fin (bn_new B s))
           [baseLTVAsCollateral p, liquidationThreshold p, liquidationBonus p, reserveFactor p,
            optimalUtilizationRate (strategy p), baseVariableBorrowRate (strategy p),
            variableRateSlope1 (strategy p), variableRateSlope2 (strategy p),
            stableRateSlope1 (strategy p), stableRateSlope2 (strategy p)]
         \<and> 0 \<le> ltv \<and> ltv \<le> threshold \<and> 10000 < bonus \<and> threshold * bonus \<le> 10000 * 10000
         \<and> 0 < opt \<and> opt < 10 ^ 27 \<and> 0 \<le> n (reserveFactor p) \<and> n (reserveFactor p) \<le> 10000
         \<and> n (variableRateSlope1 (strategy p)) \<le> n (variableRateSlope2 (strategy p))
         \<and> n (stableRateSlope1 (strategy p)) \<le> n (stableRateSlope2 (strategy p)))"

context bignumber
begin

lemma market_val [simp]:
  "fin (bn_new B ''0.9'')" "val (bn_new B ''0.9'') = 9 / 10"
  "fin (bn_new B ''0.04'')" "val (bn_new B ''0.04'') = 4 / 100"
  "fin (bn_new B ''0.6'')" "val (bn_new B ''0.6'') = 6 / 10"
  "fin (bn_new B ''0.02'')" "val (bn_new B ''0.02'') = 2 / 100"
  "fin (bn_new B ''0.65'')" "val (bn_new B ''0.65'') = 65 / 100"
  "fin (bn_new B ''0.08'')" "val (bn_new B ''0.08'') = 8 / 100"
  "fin (bn_new B ''0.1'')" "val (bn_new B ''0.1'') = 1 / 10"
  "fin (bn_new B ''8000'')" "val (bn_new B ''8000'') = 8000"
  "fin (bn_new B ''8500'')" "val (bn_new B ''8500'') = 8500"
  "fin (bn_new B ''10500'')" "val (bn_new B ''10500'') = 10500"
  "fin (bn_new B ''1000'')" "val (bn_new B ''1000'') = 1000"
  using parse_market[THEN new_fin] parse_market[THEN new_val] by auto

lemmas market_defs =
  rateStrategyStable_def rateStrategyWETN_def strategyTUSDC_def strategyTUSDT_def strategyWETN_def

lemma reserves_valid:
  "reserve_params_valid fin val B (strategyWETN B)"
  "reserve_params_valid fin val B (strategyTUSDC B)"
  "reserve_params_valid fin val B (strategyTUSDT B)"
  by (simp_all add: reserve_params_valid_def market_defs Let_def)

end

text \<open>
  Every reserve of the market has valid parameters: the loan-to-value does not exceed the
  liquidation threshold, a liquidation with the bonus is covered by the collateral, the optimal
  utilization lies strictly between zero and one, the second slopes are at least the first. The
  reserves, the market rates of the oracle and the assets listed for the test network have the same
  distinct symbols; no asset is listed for the main network.
\<close>

theorem market_configuration_valid:
  assumes "bignumber B cfg fin val"
  shows "list_all (\<lambda>(s, p). reserve_params_valid fin val B p) (ReservesConfig (ElectroConfig B))
       \<and> map fst (ReservesConfig (ElectroConfig B)) = map fst (LendingRateOracleRatesCommon (ElectroConfig B))
       \<and> distinct (map fst (ReservesConfig (ElectroConfig B)))
       \<and> map_option (map fst) (map_of (ReserveAssets (ElectroConfig B)) ''testnet'')
           = Some (map fst (ReservesConfig (ElectroConfig B)))
       \<and> map_of (ReserveAssets (ElectroConfig B)) ''mainnet'' = Some []"
  using bignumber.reserves_valid[OF assms] by (simp add: ElectroConfig_def CommonsConfig_def)

theorem market_configuration_valid_witness:
  "reserve_params_valid dec_fin dec_val (decimal default_config) (strategyWETN (decimal default_config))"
  using market_configuration_valid[OF decimal_bignumber[of default_config]]
  by (simp add: ElectroConfig_def)

end
