(* ===== verification/Interest.thy ===== *)
theory Interest
  imports Reserve_Data Market_Config
begin

text \<open>
  The interest calculations of \<open>test-suites/test-palmy/helpers/utils/calculations.ts\<close>: linear
  and compounded interest, normalized income and debt, indices, balances, utilization and the
  interest-rate strategy, next to the contracts' \<open>DefaultReserveInterestRateStrategy\<close>. The number
  literals \<open>0\<close>, \<open>1\<close>, \<open>2\<close> and \<open>6\<close> of the source are converted by the big-number operations that
  receive them, so they appear as \<open>bn_new B ''0''\<close> and so on.
\<close>

section \<open>Interest and balances\<close>

definition strToBN :: "'n bn \<Rightarrow> string \<Rightarrow> 'n" where
  "strToBN B amount = bn_new B amount"

definition calcLinearInterest :: "'n bn \<Rightarrow> 'n \<Rightarrow> 'n \<Rightarrow> 'n \<Rightarrow> 'n" where
  "calcLinearInterest B rate currentTimestamp lastUpdate =
     (let timeDifference = bn_minus B currentTimestamp lastUpdate
      in bn_plus B
           (bn_div B (bn_times B rate timeDifference) (bn_new B ONE_YEAR))
           (bn_new B (RAY B)))"

definition calcCompoundedInterest :: "'n bn \<Rightarrow> 'n \<Rightarrow> 'n \<Rightarrow> 'n \<Rightarrow> 'n" where
  "calcCompoundedInterest B rate currentTimestamp lastUpdate =
     (let timeDifference = bn_minus B currentTimestamp lastUpdate
      in if bn_eq B timeDifference (bn_new B ''0'') then bn_new B (RAY B)
         else
           let expMinusOne = bn_minus B timeDifference (bn_new B ''1'');
               expMinusTwo = (if bn_gt B timeDifference (bn_new B ''2'')
                              then bn_minus B timeDifference (bn_new B ''2'') else bn_new B ''0'');
               ratePerSecond = bn_div B rate (bn_new B ONE_YEAR);
               basePowerTwo = rayMul B ratePerSecond ratePerSecond;
               basePowerThree = rayMul B basePowerTwo ratePerSecond;
               secondTerm = bn_div B
                 (bn_times B (bn_times B timeDifference expMinusOne) basePowerTwo) (bn_new B ''2'');
               thirdTerm = bn_div B
                 (bn_times B (bn_times B (bn_times B timeDifference expMinusOne) expMinusTwo)
                    basePowerThree) (bn_new B ''6'')
           in bn_plus B (bn_plus B (bn_plus B (bn_new B (RAY B))
                (bn_times B ratePerSecond timeDifference)) secondTerm) thirdTerm)"

definition calcExpectedReserveNormalizedIncome :: "'n bn \<Rightarrow> 'n ReserveData \<Rightarrow> 'n \<Rightarrow> 'n" where
  "calcExpectedReserveNormalizedIncome B reserveData currentTimestamp =
     (if bn_eq B (liquidityRate reserveData) (bn_new B ''0'') then liquidityIndex reserveData
      else
        let cumulatedInterest =
              calcLinearInterest B (liquidityRate reserveData) currentTimestamp
                (lastUpdateTimestamp reserveData)
        in rayMul B cumulatedInterest (liquidityIndex reserveData))"

definition calcExpectedReserveNormalizedDebt :: "'n bn \<Rightarrow> 'n \<Rightarrow> 'n \<Rightarrow> 'n \<Rightarrow> 'n \<Rightarrow> 'n" where
  "calcExpectedReserveNormalizedDebt B rate index lastUpdate currentTimestamp =
     (if bn_eq B rate (bn_new B ''0'') then index
      else
        let cumulatedInterest = calcCompoundedInterest B rate currentTimestamp lastUpdate
        in rayMul B cumulatedInterest index)"

definition calcExpectedLiquidityIndex :: "'n bn \<Rightarrow> 'n ReserveData \<Rightarrow> 'n \<Rightarrow> 'n" where
  "calcExpectedLiquidityIndex B reserveData timestamp =
     (if bn_eq B (utilizationRate reserveData) (bn_new B ''0'') then liquidityIndex reserveData
      else
        let cumulatedInterest =
              calcLinearInterest B (liquidityRate reserveData) timestamp
                (lastUpdateTimestamp reserveData)
        in rayMul B cumulatedInterest (liquidityIndex reserveData))"

definition calcExpectedVariableBorrowIndex :: "'n bn \<Rightarrow> 'n ReserveData \<Rightarrow> 'n \<Rightarrow> 'n" where
  "calcExpectedVariableBorrowIndex B reserveData timestamp =
     (if bn_eq B (totalVariableDebt reserveData) (bn_new B ''0'')
      then variableBorrowIndex reserveData
      else
        let cumulatedInterest =
              calcCompoundedInterest B (variableBorrowRate reserveData) timestamp
                (lastUpdateTimestamp reserveData)
        in rayMul B cumulatedInterest (variableBorrowIndex reserveData))"

definition calcExpectedTotalStableDebt :: "'n bn \<Rightarrow> 'n \<Rightarrow> 'n \<Rightarrow> 'n \<Rightarrow> 'n \<Rightarrow> 'n" where
  "calcExpectedTotalStableDebt B principalDebt averageRate lastUpdate currentTimestamp =
     (let cumulatedInterest = calcCompoundedInterest B averageRate currentTimestamp lastUpdate
      in rayMul B cumulatedInterest principalDebt)"

definition calcExpectedTotalVariableDebt :: "'n bn \<Rightarrow> 'n ReserveData \<Rightarrow> 'n \<Rightarrow> 'n" where
  "calcExpectedTotalVariableDebt B reserveData expectedVariableDebtIndex =
     rayMul B (scaledVariableDebt reserveData) expectedVariableDebtIndex"

definition calcExpectedLTokenBalance ::
  "'n bn \<Rightarrow> 'n ReserveData \<Rightarrow> 'n UserReserveData \<Rightarrow> 'n \<Rightarrow> 'n" where
  "calcExpectedLTokenBalance B reserveData userData currentTimestamp =
     (let index = calcExpectedReserveNormalizedIncome B reserveData currentTimestamp
      in rayMul B (u_scaledLTokenBalance userData) index)"

definition calcExpectedScaledLTokenBalance ::
  "'n bn \<Rightarrow> 'n UserReserveData \<Rightarrow> 'n \<Rightarrow> 'n \<Rightarrow> 'n \<Rightarrow> 'n" where
  "calcExpectedScaledLTokenBalance B userDataBeforeAction index amountAdded amountTaken =
     bn_minus B
       (bn_plus B (u_scaledLTokenBalance userDataBeforeAction) (rayDiv B amountAdded index))
       (rayDiv B amountTaken index)"

definition calcExpectedVariableDebtTokenBalance ::
  "'n bn \<Rightarrow> 'n ReserveData \<Rightarrow> 'n UserReserveData \<Rightarrow> 'n \<Rightarrow> 'n" where
  "calcExpectedVariableDebtTokenBalance B reserveData userData currentTimestamp =
     (let normalizedDebt =
            calcExpectedReserveNormalizedDebt B (variableBorrowRate reserveData)
              (variableBorrowIndex reserveData) (lastUpdateTimestamp reserveData) currentTimestamp
      in rayMul B (u_scaledVariableDebt userData) normalizedDebt)"

definition calcExpectedStableDebtTokenBalance :: "'n bn \<Rightarrow> 'n \<Rightarrow> 'n \<Rightarrow> 'n \<Rightarrow> 'n \<Rightarrow> 'n" where
  "calcExpectedStableDebtTokenBalance B principalDebt rate lastUpdated currentTimestamp =
     (if bn_eq B rate (bn_new B ''0'') \<or> bn_eq B currentTimestamp lastUpdated
         \<or> bn_eq B lastUpdated (bn_new B ''0'')
      then principalDebt
      else
        let cumulatedInterest = calcCompoundedInterest B rate currentTimestamp lastUpdated
        in rayMul B principalDebt cumulatedInterest)"

section \<open>Average and user stable rates\<close>

text \<open>
  The amount of \<open>calcExpectedAverageStableBorrowRate\<close> is a number or a string, and the number
  operations convert a string; callers of the model pass the number.
\<close>

definition calcExpectedAverageStableBorrowRate :: "'n bn \<Rightarrow> 'n \<Rightarrow> 'n \<Rightarrow> 'n \<Rightarrow> 'n \<Rightarrow> 'n" where
  "calcExpectedAverageStableBorrowRate B avgRateBefore totalBefore amountChanged rate =
     (let weightedTotalBorrows = bn_times B avgRateBefore totalBefore;
          weightedAmountBorrowed = bn_times B rate amountChanged;
          totalBorrowedStable = bn_plus B totalBefore amountChanged
      in if bn_eq B totalBorrowedStable (bn_new B ''0'') then bn_new B ''0''
         else bn_decimalPlaces B
                (bn_div B (bn_plus B weightedTotalBorrows weightedAmountBorrowed)
                   totalBorrowedStable) 0 ROUND_DOWN)"

definition calcExpectedAverageStableBorrowRateRebalance :: "'n bn \<Rightarrow> 'n \<Rightarrow> 'n \<Rightarrow> 'n \<Rightarrow> 'n \<Rightarrow> 'n" where
  "calcExpectedAverageStableBorrowRateRebalance B avgRateBefore totalBefore amountChanged rate =
     (let weightedTotalBorrows = rayMul B avgRateBefore totalBefore;
          weightedAmountBorrowed = rayMul B rate (wadToRay B amountChanged);
          totalBorrowedStable = bn_plus B totalBefore (wadToRay B amountChanged)
      in if bn_eq B totalBorrowedStable (bn_new B ''0'') then bn_new B ''0''
         else bn_decimalPlaces B
                (rayDiv B (bn_plus B weightedTotalBorrows weightedAmountBorrowed)
                   totalBorrowedStable) 0 ROUND_DOWN)"

definition calcExpectedUserStableRate :: "'n bn \<Rightarrow> 'n \<Rightarrow> 'n \<Rightarrow> 'n \<Rightarrow> 'n \<Rightarrow> 'n" where
  "calcExpectedUserStableRate B balanceBefore rateBefore amount rateNew =
     bn_div B (bn_plus B (bn_times B balanceBefore rateBefore) (bn_times B amount rateNew))
       (bn_plus B balanceBefore amount)"

section \<open>Utilization and the interest-rate strategy\<close>

definition calcExpectedUtilizationRate :: "'n bn \<Rightarrow> 'n \<Rightarrow> 'n \<Rightarrow> 'n \<Rightarrow> 'n" where
  "calcExpectedUtilizationRate B stableDebt variableDebt liquidity =
     (if bn_eq B stableDebt (bn_new B ''0'') \<and> bn_eq B variableDebt (bn_new B ''0'')
      then strToBN B ''0''
      else rayDiv B (bn_plus B stableDebt variableDebt) liquidity)"

definition calcExpectedOverallBorrowRate :: "'n bn \<Rightarrow> 'n \<Rightarrow> 'n \<Rightarrow> 'n \<Rightarrow> 'n \<Rightarrow> 'n" where
  "calcExpectedOverallBorrowRate B stableDebt variableDebt variableRate averageStableRate =
     (let totalBorrows = bn_plus B stableDebt variableDebt
      in if bn_eq B totalBorrows (bn_new B ''0'') then strToBN B ''0''
         else
           let weightedVariableRate = rayMul B (wadToRay B variableDebt) variableRate;
               weightedStableRate = rayMul B (wadToRay B stableDebt) averageStableRate
           in rayDiv B (bn_plus B weightedVariableRate weightedStableRate)
                (wadToRay B totalBorrows))"

text \<open>
  \<open>findIndex\<close> gives \<open>-1\<close> for an unknown symbol; the entry at \<open>-1\<close> is \<open>undefined\<close>, and taking
  it apart throws, as listing the keys of an unassigned \<open>reservesParams\<close> does.
\<close>

definition find_reserve_params ::
  "Configuration \<Rightarrow> string option \<Rightarrow> js_error + IReserveParams" where
  "find_reserve_params conf reserveSymbol =
     (case reservesParams conf of
        None \<Rightarrow> Inl (TypeError ''Cannot convert undefined or null to object'')
      | Some params \<Rightarrow>
          (case find (\<lambda>(k, v). Some k = reserveSymbol) params of
             None \<Rightarrow> Inl (TypeError ''undefined is not iterable'')
           | Some (k, v) \<Rightarrow> Inr v))"

text \<open>The rates \<open>[liquidityRate, stableBorrowRate, variableBorrowRate]\<close> of one reserve.\<close>

definition strategy_rates ::
  "'n bn \<Rightarrow> IReserveParams \<Rightarrow> 'n \<Rightarrow> 'n \<Rightarrow> 'n \<Rightarrow> 'n \<Rightarrow> 'n \<Rightarrow> 'n \<times> 'n \<times> 'n" where
  "strategy_rates B params marketRate utilization stableDebt variableDebt averageStableRate =
     (let st = strategy params;
          stableBorrowRate0 = marketRate;
          variableBorrowRate0 = bn_new B (baseVariableBorrowRate st);
          optimalRate = bn_new B (optimalUtilizationRate st);
          excessRate = bn_minus B (bn_new B (RAY B)) optimalRate;
          (stableRate, variableRate) =
            (if bn_gt B utilization optimalRate
             then
               let excessUtilizationRateRatio =
                     rayDiv B (bn_minus B utilization (bn_new B (optimalUtilizationRate st)))
                       excessRate
               in (bn_plus B (bn_plus B stableBorrowRate0 (bn_new B (stableRateSlope1 st)))
                     (rayMul B (bn_new B (stableRateSlope2 st)) excessUtilizationRateRatio),
                   bn_plus B (bn_plus B variableBorrowRate0 (bn_new B (variableRateSlope1 st)))
                     (rayMul B (bn_new B (variableRateSlope2 st)) excessUtilizationRateRatio))
             else
               (bn_plus B stableBorrowRate0
                  (rayMul B (bn_new B (stableRateSlope1 st)) (rayDiv B utilization optimalRate)),
                bn_plus B variableBorrowRate0
                  (rayMul B (rayDiv B utilization optimalRate)
                     (bn_new B (variableRateSlope1 st)))));
          expectedOverallRate =
            calcExpectedOverallBorrowRate B stableDebt variableDebt variableRate averageStableRate;
          liquidityRate =
            percentMul B (rayMul B expectedOverallRate utilization)
              (bn_minus B (bn_new B PERCENTAGE_FACTOR) (bn_new B (reserveFactor params)))
      in (liquidityRate, stableRate, variableRate))"

definition calcExpectedInterestRates ::
  "'n bn \<Rightarrow> Configuration \<Rightarrow> string option \<Rightarrow> 'n \<Rightarrow> 'n \<Rightarrow> 'n \<Rightarrow> 'n \<Rightarrow> 'n
   \<Rightarrow> js_error + ('n \<times> 'n \<times> 'n)" where
  "calcExpectedInterestRates B conf reserveSymbol marketRate utilization stableDebt variableDebt
     averageStableRate =
     (case find_reserve_params conf reserveSymbol of
        Inl e \<Rightarrow> Inl e
      | Inr params \<Rightarrow>
          Inr (strategy_rates B params marketRate utilization stableDebt variableDebt
                 averageStableRate))"

section \<open>Values under the configuration of the scenario tests\<close>

lemma compounded_interest_0 [simp]: "compounded_interest r 0 = 10 ^ 27"
  by (simp add: compounded_interest_def Let_def)

lemma compounded_interest_ge_ray: "10 ^ 27 \<le> compounded_interest r d"
  by (simp add: compounded_interest_def Let_def)

lemma compounded_interest_ge_simple: "10 ^ 27 + r div 31536000 * d \<le> compounded_interest r d"
  by (simp add: compounded_interest_def Let_def)

text \<open>Multiplying by a factor of at least one ray does not decrease an unsigned value.\<close>

lemma ray_scale_mono:
  fixes c i :: nat
  assumes "10 ^ 27 \<le> c"
  shows "i \<le> (c * i + 5 * 10 ^ 26) div 10 ^ 27"
proof -
  have "10 ^ 27 * i \<le> c * i + 5 * 10 ^ 26" using mult_le_mono1[OF assms, of i] trans_le_add1 by blast
  then have "10 ^ 27 * i div 10 ^ 27 \<le> (c * i + 5 * 10 ^ 26) div 10 ^ 27" by (rule div_le_mono)
  then show ?thesis by simp
qed

lemma ray_unit [simp]: "(i * 10 ^ 27 + 5 * 10 ^ 26) div 10 ^ 27 = (i::nat)"
  "(10 ^ 27 * i + 5 * 10 ^ 26) div 10 ^ 27 = (i::nat)"
  by simp_all

context scenario_bignumber
begin

lemma calcLinearInterest_denotes:
  assumes "denotes fin val R r" "denotes fin val T t" "denotes fin val L l" "l \<le> t"
  shows "denotes fin val (calcLinearInterest B R T L) (r * (t - l) div 31536000 + 10 ^ 27)"
  unfolding calcLinearInterest_def Let_def
  by (intro plus_denotes div_denotes times_denotes minus_denotes constant_denotes assms) simp

lemma calcCompoundedInterest_denotes:
  assumes R: "denotes fin val R r" and TL: "denotes fin val T t" "denotes fin val L l" "l \<le> t"
  shows "denotes fin val (calcCompoundedInterest B R T L) (compounded_interest r (t - l))"
proof -
  let ?D = "bn_minus B T L" and ?d = "t - l"
  have D: "denotes fin val ?D ?d" using TL by (intro minus_denotes)
  show ?thesis
  proof (cases "?d = 0")
    case True
    then show ?thesis
      using compare_denotes(1)[OF D literal_denotes(1)] constant_denotes(2)
      by (simp add: calcCompoundedInterest_def compounded_interest_def)
  next
    case False
    let ?r = "r div 31536000"
    let ?E = "if bn_gt B ?D (bn_new B ''2'') then bn_minus B ?D (bn_new B ''2'') else bn_new B ''0''"
    have E: "denotes fin val ?E (?d - 2)"
    proof (cases "2 < ?d")
      case True
      then show ?thesis
        using minus_denotes[OF D literal_denotes(3)] compare_denotes(2)[OF D literal_denotes(3)] by simp
    next
      case False
      then show ?thesis
        using literal_denotes(1) compare_denotes(2)[OF D literal_denotes(3)] by (simp add: not_less)
    qed
    have r: "denotes fin val (bn_div B R (bn_new B ONE_YEAR)) ?r"
      by (intro div_denotes R constant_denotes) simp
    have one: "denotes fin val (bn_minus B ?D (bn_new B ''1'')) (?d - 1)"
      using False by (intro minus_denotes D literal_denotes) simp
    note r2 = rayMul_denotes[OF r r]
    note r3 = rayMul_denotes[OF r2 r]
    have eq: "\<not> bn_eq B ?D (bn_new B ''0'')"
      using compare_denotes(1)[OF D literal_denotes(1)] False by simp
    show ?thesis
      unfolding calcCompoundedInterest_def compounded_interest_def Let_def if_not_P[OF eq]
      by (intro plus_denotes times_denotes div_denotes constant_denotes literal_denotes D E r one r2 r3) simp_all
  qed
qed

lemmas interest_denotes = calcLinearInterest_denotes calcCompoundedInterest_denotes

lemma agrees_linear:
  assumes "denotes fin val R r" "denotes fin val T t" "denotes fin val L l"
  shows "agrees fin val (contract_calculateLinearInterest r l t) (calcLinearInterest B R T L)"
  unfolding agrees_def using contract_calculateLinearInterest_Some calcLinearInterest_denotes[OF assms] by blast

lemma agrees_compounded:
  assumes "denotes fin val R r" "denotes fin val T t" "denotes fin val L l"
  shows "agrees fin val (contract_calculateCompoundedInterest r l t) (calcCompoundedInterest B R T L)"
  unfolding agrees_def using contract_calculateCompoundedInterest_Some calcCompoundedInterest_denotes[OF assms] by blast

end

text \<open>
  C2. Under the configuration of the scenario tests the linear and the compounded interest of the
  calculator are what \<open>MathUtils\<close> computes on chain, whenever \<open>MathUtils\<close> does not revert:
  the three-term binomial expansion, its truncations and the year of 365 days are the same.
\<close>

theorem interest_agrees_with_MathUtils:
  assumes "scenario_bignumber B fin val"
    and "denotes fin val R r" and "denotes fin val T t" and "denotes fin val L l"
  shows "agrees fin val (contract_calculateLinearInterest r l t) (calcLinearInterest B R T L)
       \<and> agrees fin val (contract_calculateCompoundedInterest r l t) (calcCompoundedInterest B R T L)"
  using assms scenario_bignumber.agrees_linear scenario_bignumber.agrees_compounded by metis

theorem interest_agrees_with_MathUtils_witness:
  "agrees dec_fin dec_val (contract_calculateCompoundedInterest (10 ^ 26) 1000 4600)
     (calcCompoundedInterest (decimal scenario_config) (Dec (10 ^ 26) 0) (Dec 4600 0) (Dec 1000 0))
   \<and> contract_calculateCompoundedInterest (10 ^ 26) 1000 4600 = Some 1000011415590253411498439800"
  using interest_agrees_with_MathUtils[OF decimal_scenario.scenario_bignumber_axioms,
      of "Dec (10 ^ 26) 0" "10 ^ 26" "Dec 4600 0" 4600 "Dec 1000 0" 1000]
  by (simp add: denotes_def contract_calculateCompoundedInterest_def Let_def contract_eval)

section \<open>The interest-rate strategy\<close>

text \<open>
  \<open>params_denote fin val B params st f\<close>: the strings of the reserve parameters are the numerals of
  the strategy contract \<open>st\<close> and of the reserve factor \<open>f\<close>.
\<close>

definition params_denote ::
  "('n \<Rightarrow> bool) \<Rightarrow> ('n \<Rightarrow> rat) \<Rightarrow> 'n bn \<Rightarrow> IReserveParams \<Rightarrow> rate_strategy \<Rightarrow> nat \<Rightarrow> bool" where
  "params_denote fin val B params st f \<longleftrightarrow>
     (denotes fin val (bn_new B (optimalUtilizationRate (strategy params))) (c_OPTIMAL_UTILIZATION_RATE st)
      \<and> denotes fin val (bn_new B (baseVariableBorrowRate (strategy params))) (c_baseVariableBorrowRate st)
      \<and> denotes fin val (bn_new B (variableRateSlope1 (strategy params))) (c_variableRateSlope1 st)
      \<and> denotes fin val (bn_new B (variableRateSlope2 (strategy params))) (c_variableRateSlope2 st)
      \<and> denotes fin val (bn_new B (stableRateSlope1 (strategy params))) (c_stableRateSlope1 st)
      \<and> denotes fin val (bn_new B (stableRateSlope2 (strategy params))) (c_stableRateSlope2 st)
      \<and> denotes fin val (bn_new B (reserveFactor params)) f
      \<and> 0 < c_OPTIMAL_UTILIZATION_RATE st \<and> c_OPTIMAL_UTILIZATION_RATE st < 10 ^ 27 \<and> f \<le> 10000)"

text \<open>The variable and stable rates of the calculator as numbers.\<close>

definition variable_rate :: "rate_strategy \<Rightarrow> nat \<Rightarrow> nat" where
  "variable_rate st u =
     (if c_OPTIMAL_UTILIZATION_RATE st < u
      then c_baseVariableBorrowRate st + c_variableRateSlope1 st
           + nat_rayMul (c_variableRateSlope2 st)
               (nat_rayDiv (u - c_OPTIMAL_UTILIZATION_RATE st) (10 ^ 27 - c_OPTIMAL_UTILIZATION_RATE st))
      else c_baseVariableBorrowRate st
           + nat_rayMul (nat_rayDiv u (c_OPTIMAL_UTILIZATION_RATE st)) (c_variableRateSlope1 st))"

definition stable_rate :: "rate_strategy \<Rightarrow> nat \<Rightarrow> nat \<Rightarrow> nat" where
  "stable_rate st m u =
     (if c_OPTIMAL_UTILIZATION_RATE st < u
      then m + c_stableRateSlope1 st
           + nat_rayMul (c_stableRateSlope2 st)
               (nat_rayDiv (u - c_OPTIMAL_UTILIZATION_RATE st) (10 ^ 27 - c_OPTIMAL_UTILIZATION_RATE st))
      else m + nat_rayMul (c_stableRateSlope1 st) (nat_rayDiv u (c_OPTIMAL_UTILIZATION_RATE st)))"

definition liquidity_rate :: "nat \<Rightarrow> nat \<Rightarrow> nat \<Rightarrow> nat" where
  "liquidity_rate overall u f = (nat_rayMul overall u * (10000 - f) + 5000) div 10000"

definition utilization_rate :: "nat \<Rightarrow> nat \<Rightarrow> nat \<Rightarrow> nat" where
  "utilization_rate s v l = (if s = 0 \<and> v = 0 then 0 else nat_rayDiv (s + v) l)"

context scenario_bignumber
begin

lemma nat_ray_denotes:
  "denotes fin val a x \<Longrightarrow> denotes fin val b y \<Longrightarrow> denotes fin val (rayMul B a b) (nat_rayMul x y)"
  "denotes fin val a x \<Longrightarrow> denotes fin val b y \<Longrightarrow> y \<noteq> 0 \<Longrightarrow> denotes fin val (rayDiv B a b) (nat_rayDiv x y)"
  unfolding nat_rayMul_def nat_rayDiv_def by (rule rayMul_denotes rayDiv_denotes, assumption+)+

lemma overall_denotes:
  assumes "denotes fin val S s" "denotes fin val V v" "denotes fin val VR vr" "denotes fin val AR ar"
  shows "denotes fin val (calcExpectedOverallBorrowRate B S V VR AR) (overall_rate s v vr ar)"
proof (cases "s + v = 0")
  case True
  then show ?thesis
    using compare_denotes(1)[OF plus_denotes[OF assms(1,2)] literal_denotes(1)] literal_denotes(1)
    by (simp add: calcExpectedOverallBorrowRate_def overall_rate_def strToBN_def)
next
  case False
  then have "\<not> bn_eq B (bn_plus B S V) (bn_new B ''0'')"
    using compare_denotes(1)[OF plus_denotes[OF assms(1,2)] literal_denotes(1)] by simp
  then show ?thesis
    unfolding calcExpectedOverallBorrowRate_def overall_rate_def Let_def if_not_P[OF False]
    by (simp only: if_False)
      (intro rayDiv_denotes plus_denotes rayMul_denotes wadToRay_denotes assms, use False in simp)
qed

lemma utilization_denotes:
  assumes "denotes fin val S s" "denotes fin val V v" "denotes fin val L l"
    and "s \<noteq> 0 \<or> v \<noteq> 0 \<Longrightarrow> l \<noteq> 0"
  shows "denotes fin val (calcExpectedUtilizationRate B S V L) (utilization_rate s v l)"
proof (cases "s = 0 \<and> v = 0")
  case True
  then show ?thesis
    using compare_denotes(1)[OF assms(1) literal_denotes(1)] compare_denotes(1)[OF assms(2) literal_denotes(1)]
      literal_denotes(1)
    by (simp add: calcExpectedUtilizationRate_def utilization_rate_def strToBN_def)
next
  case False
  then have "\<not> (bn_eq B S (bn_new B ''0'') \<and> bn_eq B V (bn_new B ''0''))"
    using compare_denotes(1)[OF assms(1) literal_denotes(1)] compare_denotes(1)[OF assms(2) literal_denotes(1)]
    by simp
  then show ?thesis
    unfolding calcExpectedUtilizationRate_def utilization_rate_def if_not_P[OF False]
    by (simp only: if_False) (intro nat_ray_denotes plus_denotes assms, use False assms(4) in simp)
qed

text \<open>The two branches of the strategy: above and below the optimal utilization.\<close>

lemma strategy_ratio_denotes:
  assumes p: "params_denote fin val B params st f" and U: "denotes fin val U u"
  defines "Opt \<equiv> bn_new B (optimalUtilizationRate (strategy params))"
  shows "c_OPTIMAL_UTILIZATION_RATE st < u \<Longrightarrow>
           denotes fin val (rayDiv B (bn_minus B U Opt) (bn_minus B (bn_new B (RAY B)) Opt))
             (nat_rayDiv (u - c_OPTIMAL_UTILIZATION_RATE st) (10 ^ 27 - c_OPTIMAL_UTILIZATION_RATE st))"
    and "denotes fin val (rayDiv B U Opt) (nat_rayDiv u (c_OPTIMAL_UTILIZATION_RATE st))"
    and "bn_gt B U Opt \<longleftrightarrow> c_OPTIMAL_UTILIZATION_RATE st < u"
proof -
  have Opt: "denotes fin val Opt (c_OPTIMAL_UTILIZATION_RATE st)"
    and o: "c_OPTIMAL_UTILIZATION_RATE st \<noteq> 0" "c_OPTIMAL_UTILIZATION_RATE st < 10 ^ 27"
    using p by (simp_all add: params_denote_def Opt_def)
  show "denotes fin val (rayDiv B (bn_minus B U Opt) (bn_minus B (bn_new B (RAY B)) Opt))
          (nat_rayDiv (u - c_OPTIMAL_UTILIZATION_RATE st) (10 ^ 27 - c_OPTIMAL_UTILIZATION_RATE st))"
    if "c_OPTIMAL_UTILIZATION_RATE st < u"
    using that o by (intro nat_ray_denotes minus_denotes U Opt constant_denotes) simp_all
  show "denotes fin val (rayDiv B U Opt) (nat_rayDiv u (c_OPTIMAL_UTILIZATION_RATE st))"
    by (intro nat_ray_denotes U Opt o)
  show "bn_gt B U Opt \<longleftrightarrow> c_OPTIMAL_UTILIZATION_RATE st < u" using compare_denotes(2)[OF U Opt] .
qed

lemma strategy_borrow_rates_denote:
  assumes p: "params_denote fin val B params st f" and M: "denotes fin val M m" and U: "denotes fin val U u"
    and r: "strategy_rates B params M U S V A = (LR, SR, VR)"
  shows "denotes fin val SR (stable_rate st m u)" and "denotes fin val VR (variable_rate st u)"
proof -
  note q = strategy_ratio_denotes[OF p U]
  note d = p[unfolded params_denote_def]
  have "denotes fin val SR (stable_rate st m u) \<and> denotes fin val VR (variable_rate st u)"
  proof (cases "c_OPTIMAL_UTILIZATION_RATE st < u")
    case True
    show ?thesis
      using r True d M q(3) nat_ray_denotes(1)[OF _ q(1)[OF True]]
      by (auto simp: strategy_rates_def Let_def stable_rate_def variable_rate_def intro!: plus_denotes)
  next
    case False
    show ?thesis
      using r False d M q(3) nat_ray_denotes(1)[OF _ q(2)] nat_ray_denotes(1)[OF q(2)]
      by (auto simp: strategy_rates_def Let_def stable_rate_def variable_rate_def intro!: plus_denotes)
  qed
  then show "denotes fin val SR (stable_rate st m u)" and "denotes fin val VR (variable_rate st u)" by auto
qed

lemma strategy_liquidity_rate_denotes:
  assumes p: "params_denote fin val B params st f" and M: "denotes fin val M m" and U: "denotes fin val U u"
    and S: "denotes fin val S s" and V: "denotes fin val V v" and A: "denotes fin val A a"
    and r: "strategy_rates B params M U S V A = (LR, SR, VR)"
  shows "denotes fin val LR (liquidity_rate (overall_rate s v (variable_rate st u) a) u f)"
proof -
  let ?F = "bn_minus B (bn_new B PERCENTAGE_FACTOR) (bn_new B (reserveFactor params))"
  have "LR = percentMul B (rayMul B (calcExpectedOverallBorrowRate B S V VR A) U) ?F"
    using r by (auto simp: strategy_rates_def Let_def split: if_splits)
  moreover have "denotes fin val ?F (10000 - f)"
    using p by (intro minus_denotes constant_denotes) (simp_all add: params_denote_def)
  ultimately show ?thesis
    using percentMul_denotes nat_ray_denotes(1) overall_denotes[OF S V strategy_borrow_rates_denote(2)[OF p M U r] A] U
    by (simp only: liquidity_rate_def)
qed

lemma strategy_rates_denotes:
  assumes "params_denote fin val B params st f" "denotes fin val M m" "denotes fin val U u"
    and "denotes fin val S s" "denotes fin val V v" "denotes fin val A a"
  shows "\<exists>LR SR VR. strategy_rates B params M U S V A = (LR, SR, VR)
           \<and> denotes fin val LR (liquidity_rate (overall_rate s v (variable_rate st u) a) u f)
           \<and> denotes fin val SR (stable_rate st m u) \<and> denotes fin val VR (variable_rate st u)"
  using strategy_liquidity_rate_denotes[OF assms] strategy_borrow_rates_denote[OF assms(1-3)]
  by (cases "strategy_rates B params M U S V A") blast

end

text \<open>
  How far two liquidity rates are apart that are computed from different variable rates: each division adds
  at most one unit, and the conversion of the debts to ray one unit per \<open>10 ^ 18\<close> of debt.
\<close>

lemma div_diff: "0 < k \<Longrightarrow> int k * \<bar>int (x div k) - int (y div k)\<bar> \<le> \<bar>int x - int y\<bar> + int k"
proof -
  assume k: "0 < k"
  have eqs: "int k * int (x div k) = int x - int (x mod k)" "int k * int (y div k) = int y - int (y mod k)"
    by (simp_all add: minus_mod_eq_mult_div [symmetric] of_nat_diff flip: of_nat_mult)
  have "int k * \<bar>int (x div k) - int (y div k)\<bar> = \<bar>int k * int (x div k) - int k * int (y div k)\<bar>"
    by (simp add: abs_mult right_diff_distrib [symmetric])
  also have "\<dots> \<le> \<bar>int x - int y\<bar> + int k"
    unfolding eqs using mod_less_divisor[OF k, of x] mod_less_divisor[OF k, of y] by linarith
  finally show ?thesis .
qed

text \<open>A quotient of sums that differ in one factor: the shape of all three divisions.\<close>

lemma scaled_div_diff:
  assumes "0 < k"
  shows "int k * \<bar>int ((x * c + h) div k) - int ((y * c + h) div k)\<bar> \<le> int c * \<bar>int x - int y\<bar> + int k"
proof -
  have "\<bar>int (x * c + h) - int (y * c + h)\<bar> = int c * \<bar>int x - int y\<bar>"
    using abs_mult[of "int c" "int x - int y"] by (simp add: right_diff_distrib mult.commute)
  then show ?thesis using div_diff[OF assms, of "x * c + h" "y * c + h"] by linarith
qed

lemma overall_rate_apart:
  "int (s + v) * \<bar>int (overall_rate s v x a) - int (overall_rate s v y a)\<bar> \<le> int (s + v) * (\<bar>int x - int y\<bar> + 1) + 10 ^ 18"
proof (cases "s + v = 0")
  case False
  define p where "p x = (x * (v * 10 ^ 9) + 5 * 10 ^ 26) div 10 ^ 27" for x
  define r where "r = (s * 10 ^ 9 * a + 5 * 10 ^ 26) div 10 ^ 27"
  define t where "t = (s + v) * 10 ^ 9"
  have o: "overall_rate s v x a = ((p x + r) * 10 ^ 27 + t div 2) div t" for x
    unfolding overall_rate_def if_not_P[OF False] p_def r_def t_def by (simp only: mult.commute[of x])
  have t: "0 < t" using False by (simp add: t_def)
  define d where "d = \<bar>int x - int y\<bar>"
  have p: "int (10 ^ 27) * \<bar>int (p x) - int (p y)\<bar> \<le> int (v * 10 ^ 9) * d + int (10 ^ 27)"
    unfolding p_def d_def by (rule scaled_div_diff) simp
  have "int t * \<bar>int (overall_rate s v x a) - int (overall_rate s v y a)\<bar> \<le> int (10 ^ 27) * \<bar>int (p x + r) - int (p y + r)\<bar> + int t"
    unfolding o by (rule scaled_div_diff[OF t])
  also have "\<dots> \<le> int (v * 10 ^ 9) * d + int (10 ^ 27) + int t" using p by simp
  also have "\<dots> \<le> 10 ^ 9 * (int (s + v) * (d + 1) + 10 ^ 18)"
  proof -
    have "0 \<le> int s * d" by (simp add: d_def)
    then show ?thesis by (simp add: t_def distrib_left distrib_right)
  qed
  finally have "10 ^ 9 * (int (s + v) * \<bar>int (overall_rate s v x a) - int (overall_rate s v y a)\<bar>)
      \<le> 10 ^ 9 * (int (s + v) * (d + 1) + 10 ^ 18)"
    by (simp only: t_def of_nat_mult of_nat_power of_nat_numeral mult.assoc mult.left_commute)
  then show ?thesis unfolding d_def by (rule mult_left_le_imp_le) simp
qed (simp add: overall_rate_def)

lemma liquidity_rate_error:
  assumes "u < 10 ^ 27"
  shows "int (s + v) * \<bar>int (liquidity_rate (overall_rate s v x a) u f) - int (liquidity_rate (overall_rate s v y a) u f)\<bar>
     \<le> int (s + v) * (\<bar>int x - int y\<bar> + 3) + 10 ^ 18"
proof -
  let ?ox = "overall_rate s v x a" and ?oy = "overall_rate s v y a"
  let ?m = "\<bar>int (nat_rayMul ?ox u) - int (nat_rayMul ?oy u)\<bar>" and ?o = "\<bar>int ?ox - int ?oy\<bar>"
  let ?l = "\<bar>int (liquidity_rate ?ox u f) - int (liquidity_rate ?oy u f)\<bar>"
  have "int (10 ^ 27) * ?m \<le> int u * ?o + int (10 ^ 27)"
    unfolding nat_rayMul_def by (rule scaled_div_diff) simp
  also have "int u * ?o \<le> 10 ^ 27 * ?o" using assms by (intro mult_right_mono) simp_all
  finally have m: "?m \<le> ?o + 1" by simp
  have "int 10000 * ?l \<le> int (10000 - f) * ?m + int 10000"
    unfolding liquidity_rate_def by (rule scaled_div_diff) simp
  also have "int (10000 - f) * ?m \<le> 10000 * ?m" by (intro mult_right_mono) simp_all
  finally have "?l \<le> ?o + 2" using m by simp
  then have "int (s + v) * ?l \<le> int (s + v) * (?o + 2)" by (intro mult_left_mono) simp_all
  also have "\<dots> \<le> int (s + v) * (\<bar>int x - int y\<bar> + 3) + 10 ^ 18"
    using overall_rate_apart[of s v x a y] by (simp add: distrib_left)
  finally show ?thesis .
qed

lemma contract_calculateInterestRates_Some:
  assumes "contract_calculateInterestRates st m avail s v a f = Some (lr, sr, vr)"
    and "s \<le> uint256_max" "v \<le> uint256_max" "avail \<le> uint256_max"
  defines "u \<equiv> utilization_rate s v (avail + s + v)"
  shows "contract_borrow_rates st m u = Some (sr, vr)"
    and "lr = liquidity_rate (overall_rate s v vr a) u f"
proof -
  obtain t u' ov l1 pf where
    t: "safe_add s v = Some t" and
    u': "(if t = 0 then Some 0
          else do { total \<leftarrow> safe_add avail t; contract_rayDiv t total }) = Some u'" and
    b: "contract_borrow_rates st m u' = Some (sr, vr)" and
    ov: "contract_getOverallBorrowRate s v vr a = Some ov" and
    l: "contract_rayMul ov u' = Some l1" "safe_sub contract_PERCENTAGE_FACTOR f = Some pf"
      "contract_percentMul l1 pf = Some lr"
    using assms(1) by (auto simp: contract_calculateInterestRates_def bind_Some_iff)
  have t_eq: "t = s + v" "t \<le> uint256_max"
    using safe_add_Some[OF assms(2,3) t] safe_add_le[OF t] by auto
  have "u' = u"
  proof (cases "t = 0")
    case True
    then show ?thesis using u' t_eq by (simp add: u_def utilization_rate_def)
  next
    case False
    then obtain total where total: "safe_add avail t = Some total" "contract_rayDiv t total = Some u'"
      using u' by (auto simp: bind_Some_iff)
    then have "u' = nat_rayDiv t (avail + t)"
      using contract_ray_Some(2)[OF safe_add_le[OF total(1)] total(2)] safe_add_Some[OF assms(4) t_eq(2) total(1)]
      by simp
    then show ?thesis using False t_eq by (auto simp: u_def utilization_rate_def add.assoc)
  qed
  then show "contract_borrow_rates st m u = Some (sr, vr)"
    and "lr = liquidity_rate (overall_rate s v vr a) u f"
    using b contract_percentMul_Some[OF l(3)] contract_ray_Some(1)[OF l(1)] safe_sub_Some[OF l(2)]
      contract_getOverallBorrowRate_Some[OF ov assms(2,3)]
    by (simp_all add: liquidity_rate_def contract_constants)
qed

context scenario_bignumber
begin

lemma borrow_rates_vs_contract:
  assumes "contract_borrow_rates st m u = Some (sr, vr)" "strategy_fits st" "m \<le> uint256_max"
    and "0 < c_OPTIMAL_UTILIZATION_RATE st"
  shows "sr = stable_rate st m u"
    and "c_OPTIMAL_UTILIZATION_RATE st < u \<Longrightarrow> vr = variable_rate st u"
    and "\<not> c_OPTIMAL_UTILIZATION_RATE st < u \<Longrightarrow>
           2 * (10 ^ 27 * int (c_OPTIMAL_UTILIZATION_RATE st)) * \<bar>int (variable_rate st u) - int vr\<bar>
           \<le> int (c_variableRateSlope1 st) * int (c_OPTIMAL_UTILIZATION_RATE st)
              + 10 ^ 27 * 10 ^ 27 + 2 * (10 ^ 27 * int (c_OPTIMAL_UTILIZATION_RATE st))"
proof -
  show "sr = stable_rate st m u" "c_OPTIMAL_UTILIZATION_RATE st < u \<Longrightarrow> vr = variable_rate st u"
    using contract_borrow_rates_above[OF assms(1-3)] contract_borrow_rates_below[OF assms(1-3)]
    by (auto simp: stable_rate_def variable_rate_def)
  assume below: "\<not> c_OPTIMAL_UTILIZATION_RATE st < u"
  show "2 * (10 ^ 27 * int (c_OPTIMAL_UTILIZATION_RATE st)) * \<bar>int (variable_rate st u) - int vr\<bar>
           \<le> int (c_variableRateSlope1 st) * int (c_OPTIMAL_UTILIZATION_RATE st)
              + 10 ^ 27 * 10 ^ 27 + 2 * (10 ^ 27 * int (c_OPTIMAL_UTILIZATION_RATE st))"
    using nat_ray_order_error[of "c_OPTIMAL_UTILIZATION_RATE st" u "c_variableRateSlope1 st"] assms(4)
    unfolding contract_borrow_rates_below(2)[OF assms(1-3) below] variable_rate_def if_not_P[OF below]
    by (simp only: of_nat_add add_diff_cancel_left)
qed

lemma interest_rates_vs_contract:
  assumes p: "params_denote fin val B params st f" and fits: "strategy_fits st"
    and conf: "find_reserve_params conf rsym = Inr params"
    and M: "denotes fin val M m" and S: "denotes fin val S s" and V: "denotes fin val V v"
    and A: "denotes fin val A a" and L: "denotes fin val L (avail + s + v)"
    and le: "m \<le> uint256_max" "s \<le> uint256_max" "v \<le> uint256_max" "avail \<le> uint256_max"
    and c: "contract_calculateInterestRates st m avail s v a f = Some (lr, sr, vr)"
  shows "\<exists>LR SR VR. calcExpectedInterestRates B conf rsym M (calcExpectedUtilizationRate B S V L) S V A
                      = Inr (LR, SR, VR)
           \<and> denotes fin val SR sr
           \<and> (if c_OPTIMAL_UTILIZATION_RATE st < utilization_rate s v (avail + s + v)
              then denotes fin val VR vr \<and> denotes fin val LR lr
              else \<exists>vr' lr'. denotes fin val VR vr' \<and> denotes fin val LR lr'
                     \<and> 2 * (10 ^ 27 * int (c_OPTIMAL_UTILIZATION_RATE st)) * \<bar>int vr' - int vr\<bar>
                       \<le> int (c_variableRateSlope1 st) * int (c_OPTIMAL_UTILIZATION_RATE st)
                          + 10 ^ 27 * 10 ^ 27 + 2 * (10 ^ 27 * int (c_OPTIMAL_UTILIZATION_RATE st))
                     \<and> int (s + v) * \<bar>int lr' - int lr\<bar>
                       \<le> int (s + v) * (\<bar>int vr' - int vr\<bar> + 3) + 10 ^ 18
                     \<and> (s + v = 0 \<longrightarrow> lr' = lr))"
proof -
  define u where "u = utilization_rate s v (avail + s + v)"
  have U: "denotes fin val (calcExpectedUtilizationRate B S V L) u"
    unfolding u_def by (intro utilization_denotes S V L) auto
  obtain LR SR VR where r: "strategy_rates B params M (calcExpectedUtilizationRate B S V L) S V A = (LR, SR, VR)"
    and d: "denotes fin val LR (liquidity_rate (overall_rate s v (variable_rate st u) a) u f)"
      "denotes fin val SR (stable_rate st m u)" "denotes fin val VR (variable_rate st u)"
    using strategy_rates_denotes[OF p M U S V A] by blast
  note k = contract_calculateInterestRates_Some[OF c le(2-4), folded u_def]
  have o: "0 < c_OPTIMAL_UTILIZATION_RATE st" using p by (simp add: params_denote_def)
  note b = borrow_rates_vs_contract[OF k(1) fits le(1) o]
  have "calcExpectedInterestRates B conf rsym M (calcExpectedUtilizationRate B S V L) S V A = Inr (LR, SR, VR)"
    using conf r by (simp add: calcExpectedInterestRates_def)
  moreover have "denotes fin val VR vr \<and> denotes fin val LR lr" if "c_OPTIMAL_UTILIZATION_RATE st < u"
    using d b(2)[OF that] k(2) by simp
  moreover have "int (s + v) * \<bar>int (liquidity_rate (overall_rate s v (variable_rate st u) a) u f) - int lr\<bar>
      \<le> int (s + v) * (\<bar>int (variable_rate st u) - int vr\<bar> + 3) + 10 ^ 18"
    if "\<not> c_OPTIMAL_UTILIZATION_RATE st < u"
    unfolding k(2) by (rule liquidity_rate_error) (use that p in \<open>auto simp: params_denote_def\<close>)
  moreover have "liquidity_rate (overall_rate s v (variable_rate st u) a) u f = lr" if "s + v = 0"
    using that by (simp add: k(2) overall_rate_def)
  ultimately show ?thesis using d b(1,3) unfolding u_def [symmetric] by auto
qed

end

section \<open>The strategies of the market\<close>

definition WETN_strategy :: rate_strategy where
  "WETN_strategy =
     \<lparr>c_OPTIMAL_UTILIZATION_RATE = 65 * 10 ^ 25, c_baseVariableBorrowRate = 0,
      c_variableRateSlope1 = 8 * 10 ^ 25, c_variableRateSlope2 = 10 ^ 27,
      c_stableRateSlope1 = 10 ^ 26, c_stableRateSlope2 = 10 ^ 27\<rparr>"

definition stablecoin_strategy :: rate_strategy where
  "stablecoin_strategy =
     \<lparr>c_OPTIMAL_UTILIZATION_RATE = 9 * 10 ^ 26, c_baseVariableBorrowRate = 0,
      c_variableRateSlope1 = 4 * 10 ^ 25, c_variableRateSlope2 = 6 * 10 ^ 26,
      c_stableRateSlope1 = 2 * 10 ^ 25, c_stableRateSlope2 = 6 * 10 ^ 26\<rparr>"

context bignumber
begin

lemma market_params_denote:
  "params_denote fin val B (strategyWETN B) WETN_strategy 1000"
  "params_denote fin val B (strategyTUSDC B) stablecoin_strategy 1000"
  "params_denote fin val B (strategyTUSDT B) stablecoin_strategy 1000"
  by (simp_all add: params_denote_def market_defs denotes_def WETN_strategy_def stablecoin_strategy_def)

end

lemma market_strategies_fit: "strategy_fits WETN_strategy" "strategy_fits stablecoin_strategy"
  by (simp_all add: strategy_fits_def WETN_strategy_def stablecoin_strategy_def uint256_max_def)

lemma find_market_reserve:
  "find_reserve_params \<lparr>reservesParams = Some (ReservesConfig (ElectroConfig B))\<rparr> (Some ''WETN'')
   = Inr (strategyWETN B)"
  by (simp add: find_reserve_params_def ElectroConfig_def)

text \<open>
  C3. The interest rates of the calculator against \<open>DefaultReserveInterestRateStrategy\<close>: for a
  known reserve whose parameters are those of the strategy contract, and for total liquidity equal
  to available liquidity plus debts, the stable rate is the contract's. Above the optimal
  utilization so are the variable and the liquidity rate. Up to the optimal utilization the
  calculator divides by the optimal rate before it multiplies by the slope, the contract the other
  way round: the variable rates differ by at most what the roundings of the steps allow, and the liquidity
  rates by at most that difference, three units, and one unit per \<open>10 ^ 18\<close> of debt; without debts they are equal.
\<close>

theorem interest_rates_agree_with_strategy:
  assumes "scenario_bignumber B fin val"
    and "params_denote fin val B params st f" and "strategy_fits st"
    and "find_reserve_params conf rsym = Inr params"
    and "denotes fin val M m" and "denotes fin val S s" and "denotes fin val V v"
    and "denotes fin val A a" and "denotes fin val L (avail + s + v)"
    and "m \<le> uint256_max" "s \<le> uint256_max" "v \<le> uint256_max" "avail \<le> uint256_max"
    and "contract_calculateInterestRates st m avail s v a f = Some (lr, sr, vr)"
  shows "\<exists>LR SR VR. calcExpectedInterestRates B conf rsym M (calcExpectedUtilizationRate B S V L) S V A
                      = Inr (LR, SR, VR)
           \<and> denotes fin val SR sr
           \<and> (if c_OPTIMAL_UTILIZATION_RATE st < utilization_rate s v (avail + s + v)
              then denotes fin val VR vr \<and> denotes fin val LR lr
              else \<exists>vr' lr'. denotes fin val VR vr' \<and> denotes fin val LR lr'
                     \<and> 2 * (10 ^ 27 * int (c_OPTIMAL_UTILIZATION_RATE st)) * \<bar>int vr' - int vr\<bar>
                       \<le> int (c_variableRateSlope1 st) * int (c_OPTIMAL_UTILIZATION_RATE st)
                          + 10 ^ 27 * 10 ^ 27 + 2 * (10 ^ 27 * int (c_OPTIMAL_UTILIZATION_RATE st))
                     \<and> int (s + v) * \<bar>int lr' - int lr\<bar>
                       \<le> int (s + v) * (\<bar>int vr' - int vr\<bar> + 3) + 10 ^ 18
                     \<and> (s + v = 0 \<longrightarrow> lr' = lr))"
  by (rule scenario_bignumber.interest_rates_vs_contract[OF assms])

theorem interest_rates_agree_with_strategy_witness:
  "contract_calculateInterestRates WETN_strategy (3 * 10 ^ 25) 20 10 70 (10 ^ 26) 1000
     = Some (329400000000000000000000000, 558571428571428571428571429, 508571428571428571428571429)
   \<and> (\<exists>LR SR VR.
        calcExpectedInterestRates (decimal scenario_config)
          \<lparr>reservesParams = Some (ReservesConfig (ElectroConfig (decimal scenario_config)))\<rparr> (Some ''WETN'')
          (Dec (3 * 10 ^ 25) 0)
          (calcExpectedUtilizationRate (decimal scenario_config) (Dec 10 0) (Dec 70 0) (Dec 100 0))
          (Dec 10 0) (Dec 70 0) (Dec (10 ^ 26) 0) = Inr (LR, SR, VR)
        \<and> denotes dec_fin dec_val VR 508571428571428571428571429
        \<and> denotes dec_fin dec_val LR 329400000000000000000000000)"
proof -
  have c: "contract_calculateInterestRates WETN_strategy (3 * 10 ^ 25) 20 10 70 (10 ^ 26) 1000
     = Some (329400000000000000000000000, 558571428571428571428571429, 508571428571428571428571429)"
    by (simp add: contract_calculateInterestRates_def contract_borrow_rates_def
        contract_getOverallBorrowRate_def WETN_strategy_def contract_eval)
  have u: "c_OPTIMAL_UTILIZATION_RATE WETN_strategy < utilization_rate 10 70 (20 + 10 + 70)"
    by (simp add: WETN_strategy_def utilization_rate_def nat_rayDiv_def)
  have d: "denotes dec_fin dec_val (Dec (3 * 10 ^ 25) 0) (3 * 10 ^ 25)" "denotes dec_fin dec_val (Dec 10 0) 10"
    "denotes dec_fin dec_val (Dec 70 0) 70" "denotes dec_fin dec_val (Dec (10 ^ 26) 0) (10 ^ 26)"
    "denotes dec_fin dec_val (Dec 100 0) (20 + 10 + 70)"
    by (simp_all add: denotes_def)
  have b: "3 * 10 ^ 25 \<le> uint256_max" "10 \<le> uint256_max" "70 \<le> uint256_max" "20 \<le> uint256_max"
    by (simp_all add: uint256_max_def)
  show ?thesis
    using c u interest_rates_agree_with_strategy[OF decimal_scenario.scenario_bignumber_axioms
        decimal_scenario.market_params_denote(1) market_strategies_fit(1) find_market_reserve d b c]
    by auto
qed

text \<open>
  A reserve of the market where the two orders give different variable rates: one unit of
  variable debt against two units of available liquidity. The contract's rate is one unit of
  \<open>10 ^ -27\<close> above the calculator's.
\<close>

theorem variable_rate_rounding_differs:
  assumes "scenario_bignumber B fin val"
    and "denotes fin val M (3 * 10 ^ 25)" and "denotes fin val S 0" and "denotes fin val V 1"
    and "denotes fin val A 0" and "denotes fin val L 3"
  shows "\<exists>LR SR VR.
           calcExpectedInterestRates B \<lparr>reservesParams = Some (ReservesConfig (ElectroConfig B))\<rparr>
             (Some ''WETN'') M (calcExpectedUtilizationRate B S V L) S V A = Inr (LR, SR, VR)
           \<and> denotes fin val VR 41025641025641025641025641
           \<and> contract_calculateInterestRates WETN_strategy (3 * 10 ^ 25) 2 0 1 0 1000
               = Some (12307692300000000000000000, 81282051282051282051282051, 41025641025641025641025642)"
proof -
  note d = scenario_bignumber.strategy_rates_denotes[OF assms(1)
      bignumber.market_params_denote(1)[OF scenario_bignumber.axioms[OF assms(1)]] assms(2)
      scenario_bignumber.utilization_denotes[OF assms(1,3,4,6)] assms(3-5)]
  have "variable_rate WETN_strategy (utilization_rate 0 1 3) = 41025641025641025641025641"
    by (simp add: variable_rate_def WETN_strategy_def utilization_rate_def nat_rayDiv_def nat_rayMul_def)
  moreover have "contract_calculateInterestRates WETN_strategy (3 * 10 ^ 25) 2 0 1 0 1000
      = Some (12307692300000000000000000, 81282051282051282051282051, 41025641025641025641025642)"
    by (simp add: contract_calculateInterestRates_def contract_borrow_rates_def
        contract_getOverallBorrowRate_def WETN_strategy_def contract_eval)
  ultimately show ?thesis
    using d find_market_reserve[of B] by (auto simp: calcExpectedInterestRates_def)
qed

theorem variable_rate_rounding_differs_witness:
  "\<exists>LR SR VR.
     calcExpectedInterestRates (decimal scenario_config)
       \<lparr>reservesParams = Some (ReservesConfig (ElectroConfig (decimal scenario_config)))\<rparr> (Some ''WETN'')
       (Dec (3 * 10 ^ 25) 0) (calcExpectedUtilizationRate (decimal scenario_config) (Dec 0 0) (Dec 1 0) (Dec 3 0))
       (Dec 0 0) (Dec 1 0) (Dec 0 0) = Inr (LR, SR, VR)
     \<and> denotes dec_fin dec_val VR 41025641025641025641025641"
  using variable_rate_rounding_differs[OF decimal_scenario.scenario_bignumber_axioms,
      of "Dec (3 * 10 ^ 25) 0" "Dec 0 0" "Dec 1 0" "Dec 0 0" "Dec 3 0"]
  by (auto simp: denotes_def)

section \<open>Bounds of the rates\<close>

lemma variable_rate_bounds:
  assumes "u \<le> 10 ^ 27" "c_OPTIMAL_UTILIZATION_RATE st < 10 ^ 27"
  shows "c_baseVariableBorrowRate st \<le> variable_rate st u"
    and "variable_rate st u \<le> c_baseVariableBorrowRate st + c_variableRateSlope1 st + c_variableRateSlope2 st"
proof -
  have "nat_rayMul (c_variableRateSlope2 st)
          (nat_rayDiv (u - c_OPTIMAL_UTILIZATION_RATE st) (10 ^ 27 - c_OPTIMAL_UTILIZATION_RATE st))
        \<le> c_variableRateSlope2 st"
    using assms by (intro nat_rayMul_le nat_rayDiv_le) simp
  moreover have "nat_rayMul (nat_rayDiv u (c_OPTIMAL_UTILIZATION_RATE st)) (c_variableRateSlope1 st)
        \<le> c_variableRateSlope1 st" if "u \<le> c_OPTIMAL_UTILIZATION_RATE st"
    using nat_rayMul_mono[OF nat_rayDiv_le[OF that] order_refl, of "c_variableRateSlope1 st"] by simp
  ultimately show "c_baseVariableBorrowRate st \<le> variable_rate st u"
    and "variable_rate st u \<le> c_baseVariableBorrowRate st + c_variableRateSlope1 st + c_variableRateSlope2 st"
    by (auto simp: variable_rate_def not_less intro: trans_le_add1)
qed

lemma variable_rate_mono:
  assumes "u \<le> u'"
  shows "variable_rate st u \<le> variable_rate st u'"
proof (cases "u \<le> c_OPTIMAL_UTILIZATION_RATE st \<and> c_OPTIMAL_UTILIZATION_RATE st < u'")
  case True
  have "nat_rayMul (nat_rayDiv u (c_OPTIMAL_UTILIZATION_RATE st)) (c_variableRateSlope1 st) \<le> c_variableRateSlope1 st"
    using True nat_rayMul_mono[OF nat_rayDiv_le order_refl, of u _ "c_variableRateSlope1 st"] by simp
  then show ?thesis using True by (simp add: variable_rate_def)
next
  case False
  then show ?thesis
    using assms by (auto simp: variable_rate_def intro!: nat_rayMul_mono nat_rayDiv_mono diff_le_mono)
qed

lemma stable_rate_bounds:
  assumes "u \<le> 10 ^ 27" "c_OPTIMAL_UTILIZATION_RATE st < 10 ^ 27"
  shows "m \<le> stable_rate st m u"
    and "stable_rate st m u \<le> m + c_stableRateSlope1 st + c_stableRateSlope2 st"
proof -
  have "nat_rayMul (c_stableRateSlope2 st)
          (nat_rayDiv (u - c_OPTIMAL_UTILIZATION_RATE st) (10 ^ 27 - c_OPTIMAL_UTILIZATION_RATE st))
        \<le> c_stableRateSlope2 st"
    using assms by (intro nat_rayMul_le nat_rayDiv_le) simp
  moreover have "nat_rayMul (c_stableRateSlope1 st) (nat_rayDiv u (c_OPTIMAL_UTILIZATION_RATE st))
        \<le> c_stableRateSlope1 st" if "u \<le> c_OPTIMAL_UTILIZATION_RATE st"
    by (intro nat_rayMul_le nat_rayDiv_le that)
  ultimately show "m \<le> stable_rate st m u"
    and "stable_rate st m u \<le> m + c_stableRateSlope1 st + c_stableRateSlope2 st"
    by (auto simp: stable_rate_def not_less intro: trans_le_add1)
qed

lemma stable_rate_mono:
  assumes "u \<le> u'"
  shows "stable_rate st m u \<le> stable_rate st m u'"
proof (cases "u \<le> c_OPTIMAL_UTILIZATION_RATE st \<and> c_OPTIMAL_UTILIZATION_RATE st < u'")
  case True
  then have "nat_rayMul (c_stableRateSlope1 st) (nat_rayDiv u (c_OPTIMAL_UTILIZATION_RATE st)) \<le> c_stableRateSlope1 st"
    by (intro nat_rayMul_le nat_rayDiv_le) simp
  then show ?thesis using True by (simp add: stable_rate_def)
next
  case False
  then show ?thesis
    using assms by (auto simp: stable_rate_def intro!: nat_rayMul_mono nat_rayDiv_mono diff_le_mono)
qed

lemma overall_rate_error:
  assumes "s + v \<noteq> 0"
  shows "2 * \<bar>int (overall_rate s v vr ar) * int (s + v) - (int v * int vr + int s * int ar)\<bar>
         \<le> int (s + v) + 2 * 10 ^ 18"
proof -
  define wv ws z t where "wv = nat_rayMul (v * 10 ^ 9) vr" "ws = nat_rayMul (s * 10 ^ 9) ar"
    "z = overall_rate s v vr ar" "t = int (s + v)"
  have z: "z = nat_rayDiv (wv + ws) ((s + v) * 10 ^ 9)"
    using assms by (auto simp: wv_ws_z_t_def overall_rate_def nat_rayDiv_def nat_rayMul_def)
  define e where "e = int z * t - (int v * int vr + int s * int ar)"
  have "e * 10 ^ 9 = (int z * int ((s + v) * 10 ^ 9) - int (wv + ws) * 10 ^ 27)
      + (int wv * 10 ^ 27 - int (v * 10 ^ 9) * int vr) - 0 - (int (s * 10 ^ 9) * int ar - int ws * 10 ^ 27)"
    by (simp add: e_def wv_ws_z_t_def(4) algebra_simps)
  also have "2 * \<bar>\<dots>\<bar> \<le> int ((s + v) * 10 ^ 9) + 10 ^ 27 + 0 + 10 ^ 27"
  proof (rule abs_combine4)
    show "2 * \<bar>int z * int ((s + v) * 10 ^ 9) - int (wv + ws) * 10 ^ 27\<bar> \<le> int ((s + v) * 10 ^ 9)"
      unfolding z using assms by (intro nat_rayDiv_error) simp
    show "2 * \<bar>int wv * 10 ^ 27 - int (v * 10 ^ 9) * int vr\<bar> \<le> 10 ^ 27"
      unfolding wv_ws_z_t_def by (rule nat_rayMul_error)
    show "2 * \<bar>int (s * 10 ^ 9) * int ar - int ws * 10 ^ 27\<bar> \<le> 10 ^ 27"
      unfolding wv_ws_z_t_def by (subst abs_minus_commute) (rule nat_rayMul_error)
  qed simp
  finally have "2 * \<bar>e\<bar> * 10 ^ 9 \<le> (t + 2 * 10 ^ 18) * 10 ^ 9"
    by (simp add: abs_mult wv_ws_z_t_def(4))
  then show ?thesis unfolding e_def wv_ws_z_t_def by simp
qed

context scenario_bignumber
begin

lemma rates_monotone:
  assumes p: "params_denote fin val B params st f"
    and M: "denotes fin val M m" and U: "denotes fin val U u" "denotes fin val U' u'"
    and le: "u \<le> u'" "u' \<le> 10 ^ 27"
    and r: "strategy_rates B params M U S V A = (LR, SR, VR)"
      "strategy_rates B params M U' S' V' A' = (LR', SR', VR')"
  shows "fin SR \<and> fin SR' \<and> fin VR \<and> fin VR'
       \<and> val M \<le> val SR \<and> val SR \<le> val SR'
       \<and> val SR' \<le> of_nat (m + c_stableRateSlope1 st + c_stableRateSlope2 st)
       \<and> of_nat (c_baseVariableBorrowRate st) \<le> val VR \<and> val VR \<le> val VR'
       \<and> val VR' \<le> of_nat (c_baseVariableBorrowRate st + c_variableRateSlope1 st + c_variableRateSlope2 st)"
proof -
  note d = strategy_borrow_rates_denote[OF p M U(1) r(1)] strategy_borrow_rates_denote[OF p M U(2) r(2)]
  have o: "c_OPTIMAL_UTILIZATION_RATE st < 10 ^ 27" using p by (simp add: params_denote_def)
  have u: "u \<le> 10 ^ 27" using le by simp
  note b = stable_rate_bounds[OF le(2) o, of m] variable_rate_bounds[OF le(2) o]
    stable_rate_bounds[OF u o, of m] variable_rate_bounds[OF u o]
    stable_rate_mono[OF le(1), of st m] variable_rate_mono[OF le(1), of st]
  show ?thesis
    using d M b by (simp add: denotes_def del: of_nat_add)
qed

lemma utilization_bounds:
  assumes "denotes fin val S s" "denotes fin val V v" "denotes fin val L l" "s + v \<le> l"
  shows "\<exists>u. denotes fin val (calcExpectedUtilizationRate B S V L) u \<and> u \<le> 10 ^ 27
           \<and> 2 * \<bar>int u * int l - int (s + v) * 10 ^ 27\<bar> \<le> int l"
proof -
  have d: "denotes fin val (calcExpectedUtilizationRate B S V L) (utilization_rate s v l)"
    using assms by (intro utilization_denotes) auto
  have "utilization_rate s v l \<le> 10 ^ 27"
    using assms(4) by (simp add: utilization_rate_def nat_rayDiv_le del: power_numeral)
  moreover have "2 * \<bar>int (utilization_rate s v l) * int l - int (s + v) * 10 ^ 27\<bar> \<le> int l"
  proof (cases "s = 0 \<and> v = 0")
    case False
    then have eq: "utilization_rate s v l = nat_rayDiv (s + v) l" and l: "l \<noteq> 0"
      using assms(4) by (auto simp: utilization_rate_def)
    show ?thesis using nat_rayDiv_error[OF l, of "s + v"] by (simp only: eq)
  qed (simp add: utilization_rate_def)
  ultimately show ?thesis using d by blast
qed

text \<open>The indices and the normalized income and debt.\<close>

lemma liquidityIndex_denotes:
  assumes "denotes fin val (utilizationRate d) u" "denotes fin val (liquidityRate d) r"
    and "denotes fin val (liquidityIndex d) i" "denotes fin val (lastUpdateTimestamp d) l"
    and "denotes fin val T t" "l \<le> t"
  shows "denotes fin val (calcExpectedLiquidityIndex B d T)
           (if u = 0 then i else nat_rayMul (r * (t - l) div 31536000 + 10 ^ 27) i)"
  unfolding calcExpectedLiquidityIndex_def Let_def compare_denotes(1)[OF assms(1) literal_denotes(1)]
  using assms calcLinearInterest_denotes nat_ray_denotes(1) by simp

lemma variableBorrowIndex_denotes:
  assumes "denotes fin val (totalVariableDebt d) v" "denotes fin val (variableBorrowRate d) r"
    and "denotes fin val (variableBorrowIndex d) i" "denotes fin val (lastUpdateTimestamp d) l"
    and "denotes fin val T t" "l \<le> t"
  shows "denotes fin val (calcExpectedVariableBorrowIndex B d T)
           (if v = 0 then i else nat_rayMul (compounded_interest r (t - l)) i)"
  unfolding calcExpectedVariableBorrowIndex_def Let_def compare_denotes(1)[OF assms(1) literal_denotes(1)]
  using assms calcCompoundedInterest_denotes nat_ray_denotes(1) by simp

lemma normalizedIncome_denotes:
  assumes "denotes fin val (liquidityRate d) r" "denotes fin val (liquidityIndex d) i"
    and "denotes fin val (lastUpdateTimestamp d) l" "denotes fin val T t" "l \<le> t"
  shows "denotes fin val (calcExpectedReserveNormalizedIncome B d T)
           (nat_rayMul (r * (t - l) div 31536000 + 10 ^ 27) i)"
  unfolding calcExpectedReserveNormalizedIncome_def Let_def compare_denotes(1)[OF assms(1) literal_denotes(1)]
  using assms calcLinearInterest_denotes nat_ray_denotes(1) by auto

lemma normalizedDebt_denotes:
  assumes "denotes fin val R r" "denotes fin val I i" "denotes fin val L l" "denotes fin val T t" "l \<le> t"
  shows "denotes fin val (calcExpectedReserveNormalizedDebt B R I L T)
           (if r = 0 then i else nat_rayMul (compounded_interest r (t - l)) i)"
  unfolding calcExpectedReserveNormalizedDebt_def Let_def compare_denotes(1)[OF assms(1) literal_denotes(1)]
  using assms calcCompoundedInterest_denotes nat_ray_denotes(1) by simp

lemma totalStableDebt_denotes:
  assumes "denotes fin val P p" "denotes fin val R r" "denotes fin val L l" "denotes fin val T t" "l \<le> t"
  shows "denotes fin val (calcExpectedTotalStableDebt B P R L T)
           (nat_rayMul (compounded_interest r (t - l)) p)"
  unfolding calcExpectedTotalStableDebt_def Let_def
  using assms calcCompoundedInterest_denotes nat_ray_denotes(1) by simp

lemma stableDebtBalance_denotes:
  assumes "denotes fin val P p" "denotes fin val R r" "denotes fin val L l" "denotes fin val T t" "l \<le> t"
  shows "denotes fin val (calcExpectedStableDebtTokenBalance B P R L T)
           (if r = 0 \<or> t = l \<or> l = 0 then p else nat_rayMul p (compounded_interest r (t - l)))"
  unfolding calcExpectedStableDebtTokenBalance_def Let_def
    compare_denotes(1)[OF assms(2) literal_denotes(1)] compare_denotes(1)[OF assms(3) literal_denotes(1)]
    compare_denotes(1)[OF assms(4,3)]
  using assms calcCompoundedInterest_denotes nat_ray_denotes(1) by simp

lemma indices_monotone:
  assumes "denotes fin val (utilizationRate d) u" "denotes fin val (liquidityRate d) lr"
    and "denotes fin val (totalVariableDebt d) v" "denotes fin val (variableBorrowRate d) vr"
    and "denotes fin val (liquidityIndex d) i" "denotes fin val (variableBorrowIndex d) j"
    and "denotes fin val (lastUpdateTimestamp d) l" "denotes fin val T t" "l \<le> t"
  shows "val (liquidityIndex d) \<le> val (calcExpectedLiquidityIndex B d T)
       \<and> val (liquidityIndex d) \<le> val (calcExpectedReserveNormalizedIncome B d T)
       \<and> val (variableBorrowIndex d) \<le> val (calcExpectedVariableBorrowIndex B d T)
       \<and> (t = l \<longrightarrow> val (calcExpectedLiquidityIndex B d T) = val (liquidityIndex d)
                  \<and> val (calcExpectedVariableBorrowIndex B d T) = val (variableBorrowIndex d))"
proof -
  note D = liquidityIndex_denotes[OF assms(1,2,5,7,8,9)] normalizedIncome_denotes[OF assms(2,5,7,8,9)]
    variableBorrowIndex_denotes[OF assms(3,4,6,7,8,9)]
  have "i \<le> nat_rayMul (lr * (t - l) div 31536000 + 10 ^ 27) i" by (rule nat_rayMul_ge) simp
  moreover have "j \<le> nat_rayMul (compounded_interest vr (t - l)) j"
    by (rule nat_rayMul_ge) (rule compounded_interest_ge_ray)
  ultimately show ?thesis
    using D assms(5,6) by (simp add: denotes_def)
qed

end

text \<open>
  C12. For a fixed market rate the variable and the stable rate of the strategy grow with the
  utilization, across the kink as well, and stay between the base rate (the market rate) and the
  base rate plus both slopes.
\<close>

theorem strategy_rates_monotone:
  assumes "scenario_bignumber B fin val" and "params_denote fin val B params st f"
    and "denotes fin val M m" and "denotes fin val U u" "denotes fin val U' u'"
    and "u \<le> u'" "u' \<le> 10 ^ 27"
    and "strategy_rates B params M U S V A = (LR, SR, VR)"
    and "strategy_rates B params M U' S' V' A' = (LR', SR', VR')"
  shows "fin SR \<and> fin SR' \<and> fin VR \<and> fin VR'
       \<and> val M \<le> val SR \<and> val SR \<le> val SR'
       \<and> val SR' \<le> of_nat (m + c_stableRateSlope1 st + c_stableRateSlope2 st)
       \<and> of_nat (c_baseVariableBorrowRate st) \<le> val VR \<and> val VR \<le> val VR'
       \<and> val VR' \<le> of_nat (c_baseVariableBorrowRate st + c_variableRateSlope1 st + c_variableRateSlope2 st)"
  by (rule scenario_bignumber.rates_monotone[OF assms])

theorem strategy_rates_monotone_witness:
  "\<exists>LR SR VR LR' SR' VR'.
     strategy_rates (decimal scenario_config) (strategyTUSDC (decimal scenario_config)) (Dec 5 0)
       (Dec (10 ^ 26) 0) (Dec 0 0) (Dec 0 0) (Dec 0 0) = (LR, SR, VR)
     \<and> strategy_rates (decimal scenario_config) (strategyTUSDC (decimal scenario_config)) (Dec 5 0)
       (Dec (95 * 10 ^ 25) 0) (Dec 0 0) (Dec 0 0) (Dec 0 0) = (LR', SR', VR')
     \<and> dec_val VR \<le> dec_val VR' \<and> dec_val VR' \<le> 640000000000000000000000000"
proof -
  let ?B = "decimal scenario_config"
  obtain LR SR VR LR' SR' VR' where r:
    "strategy_rates ?B (strategyTUSDC ?B) (Dec 5 0) (Dec (10 ^ 26) 0) (Dec 0 0) (Dec 0 0) (Dec 0 0) = (LR, SR, VR)"
    "strategy_rates ?B (strategyTUSDC ?B) (Dec 5 0) (Dec (95 * 10 ^ 25) 0) (Dec 0 0) (Dec 0 0) (Dec 0 0)
       = (LR', SR', VR')"
    by (metis prod_cases3)
  show ?thesis
    using strategy_rates_monotone[OF decimal_scenario.scenario_bignumber_axioms
        decimal_scenario.market_params_denote(2) _ _ _ _ _ r, of 5 "10 ^ 26" "95 * 10 ^ 25"] r
    by (simp add: denotes_def stablecoin_strategy_def)
qed

text \<open>
  When the debts do not exceed the total liquidity the utilization rate is at most one ray and is
  the quotient of debts and liquidity up to half a unit.
\<close>

theorem utilization_rate_bounds:
  assumes "scenario_bignumber B fin val"
    and "denotes fin val S s" and "denotes fin val V v" and "denotes fin val L l" and "s + v \<le> l"
  shows "\<exists>u. denotes fin val (calcExpectedUtilizationRate B S V L) u \<and> u \<le> 10 ^ 27
           \<and> 2 * \<bar>int u * int l - int (s + v) * 10 ^ 27\<bar> \<le> int l"
  by (rule scenario_bignumber.utilization_bounds[OF assms])

theorem utilization_rate_bounds_witness:
  "\<exists>u. denotes dec_fin dec_val (calcExpectedUtilizationRate (decimal scenario_config) (Dec 1 0) (Dec 2 0) (Dec 7 0)) u
     \<and> u \<le> 10 ^ 27"
  using utilization_rate_bounds[OF decimal_scenario.scenario_bignumber_axioms,
      of "Dec 1 0" 1 "Dec 2 0" 2 "Dec 7 0" 7]
  by (auto simp: denotes_def)

text \<open>
  The overall borrow rate is the mean of the variable and the average stable rate weighted by
  the debts, up to half a unit plus the rounding of the two products: \<open>10 ^ 18\<close> over the total debt,
  so the rate is accurate for debts of many tokens and meaningless for a debt of a few units.
\<close>

theorem overall_borrow_rate_mean:
  assumes "scenario_bignumber B fin val"
    and "denotes fin val S s" and "denotes fin val V v" and "denotes fin val VR vr"
    and "denotes fin val AR ar" and "0 < s + v"
  shows "\<exists>z. denotes fin val (calcExpectedOverallBorrowRate B S V VR AR) z
           \<and> 2 * \<bar>int z * int (s + v) - (int v * int vr + int s * int ar)\<bar> \<le> int (s + v) + 2 * 10 ^ 18"
  using scenario_bignumber.overall_denotes[OF assms(1-5)] overall_rate_error[of s v vr ar] assms(6) by blast

theorem overall_borrow_rate_mean_witness:
  "\<exists>z. denotes dec_fin dec_val
         (calcExpectedOverallBorrowRate (decimal scenario_config) (Dec 3 0) (Dec 4 0) (Dec 50 0) (Dec 60 0)) z
     \<and> 2 * \<bar>int z * int 7 - 380\<bar> \<le> int 7 + 2 * 10 ^ 18"
  using overall_borrow_rate_mean[OF decimal_scenario.scenario_bignumber_axioms,
      of "Dec 3 0" 3 "Dec 4 0" 4 "Dec 50 0" 50 "Dec 60 0" 60]
  by (simp add: denotes_def)

text \<open>
  C13. The indices and the normalized income never decrease from one update to the next, and an
  update in the block of the previous one leaves the indices as they are.
\<close>

theorem indices_never_decrease:
  assumes "scenario_bignumber B fin val"
    and "denotes fin val (utilizationRate d) u" "denotes fin val (liquidityRate d) lr"
    and "denotes fin val (totalVariableDebt d) v" "denotes fin val (variableBorrowRate d) vr"
    and "denotes fin val (liquidityIndex d) i" "denotes fin val (variableBorrowIndex d) j"
    and "denotes fin val (lastUpdateTimestamp d) l" "denotes fin val T t" "l \<le> t"
  shows "val (liquidityIndex d) \<le> val (calcExpectedLiquidityIndex B d T)
       \<and> val (liquidityIndex d) \<le> val (calcExpectedReserveNormalizedIncome B d T)
       \<and> val (variableBorrowIndex d) \<le> val (calcExpectedVariableBorrowIndex B d T)
       \<and> (t = l \<longrightarrow> val (calcExpectedLiquidityIndex B d T) = val (liquidityIndex d)
                  \<and> val (calcExpectedVariableBorrowIndex B d T) = val (variableBorrowIndex d))"
  by (rule scenario_bignumber.indices_monotone[OF assms])

definition sample_reserve :: "dec ReserveData" where
  "sample_reserve =
     \<lparr>address = Some ''0x01'', symbol = Some ''WETN'', decimals = Dec 18 0,
      totalLiquidity = Dec 100000 0, availableLiquidity = Dec 20000 0, totalStableDebt = Dec 10000 0,
      totalVariableDebt = Dec 70000 0, principalStableDebt = Dec 10000 0, scaledVariableDebt = Dec 70000 0,
      averageStableBorrowRate = Dec (10 ^ 26) 0, variableBorrowRate = Dec (10 ^ 26) 0,
      stableBorrowRate = Dec (10 ^ 26) 0, utilizationRate = Dec (8 * 10 ^ 26) 0,
      liquidityIndex = Dec (10 ^ 27) 0, variableBorrowIndex = Dec (10 ^ 27) 0,
      lTokenAddress = Some ''0x02'', marketStableRate = Dec (3 * 10 ^ 25) 0,
      lastUpdateTimestamp = Dec 1000 0, totalStableDebtLastUpdated = Dec 1000 0,
      liquidityRate = Dec (8 * 10 ^ 25) 0\<rparr>"

theorem indices_never_decrease_witness:
  "dec_val (calcExpectedLiquidityIndex (decimal scenario_config) sample_reserve (Dec 31537000 0)) \<ge> 10 ^ 27
   \<and> dec_val (calcExpectedVariableBorrowIndex (decimal scenario_config) sample_reserve (Dec 31537000 0)) \<ge> 10 ^ 27"
  using indices_never_decrease[OF decimal_scenario.scenario_bignumber_axioms,
      of sample_reserve "8 * 10 ^ 26" "8 * 10 ^ 25" 70000 "10 ^ 26" "10 ^ 27" "10 ^ 27" 1000 "Dec 31537000 0" 31537000]
  by (simp add: denotes_def sample_reserve_def)

end
