(* ===== verification/Expected_User.thy ===== *)
theory Expected_User
  imports Interest
begin

text \<open>
  The expected state of a user of a reserve after each action, from
  \<open>test-suites/test-palmy/helpers/utils/calculations.ts\<close>. A function that spreads the old state
  (\<open>{ ...userDataBeforeAction }\<close>) starts from it, the others from the empty object. Arguments a
  function does not use (gas cost, and the current time where only the time of the transaction
  matters) are kept.
\<close>

section \<open>Deposit and withdrawal\<close>

definition calcExpectedUserDataAfterDeposit ::
  "'n bn \<Rightarrow> string \<Rightarrow> 'n ReserveData \<Rightarrow> 'n ReserveData \<Rightarrow> 'n UserReserveData \<Rightarrow> 'n \<Rightarrow> 'n \<Rightarrow> 'n
   \<Rightarrow> 'n UserReserveData" where
  "calcExpectedUserDataAfterDeposit B amountDeposited before after userBefore txTimestamp
     currentTimestamp txCost =
     (let e = empty_UserReserveData B;
          e = e\<lparr>u_currentStableDebt :=
                  calcExpectedStableDebtTokenBalance B (u_principalStableDebt userBefore)
                    (u_stableBorrowRate userBefore) (u_stableRateLastUpdated userBefore)
                    txTimestamp,
                u_currentVariableDebt :=
                  calcExpectedVariableDebtTokenBalance B before userBefore txTimestamp,
                u_principalStableDebt := u_principalStableDebt userBefore,
                u_scaledVariableDebt := u_scaledVariableDebt userBefore,
                u_variableBorrowIndex := u_variableBorrowIndex userBefore,
                u_stableBorrowRate := u_stableBorrowRate userBefore,
                u_stableRateLastUpdated := u_stableRateLastUpdated userBefore,
                u_liquidityRate := liquidityRate after,
                u_scaledLTokenBalance :=
                  calcExpectedScaledLTokenBalance B userBefore (liquidityIndex after)
                    (bn_new B amountDeposited) (bn_new B ''0''),
                u_currentLTokenBalance :=
                  bn_plus B (calcExpectedLTokenBalance B before userBefore txTimestamp)
                    (bn_new B amountDeposited)\<rparr>;
          e = (if bn_eq B (u_currentLTokenBalance userBefore) (bn_new B ''0'')
               then e\<lparr>u_usageAsCollateralEnabled := Some True\<rparr>
               else e\<lparr>u_usageAsCollateralEnabled := u_usageAsCollateralEnabled userBefore\<rparr>);
          e = e\<lparr>u_variableBorrowIndex := u_variableBorrowIndex userBefore,
                u_walletBalance :=
                  bn_minus B (u_walletBalance userBefore) (bn_new B amountDeposited)\<rparr>;
          stableDebt =
            calcExpectedStableDebtTokenBalance B (u_principalStableDebt userBefore)
              (u_stableBorrowRate userBefore) (u_stableRateLastUpdated userBefore) txTimestamp;
          e = e\<lparr>u_principalStableDebt := stableDebt, u_currentStableDebt := stableDebt\<rparr>;
          variableDebt = calcExpectedVariableDebtTokenBalance B before userBefore txTimestamp
      in e\<lparr>u_principalStableDebt := variableDebt, u_currentVariableDebt := variableDebt\<rparr>)"

definition calcExpectedUserDataAfterWithdraw ::
  "'n bn \<Rightarrow> string \<Rightarrow> 'n ReserveData \<Rightarrow> 'n ReserveData \<Rightarrow> 'n UserReserveData \<Rightarrow> 'n \<Rightarrow> 'n \<Rightarrow> 'n
   \<Rightarrow> 'n UserReserveData" where
  "calcExpectedUserDataAfterWithdraw B amountWithdrawn0 before after userBefore txTimestamp
     currentTimestamp txCost =
     (let e = empty_UserReserveData B;
          lTokenBalance = calcExpectedLTokenBalance B before userBefore txTimestamp;
          amountWithdrawn =
            (if amountWithdrawn0 = MAX_UINT_AMOUNT then bn_toFixed0 B lTokenBalance
             else amountWithdrawn0);
          e = e\<lparr>u_scaledLTokenBalance :=
                  calcExpectedScaledLTokenBalance B userBefore (liquidityIndex after)
                    (bn_new B ''0'') (bn_new B amountWithdrawn),
                u_currentLTokenBalance := bn_minus B lTokenBalance (bn_new B amountWithdrawn),
                u_principalStableDebt := u_principalStableDebt userBefore,
                u_scaledVariableDebt := u_scaledVariableDebt userBefore,
                u_currentStableDebt :=
                  calcExpectedStableDebtTokenBalance B (u_principalStableDebt userBefore)
                    (u_stableBorrowRate userBefore) (u_stableRateLastUpdated userBefore)
                    txTimestamp,
                u_currentVariableDebt :=
                  calcExpectedVariableDebtTokenBalance B before userBefore txTimestamp,
                u_variableBorrowIndex := u_variableBorrowIndex userBefore,
                u_stableBorrowRate := u_stableBorrowRate userBefore,
                u_stableRateLastUpdated := u_stableRateLastUpdated userBefore,
                u_liquidityRate := liquidityRate after\<rparr>;
          e = (if bn_eq B (u_currentLTokenBalance userBefore) (bn_new B ''0'')
               then e\<lparr>u_usageAsCollateralEnabled := Some True\<rparr>
               else if bn_eq B (u_currentLTokenBalance e) (bn_new B ''0'')
               then e\<lparr>u_usageAsCollateralEnabled := Some False\<rparr>
               else e\<lparr>u_usageAsCollateralEnabled := u_usageAsCollateralEnabled userBefore\<rparr>)
      in e\<lparr>u_walletBalance := bn_plus B (u_walletBalance userBefore) (bn_new B amountWithdrawn)\<rparr>)"

section \<open>Borrowing and repayment\<close>

definition calcExpectedUserDataAfterBorrow ::
  "'n bn \<Rightarrow> string \<Rightarrow> string \<Rightarrow> 'n ReserveData \<Rightarrow> 'n ReserveData \<Rightarrow> 'n UserReserveData \<Rightarrow> 'n \<Rightarrow> 'n
   \<Rightarrow> 'n UserReserveData" where
  "calcExpectedUserDataAfterBorrow B amountBorrowed interestRateMode before expectedAfter userBefore
     txTimestamp currentTimestamp =
     (let e = empty_UserReserveData B;
          amountBorrowedBN = bn_new B amountBorrowed;
          e = (if interestRateMode = RateMode_name RateMode_Stable
               then
                 let stableDebtUntilTx =
                       calcExpectedStableDebtTokenBalance B (u_principalStableDebt userBefore)
                         (u_stableBorrowRate userBefore) (u_stableRateLastUpdated userBefore)
                         txTimestamp;
                     e = e\<lparr>u_principalStableDebt :=
                             bn_plus B stableDebtUntilTx (bn_new B amountBorrowed),
                           u_stableRateLastUpdated := txTimestamp,
                           u_stableBorrowRate :=
                             calcExpectedUserStableRate B stableDebtUntilTx
                               (u_stableBorrowRate userBefore) amountBorrowedBN
                               (stableBorrowRate before)\<rparr>
                 in e\<lparr>u_currentStableDebt :=
                        calcExpectedStableDebtTokenBalance B (u_principalStableDebt e)
                          (u_stableBorrowRate e) txTimestamp currentTimestamp,
                      u_scaledVariableDebt := u_scaledVariableDebt userBefore\<rparr>
               else
                 e\<lparr>u_scaledVariableDebt :=
                     bn_plus B (scaledVariableDebt before)
                       (rayDiv B amountBorrowedBN (variableBorrowIndex expectedAfter)),
                   u_principalStableDebt := u_principalStableDebt userBefore,
                   u_stableBorrowRate := u_stableBorrowRate userBefore,
                   u_stableRateLastUpdated := u_stableRateLastUpdated userBefore,
                   u_currentStableDebt :=
                     calcExpectedStableDebtTokenBalance B (u_principalStableDebt userBefore)
                       (u_stableBorrowRate userBefore) (u_stableRateLastUpdated userBefore)
                       currentTimestamp\<rparr>)
      in e\<lparr>u_currentVariableDebt :=
             calcExpectedVariableDebtTokenBalance B expectedAfter e currentTimestamp,
           u_liquidityRate := liquidityRate expectedAfter,
           u_usageAsCollateralEnabled := u_usageAsCollateralEnabled userBefore,
           u_currentLTokenBalance :=
             calcExpectedLTokenBalance B expectedAfter userBefore currentTimestamp,
           u_scaledLTokenBalance := u_scaledLTokenBalance userBefore,
           u_walletBalance := bn_plus B (u_walletBalance userBefore) (bn_new B amountBorrowed)\<rparr>)"

definition calcExpectedUserDataAfterRepay ::
  "'n bn \<Rightarrow> string \<Rightarrow> string \<Rightarrow> 'n ReserveData \<Rightarrow> 'n ReserveData \<Rightarrow> 'n UserReserveData \<Rightarrow> string \<Rightarrow> string
   \<Rightarrow> 'n \<Rightarrow> 'n \<Rightarrow> 'n UserReserveData" where
  "calcExpectedUserDataAfterRepay B totalRepaid rateMode before expectedAfter userBefore user
     onBehalfOf txTimestamp currentTimestamp =
     (let e = empty_UserReserveData B;
          variableDebt = calcExpectedVariableDebtTokenBalance B before userBefore currentTimestamp;
          stableDebt =
            calcExpectedStableDebtTokenBalance B (u_principalStableDebt userBefore)
              (u_stableBorrowRate userBefore) (u_stableRateLastUpdated userBefore)
              currentTimestamp;
          totalRepaidBN = bn_new B totalRepaid;
          totalRepaidBN =
            (if bn_eq B (bn_abs B totalRepaidBN) (bn_new B MAX_UINT_AMOUNT)
             then (if rateMode = RateMode_name RateMode_Stable then stableDebt else variableDebt)
             else totalRepaidBN);
          e = (if rateMode = RateMode_name RateMode_Stable
               then
                 let e = e\<lparr>u_scaledVariableDebt := u_scaledVariableDebt userBefore,
                           u_currentVariableDebt := variableDebt,
                           u_currentStableDebt := bn_minus B stableDebt totalRepaidBN,
                           u_principalStableDebt := bn_minus B stableDebt totalRepaidBN\<rparr>
                 in if bn_eq B (u_currentStableDebt e) (bn_new B ''0'')
                    then e\<lparr>u_stableRateLastUpdated := bn_new B ''0'',
                           u_stableBorrowRate := bn_new B ''0''\<rparr>
                    else e\<lparr>u_stableBorrowRate := u_stableBorrowRate userBefore,
                           u_stableRateLastUpdated := txTimestamp\<rparr>
               else
                 let e = e\<lparr>u_currentStableDebt := u_principalStableDebt userBefore,
                           u_principalStableDebt := stableDebt,
                           u_stableBorrowRate := u_stableBorrowRate userBefore,
                           u_stableRateLastUpdated := u_stableRateLastUpdated userBefore,
                           u_scaledVariableDebt :=
                             bn_minus B (u_scaledVariableDebt userBefore)
                               (rayDiv B totalRepaidBN (variableBorrowIndex expectedAfter))\<rparr>
                 in e\<lparr>u_currentVariableDebt :=
                        rayMul B (u_scaledVariableDebt e) (variableBorrowIndex expectedAfter)\<rparr>);
          e = e\<lparr>u_liquidityRate := liquidityRate expectedAfter,
                u_usageAsCollateralEnabled := u_usageAsCollateralEnabled userBefore,
                u_currentLTokenBalance :=
                  calcExpectedLTokenBalance B before userBefore txTimestamp,
                u_scaledLTokenBalance := u_scaledLTokenBalance userBefore\<rparr>
      in if user = onBehalfOf
         then e\<lparr>u_walletBalance := bn_minus B (u_walletBalance userBefore) totalRepaidBN\<rparr>
         else e\<lparr>u_walletBalance := u_walletBalance userBefore\<rparr>)"

section \<open>Collateral, swap and rebalance\<close>

definition calcExpectedUserDataAfterSetUseAsCollateral ::
  "bool \<Rightarrow> 'n ReserveData \<Rightarrow> 'n UserReserveData \<Rightarrow> 'n \<Rightarrow> 'n UserReserveData" where
  "calcExpectedUserDataAfterSetUseAsCollateral useAsCollateral before userBefore txCost =
     userBefore\<lparr>u_usageAsCollateralEnabled := Some useAsCollateral\<rparr>"

definition calcExpectedUserDataAfterSwapRateMode ::
  "'n bn \<Rightarrow> 'n ReserveData \<Rightarrow> 'n ReserveData \<Rightarrow> 'n UserReserveData \<Rightarrow> string \<Rightarrow> 'n \<Rightarrow> 'n
   \<Rightarrow> 'n UserReserveData" where
  "calcExpectedUserDataAfterSwapRateMode B before expectedAfter userBefore rateMode txCost txTimestamp =
     (let e = userBefore;
          stableDebtBalance =
            calcExpectedStableDebtTokenBalance B (u_principalStableDebt userBefore)
              (u_stableBorrowRate userBefore) (u_stableRateLastUpdated userBefore) txTimestamp;
          variableDebtBalance =
            calcExpectedVariableDebtTokenBalance B before userBefore txTimestamp;
          e = e\<lparr>u_currentLTokenBalance :=
                  calcExpectedLTokenBalance B before userBefore txTimestamp\<rparr>;
          e = (if rateMode = RateMode_name RateMode_Stable
               then
                 let e = e\<lparr>u_principalStableDebt := bn_new B ''0'',
                           u_currentStableDebt := bn_new B ''0'',
                           u_stableBorrowRate := bn_new B ''0'',
                           u_scaledVariableDebt :=
                             bn_plus B (u_scaledVariableDebt userBefore)
                               (rayDiv B stableDebtBalance (variableBorrowIndex expectedAfter))\<rparr>
                 in e\<lparr>u_currentVariableDebt :=
                        rayMul B (u_scaledVariableDebt e) (variableBorrowIndex expectedAfter),
                      u_stableRateLastUpdated := bn_new B ''0''\<rparr>
               else
                 e\<lparr>u_currentStableDebt :=
                     bn_plus B (u_currentStableDebt userBefore) variableDebtBalance,
                   u_principalStableDebt :=
                     bn_plus B (u_currentStableDebt userBefore) variableDebtBalance,
                   u_stableBorrowRate :=
                     calcExpectedUserStableRate B stableDebtBalance
                       (u_stableBorrowRate userBefore) variableDebtBalance
                       (stableBorrowRate before),
                   u_stableRateLastUpdated := txTimestamp,
                   u_scaledVariableDebt := bn_new B ''0'',
                   u_currentVariableDebt := bn_new B ''0''\<rparr>)
      in e\<lparr>u_liquidityRate := liquidityRate expectedAfter\<rparr>)"

definition calcExpectedUserDataAfterStableRateRebalance ::
  "'n bn \<Rightarrow> 'n ReserveData \<Rightarrow> 'n ReserveData \<Rightarrow> 'n UserReserveData \<Rightarrow> 'n \<Rightarrow> 'n
   \<Rightarrow> 'n UserReserveData" where
  "calcExpectedUserDataAfterStableRateRebalance B before expectedAfter userBefore txCost txTimestamp =
     (let e = userBefore;
          e = e\<lparr>u_principalStableDebt := u_principalStableDebt userBefore,
                u_principalVariableDebt :=
                  calcExpectedVariableDebtTokenBalance B before userBefore txTimestamp\<rparr>;
          stableDebt =
            calcExpectedStableDebtTokenBalance B (u_principalStableDebt userBefore)
              (u_stableBorrowRate userBefore) (u_stableRateLastUpdated userBefore) txTimestamp;
          e = e\<lparr>u_principalStableDebt := stableDebt, u_currentStableDebt := stableDebt,
                u_currentVariableDebt :=
                  calcExpectedVariableDebtTokenBalance B before userBefore txTimestamp,
                u_stableRateLastUpdated := txTimestamp,
                u_principalVariableDebt := u_principalVariableDebt userBefore\<rparr>
      in e\<lparr>u_stableBorrowRate := averageStableBorrowRate expectedAfter,
           u_liquidityRate := liquidityRate expectedAfter,
           u_currentLTokenBalance := calcExpectedLTokenBalance B before userBefore txTimestamp\<rparr>)"

end
