(* ===== verification/Expected_Reserve.thy ===== *)
theory Expected_Reserve
  imports Interest
begin

text \<open>
  The expected state of a reserve after each action, from
  \<open>test-suites/test-palmy/helpers/utils/calculations.ts\<close>. Each function fills an object that
  starts out empty; the model threads it through updates in the order of the assignments. The one
  way to fail is the lookup of the reserve's parameters. The number parameters are assumed to be
  numbers: a method call on a field that is \<open>undefined\<close> does not occur, since every field a function
  reads from the object it fills has been assigned before.
\<close>

definition with_rates ::
  "js_error + ('n \<times> 'n \<times> 'n) \<Rightarrow> 'n ReserveData \<Rightarrow> js_error + 'n ReserveData" where
  "with_rates rates e =
     (case rates of
        Inl err \<Rightarrow> Inl err
      | Inr (l, s, v) \<Rightarrow>
          Inr (e\<lparr>liquidityRate := l, stableBorrowRate := s, variableBorrowRate := v\<rparr>))"

definition rates_of_expected ::
  "'n bn \<Rightarrow> Configuration \<Rightarrow> 'n ReserveData \<Rightarrow> 'n ReserveData \<Rightarrow> js_error + ('n \<times> 'n \<times> 'n)" where
  "rates_of_expected B conf before e =
     calcExpectedInterestRates B conf (symbol before) (marketStableRate before) (utilizationRate e)
       (totalStableDebt e) (totalVariableDebt e) (averageStableBorrowRate e)"

section \<open>Deposit and withdrawal\<close>

definition calcExpectedReserveDataAfterDeposit ::
  "'n bn \<Rightarrow> Configuration \<Rightarrow> string \<Rightarrow> 'n ReserveData \<Rightarrow> 'n \<Rightarrow> js_error + 'n ReserveData" where
  "calcExpectedReserveDataAfterDeposit B conf amountDeposited before txTimestamp =
     (let e = (empty_ReserveData B)\<lparr>address := address before\<rparr>;
          e = e\<lparr>totalLiquidity := bn_plus B (totalLiquidity before) (bn_new B amountDeposited),
                availableLiquidity :=
                  bn_plus B (availableLiquidity before) (bn_new B amountDeposited),
                averageStableBorrowRate := averageStableBorrowRate before,
                liquidityIndex := calcExpectedLiquidityIndex B before txTimestamp,
                variableBorrowIndex := calcExpectedVariableBorrowIndex B before txTimestamp\<rparr>;
          e = e\<lparr>totalStableDebt :=
                  calcExpectedTotalStableDebt B (principalStableDebt before)
                    (averageStableBorrowRate before) (totalStableDebtLastUpdated before)
                    txTimestamp,
                totalVariableDebt :=
                  calcExpectedTotalVariableDebt B before (variableBorrowIndex e),
                scaledVariableDebt := scaledVariableDebt before,
                principalStableDebt := principalStableDebt before\<rparr>;
          e = e\<lparr>utilizationRate :=
                  calcExpectedUtilizationRate B (totalStableDebt e) (totalVariableDebt e)
                    (totalLiquidity e)\<rparr>
      in with_rates (rates_of_expected B conf before e) e)"

definition calcExpectedReserveDataAfterWithdraw ::
  "'n bn \<Rightarrow> Configuration \<Rightarrow> string \<Rightarrow> 'n ReserveData \<Rightarrow> 'n UserReserveData \<Rightarrow> 'n
   \<Rightarrow> js_error + 'n ReserveData" where
  "calcExpectedReserveDataAfterWithdraw B conf amountWithdrawn0 before userBefore txTimestamp =
     (let e = (empty_ReserveData B)\<lparr>address := address before\<rparr>;
          amountWithdrawn =
            (if amountWithdrawn0 = MAX_UINT_AMOUNT
             then bn_toFixed B (calcExpectedLTokenBalance B before userBefore txTimestamp)
             else amountWithdrawn0);
          e = e\<lparr>availableLiquidity :=
                  bn_minus B (availableLiquidity before) (bn_new B amountWithdrawn),
                principalStableDebt := principalStableDebt before,
                scaledVariableDebt := scaledVariableDebt before,
                liquidityIndex := calcExpectedLiquidityIndex B before txTimestamp,
                variableBorrowIndex := calcExpectedVariableBorrowIndex B before txTimestamp\<rparr>;
          e = e\<lparr>totalStableDebt :=
                  calcExpectedTotalStableDebt B (principalStableDebt before)
                    (averageStableBorrowRate before) (totalStableDebtLastUpdated before)
                    txTimestamp,
                totalVariableDebt := rayMul B (scaledVariableDebt e) (variableBorrowIndex e),
                averageStableBorrowRate := averageStableBorrowRate before\<rparr>;
          e = e\<lparr>totalLiquidity :=
                  bn_plus B
                    (bn_plus B
                      (bn_minus B (availableLiquidity before) (bn_new B amountWithdrawn))
                      (totalVariableDebt e))
                    (totalStableDebt e)\<rparr>;
          e = e\<lparr>utilizationRate :=
                  calcExpectedUtilizationRate B (totalStableDebt e) (totalVariableDebt e)
                    (totalLiquidity e)\<rparr>
      in with_rates (rates_of_expected B conf before e) e)"

section \<open>Borrowing\<close>

definition calcExpectedReserveDataAfterBorrow ::
  "'n bn \<Rightarrow> Configuration \<Rightarrow> string \<Rightarrow> string \<Rightarrow> 'n ReserveData \<Rightarrow> 'n UserReserveData \<Rightarrow> 'n \<Rightarrow> 'n
   \<Rightarrow> js_error + 'n ReserveData" where
  "calcExpectedReserveDataAfterBorrow B conf amountBorrowed borrowRateMode before userBefore
     txTimestamp currentTimestamp =
     (let e = (empty_ReserveData B)\<lparr>address := address before\<rparr>;
          amountBorrowedBN = bn_new B amountBorrowed;
          e = e\<lparr>liquidityIndex := calcExpectedLiquidityIndex B before txTimestamp,
                variableBorrowIndex := calcExpectedVariableBorrowIndex B before txTimestamp,
                availableLiquidity := bn_minus B (availableLiquidity before) amountBorrowedBN,
                lastUpdateTimestamp := txTimestamp\<rparr>
      in if borrowRateMode = RateMode_name RateMode_Stable
         then
           let e = e\<lparr>scaledVariableDebt := scaledVariableDebt before\<rparr>;
               variableDebtAfterTx = rayMul B (scaledVariableDebt e) (variableBorrowIndex e);
               stableDebtUntilTx =
                 calcExpectedTotalStableDebt B (principalStableDebt before)
                   (averageStableBorrowRate before) (totalStableDebtLastUpdated before)
                   txTimestamp;
               e = e\<lparr>principalStableDebt := bn_plus B stableDebtUntilTx amountBorrowedBN,
                     averageStableBorrowRate :=
                       calcExpectedAverageStableBorrowRate B (averageStableBorrowRate before)
                         stableDebtUntilTx amountBorrowedBN (stableBorrowRate before)\<rparr>;
               totalLiquidityAfterTx =
                 bn_plus B (bn_plus B (availableLiquidity e) (principalStableDebt e))
                   variableDebtAfterTx;
               utilizationRateAfterTx =
                 calcExpectedUtilizationRate B (principalStableDebt e) variableDebtAfterTx
                   totalLiquidityAfterTx
           in case calcExpectedInterestRates B conf (symbol before) (marketStableRate before)
                     utilizationRateAfterTx (principalStableDebt e) variableDebtAfterTx
                     (averageStableBorrowRate e) of
                Inl err \<Rightarrow> Inl err
              | Inr (r0, r1, r2) \<Rightarrow>
                  let e = e\<lparr>liquidityRate := r0, stableBorrowRate := r1,
                            variableBorrowRate := r2\<rparr>;
                      e = e\<lparr>totalStableDebt :=
                              calcExpectedTotalStableDebt B (principalStableDebt e)
                                (averageStableBorrowRate e) txTimestamp currentTimestamp,
                            totalVariableDebt :=
                              rayMul B (scaledVariableDebt before)
                                (calcExpectedReserveNormalizedDebt B (variableBorrowRate e)
                                  (variableBorrowIndex e) txTimestamp currentTimestamp)\<rparr>;
                      e = e\<lparr>totalLiquidity :=
                              bn_plus B (bn_plus B (availableLiquidity e) (totalVariableDebt e))
                                (totalStableDebt e)\<rparr>
                  in Inr (e\<lparr>utilizationRate :=
                              calcExpectedUtilizationRate B (totalStableDebt e)
                                (totalVariableDebt e) (totalLiquidity e)\<rparr>)
         else
           let e = e\<lparr>principalStableDebt := principalStableDebt before\<rparr>;
               totalStableDebtAfterTx =
                 calcExpectedStableDebtTokenBalance B (principalStableDebt before)
                   (averageStableBorrowRate before) (totalStableDebtLastUpdated before)
                   txTimestamp;
               e = e\<lparr>totalStableDebt :=
                       calcExpectedTotalStableDebt B (principalStableDebt before)
                         (averageStableBorrowRate before) (totalStableDebtLastUpdated before)
                         currentTimestamp,
                     averageStableBorrowRate := averageStableBorrowRate before,
                     scaledVariableDebt :=
                       bn_plus B (scaledVariableDebt before)
                         (rayDiv B amountBorrowedBN (variableBorrowIndex e))\<rparr>;
               totalVariableDebtAfterTx = rayMul B (scaledVariableDebt e) (variableBorrowIndex e);
               utilizationRateAfterTx =
                 calcExpectedUtilizationRate B totalStableDebtAfterTx totalVariableDebtAfterTx
                   (bn_plus B (bn_plus B (availableLiquidity e) totalStableDebtAfterTx)
                     totalVariableDebtAfterTx)
           in case calcExpectedInterestRates B conf (symbol before) (marketStableRate before)
                     utilizationRateAfterTx totalStableDebtAfterTx totalVariableDebtAfterTx
                     (averageStableBorrowRate e) of
                Inl err \<Rightarrow> Inl err
              | Inr (r0, r1, r2) \<Rightarrow>
                  let e = e\<lparr>liquidityRate := r0, stableBorrowRate := r1,
                            variableBorrowRate := r2\<rparr>;
                      e = e\<lparr>totalVariableDebt :=
                              rayMul B (scaledVariableDebt e)
                                (calcExpectedReserveNormalizedDebt B (variableBorrowRate e)
                                  (variableBorrowIndex e) txTimestamp currentTimestamp)\<rparr>;
                      e = e\<lparr>totalLiquidity :=
                              bn_plus B (bn_plus B (availableLiquidity e) (totalStableDebt e))
                                (totalVariableDebt e)\<rparr>
                  in Inr (e\<lparr>utilizationRate :=
                              calcExpectedUtilizationRate B (totalStableDebt e)
                                (totalVariableDebt e) (totalLiquidity e)\<rparr>))"

section \<open>Repayment\<close>

definition calcExpectedReserveDataAfterRepay ::
  "'n bn \<Rightarrow> Configuration \<Rightarrow> string \<Rightarrow> string \<Rightarrow> 'n ReserveData \<Rightarrow> 'n UserReserveData \<Rightarrow> 'n \<Rightarrow> 'n
   \<Rightarrow> js_error + 'n ReserveData" where
  "calcExpectedReserveDataAfterRepay B conf amountRepaid borrowRateMode before userBefore
     txTimestamp currentTimestamp =
     (let e = (empty_ReserveData B)\<lparr>address := address before\<rparr>;
          amountRepaidBN = bn_new B amountRepaid;
          userStableDebt =
            calcExpectedStableDebtTokenBalance B (u_principalStableDebt userBefore)
              (u_stableBorrowRate userBefore) (u_stableRateLastUpdated userBefore) txTimestamp;
          userVariableDebt =
            calcExpectedVariableDebtTokenBalance B before userBefore txTimestamp;
          amountRepaidBN =
            (if bn_eq B (bn_abs B amountRepaidBN) (bn_new B MAX_UINT_AMOUNT)
             then (if borrowRateMode = RateMode_name RateMode_Stable then userStableDebt
                   else userVariableDebt)
             else amountRepaidBN);
          e = e\<lparr>liquidityIndex := calcExpectedLiquidityIndex B before txTimestamp,
                variableBorrowIndex := calcExpectedVariableBorrowIndex B before txTimestamp\<rparr>;
          e = (if borrowRateMode = RateMode_name RateMode_Stable
               then
                 let expectedDebt =
                       calcExpectedTotalStableDebt B (principalStableDebt before)
                         (averageStableBorrowRate before) (totalStableDebtLastUpdated before)
                         txTimestamp;
                     e = e\<lparr>principalStableDebt := bn_minus B expectedDebt amountRepaidBN,
                           totalStableDebt := bn_minus B expectedDebt amountRepaidBN\<rparr>;
                     e = (if bn_lt B (totalStableDebt e) (bn_new B ''0'')
                          then e\<lparr>principalStableDebt := bn_new B ''0'',
                                 totalStableDebt := bn_new B ''0'',
                                 averageStableBorrowRate := bn_new B ''0''\<rparr>
                          else
                            let e = e\<lparr>averageStableBorrowRate :=
                                        calcExpectedAverageStableBorrowRate B
                                          (averageStableBorrowRate before) expectedDebt
                                          (bn_negated B amountRepaidBN)
                                          (u_stableBorrowRate userBefore)\<rparr>
                            in if bn_lt B (averageStableBorrowRate e) (bn_new B ''0'')
                               then e\<lparr>principalStableDebt := bn_new B ''0'',
                                      totalStableDebt := bn_new B ''0'',
                                      averageStableBorrowRate := bn_new B ''0''\<rparr>
                               else e);
                     e = e\<lparr>scaledVariableDebt := scaledVariableDebt before\<rparr>
                 in e\<lparr>totalVariableDebt :=
                        rayMul B (scaledVariableDebt e) (variableBorrowIndex e)\<rparr>
               else
                 let e = e\<lparr>scaledVariableDebt :=
                             bn_minus B (scaledVariableDebt before)
                               (rayDiv B amountRepaidBN (variableBorrowIndex e))\<rparr>
                 in e\<lparr>totalVariableDebt :=
                        rayMul B (scaledVariableDebt e) (variableBorrowIndex e),
                      principalStableDebt := principalStableDebt before,
                      totalStableDebt := totalStableDebt before,
                      averageStableBorrowRate := averageStableBorrowRate before\<rparr>);
          e = e\<lparr>availableLiquidity := bn_plus B (availableLiquidity before) amountRepaidBN\<rparr>;
          e = e\<lparr>totalLiquidity :=
                  bn_plus B (bn_plus B (availableLiquidity e) (totalStableDebt e))
                    (totalVariableDebt e)\<rparr>;
          e = e\<lparr>utilizationRate :=
                  calcExpectedUtilizationRate B (totalStableDebt e) (totalVariableDebt e)
                    (totalLiquidity e)\<rparr>
      in map_sum id (\<lambda>e. e\<lparr>lastUpdateTimestamp := txTimestamp\<rparr>)
           (with_rates (rates_of_expected B conf before e) e))"

section \<open>Swapping the rate mode and rebalancing\<close>

definition calcExpectedReserveDataAfterSwapRateMode ::
  "'n bn \<Rightarrow> Configuration \<Rightarrow> 'n ReserveData \<Rightarrow> 'n UserReserveData \<Rightarrow> string \<Rightarrow> 'n
   \<Rightarrow> js_error + 'n ReserveData" where
  "calcExpectedReserveDataAfterSwapRateMode B conf before userBefore rateMode txTimestamp =
     (let e = (empty_ReserveData B)\<lparr>address := address before\<rparr>;
          variableDebt = calcExpectedVariableDebtTokenBalance B before userBefore txTimestamp;
          stableDebt =
            calcExpectedStableDebtTokenBalance B (u_principalStableDebt userBefore)
              (u_stableBorrowRate userBefore) (u_stableRateLastUpdated userBefore) txTimestamp;
          e = e\<lparr>liquidityIndex := calcExpectedLiquidityIndex B before txTimestamp,
                variableBorrowIndex := calcExpectedVariableBorrowIndex B before txTimestamp,
                availableLiquidity := availableLiquidity before\<rparr>;
          totalStableDebtUntilTx =
            calcExpectedTotalStableDebt B (principalStableDebt before)
              (averageStableBorrowRate before) (totalStableDebtLastUpdated before) txTimestamp;
          e = (if rateMode = RateMode_name RateMode_Stable
               then
                 let e = e\<lparr>scaledVariableDebt :=
                             bn_plus B (scaledVariableDebt before)
                               (rayDiv B stableDebt (variableBorrowIndex e))\<rparr>;
                     e = e\<lparr>totalVariableDebt :=
                             rayMul B (scaledVariableDebt e) (variableBorrowIndex e),
                           principalStableDebt := bn_minus B totalStableDebtUntilTx stableDebt,
                           totalStableDebt := bn_minus B totalStableDebtUntilTx stableDebt\<rparr>
                 in e\<lparr>averageStableBorrowRate :=
                        calcExpectedAverageStableBorrowRate B (averageStableBorrowRate before)
                          (bn_plus B (principalStableDebt e) stableDebt)
                          (bn_negated B stableDebt) (u_stableBorrowRate userBefore)\<rparr>
               else
                 let e = e\<lparr>principalStableDebt := bn_plus B totalStableDebtUntilTx variableDebt,
                           totalStableDebt := bn_plus B totalStableDebtUntilTx variableDebt,
                           scaledVariableDebt :=
                             bn_minus B (scaledVariableDebt before)
                               (rayDiv B variableDebt (variableBorrowIndex e))\<rparr>
                 in e\<lparr>totalVariableDebt :=
                        rayMul B (scaledVariableDebt e) (variableBorrowIndex e),
                      averageStableBorrowRate :=
                        calcExpectedAverageStableBorrowRate B (averageStableBorrowRate before)
                          (totalStableDebt before) variableDebt (stableBorrowRate before)\<rparr>);
          e = e\<lparr>totalLiquidity :=
                  bn_plus B (bn_plus B (availableLiquidity before) (totalStableDebt e))
                    (totalVariableDebt e)\<rparr>;
          e = e\<lparr>utilizationRate :=
                  calcExpectedUtilizationRate B (totalStableDebt e) (totalVariableDebt e)
                    (totalLiquidity e)\<rparr>
      in with_rates (rates_of_expected B conf before e) e)"

definition calcExpectedReserveDataAfterStableRateRebalance ::
  "'n bn \<Rightarrow> Configuration \<Rightarrow> 'n ReserveData \<Rightarrow> 'n UserReserveData \<Rightarrow> 'n
   \<Rightarrow> js_error + 'n ReserveData" where
  "calcExpectedReserveDataAfterStableRateRebalance B conf before userBefore txTimestamp =
     (let e = (empty_ReserveData B)\<lparr>address := address before\<rparr>;
          userStableDebt =
            calcExpectedStableDebtTokenBalance B (u_principalStableDebt userBefore)
              (u_stableBorrowRate userBefore) (u_stableRateLastUpdated userBefore) txTimestamp;
          e = e\<lparr>liquidityIndex := calcExpectedLiquidityIndex B before txTimestamp,
                variableBorrowIndex := calcExpectedVariableBorrowIndex B before txTimestamp,
                scaledVariableDebt := scaledVariableDebt before\<rparr>;
          totalDebt =
            calcExpectedTotalStableDebt B (principalStableDebt before)
              (averageStableBorrowRate before) (totalStableDebtLastUpdated before) txTimestamp;
          e = e\<lparr>totalVariableDebt := rayMul B (scaledVariableDebt e) (variableBorrowIndex e),
                principalStableDebt := totalDebt, totalStableDebt := totalDebt,
                availableLiquidity := availableLiquidity before\<rparr>;
          e = e\<lparr>totalLiquidity :=
                  bn_plus B (bn_plus B (availableLiquidity e) (totalStableDebt e))
                    (totalVariableDebt e)\<rparr>;
          avgRateBefore =
            calcExpectedAverageStableBorrowRateRebalance B (averageStableBorrowRate before)
              (totalStableDebt e) (bn_negated B userStableDebt) (u_stableBorrowRate userBefore);
          e = e\<lparr>averageStableBorrowRate :=
                  calcExpectedAverageStableBorrowRateRebalance B avgRateBefore
                    (bn_minus B (totalStableDebt e) userStableDebt) userStableDebt
                    (stableBorrowRate before)\<rparr>;
          e = e\<lparr>utilizationRate :=
                  calcExpectedUtilizationRate B (totalStableDebt e) (totalVariableDebt e)
                    (totalLiquidity e)\<rparr>
      in with_rates (rates_of_expected B conf before e) e)"

end
