(* ===== verification/Reserve_Properties.thy ===== *)
theory Reserve_Properties
  imports Expected_Reserve
begin

text \<open>
  Properties of the expected state of a reserve. \<open>reserve_action\<close> names the actions with the
  arguments the calculator takes for them, and \<open>expected_reserve\<close> is the function of each action.
\<close>

datatype reserve_action =
    Deposit string
  | Withdraw string
  | Borrow string string
  | Repay string string
  | SwapRateMode string
  | RebalanceStableRate

fun expected_reserve ::
  "'n bn \<Rightarrow> Configuration \<Rightarrow> reserve_action \<Rightarrow> 'n ReserveData \<Rightarrow> 'n UserReserveData \<Rightarrow> 'n \<Rightarrow> 'n
   \<Rightarrow> js_error + 'n ReserveData" where
  "expected_reserve B conf (Deposit a) d u T now = calcExpectedReserveDataAfterDeposit B conf a d T"
| "expected_reserve B conf (Withdraw a) d u T now = calcExpectedReserveDataAfterWithdraw B conf a d u T"
| "expected_reserve B conf (Borrow a m) d u T now = calcExpectedReserveDataAfterBorrow B conf a m d u T now"
| "expected_reserve B conf (Repay a m) d u T now = calcExpectedReserveDataAfterRepay B conf a m d u T now"
| "expected_reserve B conf (SwapRateMode m) d u T now = calcExpectedReserveDataAfterSwapRateMode B conf d u m T"
| "expected_reserve B conf RebalanceStableRate d u T now =
     calcExpectedReserveDataAfterStableRateRebalance B conf d u T"

lemmas expected_reserve_defs =
  calcExpectedReserveDataAfterDeposit_def calcExpectedReserveDataAfterWithdraw_def
  calcExpectedReserveDataAfterBorrow_def calcExpectedReserveDataAfterRepay_def
  calcExpectedReserveDataAfterSwapRateMode_def calcExpectedReserveDataAfterStableRateRebalance_def

lemma with_rates_Inr:
  "with_rates r e = Inr e' \<longleftrightarrow>
     (\<exists>l s v. r = Inr (l, s, v) \<and> e' = e\<lparr>liquidityRate := l, stableBorrowRate := s, variableBorrowRate := v\<rparr>)"
  by (auto simp: with_rates_def split: sum.splits)

lemma with_rates_Inl [simp]: "with_rates r e = Inl err \<longleftrightarrow> r = Inl err"
  by (auto simp: with_rates_def split: sum.splits)

lemma map_sum_Inl_iff [simp]: "map_sum id f r = Inl err \<longleftrightarrow> r = Inl err"
  by (cases r) auto

lemma map_sum_Inr_iff: "map_sum id f r = Inr e' \<longleftrightarrow> (\<exists>e. r = Inr e \<and> e' = f e)"
  by (cases r) auto

lemma expected_reserve_Inl:
  "expected_reserve B conf act d u T now = Inl err \<longleftrightarrow> find_reserve_params conf (symbol d) = Inl err"
  by (cases act; cases "find_reserve_params conf (symbol d)")
    (simp_all add: expected_reserve_defs Let_def rates_of_expected_def calcExpectedInterestRates_def
      with_rates_def split: prod.splits)

text \<open>
  The calculation for an action fails exactly when the reserve's symbol has no parameters in the
  configuration, with the error of the lookup, whatever the action and the numbers.
\<close>

theorem expected_reserve_error:
  "expected_reserve B conf act d u T now = Inl err \<longleftrightarrow> find_reserve_params conf (symbol d) = Inl err"
  by (rule expected_reserve_Inl)

text \<open>
  The fields of the result that the accounting properties are about.
\<close>

lemma deposit_fields:
  assumes "calcExpectedReserveDataAfterDeposit B conf a d T = Inr e"
  shows "totalLiquidity e = bn_plus B (totalLiquidity d) (bn_new B a)"
    and "availableLiquidity e = bn_plus B (availableLiquidity d) (bn_new B a)"
    and "liquidityIndex e = calcExpectedLiquidityIndex B d T"
    and "totalStableDebt e = calcExpectedTotalStableDebt B (principalStableDebt d)
           (averageStableBorrowRate d) (totalStableDebtLastUpdated d) T"
    and "totalVariableDebt e = rayMul B (scaledVariableDebt d) (calcExpectedVariableBorrowIndex B d T)"
  using assms
  by (auto simp: calcExpectedReserveDataAfterDeposit_def Let_def with_rates_Inr calcExpectedTotalVariableDebt_def)

lemma borrow_fields:
  assumes "calcExpectedReserveDataAfterBorrow B conf a m d u T now = Inr e"
  shows "availableLiquidity e = bn_minus B (availableLiquidity d) (bn_new B a)"
    and "liquidityIndex e = calcExpectedLiquidityIndex B d T"
    and "variableBorrowIndex e = calcExpectedVariableBorrowIndex B d T"
    and "m = RateMode_name RateMode_Stable \<Longrightarrow>
           totalLiquidity e = bn_plus B (bn_plus B (availableLiquidity e) (totalVariableDebt e)) (totalStableDebt e)"
    and "m \<noteq> RateMode_name RateMode_Stable \<Longrightarrow>
           totalLiquidity e = bn_plus B (bn_plus B (availableLiquidity e) (totalStableDebt e)) (totalVariableDebt e)"
    and "m = RateMode_name RateMode_Stable \<Longrightarrow>
           averageStableBorrowRate e = calcExpectedAverageStableBorrowRate B (averageStableBorrowRate d)
             (calcExpectedTotalStableDebt B (principalStableDebt d)
                (averageStableBorrowRate d) (totalStableDebtLastUpdated d) T)
             (bn_new B a) (stableBorrowRate d)"
  using assms
  by (auto simp: calcExpectedReserveDataAfterBorrow_def Let_def split: sum.splits if_splits)

definition withdrawn_amount ::
  "'n bn \<Rightarrow> string \<Rightarrow> 'n ReserveData \<Rightarrow> 'n UserReserveData \<Rightarrow> 'n \<Rightarrow> 'n" where
  "withdrawn_amount B a d u T =
     (if a = MAX_UINT_AMOUNT then bn_new B (bn_toFixed B (calcExpectedLTokenBalance B d u T))
      else bn_new B a)"

definition repaid_amount ::
  "'n bn \<Rightarrow> string \<Rightarrow> string \<Rightarrow> 'n ReserveData \<Rightarrow> 'n UserReserveData \<Rightarrow> 'n \<Rightarrow> 'n" where
  "repaid_amount B a m d u T =
     (if bn_eq B (bn_abs B (bn_new B a)) (bn_new B MAX_UINT_AMOUNT)
      then (if m = RateMode_name RateMode_Stable
            then calcExpectedStableDebtTokenBalance B (u_principalStableDebt u)
                   (u_stableBorrowRate u) (u_stableRateLastUpdated u) T
            else calcExpectedVariableDebtTokenBalance B d u T)
      else bn_new B a)"

lemma withdraw_fields:
  assumes "calcExpectedReserveDataAfterWithdraw B conf a d u T = Inr e"
  shows "availableLiquidity e = bn_minus B (availableLiquidity d) (withdrawn_amount B a d u T)"
    and "totalLiquidity e = bn_plus B (bn_plus B (availableLiquidity e) (totalVariableDebt e)) (totalStableDebt e)"
    and "liquidityIndex e = calcExpectedLiquidityIndex B d T"
    and "totalStableDebt e = calcExpectedTotalStableDebt B (principalStableDebt d)
           (averageStableBorrowRate d) (totalStableDebtLastUpdated d) T"
    and "totalVariableDebt e = rayMul B (scaledVariableDebt d) (calcExpectedVariableBorrowIndex B d T)"
  using assms
  by (auto simp: calcExpectedReserveDataAfterWithdraw_def Let_def with_rates_Inr withdrawn_amount_def)

lemma repay_fields:
  assumes "calcExpectedReserveDataAfterRepay B conf a m d u T now = Inr e"
  shows "availableLiquidity e = bn_plus B (availableLiquidity d) (repaid_amount B a m d u T)"
    and "totalLiquidity e = bn_plus B (bn_plus B (availableLiquidity e) (totalStableDebt e)) (totalVariableDebt e)"
  using assms
  by (auto simp: calcExpectedReserveDataAfterRepay_def Let_def with_rates_Inr map_sum_Inr_iff repaid_amount_def
      split: if_splits)

lemma repay_stable_fields:
  assumes "calcExpectedReserveDataAfterRepay B conf a (RateMode_name RateMode_Stable) d u T now = Inr e"
  defines "debt \<equiv> calcExpectedTotalStableDebt B (principalStableDebt d)
                     (averageStableBorrowRate d) (totalStableDebtLastUpdated d) T"
    and "amount \<equiv> repaid_amount B a (RateMode_name RateMode_Stable) d u T"
  defines "avg \<equiv> calcExpectedAverageStableBorrowRate B (averageStableBorrowRate d) debt
                    (bn_negated B amount) (u_stableBorrowRate u)"
  shows "principalStableDebt e = totalStableDebt e"
    and "bn_lt B (bn_minus B debt amount) (bn_new B ''0'') \<or> bn_lt B avg (bn_new B ''0'') \<Longrightarrow>
           totalStableDebt e = bn_new B ''0'' \<and> averageStableBorrowRate e = bn_new B ''0''"
    and "\<not> bn_lt B (bn_minus B debt amount) (bn_new B ''0'') \<Longrightarrow> \<not> bn_lt B avg (bn_new B ''0'') \<Longrightarrow>
           totalStableDebt e = bn_minus B debt amount \<and> averageStableBorrowRate e = avg"
  using assms(1) unfolding debt_def amount_def avg_def repaid_amount_def
  by (auto simp: calcExpectedReserveDataAfterRepay_def Let_def with_rates_Inr map_sum_Inr_iff
      split: if_splits)

lemma swap_fields:
  assumes "calcExpectedReserveDataAfterSwapRateMode B conf d u m T = Inr e"
  shows "availableLiquidity e = availableLiquidity d"
    and "totalLiquidity e = bn_plus B (bn_plus B (availableLiquidity e) (totalStableDebt e)) (totalVariableDebt e)"
  using assms
  by (auto simp: calcExpectedReserveDataAfterSwapRateMode_def Let_def with_rates_Inr split: if_splits)

lemma rebalance_fields:
  assumes "calcExpectedReserveDataAfterStableRateRebalance B conf d u T = Inr e"
  shows "availableLiquidity e = availableLiquidity d"
    and "totalLiquidity e = bn_plus B (bn_plus B (availableLiquidity e) (totalStableDebt e)) (totalVariableDebt e)"
  using assms
  by (auto simp: calcExpectedReserveDataAfterStableRateRebalance_def Let_def with_rates_Inr)

fun is_deposit :: "reserve_action \<Rightarrow> bool" where
  "is_deposit (Deposit a) = True"
| "is_deposit _ = False"

lemma total_liquidity_sum:
  assumes "expected_reserve B conf act d u T now = Inr e" "\<not> is_deposit act"
  shows "totalLiquidity e \<in>
     {bn_plus B (bn_plus B (availableLiquidity e) (totalStableDebt e)) (totalVariableDebt e),
      bn_plus B (bn_plus B (availableLiquidity e) (totalVariableDebt e)) (totalStableDebt e)}"
proof (cases act)
  case (Borrow a m)
  then show ?thesis
    using assms borrow_fields(4,5)[of B conf a m d u T now e]
    by (cases "m = RateMode_name RateMode_Stable") auto
qed (use assms in \<open>auto dest: withdraw_fields(2) repay_fields(2) swap_fields(2) rebalance_fields(2)\<close>)

text \<open>
  C8. After every action except a deposit the total liquidity of the expected reserve is its
  available liquidity plus its stable and variable debt.
\<close>

theorem expected_reserve_accounting:
  assumes "bignumber B cfg fin val"
    and "expected_reserve B conf act d u T now = Inr e" and "\<not> is_deposit act"
    and "fin (availableLiquidity e)" "fin (totalStableDebt e)" "fin (totalVariableDebt e)"
  shows "fin (totalLiquidity e)
       \<and> val (totalLiquidity e) = val (availableLiquidity e) + val (totalStableDebt e) + val (totalVariableDebt e)"
  using total_liquidity_sum[OF assms(2,3)] assms(4-6)
  by (auto simp: bignumber.plus_fin[OF assms(1)] bignumber.plus_val[OF assms(1)])

text \<open>
  After a deposit the total liquidity is the old one plus the amount: from a reserve whose
  total was the sum of its parts, it falls short of the new sum by the interest the debts have
  accrued since the last update.
\<close>

theorem deposit_omits_accrued_interest:
  assumes "bignumber B cfg fin val"
    and "calcExpectedReserveDataAfterDeposit B conf a d T = Inr e"
    and "fin (bn_new B a)" "fin (availableLiquidity d)" "fin (totalStableDebt d)" "fin (totalVariableDebt d)"
    and "fin (totalLiquidity d)"
    and "val (totalLiquidity d) = val (availableLiquidity d) + val (totalStableDebt d) + val (totalVariableDebt d)"
  shows "val (availableLiquidity e) + val (totalStableDebt e) + val (totalVariableDebt e) - val (totalLiquidity e)
       = (val (totalStableDebt e) - val (totalStableDebt d)) + (val (totalVariableDebt e) - val (totalVariableDebt d))"
  using deposit_fields[OF assms(2)] assms(3-8) by (simp add: bignumber.plus_val[OF assms(1)])

section \<open>Finiteness\<close>

context bignumber
begin

lemma calcLinearInterest_fin [simp]:
  "fin (calcLinearInterest B r t l) \<longleftrightarrow> fin r \<and> fin t \<and> fin l"
  by (simp add: calcLinearInterest_def Let_def)

lemma calcCompoundedInterest_fin [simp]:
  "fin r \<Longrightarrow> fin t \<Longrightarrow> fin l \<Longrightarrow> fin (calcCompoundedInterest B r t l)"
  by (simp add: calcCompoundedInterest_def Let_def)

lemma calcExpectedLiquidityIndex_fin [simp]:
  "fin (liquidityRate d) \<Longrightarrow> fin (lastUpdateTimestamp d) \<Longrightarrow> fin (liquidityIndex d) \<Longrightarrow> fin t \<Longrightarrow>
   fin (calcExpectedLiquidityIndex B d t)"
  by (simp add: calcExpectedLiquidityIndex_def)

lemma calcExpectedVariableBorrowIndex_fin [simp]:
  "fin (variableBorrowRate d) \<Longrightarrow> fin (lastUpdateTimestamp d) \<Longrightarrow> fin (variableBorrowIndex d) \<Longrightarrow> fin t \<Longrightarrow>
   fin (calcExpectedVariableBorrowIndex B d t)"
  by (simp add: calcExpectedVariableBorrowIndex_def)

lemma calcExpectedTotalStableDebt_fin [simp]:
  "fin p \<Longrightarrow> fin r \<Longrightarrow> fin l \<Longrightarrow> fin t \<Longrightarrow> fin (calcExpectedTotalStableDebt B p r l t)"
  by (simp add: calcExpectedTotalStableDebt_def)

lemma normalizedDebt_fin [simp]:
  "fin r \<Longrightarrow> fin i \<Longrightarrow> fin l \<Longrightarrow> fin t \<Longrightarrow> fin (calcExpectedReserveNormalizedDebt B r i l t)"
  by (simp add: calcExpectedReserveNormalizedDebt_def)

lemma normalizedIncome_fin [simp]:
  "fin (liquidityRate d) \<Longrightarrow> fin (lastUpdateTimestamp d) \<Longrightarrow> fin (liquidityIndex d) \<Longrightarrow> fin t \<Longrightarrow>
   fin (calcExpectedReserveNormalizedIncome B d t)"
  by (simp add: calcExpectedReserveNormalizedIncome_def)

lemma lTokenBalance_fin [simp]:
  "fin (liquidityRate d) \<Longrightarrow> fin (lastUpdateTimestamp d) \<Longrightarrow> fin (liquidityIndex d) \<Longrightarrow> fin t \<Longrightarrow>
   fin (u_scaledLTokenBalance u) \<Longrightarrow> fin (calcExpectedLTokenBalance B d u t)"
  by (simp add: calcExpectedLTokenBalance_def)

lemma variableDebtTokenBalance_fin [simp]:
  "fin (variableBorrowRate d) \<Longrightarrow> fin (lastUpdateTimestamp d) \<Longrightarrow> fin (variableBorrowIndex d) \<Longrightarrow> fin t \<Longrightarrow>
   fin (u_scaledVariableDebt u) \<Longrightarrow> fin (calcExpectedVariableDebtTokenBalance B d u t)"
  by (simp add: calcExpectedVariableDebtTokenBalance_def)

lemma stableDebtTokenBalance_fin [simp]:
  "fin p \<Longrightarrow> fin r \<Longrightarrow> fin l \<Longrightarrow> fin t \<Longrightarrow> fin (calcExpectedStableDebtTokenBalance B p r l t)"
  by (simp add: calcExpectedStableDebtTokenBalance_def)

lemma averageStableBorrowRate_fin [simp]:
  "fin a \<Longrightarrow> fin t \<Longrightarrow> fin c \<Longrightarrow> fin r \<Longrightarrow> fin (calcExpectedAverageStableBorrowRate B a t c r)"
  by (simp add: calcExpectedAverageStableBorrowRate_def Let_def)



end

text \<open>
  A reserve all of whose numbers are finite, and the strings the samples use.
\<close>

definition reserve_finite :: "('n \<Rightarrow> bool) \<Rightarrow> 'n ReserveData \<Rightarrow> bool" where
  "reserve_finite fin d \<longleftrightarrow>
     list_all fin
       [totalLiquidity d, availableLiquidity d, totalStableDebt d, totalVariableDebt d,
        principalStableDebt d, scaledVariableDebt d, averageStableBorrowRate d, variableBorrowRate d,
        stableBorrowRate d, utilizationRate d, liquidityIndex d, variableBorrowIndex d,
        marketStableRate d, lastUpdateTimestamp d, totalStableDebtLastUpdated d, liquidityRate d]"

lemma sample_reserve_finite: "reserve_finite dec_fin sample_reserve"
  by (simp add: reserve_finite_def sample_reserve_def)

definition sample_user :: "dec UserReserveData" where
  "sample_user =
     \<lparr>u_scaledLTokenBalance = Dec 500 0, u_currentLTokenBalance = Dec 500 0,
      u_currentStableDebt = Dec 300 0, u_currentVariableDebt = Dec 40 0,
      u_principalStableDebt = Dec 300 0, u_scaledVariableDebt = Dec 40 0,
      u_liquidityRate = Dec (8 * 10 ^ 25) 0, u_stableBorrowRate = Dec (10 ^ 26) 0,
      u_stableRateLastUpdated = Dec 1000 0, u_usageAsCollateralEnabled = Some True,
      u_walletBalance = Dec 9000 0, u_variableBorrowIndex = Dec (10 ^ 27) 0,
      u_principalVariableDebt = Undefined\<rparr>"

abbreviation sample_conf :: Configuration where
  "sample_conf \<equiv> \<lparr>reservesParams = Some (ReservesConfig (ElectroConfig (decimal scenario_config)))\<rparr>"

lemma sample_result:
  obtains e where "expected_reserve (decimal scenario_config) sample_conf act sample_reserve u T now = Inr e"
proof (cases "expected_reserve (decimal scenario_config) sample_conf act sample_reserve u T now")
  case (Inl err)
  then have "find_reserve_params sample_conf (symbol sample_reserve) = Inl err"
    by (simp add: expected_reserve_Inl)
  then show ?thesis by (simp add: sample_reserve_def find_market_reserve)
qed (use that in blast)

lemma parse_sample: "parse_decimal ''100'' = Some (100, 0)" by (simp add: parse_eval)

context scenario_bignumber
begin

lemma withdrawn_amount_plain: "a \<noteq> MAX_UINT_AMOUNT \<Longrightarrow> withdrawn_amount B a d u T = bn_new B a"
  by (simp add: withdrawn_amount_def)

end

theorem expected_reserve_accounting_witness:
  "\<exists>e. expected_reserve (decimal scenario_config) sample_conf (Withdraw ''100'') sample_reserve sample_user
         (Dec 2000 0) (Dec 2000 0) = Inr e
     \<and> dec_val (totalLiquidity e)
         = dec_val (availableLiquidity e) + dec_val (totalStableDebt e) + dec_val (totalVariableDebt e)"
proof -
  obtain e where e: "expected_reserve (decimal scenario_config) sample_conf (Withdraw ''100'')
      sample_reserve sample_user (Dec 2000 0) (Dec 2000 0) = Inr e"
    by (rule sample_result)
  have w: "withdrawn_amount (decimal scenario_config) ''100'' sample_reserve sample_user (Dec 2000 0)
      = bn_new (decimal scenario_config) ''100''"
    by (rule decimal_scenario.withdrawn_amount_plain) (simp add: MAX_UINT_AMOUNT_def)
  have "dec_fin (availableLiquidity e)" "dec_fin (totalStableDebt e)" "dec_fin (totalVariableDebt e)"
    using withdraw_fields[OF e[unfolded expected_reserve.simps]] sample_reserve_finite
      decimal_scenario.new_fin[OF parse_sample] w
    by (simp_all add: reserve_finite_def)
  then show ?thesis
    using e expected_reserve_accounting[OF decimal_bignumber e] by auto
qed

text \<open>The debts of the sample after a year.\<close>

lemma sample_debts:
  assumes "calcExpectedReserveDataAfterDeposit (decimal scenario_config) sample_conf a sample_reserve
             (Dec 31537000 0) = Inr e"
  shows "denotes dec_fin dec_val (totalStableDebt e) 11052"
    and "denotes dec_fin dec_val (totalVariableDebt e) 77362"
proof -
  let ?B = "decimal scenario_config" and ?T = "Dec 31537000 0"
  have c: "compounded_interest (10 ^ 26) 31536000 = 1105167270015202188556648000"
    by (simp add: compounded_interest_def Let_def)
  have "denotes dec_fin dec_val (calcExpectedTotalStableDebt ?B (principalStableDebt sample_reserve)
          (averageStableBorrowRate sample_reserve) (totalStableDebtLastUpdated sample_reserve) ?T)
          (nat_rayMul (compounded_interest (10 ^ 26) (31537000 - 1000)) 10000)"
    by (rule decimal_scenario.totalStableDebt_denotes) (simp_all add: denotes_def sample_reserve_def)
  then show "denotes dec_fin dec_val (totalStableDebt e) 11052"
    using deposit_fields(4)[OF assms] c by (simp add: nat_rayMul_def)
  have "denotes dec_fin dec_val (calcExpectedVariableBorrowIndex ?B sample_reserve ?T)
          (if 70000 = (0::nat) then 10 ^ 27 else nat_rayMul (compounded_interest (10 ^ 26) (31537000 - 1000)) (10 ^ 27))"
    by (rule decimal_scenario.variableBorrowIndex_denotes) (simp_all add: denotes_def sample_reserve_def)
  then have "denotes dec_fin dec_val (calcExpectedVariableBorrowIndex ?B sample_reserve ?T)
      1105167270015202188556648000"
    using c by simp
  moreover have "denotes dec_fin dec_val (scaledVariableDebt sample_reserve) 70000"
    by (simp add: denotes_def sample_reserve_def)
  ultimately have "denotes dec_fin dec_val (totalVariableDebt e) (nat_rayMul 70000 1105167270015202188556648000)"
    unfolding deposit_fields(5)[OF assms] by (intro decimal_scenario.nat_ray_denotes)
  then show "denotes dec_fin dec_val (totalVariableDebt e) 77362"
    by (simp add: nat_rayMul_def)
qed

theorem deposit_omits_accrued_interest_witness:
  "\<exists>e. calcExpectedReserveDataAfterDeposit (decimal scenario_config) sample_conf ''100'' sample_reserve
         (Dec 31537000 0) = Inr e
     \<and> dec_val (availableLiquidity e) + dec_val (totalStableDebt e) + dec_val (totalVariableDebt e)
         - dec_val (totalLiquidity e) = 8414"
proof -
  obtain e where e: "expected_reserve (decimal scenario_config) sample_conf (Deposit ''100'')
      sample_reserve undefined (Dec 31537000 0) undefined = Inr e"
    by (rule sample_result)
  then have e: "calcExpectedReserveDataAfterDeposit (decimal scenario_config) sample_conf ''100'' sample_reserve
         (Dec 31537000 0) = Inr e" by simp
  show ?thesis
    using e deposit_omits_accrued_interest[OF decimal_bignumber e] sample_debts[OF e]
      decimal_scenario.new_fin[OF parse_sample]
    by (simp add: denotes_def sample_reserve_def)
qed

section \<open>Repaying, borrowing and swapping stable debt\<close>

definition user_finite :: "('n \<Rightarrow> bool) \<Rightarrow> 'n UserReserveData \<Rightarrow> bool" where
  "user_finite fin u \<longleftrightarrow>
     list_all fin
       [u_scaledLTokenBalance u, u_currentLTokenBalance u, u_currentStableDebt u,
        u_currentVariableDebt u, u_principalStableDebt u, u_scaledVariableDebt u,
        u_stableBorrowRate u, u_stableRateLastUpdated u, u_walletBalance u]"

context bignumber
begin

lemma repaid_amount_fin:
  assumes "reserve_finite fin d" "user_finite fin u" "fin T" "fin (bn_new B a)"
  shows "fin (repaid_amount B a m d u T)"
  using assms by (simp add: repaid_amount_def reserve_finite_def user_finite_def)

lemma repay_stable_nonnegative:
  assumes e: "calcExpectedReserveDataAfterRepay B conf a (RateMode_name RateMode_Stable) d u T now = Inr e"
    and f: "reserve_finite fin d" "user_finite fin u" "fin T" "fin (bn_new B a)"
  shows "principalStableDebt e = totalStableDebt e \<and> fin (totalStableDebt e) \<and> 0 \<le> val (totalStableDebt e)
       \<and> fin (averageStableBorrowRate e) \<and> 0 \<le> val (averageStableBorrowRate e)"
proof -
  let ?debt = "calcExpectedTotalStableDebt B (principalStableDebt d)
                 (averageStableBorrowRate d) (totalStableDebtLastUpdated d) T"
    and ?amount = "repaid_amount B a (RateMode_name RateMode_Stable) d u T"
  let ?avg = "calcExpectedAverageStableBorrowRate B (averageStableBorrowRate d) ?debt
                (bn_negated B ?amount) (u_stableBorrowRate u)"
  note r = repay_stable_fields[OF e]
  have fin: "fin ?debt" "fin ?amount" "fin ?avg"
    using repaid_amount_fin[OF f] f by (simp_all add: reserve_finite_def user_finite_def)
  show ?thesis
  proof (cases "bn_lt B (bn_minus B ?debt ?amount) (bn_new B ''0'') \<or> bn_lt B ?avg (bn_new B ''0'')")
    case True
    then show ?thesis using r(1) r(2)[OF True] by simp
  next
    case False
    then have "totalStableDebt e = bn_minus B ?debt ?amount" "averageStableBorrowRate e = ?avg"
      using r(3) by auto
    then show ?thesis using r(1) False fin by (simp add: not_less)
  qed
qed

end

text \<open>
  Repaying stable debt never leaves a negative stable debt or a negative average rate in the
  reserve, whatever the amount: when the debt or the rate would drop below zero by accumulated
  rounding, debt, principal and rate are erased together.
\<close>

theorem repay_keeps_stable_debt_nonnegative:
  assumes "bignumber B cfg fin val"
    and "calcExpectedReserveDataAfterRepay B conf a (RateMode_name RateMode_Stable) d u T now = Inr e"
    and "reserve_finite fin d" "user_finite fin u" "fin T" "fin (bn_new B a)"
  shows "principalStableDebt e = totalStableDebt e \<and> fin (totalStableDebt e) \<and> 0 \<le> val (totalStableDebt e)
       \<and> fin (averageStableBorrowRate e) \<and> 0 \<le> val (averageStableBorrowRate e)"
  by (rule bignumber.repay_stable_nonnegative[OF assms])

lemma sample_user_finite: "user_finite dec_fin sample_user"
  by (simp add: user_finite_def sample_user_def)

theorem repay_keeps_stable_debt_nonnegative_witness:
  "\<exists>e. calcExpectedReserveDataAfterRepay (decimal scenario_config) sample_conf ''100''
         (RateMode_name RateMode_Stable) sample_reserve sample_user (Dec 2000 0) (Dec 2000 0) = Inr e
     \<and> 0 \<le> dec_val (totalStableDebt e)"
proof -
  obtain e where e: "expected_reserve (decimal scenario_config) sample_conf
      (Repay ''100'' (RateMode_name RateMode_Stable)) sample_reserve sample_user (Dec 2000 0) (Dec 2000 0) = Inr e"
    by (rule sample_result)
  then show ?thesis
    using repay_keeps_stable_debt_nonnegative[OF decimal_bignumber e[unfolded expected_reserve.simps]
        sample_reserve_finite sample_user_finite _ decimal_scenario.new_fin[OF parse_sample]]
    by auto
qed

text \<open>The weighted mean of two rates lies between them.\<close>

lemma weighted_mean_between:
  fixes a r t n :: nat
  assumes "0 < t + n"
  shows "min a r \<le> (a * t + r * n) div (t + n)" and "(a * t + r * n) div (t + n) \<le> max a r"
proof -
  have "min a r * (t + n) \<le> a * t + r * n"
    unfolding add_mult_distrib2 by (intro add_mono mult_right_mono) simp_all
  then have "min a r * (t + n) div (t + n) \<le> (a * t + r * n) div (t + n)" by (rule div_le_mono)
  then show "min a r \<le> (a * t + r * n) div (t + n)" using assms by (auto split: if_splits)
  have "a * t + r * n \<le> max a r * (t + n)"
    unfolding add_mult_distrib2 by (intro add_mono mult_right_mono) simp_all
  then have "(a * t + r * n) div (t + n) \<le> max a r * (t + n) div (t + n)" by (rule div_le_mono)
  then show "(a * t + r * n) div (t + n) \<le> max a r" using assms by (auto split: if_splits)
qed

context scenario_bignumber
begin

lemma averageStableBorrowRate_denotes:
  assumes "denotes fin val A a" "denotes fin val D t" "denotes fin val N n" "denotes fin val R r"
  shows "denotes fin val (calcExpectedAverageStableBorrowRate B A D N R)
           (if t + n = 0 then 0 else (a * t + r * n) div (t + n))"
  unfolding calcExpectedAverageStableBorrowRate_def Let_def
    compare_denotes(1)[OF plus_denotes[OF assms(2,3)] literal_denotes(1)]
  using assms by (auto intro!: dp0_denotes div_denotes plus_denotes times_denotes literal_denotes)

lemma borrow_average_between:
  assumes e: "calcExpectedReserveDataAfterBorrow B conf a (RateMode_name RateMode_Stable) d u T now = Inr e"
    and "denotes fin val (averageStableBorrowRate d) x" "denotes fin val (stableBorrowRate d) r"
    and "denotes fin val (principalStableDebt d) p" "denotes fin val (totalStableDebtLastUpdated d) l"
    and "denotes fin val T t" "l \<le> t" "denotes fin val (bn_new B a) n" "0 < n"
  shows "\<exists>z. denotes fin val (averageStableBorrowRate e) z \<and> min x r \<le> z \<and> z \<le> max x r"
proof -
  have "denotes fin val (averageStableBorrowRate e)
          (if nat_rayMul (compounded_interest x (t - l)) p + n = 0 then 0
           else (x * nat_rayMul (compounded_interest x (t - l)) p + r * n)
                  div (nat_rayMul (compounded_interest x (t - l)) p + n))"
    unfolding borrow_fields(6)[OF e refl]
    by (intro averageStableBorrowRate_denotes totalStableDebt_denotes assms)
  then show ?thesis
    using weighted_mean_between[of "nat_rayMul (compounded_interest x (t - l)) p" n x r] assms(9) by auto
qed

end

text \<open>
  Borrowing a positive amount at the stable rate moves the average stable rate of the reserve
  to a value between the old average and the current stable rate.
\<close>

theorem stable_borrow_average_between:
  assumes "scenario_bignumber B fin val"
    and "calcExpectedReserveDataAfterBorrow B conf a (RateMode_name RateMode_Stable) d u T now = Inr e"
    and "denotes fin val (averageStableBorrowRate d) x" "denotes fin val (stableBorrowRate d) r"
    and "denotes fin val (principalStableDebt d) p" "denotes fin val (totalStableDebtLastUpdated d) l"
    and "denotes fin val T t" "l \<le> t" "denotes fin val (bn_new B a) n" "0 < n"
  shows "\<exists>z. denotes fin val (averageStableBorrowRate e) z \<and> min x r \<le> z \<and> z \<le> max x r"
  by (rule scenario_bignumber.borrow_average_between[OF assms])

theorem stable_borrow_average_between_witness:
  "\<exists>e z. calcExpectedReserveDataAfterBorrow (decimal scenario_config) sample_conf ''100''
           (RateMode_name RateMode_Stable) (sample_reserve\<lparr>stableBorrowRate := Dec (2 * 10 ^ 26) 0\<rparr>) sample_user
           (Dec 2000 0) (Dec 2000 0) = Inr e
     \<and> denotes dec_fin dec_val (averageStableBorrowRate e) z \<and> 10 ^ 26 \<le> z \<and> z \<le> 2 * 10 ^ 26"
proof -
  let ?d = "sample_reserve\<lparr>stableBorrowRate := Dec (2 * 10 ^ 26) 0\<rparr>"
  have "expected_reserve (decimal scenario_config) sample_conf (Borrow ''100'' (RateMode_name RateMode_Stable))
          ?d sample_user (Dec 2000 0) (Dec 2000 0) \<noteq> Inl err" for err
    unfolding expected_reserve_Inl by (simp add: sample_reserve_def find_market_reserve)
  then obtain e where e: "calcExpectedReserveDataAfterBorrow (decimal scenario_config) sample_conf ''100''
      (RateMode_name RateMode_Stable) ?d sample_user (Dec 2000 0) (Dec 2000 0) = Inr e"
    by (cases "expected_reserve (decimal scenario_config) sample_conf (Borrow ''100'' (RateMode_name RateMode_Stable))
          ?d sample_user (Dec 2000 0) (Dec 2000 0)") auto
  have "denotes dec_fin dec_val (bn_new (decimal scenario_config) ''100'') 100"
    using decimal_scenario.new_fin[OF parse_sample] decimal_scenario.new_val[OF parse_sample]
    by (simp add: denotes_def)
  then show ?thesis
    using e stable_borrow_average_between[OF decimal_scenario.scenario_bignumber_axioms e,
        of "10 ^ 26" "2 * 10 ^ 26" 10000 1000 2000 100]
    by (auto simp: denotes_def sample_reserve_def)
qed

definition moved_debt ::
  "'n bn \<Rightarrow> string \<Rightarrow> 'n ReserveData \<Rightarrow> 'n UserReserveData \<Rightarrow> 'n \<Rightarrow> 'n" where
  "moved_debt B m d u T =
     (if m = RateMode_name RateMode_Stable
      then calcExpectedStableDebtTokenBalance B (u_principalStableDebt u)
             (u_stableBorrowRate u) (u_stableRateLastUpdated u) T
      else calcExpectedVariableDebtTokenBalance B d u T)"

lemma swap_debt_fields:
  assumes "calcExpectedReserveDataAfterSwapRateMode B conf d u m T = Inr e"
  defines "x \<equiv> moved_debt B m d u T"
    and "y \<equiv> calcExpectedTotalStableDebt B (principalStableDebt d)
               (averageStableBorrowRate d) (totalStableDebtLastUpdated d) T"
    and "I \<equiv> calcExpectedVariableBorrowIndex B d T"
  shows "m = RateMode_name RateMode_Stable \<Longrightarrow>
           totalStableDebt e = bn_minus B y x
           \<and> totalVariableDebt e = rayMul B (bn_plus B (scaledVariableDebt d) (rayDiv B x I)) I"
    and "m \<noteq> RateMode_name RateMode_Stable \<Longrightarrow>
           totalStableDebt e = bn_plus B y x
           \<and> totalVariableDebt e = rayMul B (bn_minus B (scaledVariableDebt d) (rayDiv B x I)) I"
  using assms(1) unfolding x_def y_def I_def moved_debt_def
  by (auto simp: calcExpectedReserveDataAfterSwapRateMode_def Let_def with_rates_Inr split: if_splits)

text \<open>Scaling an amount by an index and adding it moves the product by the amount, up to rounding.\<close>

lemma scaled_sum_error:
  assumes "i \<noteq> 0"
  shows "2 * 10 ^ 27 * \<bar>int (nat_rayMul (s + nat_rayDiv x i) i) - int (nat_rayMul s i) - int x\<bar>
         \<le> 2 * 10 ^ 27 + int i"
proof -
  define R :: int where "R = 10 ^ 27"
  have R: "\<bar>R\<bar> = R" by (simp add: R_def)
  define q v' v where "q = nat_rayDiv x i" "v' = nat_rayMul (s + q) i" "v = nat_rayMul s i"
  have "(int v' - int v - int x) * R
        = (int v' * R - int (s + q) * int i) + (int q * int i - int x * R) - (int v * R - int s * int i) - 0"
    by (simp add: algebra_simps)
  also have "2 * \<bar>\<dots>\<bar> \<le> R + int i + R + 0"
    unfolding q_v'_v_def R_def
    by (rule abs_combine4) (simp_all only: nat_rayMul_error nat_rayDiv_error[OF assms] abs_zero mult_zero_right order_refl)
  finally have "2 * (\<bar>int v' - int v - int x\<bar> * R) \<le> R + int i + R + 0"
    unfolding abs_mult R .
  then have "2 * R * \<bar>int v' - int v - int x\<bar> \<le> 2 * R + int i" by (simp add: ac_simps)
  then show ?thesis unfolding q_v'_v_def R_def .
qed

lemma scaled_difference_error:
  assumes "i \<noteq> 0" "nat_rayDiv x i \<le> s"
  shows "2 * 10 ^ 27 * \<bar>int (nat_rayMul s i) - int (nat_rayMul (s - nat_rayDiv x i) i) - int x\<bar>
         \<le> 2 * 10 ^ 27 + int i"
  using scaled_sum_error[OF assms(1), of "s - nat_rayDiv x i" x] assms(2) by simp

context scenario_bignumber
begin

lemma swap_preserves_debt:
  assumes e: "calcExpectedReserveDataAfterSwapRateMode B conf d u m T = Inr e"
    and S: "denotes fin val (scaledVariableDebt d) s"
    and I: "denotes fin val (calcExpectedVariableBorrowIndex B d T) i" "i \<noteq> 0"
    and X: "denotes fin val (moved_debt B m d u T) x"
    and Y: "denotes fin val (calcExpectedTotalStableDebt B (principalStableDebt d)
               (averageStableBorrowRate d) (totalStableDebtLastUpdated d) T) y"
    and le: "if m = RateMode_name RateMode_Stable then x \<le> y else nat_rayDiv x i \<le> s"
  shows "\<exists>st v. denotes fin val (totalStableDebt e) st \<and> denotes fin val (totalVariableDebt e) v
           \<and> 2 * 10 ^ 27 * \<bar>int (st + v) - int (y + nat_rayMul s i)\<bar> \<le> 2 * 10 ^ 27 + int i"
proof (cases "m = RateMode_name RateMode_Stable")
  case True
  then have xy: "x \<le> y" using le by simp
  have "denotes fin val (totalStableDebt e) (y - x)"
    "denotes fin val (totalVariableDebt e) (nat_rayMul (s + nat_rayDiv x i) i)"
    unfolding swap_debt_fields(1)[OF e True, THEN conjunct1] swap_debt_fields(1)[OF e True, THEN conjunct2]
    by (intro minus_denotes nat_ray_denotes plus_denotes S I X Y xy)+
  then show ?thesis
    using scaled_sum_error[OF I(2), of s x] True le
    by (intro exI[of _ "y - x"] exI[of _ "nat_rayMul (s + nat_rayDiv x i) i"]) (simp add: of_nat_diff algebra_simps)
next
  case False
  have q: "nat_rayDiv x i \<le> s" using False le by simp
  have "denotes fin val (totalStableDebt e) (y + x)"
    "denotes fin val (totalVariableDebt e) (nat_rayMul (s - nat_rayDiv x i) i)"
    unfolding swap_debt_fields(2)[OF e False, THEN conjunct1] swap_debt_fields(2)[OF e False, THEN conjunct2]
    by (intro minus_denotes nat_ray_denotes plus_denotes S I X Y q)+
  moreover have "\<bar>int (y + x + nat_rayMul (s - nat_rayDiv x i) i) - int (y + nat_rayMul s i)\<bar>
      = \<bar>int (nat_rayMul s i) - int (nat_rayMul (s - nat_rayDiv x i) i) - int x\<bar>"
    by simp
  ultimately show ?thesis
    using scaled_difference_error[OF I(2), of x s] False le
    by (intro exI[of _ "y + x"] exI[of _ "nat_rayMul (s - nat_rayDiv x i) i"]) simp
qed

end

text \<open>
  C9. Swapping a user's debt between the modes preserves the total debt of the reserve at the
  time of the transaction, up to one unit plus half the variable index over one ray.
\<close>

theorem swap_preserves_total_debt:
  assumes "scenario_bignumber B fin val"
    and "calcExpectedReserveDataAfterSwapRateMode B conf d u m T = Inr e"
    and "denotes fin val (scaledVariableDebt d) s"
    and "denotes fin val (calcExpectedVariableBorrowIndex B d T) i" "i \<noteq> 0"
    and "denotes fin val (moved_debt B m d u T) x"
    and "denotes fin val (calcExpectedTotalStableDebt B (principalStableDebt d)
               (averageStableBorrowRate d) (totalStableDebtLastUpdated d) T) y"
    and "if m = RateMode_name RateMode_Stable then x \<le> y else nat_rayDiv x i \<le> s"
  shows "\<exists>st v. denotes fin val (totalStableDebt e) st \<and> denotes fin val (totalVariableDebt e) v
           \<and> 2 * 10 ^ 27 * \<bar>int (st + v) - int (y + nat_rayMul s i)\<bar> \<le> 2 * 10 ^ 27 + int i"
  by (rule scenario_bignumber.swap_preserves_debt[OF assms])

theorem swap_preserves_total_debt_witness:
  "\<exists>e st v. calcExpectedReserveDataAfterSwapRateMode (decimal scenario_config) sample_conf sample_reserve
           sample_user (RateMode_name RateMode_Stable) (Dec 1000 0) = Inr e
     \<and> denotes dec_fin dec_val (totalStableDebt e) st \<and> denotes dec_fin dec_val (totalVariableDebt e) v
     \<and> 2 * \<bar>int (st + v) - 80000\<bar> \<le> 3"
proof -
  let ?B = "decimal scenario_config" and ?m = "RateMode_name RateMode_Stable" and ?T = "Dec 1000 0"
  obtain e where "expected_reserve ?B sample_conf (SwapRateMode ?m) sample_reserve sample_user ?T undefined = Inr e"
    by (rule sample_result)
  then have e: "calcExpectedReserveDataAfterSwapRateMode ?B sample_conf sample_reserve sample_user ?m ?T = Inr e"
    by simp
  have i: "denotes dec_fin dec_val (calcExpectedVariableBorrowIndex ?B sample_reserve ?T)
      (if 70000 = (0::nat) then 10 ^ 27 else nat_rayMul (compounded_interest (10 ^ 26) (1000 - 1000)) (10 ^ 27))"
    by (rule decimal_scenario.variableBorrowIndex_denotes) (simp_all add: denotes_def sample_reserve_def)
  have x: "denotes dec_fin dec_val (moved_debt ?B ?m sample_reserve sample_user ?T) 300"
    using decimal_scenario.stableDebtBalance_denotes[of "u_principalStableDebt sample_user" 300
        "u_stableBorrowRate sample_user" "10 ^ 26" "u_stableRateLastUpdated sample_user" 1000 ?T 1000]
    by (simp add: moved_debt_def denotes_def sample_user_def)
  have y: "denotes dec_fin dec_val (calcExpectedTotalStableDebt ?B (principalStableDebt sample_reserve)
        (averageStableBorrowRate sample_reserve) (totalStableDebtLastUpdated sample_reserve) ?T)
        (nat_rayMul (compounded_interest (10 ^ 26) (1000 - 1000)) 10000)"
    by (rule decimal_scenario.totalStableDebt_denotes) (simp_all add: denotes_def sample_reserve_def)
  have s: "denotes dec_fin dec_val (scaledVariableDebt sample_reserve) 70000"
    by (simp add: denotes_def sample_reserve_def)
  show ?thesis
    using e swap_preserves_total_debt[OF decimal_scenario.scenario_bignumber_axioms e s i _ x y] by auto
qed

end
