(* ===== verification/User_Properties.thy ===== *)
theory User_Properties
  imports Expected_User Reserve_Properties
begin

text \<open>
  Properties of the expected state of a user, and of a user and a reserve together.
  \<open>expected_user\<close> is the user function of each action, given the reserve before and after.
\<close>

fun expected_user ::
  "'n bn \<Rightarrow> reserve_action \<Rightarrow> 'n ReserveData \<Rightarrow> 'n ReserveData \<Rightarrow> 'n UserReserveData \<Rightarrow> string \<Rightarrow> string
   \<Rightarrow> 'n \<Rightarrow> 'n \<Rightarrow> 'n \<Rightarrow> 'n UserReserveData" where
  "expected_user B (Deposit a) d e u user behalf T now c = calcExpectedUserDataAfterDeposit B a d e u T now c"
| "expected_user B (Withdraw a) d e u user behalf T now c = calcExpectedUserDataAfterWithdraw B a d e u T now c"
| "expected_user B (Borrow a m) d e u user behalf T now c = calcExpectedUserDataAfterBorrow B a m d e u T now"
| "expected_user B (Repay a m) d e u user behalf T now c =
     calcExpectedUserDataAfterRepay B a m d e u user behalf T now"
| "expected_user B (SwapRateMode m) d e u user behalf T now c = calcExpectedUserDataAfterSwapRateMode B d e u m c T"
| "expected_user B RebalanceStableRate d e u user behalf T now c =
     calcExpectedUserDataAfterStableRateRebalance B d e u c T"

lemmas expected_user_defs =
  calcExpectedUserDataAfterDeposit_def calcExpectedUserDataAfterWithdraw_def
  calcExpectedUserDataAfterBorrow_def calcExpectedUserDataAfterRepay_def
  calcExpectedUserDataAfterSwapRateMode_def calcExpectedUserDataAfterStableRateRebalance_def

fun action_amount :: "reserve_action \<Rightarrow> string option" where
  "action_amount (Deposit a) = Some a"
| "action_amount (Withdraw a) = Some a"
| "action_amount (Borrow a m) = Some a"
| "action_amount (Repay a m) = Some a"
| "action_amount _ = None"

section \<open>Conservation of the underlying asset\<close>

lemma user_wallet:
  "u_walletBalance (expected_user B (Deposit a) d e u usr usr T now c) = bn_minus B (u_walletBalance u) (bn_new B a)"
  "u_walletBalance (expected_user B (Borrow a m) d e u usr usr T now c) = bn_plus B (u_walletBalance u) (bn_new B a)"
  "u_walletBalance (expected_user B (Repay a m) d e u usr usr T now c)
     = bn_minus B (u_walletBalance u) (repaid_amount B a m d u now)"
  "u_walletBalance (expected_user B (Withdraw a) d e u usr usr T now c)
     = bn_plus B (u_walletBalance u)
         (bn_new B (if a = MAX_UINT_AMOUNT then bn_toFixed0 B (calcExpectedLTokenBalance B d u T) else a))"
  by (simp_all add: expected_user_defs Let_def repaid_amount_def)

context scenario_bignumber
begin

lemma rayMul_toFixed0:
  assumes "fin a" "fin b"
  shows "val (bn_new B (bn_toFixed0 B (rayMul B a b))) = val (rayMul B a b)"
  using assms by (simp add: scenario_config_def rayMul_val)

lemma lTokenBalance_toFixed0:
  assumes "fin (u_scaledLTokenBalance u)" "fin (calcExpectedReserveNormalizedIncome B d T)"
  shows "val (bn_new B (bn_toFixed0 B (calcExpectedLTokenBalance B d u T))) = val (calcExpectedLTokenBalance B d u T)"
  unfolding calcExpectedLTokenBalance_def Let_def by (rule rayMul_toFixed0[OF assms])

lemma underlying_conserved:
  assumes e: "expected_reserve B conf act d u T now = Inr e"
    and a: "action_amount act = Some a" "fin (bn_new B a)"
    and f: "reserve_finite fin d" "user_finite fin u" "fin T"
    and now: "now = T"
  shows "val (u_walletBalance (expected_user B act d e u usr usr T now c)) + val (availableLiquidity e)
       = val (u_walletBalance u) + val (availableLiquidity d)"
proof -
  have w: "fin (u_walletBalance u)" "fin (availableLiquidity d)" "fin (u_scaledLTokenBalance u)"
    "fin (liquidityRate d)" "fin (lastUpdateTimestamp d)" "fin (liquidityIndex d)"
    using f by (simp_all add: reserve_finite_def user_finite_def)
  show ?thesis
  proof (cases act)
    case (Deposit x)
    then show ?thesis
      using e a w deposit_fields(2)[of B conf x d T e] by (simp add: user_wallet del: expected_user.simps)
  next
    case (Withdraw x)
    have "availableLiquidity e = bn_minus B (availableLiquidity d) (withdrawn_amount B x d u T)"
      using e Withdraw withdraw_fields(1) by auto
    then show ?thesis
      using Withdraw a w f lTokenBalance_toFixed0[of u d T]
      by (simp add: user_wallet withdrawn_amount_def del: expected_user.simps)
  next
    case (Borrow x m)
    then show ?thesis
      using e a w borrow_fields(1)[of B conf x m d u T now e] by (simp add: user_wallet del: expected_user.simps)
  next
    case (Repay x m)
    have r: "availableLiquidity e = bn_plus B (availableLiquidity d) (repaid_amount B x m d u T)"
      using e Repay repay_fields(1) by auto
    have "fin (repaid_amount B x m d u T)" using repaid_amount_fin[OF f] Repay a by simp
    then show ?thesis
      unfolding r now Repay user_wallet using w by simp
  qed (use a in simp_all)
qed

end

text \<open>
  C4. A deposit, withdrawal, loan or repayment moves the underlying asset between the user's wallet
  and the reserve: their sum is the same before and after, also for the amount that stands for
  the whole balance or debt, as long as the state is read in the block of the transaction.
\<close>

theorem underlying_asset_conserved:
  assumes "scenario_bignumber B fin val"
    and "expected_reserve B conf act d u T now = Inr e"
    and "action_amount act = Some a" "fin (bn_new B a)"
    and "reserve_finite fin d" "user_finite fin u" "fin T" and "now = T"
  shows "val (u_walletBalance (expected_user B act d e u usr usr T now c)) + val (availableLiquidity e)
       = val (u_walletBalance u) + val (availableLiquidity d)"
  by (rule scenario_bignumber.underlying_conserved[OF assms])

theorem underlying_asset_conserved_witness:
  "\<exists>e. expected_reserve (decimal scenario_config) sample_conf (Withdraw MAX_UINT_AMOUNT) sample_reserve
         sample_user (Dec 2000 0) (Dec 2000 0) = Inr e
     \<and> dec_val (u_walletBalance (expected_user (decimal scenario_config) (Withdraw MAX_UINT_AMOUNT)
           sample_reserve e sample_user ''user'' ''user'' (Dec 2000 0) (Dec 2000 0) Undefined))
         + dec_val (availableLiquidity e) = 29000"
proof -
  let ?B = "decimal scenario_config"
  obtain e where e: "expected_reserve ?B sample_conf (Withdraw MAX_UINT_AMOUNT) sample_reserve sample_user
      (Dec 2000 0) (Dec 2000 0) = Inr e"
    by (rule sample_result)
  show ?thesis
    using e underlying_asset_conserved[OF decimal_scenario.scenario_bignumber_axioms e _
        decimal_scenario.max_uint_val(1) sample_reserve_finite sample_user_finite]
    by (simp add: sample_user_def sample_reserve_def)
qed
section \<open>Withdrawing everything\<close>

context scenario_bignumber
begin

lemma withdraw_everything:
  fixes now c :: 'n
  assumes f: "reserve_finite fin d" "user_finite fin u" "fin T"
    and e: "calcExpectedReserveDataAfterWithdraw B conf MAX_UINT_AMOUNT d u T = Inr e"
  defines "u' \<equiv> calcExpectedUserDataAfterWithdraw B MAX_UINT_AMOUNT d e u T now c"
  shows "val (u_currentLTokenBalance u') = 0
       \<and> val (u_walletBalance u') = val (u_walletBalance u) + val (calcExpectedLTokenBalance B d u T)
       \<and> val (availableLiquidity e) = val (availableLiquidity d) - val (calcExpectedLTokenBalance B d u T)
       \<and> u_usageAsCollateralEnabled u' = Some (val (u_currentLTokenBalance u) = 0)"
proof -
  have w: "fin (calcExpectedLTokenBalance B d u T)" "fin (u_walletBalance u)" "fin (availableLiquidity d)"
    "fin (u_currentLTokenBalance u)"
    and t: "val (bn_new B (bn_toFixed0 B (calcExpectedLTokenBalance B d u T))) = val (calcExpectedLTokenBalance B d u T)"
    using f lTokenBalance_toFixed0[of u d T] by (simp_all add: reserve_finite_def user_finite_def)
  show ?thesis
    using w t withdraw_fields(1)[OF e]
    by (simp add: u'_def calcExpectedUserDataAfterWithdraw_def Let_def withdrawn_amount_def)
qed

end

text \<open>
  C11. Withdrawing the maximal amount leaves the user with no current balance, adds exactly the
  accrued balance to the wallet, takes it from the reserve, and stops the use of the asset as
  collateral (unless the recorded balance was already zero).
\<close>

theorem withdraw_everything_empties_balance:
  assumes "scenario_bignumber B fin val"
    and "reserve_finite fin d" "user_finite fin u" "fin T"
    and "calcExpectedReserveDataAfterWithdraw B conf MAX_UINT_AMOUNT d u T = Inr e"
  shows "val (u_currentLTokenBalance (calcExpectedUserDataAfterWithdraw B MAX_UINT_AMOUNT d e u T now c)) = 0
       \<and> val (u_walletBalance (calcExpectedUserDataAfterWithdraw B MAX_UINT_AMOUNT d e u T now c))
           = val (u_walletBalance u) + val (calcExpectedLTokenBalance B d u T)
       \<and> val (availableLiquidity e) = val (availableLiquidity d) - val (calcExpectedLTokenBalance B d u T)
       \<and> u_usageAsCollateralEnabled (calcExpectedUserDataAfterWithdraw B MAX_UINT_AMOUNT d e u T now c)
           = Some (val (u_currentLTokenBalance u) = 0)"
  by (rule scenario_bignumber.withdraw_everything[OF assms])

theorem withdraw_everything_empties_balance_witness:
  "\<exists>e. calcExpectedReserveDataAfterWithdraw (decimal scenario_config) sample_conf MAX_UINT_AMOUNT
         sample_reserve sample_user (Dec 2000 0) = Inr e
     \<and> u_usageAsCollateralEnabled (calcExpectedUserDataAfterWithdraw (decimal scenario_config) MAX_UINT_AMOUNT
         sample_reserve e sample_user (Dec 2000 0) (Dec 2000 0) Undefined) = Some False"
proof -
  obtain e where "expected_reserve (decimal scenario_config) sample_conf (Withdraw MAX_UINT_AMOUNT) sample_reserve
      sample_user (Dec 2000 0) undefined = Inr e"
    by (rule sample_result)
  then have e: "calcExpectedReserveDataAfterWithdraw (decimal scenario_config) sample_conf MAX_UINT_AMOUNT
         sample_reserve sample_user (Dec 2000 0) = Inr e" by simp
  show ?thesis
    using e withdraw_everything_empties_balance[OF decimal_scenario.scenario_bignumber_axioms
        sample_reserve_finite sample_user_finite _ e, of "Dec 2000 0" Undefined]
    by (simp add: sample_user_def)
qed

section \<open>Scaled and current balances\<close>

context scenario_bignumber
begin

lemma income_is_index:
  assumes "denotes fin val (utilizationRate d) u" "u \<noteq> 0" "denotes fin val (liquidityRate d) r"
    and "denotes fin val (liquidityIndex d) i" "denotes fin val (lastUpdateTimestamp d) l"
    and "denotes fin val T t" "l \<le> t"
  shows "\<exists>k. denotes fin val (calcExpectedLiquidityIndex B d T) k
           \<and> denotes fin val (calcExpectedReserveNormalizedIncome B d T) k \<and> i \<le> k"
proof -
  have "i \<le> nat_rayMul (r * (t - l) div 31536000 + 10 ^ 27) i" by (rule nat_rayMul_ge) simp
  then show ?thesis
    using liquidityIndex_denotes[OF assms(1,3-7)] normalizedIncome_denotes[OF assms(3-7)] assms(2) by auto
qed

lemma deposit_balances:
  fixes now c :: 'n
  assumes e: "calcExpectedReserveDataAfterDeposit B conf a d T = Inr e"
    and d: "denotes fin val (utilizationRate d) ur" "ur \<noteq> 0" "denotes fin val (liquidityRate d) r"
      "denotes fin val (liquidityIndex d) i" "i \<noteq> 0" "denotes fin val (lastUpdateTimestamp d) l"
      "denotes fin val T t" "l \<le> t"
    and u: "denotes fin val (u_scaledLTokenBalance u) s" and a: "denotes fin val (bn_new B a) n"
  defines "u' \<equiv> calcExpectedUserDataAfterDeposit B a d e u T now c"
  shows "\<exists>k b b'. denotes fin val (liquidityIndex e) k
           \<and> denotes fin val (u_currentLTokenBalance u') b
           \<and> denotes fin val (rayMul B (u_scaledLTokenBalance u') (liquidityIndex e)) b'
           \<and> 2 * 10 ^ 27 * \<bar>int b' - int b\<bar> \<le> 2 * 10 ^ 27 + int k"
proof -
  obtain k where k: "denotes fin val (liquidityIndex e) k"
    "denotes fin val (calcExpectedReserveNormalizedIncome B d T) k" "i \<le> k"
    using income_is_index[OF d(1-4,6-8)] deposit_fields(3)[OF e] by auto
  have k0: "k \<noteq> 0" using k(3) d(5) by simp
  have "denotes fin val (u_currentLTokenBalance u') (nat_rayMul s k + n)"
    unfolding u'_def
    by (simp add: calcExpectedUserDataAfterDeposit_def Let_def calcExpectedLTokenBalance_def)
      (intro plus_denotes nat_ray_denotes u k a)
  moreover have "denotes fin val (u_scaledLTokenBalance u') (s + nat_rayDiv n k - nat_rayDiv 0 k)"
    unfolding u'_def
    by (simp add: calcExpectedUserDataAfterDeposit_def Let_def calcExpectedScaledLTokenBalance_def del: nat_rayDiv_0)
      (intro minus_denotes plus_denotes nat_ray_denotes u k a k0 literal_denotes, simp)
  then have "denotes fin val (rayMul B (u_scaledLTokenBalance u') (liquidityIndex e)) (nat_rayMul (s + nat_rayDiv n k) k)"
    using nat_ray_denotes(1) k(1) by simp
  ultimately show ?thesis
    using k(1) scaled_sum_error[OF k0, of s n] by (intro exI conjI) (assumption+, simp add: algebra_simps)
qed

end

text \<open>
  After a deposit into a reserve with loans, the scaled balance of the user times the index of the
  reserve is the current balance (accrued balance plus the amount) up to one unit plus half the
  index over one ray: the two representations of the balance stay in step.
\<close>

theorem deposit_balances_in_step:
  assumes "scenario_bignumber B fin val"
    and "calcExpectedReserveDataAfterDeposit B conf a d T = Inr e"
    and "denotes fin val (utilizationRate d) ur" "ur \<noteq> 0" "denotes fin val (liquidityRate d) r"
    and "denotes fin val (liquidityIndex d) i" "i \<noteq> 0" "denotes fin val (lastUpdateTimestamp d) l"
    and "denotes fin val T t" "l \<le> t"
    and "denotes fin val (u_scaledLTokenBalance u) s" "denotes fin val (bn_new B a) n"
  shows "\<exists>k b b'. denotes fin val (liquidityIndex e) k
           \<and> denotes fin val (u_currentLTokenBalance (calcExpectedUserDataAfterDeposit B a d e u T now c)) b
           \<and> denotes fin val (rayMul B (u_scaledLTokenBalance (calcExpectedUserDataAfterDeposit B a d e u T now c))
               (liquidityIndex e)) b'
           \<and> 2 * 10 ^ 27 * \<bar>int b' - int b\<bar> \<le> 2 * 10 ^ 27 + int k"
  by (rule scenario_bignumber.deposit_balances[OF assms])

lemma parse_100_denotes: "denotes dec_fin dec_val (bn_new (decimal scenario_config) ''100'') 100"
  using decimal_scenario.new_fin[OF parse_sample] decimal_scenario.new_val[OF parse_sample]
  by (simp add: denotes_def)

theorem deposit_balances_in_step_witness:
  "\<exists>e k b b'. calcExpectedReserveDataAfterDeposit (decimal scenario_config) sample_conf ''100'' sample_reserve
           (Dec 2000 0) = Inr e
     \<and> denotes dec_fin dec_val (u_currentLTokenBalance (calcExpectedUserDataAfterDeposit (decimal scenario_config)
           ''100'' sample_reserve e sample_user (Dec 2000 0) (Dec 2000 0) Undefined)) b
     \<and> 2 * 10 ^ 27 * \<bar>int b' - int b\<bar> \<le> 2 * 10 ^ 27 + int k"
proof -
  obtain e where "expected_reserve (decimal scenario_config) sample_conf (Deposit ''100'') sample_reserve
      sample_user (Dec 2000 0) undefined = Inr e"
    by (rule sample_result)
  then have e: "calcExpectedReserveDataAfterDeposit (decimal scenario_config) sample_conf ''100'' sample_reserve
           (Dec 2000 0) = Inr e" by simp
  have d: "denotes dec_fin dec_val (utilizationRate sample_reserve) (8 * 10 ^ 26)"
    "denotes dec_fin dec_val (liquidityRate sample_reserve) (8 * 10 ^ 25)"
    "denotes dec_fin dec_val (liquidityIndex sample_reserve) (10 ^ 27)"
    "denotes dec_fin dec_val (lastUpdateTimestamp sample_reserve) 1000"
    "denotes dec_fin dec_val (Dec 2000 0) 2000"
    "denotes dec_fin dec_val (u_scaledLTokenBalance sample_user) 500"
    by (simp_all add: denotes_def sample_reserve_def sample_user_def)
  show ?thesis
    using e deposit_balances_in_step[OF decimal_scenario.scenario_bignumber_axioms e d(1) _ d(2,3) _ d(4,5) _ d(6)
        parse_100_denotes, of "Dec 2000 0" Undefined]
    by auto
qed

section \<open>Debts of the user\<close>

text \<open>
  A deposit is expected to overwrite the user's principal stable debt with the balance of the
  variable debt: the two chained assignments at the end of the function both write it. A user with
  stable debt only is expected to owe a principal of the variable balance.
\<close>

theorem deposit_overwrites_principal:
  "u_principalStableDebt (calcExpectedUserDataAfterDeposit B a d e u T now c)
     = calcExpectedVariableDebtTokenBalance B d u T
   \<and> u_currentVariableDebt (calcExpectedUserDataAfterDeposit B a d e u T now c)
     = calcExpectedVariableDebtTokenBalance B d u T
   \<and> u_currentStableDebt (calcExpectedUserDataAfterDeposit B a d e u T now c)
     = calcExpectedStableDebtTokenBalance B (u_principalStableDebt u) (u_stableBorrowRate u)
         (u_stableRateLastUpdated u) T
   \<and> u_principalStableDebt (calcExpectedUserDataAfterWithdraw B a d e u T now c) = u_principalStableDebt u"
  by (simp add: calcExpectedUserDataAfterDeposit_def calcExpectedUserDataAfterWithdraw_def Let_def)

text \<open>
  Borrowing at the variable rate, the user's scaled debt is expected to be the scaled debt of the
  whole reserve plus the scaled amount. That is the user's own debt plus the scaled amount
  exactly when nobody else owes variable debt.
\<close>

theorem borrow_variable_uses_reserve_debt:
  assumes "bignumber B cfg fin val"
    and "fin (scaledVariableDebt d)" "fin (u_scaledVariableDebt u)"
    and "fin (rayDiv B (bn_new B a) (variableBorrowIndex e))"
  shows "val (u_scaledVariableDebt (calcExpectedUserDataAfterBorrow B a (RateMode_name RateMode_Variable) d e u T now))
           = val (scaledVariableDebt d) + val (rayDiv B (bn_new B a) (variableBorrowIndex e))
       \<and> (val (u_scaledVariableDebt (calcExpectedUserDataAfterBorrow B a (RateMode_name RateMode_Variable) d e u T now))
            = val (u_scaledVariableDebt u) + val (rayDiv B (bn_new B a) (variableBorrowIndex e))
          \<longleftrightarrow> val (u_scaledVariableDebt u) = val (scaledVariableDebt d))"
  using assms(2-4)
  by (auto simp: calcExpectedUserDataAfterBorrow_def Let_def bignumber.plus_val[OF assms(1)])

theorem borrow_variable_uses_reserve_debt_witness:
  "dec_val (u_scaledVariableDebt (calcExpectedUserDataAfterBorrow (decimal scenario_config) ''100''
       (RateMode_name RateMode_Variable) sample_reserve sample_reserve sample_user (Dec 2000 0) (Dec 2000 0)))
   = 70000 + dec_val (rayDiv (decimal scenario_config) (bn_new (decimal scenario_config) ''100'') (Dec (10 ^ 27) 0))"
  using borrow_variable_uses_reserve_debt[OF decimal_bignumber[of scenario_config], of sample_reserve sample_user
      "''100''" sample_reserve] decimal_scenario.new_fin[OF parse_sample]
  by (simp add: sample_reserve_def sample_user_def)

context bignumber
begin

lemma repay_all_stable:
  assumes "user_finite fin u" "fin now"
  shows "let u' = calcExpectedUserDataAfterRepay B MAX_UINT_AMOUNT (RateMode_name RateMode_Stable) d e u usr behalf T now in
       val (u_currentStableDebt u') = 0 \<and> val (u_principalStableDebt u') = 0
       \<and> val (u_stableBorrowRate u') = 0 \<and> val (u_stableRateLastUpdated u') = 0
       \<and> u_scaledVariableDebt u' = u_scaledVariableDebt u"
  using assms(1,2)
  by (simp add: calcExpectedUserDataAfterRepay_def Let_def user_finite_def)

lemma repay_part_stable:
  assumes "user_finite fin u" "fin now" "fin (bn_new B a)"
    and "\<bar>val (bn_new B a)\<bar> \<noteq> 2 ^ 256 - 1"
    and "val (bn_new B a) < val (calcExpectedStableDebtTokenBalance B (u_principalStableDebt u)
           (u_stableBorrowRate u) (u_stableRateLastUpdated u) now)"
  shows "let u' = calcExpectedUserDataAfterRepay B a (RateMode_name RateMode_Stable) d e u usr behalf T now in
       0 < val (u_currentStableDebt u') \<and> val (u_principalStableDebt u') = val (u_currentStableDebt u')
       \<and> val (u_currentStableDebt u') + val (bn_new B a)
           = val (calcExpectedStableDebtTokenBalance B (u_principalStableDebt u)
               (u_stableBorrowRate u) (u_stableRateLastUpdated u) now)
       \<and> u_stableBorrowRate u' = u_stableBorrowRate u \<and> u_stableRateLastUpdated u' = T"
  using assms(1-5)
  by (simp add: calcExpectedUserDataAfterRepay_def Let_def user_finite_def)

end

text \<open>
  Repaying the maximal amount of a stable loan clears the debt, the rate and the time of the
  user; repaying less than the accrued debt leaves the difference at the old rate, stamped with the
  time of the transaction. The repayer's wallet pays only for their own debt.
\<close>

theorem repay_stable_user:
  assumes "bignumber B cfg fin val"
    and "user_finite fin u" "fin now" "fin (bn_new B a)" "\<bar>val (bn_new B a)\<bar> \<noteq> 2 ^ 256 - 1"
    and "val (bn_new B a) < val (calcExpectedStableDebtTokenBalance B (u_principalStableDebt u)
           (u_stableBorrowRate u) (u_stableRateLastUpdated u) now)"
  shows "(let r = calcExpectedUserDataAfterRepay B MAX_UINT_AMOUNT (RateMode_name RateMode_Stable) d e u usr behalf T now
          in val (u_currentStableDebt r) = 0 \<and> val (u_principalStableDebt r) = 0
             \<and> val (u_stableBorrowRate r) = 0 \<and> val (u_stableRateLastUpdated r) = 0
             \<and> u_scaledVariableDebt r = u_scaledVariableDebt u)
       \<and> (let r = calcExpectedUserDataAfterRepay B a (RateMode_name RateMode_Stable) d e u usr behalf T now
          in 0 < val (u_currentStableDebt r) \<and> val (u_principalStableDebt r) = val (u_currentStableDebt r)
             \<and> val (u_currentStableDebt r) + val (bn_new B a)
                 = val (calcExpectedStableDebtTokenBalance B (u_principalStableDebt u)
                     (u_stableBorrowRate u) (u_stableRateLastUpdated u) now)
             \<and> u_stableBorrowRate r = u_stableBorrowRate u \<and> u_stableRateLastUpdated r = T)
       \<and> u_walletBalance (calcExpectedUserDataAfterRepay B a m d e u usr behalf T now)
           = (if usr = behalf then bn_minus B (u_walletBalance u) (repaid_amount B a m d u now)
              else u_walletBalance u)"
  unfolding Let_def
proof (intro conjI)
  show "u_walletBalance (calcExpectedUserDataAfterRepay B a m d e u usr behalf T now)
      = (if usr = behalf then bn_minus B (u_walletBalance u) (repaid_amount B a m d u now) else u_walletBalance u)"
    by (simp add: calcExpectedUserDataAfterRepay_def Let_def repaid_amount_def)
qed (use bignumber.repay_all_stable[OF assms(1-3)] bignumber.repay_part_stable[OF assms] in \<open>auto simp: Let_def\<close>)

theorem repay_stable_user_witness:
  "(let r = calcExpectedUserDataAfterRepay (decimal scenario_config) ''100'' (RateMode_name RateMode_Stable)
              sample_reserve sample_reserve sample_user ''u'' ''u'' (Dec 1000 0) (Dec 1000 0)
    in dec_val (u_currentStableDebt r) = 200 \<and> u_stableRateLastUpdated r = Dec 1000 0)"
proof -
  have "dec_val (calcExpectedStableDebtTokenBalance (decimal scenario_config) (u_principalStableDebt sample_user)
          (u_stableBorrowRate sample_user) (u_stableRateLastUpdated sample_user) (Dec 1000 0)) = 300"
    by (simp add: sample_user_def calcExpectedStableDebtTokenBalance_def)
  then show ?thesis
    using repay_stable_user[OF decimal_bignumber sample_user_finite, of "Dec 1000 0" scenario_config "''100''"
        sample_reserve sample_reserve "''u''" "''u''" "Dec 1000 0" "RateMode_name RateMode_Stable"]
      parse_100_denotes
    by (simp add: Let_def denotes_def)
qed

section \<open>The scaled debts of user and reserve\<close>

text \<open>
  The actions after which the scaled variable debt of the user changes by what that of the reserve
  changes by; borrowing at the variable rate is the exception above, and swapping to the stable
  rate sets the user's scaled debt to zero.
\<close>

fun scaled_debt_moves_together :: "reserve_action \<Rightarrow> bool" where
  "scaled_debt_moves_together (Borrow a m) = (m = RateMode_name RateMode_Stable)"
| "scaled_debt_moves_together (SwapRateMode m) = (m = RateMode_name RateMode_Stable)"
| "scaled_debt_moves_together _ = True"

lemma scaled_debt_same:
  assumes "expected_reserve B conf act d u T now = Inr e"
    and "case act of Repay a m \<Rightarrow> m = RateMode_name RateMode_Stable | SwapRateMode m \<Rightarrow> False
         | Borrow a m \<Rightarrow> m = RateMode_name RateMode_Stable | _ \<Rightarrow> True"
  shows "scaledVariableDebt e = scaledVariableDebt d"
    and "u_scaledVariableDebt (expected_user B act d e u usr behalf T now c) = u_scaledVariableDebt u"
  using assms
  by (cases act; auto simp: expected_reserve_defs expected_user_defs Let_def with_rates_Inr map_sum_Inr_iff
      split: if_splits sum.splits)+

lemma scaled_debt_repay:
  assumes "calcExpectedReserveDataAfterRepay B conf a m d u T T = Inr e" "m \<noteq> RateMode_name RateMode_Stable"
  shows "scaledVariableDebt e = bn_minus B (scaledVariableDebt d) (rayDiv B (repaid_amount B a m d u T) (variableBorrowIndex e))"
    and "u_scaledVariableDebt (calcExpectedUserDataAfterRepay B a m d e u usr behalf T T)
           = bn_minus B (u_scaledVariableDebt u) (rayDiv B (repaid_amount B a m d u T) (variableBorrowIndex e))"
  using assms
  by (auto simp: calcExpectedReserveDataAfterRepay_def calcExpectedUserDataAfterRepay_def Let_def with_rates_Inr
      map_sum_Inr_iff repaid_amount_def split: if_splits)

lemma scaled_debt_swap:
  assumes "calcExpectedReserveDataAfterSwapRateMode B conf d u (RateMode_name RateMode_Stable) T = Inr e"
  defines "x \<equiv> moved_debt B (RateMode_name RateMode_Stable) d u T"
  shows "scaledVariableDebt e = bn_plus B (scaledVariableDebt d) (rayDiv B x (variableBorrowIndex e))"
    and "u_scaledVariableDebt (calcExpectedUserDataAfterSwapRateMode B d e u (RateMode_name RateMode_Stable) c T)
           = bn_plus B (u_scaledVariableDebt u) (rayDiv B x (variableBorrowIndex e))"
  using assms(1) unfolding x_def moved_debt_def
  by (auto simp: calcExpectedReserveDataAfterSwapRateMode_def calcExpectedUserDataAfterSwapRateMode_def
      Let_def with_rates_Inr)

context bignumber
begin

lemma scaled_debt_in_step:
  assumes e: "expected_reserve B conf act d u T T = Inr e" and act: "scaled_debt_moves_together act"
    and f: "fin (scaledVariableDebt e)" "fin (scaledVariableDebt d)" "fin (u_scaledVariableDebt u)"
  shows "val (u_scaledVariableDebt (expected_user B act d e u usr behalf T T c)) - val (u_scaledVariableDebt u)
       = val (scaledVariableDebt e) - val (scaledVariableDebt d)"
proof -
  consider (repay) a m where "act = Repay a m" "m \<noteq> RateMode_name RateMode_Stable"
    | (swap) "act = SwapRateMode (RateMode_name RateMode_Stable)"
    | (other) "case act of Repay a m \<Rightarrow> m = RateMode_name RateMode_Stable | SwapRateMode m \<Rightarrow> False
         | Borrow a m \<Rightarrow> m = RateMode_name RateMode_Stable | _ \<Rightarrow> True"
    using act by (cases act) auto
  then show ?thesis
  proof cases
    case repay
    then show ?thesis
      using e f scaled_debt_repay[of B conf a m d u T e] by simp
  next
    case swap
    then show ?thesis
      using e f scaled_debt_swap[of B conf d u T e] by simp
  next
    case other
    then show ?thesis using scaled_debt_same[OF e other] by simp
  qed
qed

lemma scaled_debt_exceptions:
  assumes "expected_reserve B conf act d u T T = Inr e" and "\<not> scaled_debt_moves_together act"
  shows "case act of
      Borrow a m \<Rightarrow> u_scaledVariableDebt (expected_user B act d e u usr behalf T T c) = scaledVariableDebt e
    | _ \<Rightarrow> val (u_scaledVariableDebt (expected_user B act d e u usr behalf T T c)) = 0
        \<and> scaledVariableDebt e = bn_minus B (scaledVariableDebt d)
            (rayDiv B (calcExpectedVariableDebtTokenBalance B d u T) (variableBorrowIndex e))"
  using assms
  by (cases act) (auto simp: expected_reserve_defs expected_user_defs Let_def with_rates_Inr map_sum_Inr_iff
      split: if_splits sum.splits)

end

text \<open>
  C10. Depositing, withdrawing, repaying in either mode, borrowing at the stable rate, swapping stable
  debt to variable and rebalancing change the scaled variable debt of the user by exactly as much
  as that of the reserve, so the debt of the other users is left alone. There are two exceptions: after borrowing at
  the variable rate the user is expected to owe the scaled debt of the whole reserve, and after a swap to the
  stable rate nothing, while the debt of the reserve loses the user's accrued debt divided by the index.
\<close>

theorem scaled_debts_in_step:
  assumes "bignumber B cfg fin val"
    and "expected_reserve B conf act d u T T = Inr e"
    and "fin (scaledVariableDebt e)" "fin (scaledVariableDebt d)" "fin (u_scaledVariableDebt u)"
  shows "if scaled_debt_moves_together act
    then val (u_scaledVariableDebt (expected_user B act d e u usr behalf T T c)) - val (u_scaledVariableDebt u)
       = val (scaledVariableDebt e) - val (scaledVariableDebt d)
    else (case act of
        Borrow a m \<Rightarrow> u_scaledVariableDebt (expected_user B act d e u usr behalf T T c) = scaledVariableDebt e
      | _ \<Rightarrow> val (u_scaledVariableDebt (expected_user B act d e u usr behalf T T c)) = 0
          \<and> scaledVariableDebt e = bn_minus B (scaledVariableDebt d)
              (rayDiv B (calcExpectedVariableDebtTokenBalance B d u T) (variableBorrowIndex e)))"
  using bignumber.scaled_debt_in_step[OF assms(1,2) _ assms(3-5)] bignumber.scaled_debt_exceptions[OF assms(1,2)] by simp

theorem scaled_debts_in_step_witness:
  "\<exists>e. expected_reserve (decimal scenario_config) sample_conf (Repay MAX_UINT_AMOUNT (RateMode_name RateMode_Variable))
         sample_reserve sample_user (Dec 1000 0) (Dec 1000 0) = Inr e
     \<and> dec_val (u_scaledVariableDebt (expected_user (decimal scenario_config)
           (Repay MAX_UINT_AMOUNT (RateMode_name RateMode_Variable)) sample_reserve e sample_user ''a'' ''b''
           (Dec 1000 0) (Dec 1000 0) Undefined)) - 40
       = dec_val (scaledVariableDebt e) - 70000"
proof -
  let ?B = "decimal scenario_config" and ?act = "Repay MAX_UINT_AMOUNT (RateMode_name RateMode_Variable)"
  obtain e where e: "expected_reserve ?B sample_conf ?act sample_reserve sample_user (Dec 1000 0) (Dec 1000 0) = Inr e"
    by (rule sample_result)
  have i: "denotes dec_fin dec_val (calcExpectedVariableBorrowIndex ?B sample_reserve (Dec 1000 0))
      (if 70000 = (0::nat) then 10 ^ 27 else nat_rayMul (compounded_interest (10 ^ 26) (1000 - 1000)) (10 ^ 27))"
    by (rule decimal_scenario.variableBorrowIndex_denotes) (simp_all add: denotes_def sample_reserve_def)
  have "variableBorrowIndex e = calcExpectedVariableBorrowIndex ?B sample_reserve (Dec 1000 0)"
    using e by (auto simp: calcExpectedReserveDataAfterRepay_def Let_def with_rates_Inr map_sum_Inr_iff)
  then have "dec_fin (variableBorrowIndex e)" "dec_val (variableBorrowIndex e) \<noteq> 0"
    using i by (simp_all add: denotes_def)
  then have "dec_fin (scaledVariableDebt e)"
    using scaled_debt_repay(1)[of ?B sample_conf MAX_UINT_AMOUNT "RateMode_name RateMode_Variable" sample_reserve
        sample_user "Dec 1000 0" e] e sample_reserve_finite sample_user_finite
      decimal_scenario.repaid_amount_fin[OF sample_reserve_finite sample_user_finite _ decimal_scenario.max_uint_val(1)]
    by (simp add: reserve_finite_def)
  then show ?thesis
    using e scaled_debts_in_step[OF decimal_bignumber e, of "''a''" "''b''" Undefined]
    by (simp add: sample_reserve_def sample_user_def)
qed

end
