(* ===== verification/Comparison.thy ===== *)
theory Comparison
  imports Reserve_Data Interest
begin

text \<open>
  How the tests compare a state read from the contracts with an expected one:
  \<open>test-suites/test-palmy/helpers/almost-equal.ts\<close>, the assertion \<open>almostEqualOrEqual\<close> of
  \<open>actions.ts\<close>, and the functions of \<open>utils/helpers.ts\<close> that build the state that is read. An
  object is the list of its keys and values in the order of the keys.
\<close>

section \<open>The assertion on numbers\<close>

definition almostEqualAssertion :: "'n bn \<Rightarrow> 'n \<Rightarrow> 'n \<Rightarrow> string \<Rightarrow> js_error + unit" where
  "almostEqualAssertion B expected actual message =
     (if bn_eq B (bn_plus B expected (bn_new B ''1'')) actual
         \<or> bn_eq B (bn_plus B expected (bn_new B ''2'')) actual
         \<or> bn_eq B (bn_plus B actual (bn_new B ''1'')) expected
         \<or> bn_eq B (bn_plus B actual (bn_new B ''2'')) expected
         \<or> bn_eq B expected actual
      then Inr () else Inl (AssertionError message))"

section \<open>The assertion on states\<close>

datatype 'n js_field = Number 'n | Text "string option" | Flag "bool option"

definition field_defined :: "'n bn \<Rightarrow> 'n js_field \<Rightarrow> bool" where
  "field_defined B v = (case v of Number a \<Rightarrow> bn_defined B a | Text t \<Rightarrow> t \<noteq> None | Flag b \<Rightarrow> b \<noteq> None)"

definition field_toString :: "'n bn \<Rightarrow> 'n js_field \<Rightarrow> string" where
  "field_toString B v =
     (case v of Number a \<Rightarrow> bn_toFixed B a
      | Text t \<Rightarrow> (case t of Some s \<Rightarrow> s | None \<Rightarrow> '''')
      | Flag b \<Rightarrow> (if b = Some True then ''true'' else ''false''))"

definition skipped_keys :: "string list" where
  "skipped_keys =
     [''lastUpdateTimestamp'', ''marketStableRate'', ''symbol'', ''lTokenAddress'', ''decimals'',
      ''totalStableDebtLastUpdated'']"

definition within_three :: "'n bn \<Rightarrow> 'n \<Rightarrow> 'n \<Rightarrow> bool" where
  "within_three B actualValue expectedValue \<longleftrightarrow>
     (bn_eq B actualValue expectedValue
      \<or> bn_eq B (bn_plus B actualValue (bn_new B ''1'')) expectedValue
      \<or> bn_eq B actualValue (bn_plus B expectedValue (bn_new B ''1''))
      \<or> bn_eq B (bn_plus B actualValue (bn_new B ''2'')) expectedValue
      \<or> bn_eq B actualValue (bn_plus B expectedValue (bn_new B ''2''))
      \<or> bn_eq B (bn_plus B actualValue (bn_new B ''3'')) expectedValue
      \<or> bn_eq B actualValue (bn_plus B expectedValue (bn_new B ''3'')))"

text \<open>
  One key. \<open>expect(expected[key] != undefined, ...)\<close> builds an assertion object and asserts nothing;
  an undefined expected value then fails by a method call on \<open>undefined\<close>.
\<close>

definition compare_key :: "'n bn \<Rightarrow> string \<Rightarrow> 'n js_field \<Rightarrow> 'n js_field \<Rightarrow> js_error + unit" where
  "compare_key B key expected actual =
     (if key \<in> set skipped_keys then Inr ()
      else if \<not> field_defined B actual
      then Inl (AssertionError (''Property '' @ key @ '' is undefined in the actual data''))
      else case actual of
        Number a \<Rightarrow>
          (case expected of
             Number x \<Rightarrow>
               if \<not> bn_defined B x
               then Inl (TypeError ''Cannot read properties of undefined'')
               else
                 let actualValue = bn_decimalPlaces B a 0 ROUND_DOWN;
                     expectedValue = bn_decimalPlaces B x 0 ROUND_DOWN
                 in if within_three B actualValue expectedValue then Inr ()
                    else Inl (AssertionError (''expected to be almost equal or equal for property '' @ key))
           | _ \<Rightarrow> Inl (TypeError ''decimalPlaces is not a function''))
      | _ \<Rightarrow>
          (if \<not> field_defined B expected
           then Inl (TypeError ''Cannot read properties of undefined'')
           else if field_toString B actual = field_toString B expected then Inr ()
           else Inl (AssertionError (''expected to be equal for property '' @ key))))"

fun almostEqualOrEqual ::
  "'n bn \<Rightarrow> (string \<Rightarrow> 'n js_field) \<Rightarrow> (string \<times> 'n js_field) list \<Rightarrow> js_error + unit" where
  "almostEqualOrEqual B expected [] = Inr ()"
| "almostEqualOrEqual B expected ((key, v) # actual) =
     (case compare_key B key (expected key) v of
        Inl err \<Rightarrow> Inl err
      | Inr _ \<Rightarrow> almostEqualOrEqual B expected actual)"

text \<open>The states that are compared, with their keys in the order of the object literals.\<close>

definition reserve_object :: "'n ReserveData \<Rightarrow> (string \<times> 'n js_field) list" where
  "reserve_object d =
     [(''totalLiquidity'', Number (totalLiquidity d)), (''utilizationRate'', Number (utilizationRate d)),
      (''availableLiquidity'', Number (availableLiquidity d)), (''totalStableDebt'', Number (totalStableDebt d)),
      (''totalVariableDebt'', Number (totalVariableDebt d)), (''liquidityRate'', Number (liquidityRate d)),
      (''variableBorrowRate'', Number (variableBorrowRate d)), (''stableBorrowRate'', Number (stableBorrowRate d)),
      (''averageStableBorrowRate'', Number (averageStableBorrowRate d)),
      (''liquidityIndex'', Number (liquidityIndex d)), (''variableBorrowIndex'', Number (variableBorrowIndex d)),
      (''lastUpdateTimestamp'', Number (lastUpdateTimestamp d)),
      (''totalStableDebtLastUpdated'', Number (totalStableDebtLastUpdated d)),
      (''principalStableDebt'', Number (principalStableDebt d)),
      (''scaledVariableDebt'', Number (scaledVariableDebt d)), (''address'', Text (address d)),
      (''lTokenAddress'', Text (lTokenAddress d)), (''symbol'', Text (symbol d)),
      (''decimals'', Number (decimals d)), (''marketStableRate'', Number (marketStableRate d))]"

definition user_object :: "'n UserReserveData \<Rightarrow> (string \<times> 'n js_field) list" where
  "user_object u =
     [(''scaledLTokenBalance'', Number (u_scaledLTokenBalance u)),
      (''currentLTokenBalance'', Number (u_currentLTokenBalance u)),
      (''currentStableDebt'', Number (u_currentStableDebt u)),
      (''currentVariableDebt'', Number (u_currentVariableDebt u)),
      (''principalStableDebt'', Number (u_principalStableDebt u)),
      (''scaledVariableDebt'', Number (u_scaledVariableDebt u)),
      (''stableBorrowRate'', Number (u_stableBorrowRate u)), (''liquidityRate'', Number (u_liquidityRate u)),
      (''usageAsCollateralEnabled'', Flag (u_usageAsCollateralEnabled u)),
      (''stableRateLastUpdated'', Number (u_stableRateLastUpdated u)),
      (''walletBalance'', Number (u_walletBalance u))]"

definition lookup_field :: "(string \<times> 'n js_field) list \<Rightarrow> string \<Rightarrow> 'n js_field" where
  "lookup_field obj key = (case map_of obj key of Some v \<Rightarrow> v | None \<Rightarrow> Text None)"

definition compare_reserve :: "'n bn \<Rightarrow> 'n ReserveData \<Rightarrow> 'n ReserveData \<Rightarrow> js_error + unit" where
  "compare_reserve B expected actual =
     almostEqualOrEqual B (lookup_field (reserve_object expected)) (reserve_object actual)"

definition compare_user :: "'n bn \<Rightarrow> 'n UserReserveData \<Rightarrow> 'n UserReserveData \<Rightarrow> js_error + unit" where
  "compare_user B expected actual =
     almostEqualOrEqual B (lookup_field (user_object expected)) (user_object actual)"

section \<open>Reading a state\<close>

text \<open>
  What the contracts answer, printed as decimal numerals: the protocol data provider, the debt tokens,
  the rate oracle and the token of a reserve.
\<close>

record raw_reserve =
  r_availableLiquidity :: string
  r_totalStableDebt :: string
  r_totalVariableDebt :: string
  r_liquidityRate :: string
  r_variableBorrowRate :: string
  r_stableBorrowRate :: string
  r_averageStableBorrowRate :: string
  r_liquidityIndex :: string
  r_variableBorrowIndex :: string
  r_lastUpdateTimestamp :: string
  r_totalStableDebtLastUpdated :: string
  r_principalStableDebt :: string
  r_scaledVariableDebt :: string
  r_elTokenAddress :: string
  r_symbol :: string
  r_decimals :: string
  r_marketBorrowRate :: string

definition getReserveData :: "'n bn \<Rightarrow> string \<Rightarrow> raw_reserve \<Rightarrow> 'n ReserveData" where
  "getReserveData B reserve r =
     (let total = bn_plus B (bn_plus B (bn_new B (r_availableLiquidity r)) (bn_new B (r_totalStableDebt r)))
                    (bn_new B (r_totalVariableDebt r));
          utilization =
            (if bn_eq B total (bn_new B ''0'') then bn_new B ''0''
             else rayDiv B (bn_plus B (bn_new B (r_totalStableDebt r)) (bn_new B (r_totalVariableDebt r))) total)
      in \<lparr>address = Some reserve, symbol = Some (r_symbol r), decimals = bn_new B (r_decimals r),
          totalLiquidity = total, availableLiquidity = bn_new B (r_availableLiquidity r),
          totalStableDebt = bn_new B (r_totalStableDebt r),
          totalVariableDebt = bn_new B (r_totalVariableDebt r),
          principalStableDebt = bn_new B (r_principalStableDebt r),
          scaledVariableDebt = bn_new B (r_scaledVariableDebt r),
          averageStableBorrowRate = bn_new B (r_averageStableBorrowRate r),
          variableBorrowRate = bn_new B (r_variableBorrowRate r),
          stableBorrowRate = bn_new B (r_stableBorrowRate r), utilizationRate = utilization,
          liquidityIndex = bn_new B (r_liquidityIndex r),
          variableBorrowIndex = bn_new B (r_variableBorrowIndex r),
          lTokenAddress = Some (r_elTokenAddress r), marketStableRate = bn_new B (r_marketBorrowRate r),
          lastUpdateTimestamp = bn_new B (r_lastUpdateTimestamp r),
          totalStableDebtLastUpdated = bn_new B (r_totalStableDebtLastUpdated r),
          liquidityRate = bn_new B (r_liquidityRate r)\<rparr>)"

record raw_user =
  r_scaledLTokenBalance :: string
  r_currentELTokenBalance :: string
  r_currentStableDebt :: string
  r_currentVariableDebt :: string
  r_userPrincipalStableDebt :: string
  r_userScaledVariableDebt :: string
  r_userStableBorrowRate :: string
  r_userLiquidityRate :: string
  r_usageAsCollateralEnabled :: bool
  r_stableRateLastUpdated :: string
  r_walletBalance :: string

definition getUserData :: "'n bn \<Rightarrow> raw_user \<Rightarrow> 'n UserReserveData" where
  "getUserData B r =
     \<lparr>u_scaledLTokenBalance = bn_new B (r_scaledLTokenBalance r),
      u_currentLTokenBalance = bn_new B (r_currentELTokenBalance r),
      u_currentStableDebt = bn_new B (r_currentStableDebt r),
      u_currentVariableDebt = bn_new B (r_currentVariableDebt r),
      u_principalStableDebt = bn_new B (r_userPrincipalStableDebt r),
      u_scaledVariableDebt = bn_new B (r_userScaledVariableDebt r),
      u_liquidityRate = bn_new B (r_userLiquidityRate r),
      u_stableBorrowRate = bn_new B (r_userStableBorrowRate r),
      u_stableRateLastUpdated = bn_new B (r_stableRateLastUpdated r),
      u_usageAsCollateralEnabled = Some (r_usageAsCollateralEnabled r),
      u_walletBalance = bn_new B (r_walletBalance r), u_variableBorrowIndex = bn_undefined B,
      u_principalVariableDebt = bn_undefined B\<rparr>"

text \<open>The deployment database maps a symbol and a network to an address.\<close>

definition getReserveAddressFromSymbol ::
  "(string \<times> string \<Rightarrow> string option) \<Rightarrow> string \<Rightarrow> string \<Rightarrow> js_error + string" where
  "getReserveAddressFromSymbol db network reserveSymbol =
     (case db (reserveSymbol, network) of
        None \<Rightarrow> Inl (TypeError ''Cannot read properties of undefined'')
      | Some a \<Rightarrow> Inr a)"

section \<open>What the comparison accepts\<close>

context bignumber
begin

lemma within_three_iff:
  assumes "fin a" "fin x"
  shows "within_three B (bn_decimalPlaces B a 0 ROUND_DOWN) (bn_decimalPlaces B x 0 ROUND_DOWN)
         \<longleftrightarrow> \<bar>truncate_rat (val a) - truncate_rat (val x)\<bar> \<le> 3"
proof -
  define i j where "i = truncate_rat (val a)" "j = truncate_rat (val x)"
  have eqs: "(of_int i + c = (of_int j :: rat)) = (of_int (i + k) = (of_int j :: rat))"
    "(of_int i = (of_int j + c :: rat)) = (of_int i = (of_int (j + k) :: rat))"
    if "c = of_int k" for c :: rat and k
    using that by simp_all
  have "within_three B (bn_decimalPlaces B a 0 ROUND_DOWN) (bn_decimalPlaces B x 0 ROUND_DOWN) \<longleftrightarrow>
      i = j \<or> i + 1 = j \<or> i = j + 1 \<or> i + 2 = j \<or> i = j + 2 \<or> i + 3 = j \<or> i = j + 3"
    using assms eqs[of 1 1] eqs[of 2 2] eqs[of 3 3] unfolding within_three_def
    by (simp add: i_j_def [symmetric] del: of_int_add) 
  also have "\<dots> \<longleftrightarrow> \<bar>i - j\<bar> \<le> 3" by presburger
  finally show ?thesis by (simp add: i_j_def)
qed

lemma compare_key_number:
  assumes "fin a" "fin x" "key \<notin> set skipped_keys"
  shows "compare_key B key (Number x) (Number a) = Inr () \<longleftrightarrow> \<bar>truncate_rat (val a) - truncate_rat (val x)\<bar> \<le> 3"
  using assms within_three_iff[OF assms(1,2)]
  by (simp add: compare_key_def field_defined_def fin_defined Let_def)

end

lemma compare_key_skipped [simp]: "key \<in> set skipped_keys \<Longrightarrow> compare_key B key x a = Inr ()"
  by (simp add: compare_key_def)

lemma compare_key_text:
  "key \<notin> set skipped_keys \<Longrightarrow> compare_key B key (Text (Some s)) (Text (Some t)) = Inr () \<longleftrightarrow> t = s"
  by (simp add: compare_key_def field_defined_def field_toString_def)

lemma compare_key_flag:
  "key \<notin> set skipped_keys \<Longrightarrow> compare_key B key (Flag (Some b)) (Flag (Some c)) = Inr () \<longleftrightarrow> c = b"
  by (simp add: compare_key_def field_defined_def field_toString_def)

lemma almostEqualOrEqual_Inr:
  "almostEqualOrEqual B expected actual = Inr () \<longleftrightarrow>
   list_all (\<lambda>(key, v). compare_key B key (expected key) v = Inr ()) actual"
  by (induction B expected actual rule: almostEqualOrEqual.induct) (auto split: sum.splits)

text \<open>The numbers of a reserve and of a user that are compared.\<close>

definition compared_numbers :: "'n ReserveData \<Rightarrow> 'n list" where
  "compared_numbers d =
     [totalLiquidity d, utilizationRate d, availableLiquidity d, totalStableDebt d, totalVariableDebt d,
      liquidityRate d, variableBorrowRate d, stableBorrowRate d, averageStableBorrowRate d, liquidityIndex d,
      variableBorrowIndex d, principalStableDebt d, scaledVariableDebt d]"

definition compared_user_numbers :: "'n UserReserveData \<Rightarrow> 'n list" where
  "compared_user_numbers u =
     [u_scaledLTokenBalance u, u_currentLTokenBalance u, u_currentStableDebt u, u_currentVariableDebt u,
      u_principalStableDebt u, u_scaledVariableDebt u, u_stableBorrowRate u, u_liquidityRate u,
      u_stableRateLastUpdated u, u_walletBalance u]"

definition within_tolerance :: "('n \<Rightarrow> rat) \<Rightarrow> 'n \<Rightarrow> 'n \<Rightarrow> bool" where
  "within_tolerance val x a \<longleftrightarrow> \<bar>truncate_rat (val a) - truncate_rat (val x)\<bar> \<le> 3"

lemma key_skipped_iff:
  "list_all (\<lambda>k. k \<notin> set skipped_keys)
     [''totalLiquidity'', ''utilizationRate'', ''availableLiquidity'', ''totalStableDebt'', ''totalVariableDebt'',
      ''liquidityRate'', ''variableBorrowRate'', ''stableBorrowRate'', ''averageStableBorrowRate'',
      ''liquidityIndex'', ''variableBorrowIndex'', ''principalStableDebt'', ''scaledVariableDebt'', ''address'',
      ''scaledLTokenBalance'', ''currentLTokenBalance'', ''currentStableDebt'', ''currentVariableDebt'',
      ''usageAsCollateralEnabled'', ''stableRateLastUpdated'', ''walletBalance'']"
  by (simp add: skipped_keys_def)

context bignumber
begin

lemma compare_reserve_iff:
  assumes "list_all fin (compared_numbers e)" "list_all fin (compared_numbers a)"
    and "address e \<noteq> None" "address a \<noteq> None"
  shows "compare_reserve B e a = Inr () \<longleftrightarrow>
         list_all2 (within_tolerance val) (compared_numbers e) (compared_numbers a) \<and> address a = address e"
  using assms key_skipped_iff
  by (auto simp del: almostEqualOrEqual.simps simp: compare_reserve_def almostEqualOrEqual_Inr reserve_object_def lookup_field_def
      compared_numbers_def compare_key_number compare_key_text within_tolerance_def skipped_keys_def)

lemma compare_user_iff:
  assumes "list_all fin (compared_user_numbers e)" "list_all fin (compared_user_numbers a)"
    and "u_usageAsCollateralEnabled e \<noteq> None" "u_usageAsCollateralEnabled a \<noteq> None"
  shows "compare_user B e a = Inr () \<longleftrightarrow>
         list_all2 (within_tolerance val) (compared_user_numbers e) (compared_user_numbers a)
         \<and> u_usageAsCollateralEnabled a = u_usageAsCollateralEnabled e"
  using assms key_skipped_iff
  by (auto simp del: almostEqualOrEqual.simps simp: compare_user_def almostEqualOrEqual_Inr user_object_def lookup_field_def
      compared_user_numbers_def compare_key_number compare_key_flag within_tolerance_def skipped_keys_def)

lemma almostEqualAssertion_iff:
  assumes "denotes fin val x e" "denotes fin val a n"
  shows "almostEqualAssertion B x a msg = Inr () \<longleftrightarrow> \<bar>int n - int e\<bar> \<le> 2"
proof -
  have "almostEqualAssertion B x a msg = Inr () \<longleftrightarrow> e + 1 = n \<or> e + 2 = n \<or> n + 1 = e \<or> n + 2 = e \<or> e = n"
    unfolding almostEqualAssertion_def
    by (simp add: compare_denotes(1)[OF plus_denotes[OF assms(1) literal_denotes(2)] assms(2)]
        compare_denotes(1)[OF plus_denotes[OF assms(1) literal_denotes(3)] assms(2)]
        compare_denotes(1)[OF plus_denotes[OF assms(2) literal_denotes(2)] assms(1)]
        compare_denotes(1)[OF plus_denotes[OF assms(2) literal_denotes(3)] assms(1)]
        compare_denotes(1)[OF assms])
  also have "\<dots> \<longleftrightarrow> \<bar>int n - int e\<bar> \<le> 2" by linarith
  finally show ?thesis .
qed

end

text \<open>
  C14. On finite states the comparison of reserves accepts exactly the states whose compared numbers,
  truncated to integers, differ by at most three, and that have the same address; that of users also
  demands the same use as collateral. Six keys of a reserve are not compared.
\<close>

theorem comparison_tolerance:
  assumes "bignumber B cfg fin val"
    and "list_all fin (compared_numbers e)" "list_all fin (compared_numbers a)"
    and "address e \<noteq> None" "address a \<noteq> None"
    and "list_all fin (compared_user_numbers ue)" "list_all fin (compared_user_numbers ua)"
    and "u_usageAsCollateralEnabled ue \<noteq> None" "u_usageAsCollateralEnabled ua \<noteq> None"
  shows "(compare_reserve B e a = Inr () \<longleftrightarrow>
            list_all2 (within_tolerance val) (compared_numbers e) (compared_numbers a) \<and> address a = address e)
       \<and> (compare_user B ue ua = Inr () \<longleftrightarrow>
            list_all2 (within_tolerance val) (compared_user_numbers ue) (compared_user_numbers ua)
            \<and> u_usageAsCollateralEnabled ua = u_usageAsCollateralEnabled ue)"
  using bignumber.compare_reserve_iff[OF assms(1-5)] bignumber.compare_user_iff[OF assms(1,6-9)] by blast

definition sample_user_state :: "dec \<Rightarrow> dec UserReserveData" where
  "sample_user_state w =
     \<lparr>u_scaledLTokenBalance = Dec 500 0, u_currentLTokenBalance = Dec 500 0,
      u_currentStableDebt = Dec 300 0, u_currentVariableDebt = Dec 40 0,
      u_principalStableDebt = Dec 300 0, u_scaledVariableDebt = Dec 40 0,
      u_liquidityRate = Dec 8 0, u_stableBorrowRate = Dec 9 0,
      u_stableRateLastUpdated = Dec 1000 0, u_usageAsCollateralEnabled = Some True,
      u_walletBalance = w, u_variableBorrowIndex = Undefined, u_principalVariableDebt = Undefined\<rparr>"

theorem comparison_tolerance_witness:
  "compare_user (decimal scenario_config) (sample_user_state (Dec 90009 1)) (sample_user_state (Dec 9003 0)) = Inr ()
   \<and> compare_user (decimal scenario_config) (sample_user_state (Dec 9000 0)) (sample_user_state (Dec 9004 0)) \<noteq> Inr ()"
proof -
  have t: "truncate_rat (90009 / 10) = 9000"
    using truncate_nat_frac[of 90009 10] by simp
  have n: "truncate_rat (numeral k) = numeral k" for k
    using truncate_rat_of_int[of "numeral k"] by simp
  note c = comparison_tolerance[OF decimal_bignumber, of sample_reserve sample_reserve _ _ scenario_config]
  show ?thesis
    using c[of "sample_user_state (Dec 90009 1)" "sample_user_state (Dec 9003 0)"]
      c[of "sample_user_state (Dec 9000 0)" "sample_user_state (Dec 9004 0)"]
    by (simp add: compared_numbers_def sample_reserve_def compared_user_numbers_def sample_user_state_def
        within_tolerance_def t n)
qed

section \<open>States that are read agree with the calculator\<close>

context scenario_bignumber
begin

lemma read_reserve:
  assumes "denotes fin val (bn_new B (r_availableLiquidity r)) l"
    and "denotes fin val (bn_new B (r_totalStableDebt r)) s"
    and "denotes fin val (bn_new B (r_totalVariableDebt r)) v"
  shows "denotes fin val (totalLiquidity (getReserveData B a r)) (l + s + v)"
    and "denotes fin val (utilizationRate (getReserveData B a r)) (utilization_rate s v (l + s + v))"
proof -
  let ?L = "bn_plus B (bn_plus B (bn_new B (r_availableLiquidity r)) (bn_new B (r_totalStableDebt r)))
              (bn_new B (r_totalVariableDebt r))"
  have L: "denotes fin val ?L (l + s + v)" by (intro plus_denotes assms)
  then show "denotes fin val (totalLiquidity (getReserveData B a r)) (l + s + v)"
    by (simp add: getReserveData_def Let_def)
  show "denotes fin val (utilizationRate (getReserveData B a r)) (utilization_rate s v (l + s + v))"
  proof (cases "l + s + v = 0")
    case True
    then show ?thesis
      using compare_denotes(1)[OF L literal_denotes(1)] literal_denotes(1)
      by (simp add: getReserveData_def Let_def utilization_rate_def)
  next
    case False
    then have "utilizationRate (getReserveData B a r)
        = rayDiv B (bn_plus B (bn_new B (r_totalStableDebt r)) (bn_new B (r_totalVariableDebt r))) ?L"
      using compare_denotes(1)[OF L literal_denotes(1)] by (auto simp: getReserveData_def Let_def)
    moreover have "denotes fin val (rayDiv B (bn_plus B (bn_new B (r_totalStableDebt r)) (bn_new B (r_totalVariableDebt r))) ?L)
        (nat_rayDiv (s + v) (l + s + v))"
      by (intro nat_ray_denotes plus_denotes assms L False)
    ultimately show ?thesis by (auto simp: utilization_rate_def)
  qed
qed

end

text \<open>
  The reserve state that is read from the contracts satisfies the accounting identity, and its
  utilization rate is the number the calculator computes from its debts and total liquidity.
\<close>

theorem read_reserve_consistent:
  assumes "scenario_bignumber B fin val"
    and "denotes fin val (bn_new B (r_availableLiquidity r)) l"
    and "denotes fin val (bn_new B (r_totalStableDebt r)) s"
    and "denotes fin val (bn_new B (r_totalVariableDebt r)) v"
  shows "denotes fin val (totalLiquidity (getReserveData B a r)) (l + s + v)
       \<and> (\<exists>u. denotes fin val (utilizationRate (getReserveData B a r)) u
             \<and> denotes fin val (calcExpectedUtilizationRate B (totalStableDebt (getReserveData B a r))
                  (totalVariableDebt (getReserveData B a r)) (totalLiquidity (getReserveData B a r))) u)"
proof (intro conjI exI)
  note R = scenario_bignumber.read_reserve[OF assms, of a]
  show "denotes fin val (totalLiquidity (getReserveData B a r)) (l + s + v)" by (rule R(1))
  show "denotes fin val (utilizationRate (getReserveData B a r)) (utilization_rate s v (l + s + v))" by (rule R(2))
  have "denotes fin val (totalStableDebt (getReserveData B a r)) s"
    "denotes fin val (totalVariableDebt (getReserveData B a r)) v"
    using assms(3,4) by (simp_all add: getReserveData_def Let_def)
  then show "denotes fin val (calcExpectedUtilizationRate B (totalStableDebt (getReserveData B a r))
      (totalVariableDebt (getReserveData B a r)) (totalLiquidity (getReserveData B a r))) (utilization_rate s v (l + s + v))"
    using R(1) by (intro scenario_bignumber.utilization_denotes[OF assms(1)]) auto
qed

definition sample_raw :: raw_reserve where
  "sample_raw =
     \<lparr>r_availableLiquidity = ''2'', r_totalStableDebt = ''0'', r_totalVariableDebt = ''6'',
      r_liquidityRate = ''0'', r_variableBorrowRate = ''0'', r_stableBorrowRate = ''0'',
      r_averageStableBorrowRate = ''0'', r_liquidityIndex = ''1'', r_variableBorrowIndex = ''1'',
      r_lastUpdateTimestamp = ''0'', r_totalStableDebtLastUpdated = ''0'', r_principalStableDebt = ''0'',
      r_scaledVariableDebt = ''6'', r_elTokenAddress = ''0x02'', r_symbol = ''WETN'', r_decimals = ''10'',
      r_marketBorrowRate = ''0''\<rparr>"

theorem read_reserve_consistent_witness:
  "dec_val (totalLiquidity (getReserveData (decimal scenario_config) ''0x01'' sample_raw)) = 8"
  using read_reserve_consistent[OF decimal_scenario.scenario_bignumber_axioms, of sample_raw 2 0 6 "''0x01''"]
    decimal_scenario.literal_denotes
  by (simp add: sample_raw_def denotes_def)

end
