(* ===== verification/Scenario.thy ===== *)
theory Scenario
  imports Effects Comparison Reserve_Properties Expected_User
begin

text \<open>
  The scenario tests: the actions of \<open>test-suites/test-palmy/helpers/actions.ts\<close> and the
  interpreter of \<open>scenario-engine.ts\<close>. The blockchain is a parameter: a record \<open>chain\<close> of what the
  tests read from it and of what it does with a transaction, over a state of the chain of any
  type. A transaction gives a receipt or reverts with a reason. A user is an address, \<open>None\<close> where the list of
  users has no entry; a value of the story that is missing is \<open>None\<close>.
\<close>

section \<open>The chain\<close>

datatype pool_call =
    Mint string string
  | Approve string string string
  | DepositTx string string string "string option"
  | WithdrawTx string string string
  | BorrowTx string string string string
  | RepayTx string string string string "string option"
  | SetUserUseReserveAsCollateralTx string bool
  | SwapBorrowRateModeTx string string
  | RebalanceStableBorrowRateTx string string
  | ApproveDelegationTx string string string

record receipt =
  blockNumber :: nat
  transactionHash :: string
  cumulativeGasUsed :: string

record ('n, 'w) chain =
  c_db :: "string \<times> string \<Rightarrow> string option"
  c_network :: string
  c_pool :: string
  c_users :: "string list"
  c_skipIntegrityCheck :: bool
  c_configuration :: Configuration
  c_parseUnits :: "string \<Rightarrow> nat \<Rightarrow> string option"
  c_decimals :: "string \<Rightarrow> 'w \<Rightarrow> nat"
  c_reserve :: "string \<Rightarrow> 'w \<Rightarrow> raw_reserve"
  c_user :: "string \<Rightarrow> string \<Rightarrow> string \<Rightarrow> 'w \<Rightarrow> raw_user"
  c_timestamp :: "'w \<Rightarrow> string"
  c_blockTimestamp :: "nat \<Rightarrow> 'w \<Rightarrow> string"
  c_gasPrice :: "string \<Rightarrow> 'w \<Rightarrow> string"
  c_debtTokens :: "string \<Rightarrow> 'w \<Rightarrow> string \<times> string"
  c_borrowAllowance :: "string \<Rightarrow> string \<Rightarrow> string \<Rightarrow> 'w \<Rightarrow> string"
  c_send :: "string \<Rightarrow> pool_call \<Rightarrow> 'w \<Rightarrow> (string + receipt) \<times> 'w"
  c_reasonMatches :: "string \<Rightarrow> string \<Rightarrow> bool"
  c_advanceTime :: "'n \<Rightarrow> 'w \<Rightarrow> 'w"

type_synonym ('w, 'a) test = "('w, js_error, 'a) eff"

definition need_user :: "string option \<Rightarrow> ('w, string) test" where
  "need_user u =
     (case u of None \<Rightarrow> eff_throw (TypeError ''Cannot read properties of undefined'')
      | Some a \<Rightarrow> eff_return a)"

definition reserveAddress :: "('n, 'w) chain \<Rightarrow> string \<Rightarrow> ('w, string) test" where
  "reserveAddress E reserveSymbol =
     eff_lift (getReserveAddressFromSymbol (c_db E) (c_network E) reserveSymbol)"

definition convertToCurrencyDecimals :: "('n, 'w) chain \<Rightarrow> string \<Rightarrow> string \<Rightarrow> ('w, string) test" where
  "convertToCurrencyDecimals E tokenAddress amount =
     eff_bind (eff_read (\<lambda>w. c_parseUnits E amount (c_decimals E tokenAddress w)))
       (\<lambda>r. case r of None \<Rightarrow> eff_throw (Error ''invalid decimal value'') | Some s \<Rightarrow> eff_return s)"

text \<open>A transaction that is expected to succeed (awaited) or to revert.\<close>

definition send_success :: "('n, 'w) chain \<Rightarrow> string \<Rightarrow> pool_call \<Rightarrow> ('w, receipt) test" where
  "send_success E signer c w =
     (case c_send E signer c w of
        (Inl reason, w') \<Rightarrow> (Inl (Error reason), w')
      | (Inr r, w') \<Rightarrow> (Inr r, w'))"

definition send_revert :: "('n, 'w) chain \<Rightarrow> string \<Rightarrow> pool_call \<Rightarrow> ('w, unit) test" where
  "send_revert E signer c w =
     (case c_send E signer c w of
        (Inl reason, w') \<Rightarrow> (Inr (), w')
      | (Inr r, w') \<Rightarrow> (Inl (AssertionError ''Expected transaction to be reverted''), w'))"

definition send_revertedWith :: "('n, 'w) chain \<Rightarrow> string \<Rightarrow> pool_call \<Rightarrow> string \<Rightarrow> ('w, unit) test" where
  "send_revertedWith E signer c message w =
     (case c_send E signer c w of
        (Inl reason, w') \<Rightarrow>
          ((if c_reasonMatches E message reason then Inr ()
            else Inl (AssertionError ''Expected transaction to be reverted with another reason'')), w')
      | (Inr r, w') \<Rightarrow> (Inl (AssertionError ''Expected transaction to be reverted''), w'))"

text \<open>A receipt without a block, a hash or the gas that was used has a zero or an empty text there.\<close>

definition getTxCostAndTimestamp :: "'n bn \<Rightarrow> ('n, 'w) chain \<Rightarrow> receipt \<Rightarrow> ('w, 'n \<times> 'n) test" where
  "getTxCostAndTimestamp B E tx =
     (if blockNumber tx = 0 \<or> transactionHash tx = '''' \<or> cumulativeGasUsed tx = ''''
      then eff_throw (Error ''No tx blocknumber'')
      else eff_read (\<lambda>w.
        (bn_times B (bn_new B (cumulativeGasUsed tx)) (bn_new B (c_gasPrice E (transactionHash tx) w)),
         bn_new B (c_blockTimestamp E (blockNumber tx) w))))"

definition getContractsData ::
  "'n bn \<Rightarrow> ('n, 'w) chain \<Rightarrow> string \<Rightarrow> string \<Rightarrow> string \<Rightarrow> ('w, 'n ReserveData \<times> 'n UserReserveData \<times> 'n) test" where
  "getContractsData B E reserve user sender =
     eff_read (\<lambda>w. (getReserveData B reserve (c_reserve E reserve w),
                    getUserData B (c_user E reserve user sender w), bn_new B (c_timestamp E w)))"

definition getDataBeforeAction ::
  "'n bn \<Rightarrow> ('n, 'w) chain \<Rightarrow> string \<Rightarrow> string \<Rightarrow> ('w, string \<times> 'n ReserveData \<times> 'n UserReserveData) test" where
  "getDataBeforeAction B E reserveSymbol user =
     eff_bind (reserveAddress E reserveSymbol) (\<lambda>reserve.
     eff_bind (getContractsData B E reserve user user) (\<lambda>(reserveData, userData, timestamp).
     eff_return (reserve, reserveData, userData)))"

definition expectEqual_reserve :: "'n bn \<Rightarrow> ('n, 'w) chain \<Rightarrow> 'n ReserveData \<Rightarrow> 'n ReserveData \<Rightarrow> ('w, unit) test" where
  "expectEqual_reserve B E actual expected =
     (if c_skipIntegrityCheck E then eff_return () else eff_lift (compare_reserve B expected actual))"

definition expectEqual_user :: "'n bn \<Rightarrow> ('n, 'w) chain \<Rightarrow> 'n UserReserveData \<Rightarrow> 'n UserReserveData \<Rightarrow> ('w, unit) test" where
  "expectEqual_user B E actual expected =
     (if c_skipIntegrityCheck E then eff_return () else eff_lift (compare_user B expected actual))"

section \<open>The actions\<close>

definition mint :: "('n, 'w) chain \<Rightarrow> string \<Rightarrow> string \<Rightarrow> string option \<Rightarrow> ('w, unit) test" where
  "mint E reserveSymbol amount user =
     eff_bind (reserveAddress E reserveSymbol) (\<lambda>reserve.
     eff_bind (need_user user) (\<lambda>signer.
     eff_bind (convertToCurrencyDecimals E reserve amount) (\<lambda>value.
     eff_bind (send_success E signer (Mint reserve value)) (\<lambda>_. eff_return ()))))"

definition approve :: "('n, 'w) chain \<Rightarrow> string \<Rightarrow> string option \<Rightarrow> ('w, unit) test" where
  "approve E reserveSymbol user =
     eff_bind (reserveAddress E reserveSymbol) (\<lambda>reserve.
     eff_bind (need_user user) (\<lambda>signer.
     eff_bind (send_success E signer (Approve reserve (c_pool E) ''100000000000000000000000000000''))
       (\<lambda>_. eff_return ())))"

definition optional_value :: "('n, 'w) chain \<Rightarrow> string \<Rightarrow> string option \<Rightarrow> ('w, string option) test" where
  "optional_value E reserve sendValue =
     (case sendValue of
        None \<Rightarrow> eff_return None
      | Some v \<Rightarrow>
          if v = '''' then eff_return None
          else eff_bind (convertToCurrencyDecimals E reserve v) (\<lambda>x. eff_return (Some x)))"

definition deposit ::
  "'n bn \<Rightarrow> ('n, 'w) chain \<Rightarrow> string \<Rightarrow> string \<Rightarrow> string option \<Rightarrow> string \<Rightarrow> string option \<Rightarrow> string
   \<Rightarrow> string option \<Rightarrow> ('w, unit) test" where
  "deposit B E reserveSymbol amount sender onBehalfOf sendValue expectedResult revertMessage =
     eff_bind (reserveAddress E reserveSymbol) (\<lambda>reserve.
     eff_bind (convertToCurrencyDecimals E reserve amount) (\<lambda>amountToDeposit.
     eff_bind (need_user sender) (\<lambda>senderAddress.
     eff_bind (getContractsData B E reserve onBehalfOf senderAddress) (\<lambda>(reserveBefore, userBefore, _).
     eff_bind (optional_value E reserve sendValue) (\<lambda>txValue.
     if expectedResult = ''success'' then
       eff_bind (send_success E senderAddress (DepositTx reserve amountToDeposit onBehalfOf txValue)) (\<lambda>txResult.
       eff_bind (getContractsData B E reserve onBehalfOf senderAddress) (\<lambda>(reserveAfter, userAfter, timestamp).
       eff_bind (getTxCostAndTimestamp B E txResult) (\<lambda>(txCost, txTimestamp).
       eff_bind (eff_lift (calcExpectedReserveDataAfterDeposit B (c_configuration E) amountToDeposit
                   reserveBefore txTimestamp)) (\<lambda>expectedReserve.
       let expectedUser = calcExpectedUserDataAfterDeposit B amountToDeposit reserveBefore expectedReserve
                            userBefore txTimestamp timestamp txCost
       in eff_then (expectEqual_reserve B E reserveAfter expectedReserve)
            (expectEqual_user B E userAfter expectedUser)))))
     else if expectedResult = ''revert'' then
       send_revert E senderAddress (DepositTx reserve amountToDeposit onBehalfOf txValue)
     else eff_return ())))))"

definition withdraw ::
  "'n bn \<Rightarrow> ('n, 'w) chain \<Rightarrow> string \<Rightarrow> string \<Rightarrow> string option \<Rightarrow> string \<Rightarrow> string option \<Rightarrow> ('w, unit) test" where
  "withdraw B E reserveSymbol amount user expectedResult revertMessage =
     eff_bind (need_user user) (\<lambda>userAddress.
     eff_bind (getDataBeforeAction B E reserveSymbol userAddress) (\<lambda>(reserve, reserveBefore, userBefore).
     eff_bind (if amount \<noteq> ''-1'' then convertToCurrencyDecimals E reserve amount
               else eff_return MAX_UINT_AMOUNT) (\<lambda>amountToWithdraw.
     if expectedResult = ''success'' then
       eff_bind (send_success E userAddress (WithdrawTx reserve amountToWithdraw userAddress)) (\<lambda>txResult.
       eff_bind (getContractsData B E reserve userAddress userAddress) (\<lambda>(reserveAfter, userAfter, timestamp).
       eff_bind (getTxCostAndTimestamp B E txResult) (\<lambda>(txCost, txTimestamp).
       eff_bind (eff_lift (calcExpectedReserveDataAfterWithdraw B (c_configuration E) amountToWithdraw
                   reserveBefore userBefore txTimestamp)) (\<lambda>expectedReserve.
       let expectedUser = calcExpectedUserDataAfterWithdraw B amountToWithdraw reserveBefore expectedReserve
                            userBefore txTimestamp timestamp txCost
       in eff_then (expectEqual_reserve B E reserveAfter expectedReserve)
            (expectEqual_user B E userAfter expectedUser)))))
     else if expectedResult = ''revert'' then
       send_revert E userAddress (WithdrawTx reserve amountToWithdraw userAddress)
     else eff_return ())))"

definition delegateBorrowAllowance ::
  "('n, 'w) chain \<Rightarrow> string \<Rightarrow> string \<Rightarrow> string \<Rightarrow> string option \<Rightarrow> string \<Rightarrow> string \<Rightarrow> string option
   \<Rightarrow> ('w, unit) test" where
  "delegateBorrowAllowance E reserveSymbol amount interestRateMode user receiver expectedResult revertMessage =
     eff_bind (reserveAddress E reserveSymbol) (\<lambda>reserve.
     eff_bind (convertToCurrencyDecimals E reserve amount) (\<lambda>amountToDelegate.
     eff_bind (eff_read (c_debtTokens E reserve)) (\<lambda>(stableDebtToken, variableDebtToken).
     let debtToken = (if interestRateMode = ''1'' then stableDebtToken else variableDebtToken) in
     eff_bind (need_user user) (\<lambda>signer.
     if expectedResult = ''revert'' \<and> revertMessage \<noteq> None \<and> revertMessage \<noteq> Some '''' then
       send_revertedWith E signer (ApproveDelegationTx debtToken receiver amountToDelegate) (the revertMessage)
     else
       eff_bind (send_success E signer (ApproveDelegationTx debtToken receiver amountToDelegate)) (\<lambda>_.
       eff_bind (eff_read (c_borrowAllowance E debtToken signer receiver)) (\<lambda>allowance.
       if allowance = amountToDelegate then eff_return ()
       else eff_throw (AssertionError ''borrowAllowance is set incorrectly'')))))))"

definition borrow ::
  "'n bn \<Rightarrow> ('n, 'w) chain \<Rightarrow> string \<Rightarrow> string \<Rightarrow> string \<Rightarrow> string option \<Rightarrow> string \<Rightarrow> string option \<Rightarrow> string
   \<Rightarrow> string option \<Rightarrow> ('w, unit) test" where
  "borrow B E reserveSymbol amount interestRateMode user onBehalfOf timeTravel expectedResult revertMessage =
     eff_bind (reserveAddress E reserveSymbol) (\<lambda>reserve.
     eff_bind (need_user user) (\<lambda>userAddress.
     eff_bind (getContractsData B E reserve onBehalfOf userAddress) (\<lambda>(reserveBefore, userBefore, _).
     eff_bind (convertToCurrencyDecimals E reserve amount) (\<lambda>amountToBorrow.
     if expectedResult = ''success'' then
       eff_bind (send_success E userAddress (BorrowTx reserve amountToBorrow interestRateMode onBehalfOf)) (\<lambda>txResult.
       eff_bind (getTxCostAndTimestamp B E txResult) (\<lambda>(txCost, txTimestamp).
       eff_then
         (if timeTravel = None \<or> timeTravel = Some '''' then eff_return ()
          else eff_modify (c_advanceTime E
                 (bn_div B (bn_times B (bn_new B (the timeTravel)) (bn_new B ONE_YEAR)) (bn_new B ''365''))))
       (eff_bind (getContractsData B E reserve onBehalfOf userAddress) (\<lambda>(reserveAfter, userAfter, timestamp).
       eff_bind (eff_lift (calcExpectedReserveDataAfterBorrow B (c_configuration E) amountToBorrow
                   interestRateMode reserveBefore userBefore txTimestamp timestamp)) (\<lambda>expectedReserve.
       let expectedUser = calcExpectedUserDataAfterBorrow B amountToBorrow interestRateMode reserveBefore
                            expectedReserve userBefore txTimestamp timestamp
       in eff_then (expectEqual_reserve B E reserveAfter expectedReserve)
            (expectEqual_user B E userAfter expectedUser))))))
     else if expectedResult = ''revert'' then
       send_revert E userAddress (BorrowTx reserve amountToBorrow interestRateMode onBehalfOf)
     else eff_return ()))))"

definition hex_amount :: "'n bn \<Rightarrow> string \<Rightarrow> string" where
  "hex_amount B amount = ''0x'' @ bn_toString16 B (bn_new B amount)"

definition repay ::
  "'n bn \<Rightarrow> ('n, 'w) chain \<Rightarrow> string \<Rightarrow> string \<Rightarrow> string \<Rightarrow> string option \<Rightarrow> string option \<Rightarrow> string option
   \<Rightarrow> string \<Rightarrow> string option \<Rightarrow> ('w, unit) test" where
  "repay B E reserveSymbol amount rateMode user onBehalfOf sendValue expectedResult revertMessage =
     eff_bind (reserveAddress E reserveSymbol) (\<lambda>reserve.
     eff_bind (need_user onBehalfOf) (\<lambda>behalfAddress.
     eff_bind (getContractsData B E reserve behalfAddress behalfAddress) (\<lambda>(reserveBefore, userBefore, _).
     eff_bind (if amount \<noteq> ''-1'' then convertToCurrencyDecimals E reserve amount
               else eff_return MAX_UINT_AMOUNT) (\<lambda>amountToRepay0.
     let amountToRepay = hex_amount B amountToRepay0 in
     eff_bind (optional_value E reserve sendValue) (\<lambda>value.
     let txValue = map_option (hex_amount B) value in
     if expectedResult = ''success'' then
       eff_bind (need_user user) (\<lambda>userAddress.
       eff_bind (send_success E userAddress (RepayTx reserve amountToRepay rateMode behalfAddress txValue)) (\<lambda>txResult.
       eff_bind (getTxCostAndTimestamp B E txResult) (\<lambda>(txCost, txTimestamp).
       eff_bind (getContractsData B E reserve behalfAddress behalfAddress) (\<lambda>(reserveAfter, userAfter, timestamp).
       eff_bind (eff_lift (calcExpectedReserveDataAfterRepay B (c_configuration E) amountToRepay rateMode
                   reserveBefore userBefore txTimestamp timestamp)) (\<lambda>expectedReserve.
       let expectedUser = calcExpectedUserDataAfterRepay B amountToRepay rateMode reserveBefore expectedReserve
                            userBefore userAddress behalfAddress txTimestamp timestamp
       in eff_then (expectEqual_reserve B E reserveAfter expectedReserve)
            (expectEqual_user B E userAfter expectedUser))))))
     else if expectedResult = ''revert'' then
       eff_bind (need_user user) (\<lambda>userAddress.
       send_revert E userAddress (RepayTx reserve amountToRepay rateMode behalfAddress txValue))
     else eff_return ())))))"

definition setUseAsCollateral ::
  "'n bn \<Rightarrow> ('n, 'w) chain \<Rightarrow> string \<Rightarrow> string option \<Rightarrow> string \<Rightarrow> string \<Rightarrow> string option \<Rightarrow> ('w, unit) test" where
  "setUseAsCollateral B E reserveSymbol user useAsCollateral expectedResult revertMessage =
     eff_bind (reserveAddress E reserveSymbol) (\<lambda>reserve.
     eff_bind (need_user user) (\<lambda>userAddress.
     eff_bind (getContractsData B E reserve userAddress userAddress) (\<lambda>(reserveBefore, userBefore, _).
     let useAsCollateralBool = (map lower_char useAsCollateral = ''true'') in
     if expectedResult = ''success'' then
       eff_bind (send_success E userAddress (SetUserUseReserveAsCollateralTx reserve useAsCollateralBool)) (\<lambda>txResult.
       eff_bind (getTxCostAndTimestamp B E txResult) (\<lambda>(txCost, txTimestamp).
       eff_bind (getContractsData B E reserve userAddress userAddress) (\<lambda>(reserveAfter, userAfter, timestamp).
       expectEqual_user B E userAfter
         (calcExpectedUserDataAfterSetUseAsCollateral useAsCollateralBool reserveBefore userBefore txCost))))
     else if expectedResult = ''revert'' then
       send_revert E userAddress (SetUserUseReserveAsCollateralTx reserve useAsCollateralBool)
     else eff_return ())))"

definition swapBorrowRateMode ::
  "'n bn \<Rightarrow> ('n, 'w) chain \<Rightarrow> string \<Rightarrow> string option \<Rightarrow> string \<Rightarrow> string \<Rightarrow> string option \<Rightarrow> ('w, unit) test" where
  "swapBorrowRateMode B E reserveSymbol user rateMode expectedResult revertMessage =
     eff_bind (reserveAddress E reserveSymbol) (\<lambda>reserve.
     eff_bind (need_user user) (\<lambda>userAddress.
     eff_bind (getContractsData B E reserve userAddress userAddress) (\<lambda>(reserveBefore, userBefore, _).
     if expectedResult = ''success'' then
       eff_bind (send_success E userAddress (SwapBorrowRateModeTx reserve rateMode)) (\<lambda>txResult.
       eff_bind (getTxCostAndTimestamp B E txResult) (\<lambda>(txCost, txTimestamp).
       eff_bind (getContractsData B E reserve userAddress userAddress) (\<lambda>(reserveAfter, userAfter, timestamp).
       eff_bind (eff_lift (calcExpectedReserveDataAfterSwapRateMode B (c_configuration E) reserveBefore
                   userBefore rateMode txTimestamp)) (\<lambda>expectedReserve.
       let expectedUser = calcExpectedUserDataAfterSwapRateMode B reserveBefore expectedReserve userBefore
                            rateMode txCost txTimestamp
       in eff_then (expectEqual_reserve B E reserveAfter expectedReserve)
            (expectEqual_user B E userAfter expectedUser)))))
     else if expectedResult = ''revert'' then
       send_revert E userAddress (SwapBorrowRateModeTx reserve rateMode)
     else eff_return ())))"

definition rebalanceStableBorrowRate ::
  "'n bn \<Rightarrow> ('n, 'w) chain \<Rightarrow> string \<Rightarrow> string option \<Rightarrow> string option \<Rightarrow> string \<Rightarrow> string option \<Rightarrow> ('w, unit) test" where
  "rebalanceStableBorrowRate B E reserveSymbol user target expectedResult revertMessage =
     eff_bind (reserveAddress E reserveSymbol) (\<lambda>reserve.
     eff_bind (need_user target) (\<lambda>targetAddress.
     eff_bind (getContractsData B E reserve targetAddress targetAddress) (\<lambda>(reserveBefore, userBefore, _).
     if expectedResult = ''success'' then
       eff_bind (need_user user) (\<lambda>userAddress.
       eff_bind (send_success E userAddress (RebalanceStableBorrowRateTx reserve targetAddress)) (\<lambda>txResult.
       eff_bind (getTxCostAndTimestamp B E txResult) (\<lambda>(txCost, txTimestamp).
       eff_bind (getContractsData B E reserve targetAddress targetAddress) (\<lambda>(reserveAfter, userAfter, timestamp).
       eff_bind (eff_lift (calcExpectedReserveDataAfterStableRateRebalance B (c_configuration E) reserveBefore
                   userBefore txTimestamp)) (\<lambda>expectedReserve.
       let expectedUser = calcExpectedUserDataAfterStableRateRebalance B reserveBefore expectedReserve
                            userBefore txCost txTimestamp
       in eff_then (expectEqual_reserve B E reserveAfter expectedReserve)
            (expectEqual_user B E userAfter expectedUser))))))
     else if expectedResult = ''revert'' then
       eff_bind (need_user user) (\<lambda>userAddress.
       send_revert E userAddress (RebalanceStableBorrowRateTx reserve targetAddress))
     else eff_return ())))"

section \<open>The interpreter of the stories\<close>

record action_args =
  a_reserve :: "string option"
  a_user :: "string option"
  a_borrowRateMode :: "string option"
  a_amount :: "string option"
  a_sendValue :: "string option"
  a_onBehalfOf :: "string option"
  a_toUser :: "string option"
  a_timeTravel :: "string option"
  a_useAsCollateral :: "string option"
  a_target :: "string option"

record Action =
  action_name :: "string option"
  action_args :: "action_args option"
  action_expected :: "string option"
  action_revertMessage :: "string option"

record Story =
  story_description :: string
  story_actions :: "Action list"

definition falsy :: "string option \<Rightarrow> bool" where
  "falsy v \<longleftrightarrow> v = None \<or> v = Some ''''"

text \<open>
  \<open>parseInt\<close>: white space, a sign, and then hexadecimal digits after \<open>0x\<close> unless the radix is given
  as 10, or decimal digits; \<open>None\<close> is \<open>NaN\<close>. An index that is \<open>NaN\<close>, negative or past the end
  reads \<open>undefined\<close>.
\<close>

definition is_hex_digit :: "char \<Rightarrow> bool" where
  "is_hex_digit c \<longleftrightarrow> is_digit c \<or> 97 \<le> (of_char (lower_char c) :: nat) \<and> (of_char (lower_char c) :: nat) \<le> 102"

definition is_white :: "char \<Rightarrow> bool" where
  "is_white c \<longleftrightarrow> (of_char c :: nat) \<in> {9, 10, 11, 12, 13, 32, 160}"

definition parseInt_unsigned :: "bool \<Rightarrow> string \<Rightarrow> nat option" where
  "parseInt_unsigned radix10 s =
     (if \<not> radix10 \<and> (take 2 s = ''0x'' \<or> take 2 s = ''0X'')
      then (let ds = takeWhile is_hex_digit (drop 2 s)
            in if ds = [] then None else Some (parse_hex (map lower_char ds)))
      else (let ds = takeWhile is_digit s in if ds = [] then None else Some (digits_val ds)))"

definition parseInt :: "bool \<Rightarrow> string \<Rightarrow> int option" where
  "parseInt radix10 s =
     (let t = dropWhile is_white s
      in if take 1 t = ''-'' then map_option (\<lambda>n. - int n) (parseInt_unsigned radix10 (drop 1 t))
         else map_option int (parseInt_unsigned radix10 (if take 1 t = ''+'' then drop 1 t else t)))"

definition user_at :: "bool \<Rightarrow> string list \<Rightarrow> string option \<Rightarrow> string option" where
  "user_at radix10 users index =
     (case index of None \<Rightarrow> None
      | Some i \<Rightarrow>
          (case parseInt radix10 i of
             None \<Rightarrow> None
           | Some n \<Rightarrow> if 0 \<le> n \<and> nat n < length users then Some (users ! nat n) else None))"

definition rate_mode_of :: "string option \<Rightarrow> string" where
  "rate_mode_of borrowRateMode =
     (if falsy borrowRateMode then RateMode_name RateMode_None
      else if borrowRateMode = Some ''none'' then RateMode_name RateMode_None
      else if borrowRateMode = Some ''stable'' then RateMode_name RateMode_Stable
      else if borrowRateMode = Some ''variable'' then RateMode_name RateMode_Variable
      else ''4'')"

definition need_amount :: "action_args \<Rightarrow> string \<Rightarrow> ('w, string) test" where
  "need_amount a message =
     (if falsy (a_amount a) then eff_throw (Thrown message) else eff_return (the (a_amount a)))"

definition behalf_address :: "('n, 'w) chain \<Rightarrow> action_args \<Rightarrow> string option \<Rightarrow> ('w, string) test" where
  "behalf_address E a user =
     (if falsy (a_onBehalfOf a) then need_user user else need_user (user_at False (c_users E) (a_onBehalfOf a)))"

definition dispatch ::
  "'n bn \<Rightarrow> ('n, 'w) chain \<Rightarrow> string \<Rightarrow> string \<Rightarrow> action_args \<Rightarrow> string option \<Rightarrow> string \<Rightarrow> string \<Rightarrow> string option
   \<Rightarrow> ('w, unit) test" where
  "dispatch B E actionName reserve a user rateMode expected revertMessage =
     (if actionName = ''mint'' then
        eff_bind (need_amount a (''Invalid amount of '' @ reserve @ '' to mint'')) (\<lambda>amount.
        mint E reserve amount user)
      else if actionName = ''approve'' then approve E reserve user
      else if actionName = ''deposit'' then
        eff_bind (behalf_address E a user) (\<lambda>onBehalfOf.
        eff_bind (need_amount a (''Invalid amount to deposit into the '' @ reserve @ '' reserve'')) (\<lambda>amount.
        deposit B E reserve amount user onBehalfOf (a_sendValue a) expected revertMessage))
      else if actionName = ''delegateBorrowAllowance'' then
        eff_bind (need_user (user_at True (c_users E) (a_toUser a))) (\<lambda>toUser.
        eff_bind (need_amount a (''Invalid amount to deposit into the '' @ reserve @ '' reserve'')) (\<lambda>amount.
        delegateBorrowAllowance E reserve amount rateMode user toUser expected revertMessage))
      else if actionName = ''withdraw'' then
        eff_bind (need_amount a (''Invalid amount to withdraw from the '' @ reserve @ '' reserve'')) (\<lambda>amount.
        withdraw B E reserve amount user expected revertMessage)
      else if actionName = ''borrow'' then
        eff_bind (behalf_address E a user) (\<lambda>onBehalfOf.
        eff_bind (need_amount a (''Invalid amount to borrow from the '' @ reserve @ '' reserve'')) (\<lambda>amount.
        borrow B E reserve amount rateMode user onBehalfOf (a_timeTravel a) expected revertMessage))
      else if actionName = ''repay'' then
        eff_bind (need_amount a (''Invalid amount to repay into the '' @ reserve @ '' reserve'')) (\<lambda>amount.
        let userToRepayOnBehalf =
              (if falsy (a_onBehalfOf a) then user else user_at False (c_users E) (a_onBehalfOf a))
        in repay B E reserve amount rateMode user userToRepayOnBehalf (a_sendValue a) expected revertMessage)
      else if actionName = ''setUseAsCollateral'' then
        (if falsy (a_useAsCollateral a)
         then eff_throw (Thrown (''A valid value for useAsCollateral needs to be set when calling setUseReserveAsCollateral on reserve '' @ reserve))
         else setUseAsCollateral B E reserve user (the (a_useAsCollateral a)) expected revertMessage)
      else if actionName = ''swapBorrowRateMode'' then swapBorrowRateMode B E reserve user rateMode expected revertMessage
      else if actionName = ''rebalanceStableBorrowRate'' then
        (if falsy (a_target a)
         then eff_throw (Thrown ''A target must be selected when trying to rebalance a stable rate'')
         else rebalanceStableBorrowRate B E reserve user (user_at False (c_users E) (a_target a)) expected revertMessage)
      else eff_throw (Thrown (''Invalid action requested: '' @ actionName)))"

definition executeAction :: "'n bn \<Rightarrow> ('n, 'w) chain \<Rightarrow> Action \<Rightarrow> ('w, unit) test" where
  "executeAction B E action =
     (case action_args action of
        None \<Rightarrow> eff_throw (TypeError ''Cannot destructure property of undefined'')
      | Some a \<Rightarrow>
          if falsy (action_name action) then eff_throw (Thrown ''Action name is missing'')
          else if falsy (a_reserve a) then eff_throw (Thrown ''Invalid reserve selected for deposit'')
          else if falsy (a_user a)
          then eff_throw (Thrown (''Invalid user selected to deposit into the '' @ the (a_reserve a) @ '' reserve''))
          else if falsy (action_expected action)
          then eff_throw (Thrown (''An expected resut for action '' @ the (action_name action) @ '' is required''))
          else dispatch B E (the (action_name action)) (the (a_reserve a)) a
                 (user_at False (c_users E) (a_user a)) (rate_mode_of (a_borrowRateMode a))
                 (the (action_expected action)) (action_revertMessage action))"

definition executeStory :: "'n bn \<Rightarrow> ('n, 'w) chain \<Rightarrow> Story \<Rightarrow> ('w, unit) test" where
  "executeStory B E story = eff_each (executeAction B E) (story_actions story)"


section \<open>Errors of a story\<close>

fun is_thrown :: "js_error \<Rightarrow> bool" where
  "is_thrown (Thrown m) \<longleftrightarrow> True"
| "is_thrown _ \<longleftrightarrow> False"

abbreviation no_thrown :: "('w, 'a) test \<Rightarrow> bool" where
  "no_thrown \<equiv> eff_no_errors is_thrown"

named_theorems no_thrown_intros \<open>parts of an action that throw no string\<close>

lemma expected_reserve_no_thrown: "no_thrown (eff_lift (expected_reserve B conf act d u T now))"
  by (rule eff_no_errors_basic(5))
    (auto simp: expected_reserve_Inl find_reserve_params_def split: option.splits)

lemmas calc_no_thrown [no_thrown_intros] =
  expected_reserve_no_thrown[where act = "Deposit a" for a, unfolded expected_reserve.simps]
  expected_reserve_no_thrown[where act = "Withdraw a" for a, unfolded expected_reserve.simps]
  expected_reserve_no_thrown[where act = "Borrow a m" for a m, unfolded expected_reserve.simps]
  expected_reserve_no_thrown[where act = "Repay a m" for a m, unfolded expected_reserve.simps]
  expected_reserve_no_thrown[where act = "SwapRateMode m" for m, unfolded expected_reserve.simps]
  expected_reserve_no_thrown[where act = RebalanceStableRate, unfolded expected_reserve.simps]

lemma compare_key_no_thrown: "compare_key B k e a = Inl err \<Longrightarrow> \<not> is_thrown err"
  by (auto simp: compare_key_def Let_def split: if_splits js_field.splits)

lemma almostEqualOrEqual_no_thrown: "almostEqualOrEqual B e obj = Inl err \<Longrightarrow> \<not> is_thrown err"
  by (induction B e obj rule: almostEqualOrEqual.induct)
    (auto dest: compare_key_no_thrown split: sum.splits)

lemma expectEqual_no_thrown [no_thrown_intros]:
  "no_thrown (expectEqual_reserve B E a e)" "no_thrown (expectEqual_user B E ua ue)"
  by (auto simp: expectEqual_reserve_def expectEqual_user_def compare_reserve_def compare_user_def
      dest: almostEqualOrEqual_no_thrown)

lemma send_no_thrown [no_thrown_intros]:
  "no_thrown (send_success E s c)" "no_thrown (send_revert E s c)" "no_thrown (send_revertedWith E s c m)"
  by (auto simp: eff_no_errors_def send_success_def send_revert_def send_revertedWith_def
      split: prod.splits sum.splits if_splits)

text \<open>What the actions read fails with a \<open>TypeError\<close> or an \<open>Error\<close>, and changes nothing.\<close>

lemma reads_no_errors:
  assumes "\<And>m. \<not> P (TypeError m)" "\<And>m. \<not> P (Error m)"
  shows "eff_no_errors P (need_user u)" "eff_no_errors P (reserveAddress E s)"
    "eff_no_errors P (convertToCurrencyDecimals E r amt)" "eff_no_errors P (getTxCostAndTimestamp B E t)"
    "eff_no_errors P (getContractsData B E r x y)" "eff_no_errors P (getDataBeforeAction B E s x)"
    "eff_no_errors P (optional_value E r v)" "eff_no_errors P (behalf_address E a u)"
  using assms
  by (auto simp: need_user_def reserveAddress_def getReserveAddressFromSymbol_def getContractsData_def
      convertToCurrencyDecimals_def getTxCostAndTimestamp_def getDataBeforeAction_def optional_value_def
      behalf_address_def split: option.splits intro!: eff_no_errors_bind)

lemma reads_pure [intro, simp]:
  "eff_pure (need_user u)" "eff_pure (reserveAddress E s)" "eff_pure (convertToCurrencyDecimals E r amt)"
  "eff_pure (getTxCostAndTimestamp B E t)" "eff_pure (getContractsData B E r x y)"
  "eff_pure (getDataBeforeAction B E s x)" "eff_pure (optional_value E r v)"
  "eff_pure (behalf_address E a u)" "eff_pure (need_amount a m)"
  by (auto simp: need_user_def reserveAddress_def getReserveAddressFromSymbol_def getContractsData_def
      convertToCurrencyDecimals_def getTxCostAndTimestamp_def getDataBeforeAction_def optional_value_def
      behalf_address_def need_amount_def split: option.splits prod.splits intro!: eff_pure_bind)

lemmas reads_no_thrown [no_thrown_intros] = reads_no_errors[of is_thrown, simplified]

lemma actions_no_thrown [no_thrown_intros]:
  "no_thrown (mint E s amt u)" "no_thrown (approve E s u)"
  "no_thrown (deposit B E s amt u x v r m)" "no_thrown (withdraw B E s amt u r m)"
  "no_thrown (delegateBorrowAllowance E s amt mode u x r m)"
  "no_thrown (borrow B E s amt mode u x t r m)" "no_thrown (repay B E s amt mode u y v r m)"
  "no_thrown (setUseAsCollateral B E s u c r m)" "no_thrown (swapBorrowRateMode B E s u mode r m)"
  "no_thrown (rebalanceStableBorrowRate B E s u y r m)"
  unfolding mint_def approve_def deposit_def withdraw_def delegateBorrowAllowance_def borrow_def repay_def
    setUseAsCollateral_def swapBorrowRateMode_def rebalanceStableBorrowRate_def eff_then_def Let_def
  by (auto intro!: eff_no_errors_bind no_thrown_intros)

text \<open>
  A computation whose strings are thrown whatever the state: one that only throws other errors, and
  one that starts with a part that does not look at the state.
\<close>

definition thrown_statically :: "('w, 'a) test \<Rightarrow> bool" where
  "thrown_statically t \<longleftrightarrow> (\<forall>w m w'. t w = (Inl (Thrown m), w') \<longrightarrow> w' = w \<and> (\<forall>v. t v = (Inl (Thrown m), v)))"

lemma thrown_statically_none: "no_thrown t \<Longrightarrow> thrown_statically t"
  by (force simp: thrown_statically_def eff_no_errors_def)

lemma thrown_statically_lift: "thrown_statically (eff_lift r)" "thrown_statically (eff_throw e)"
  by (simp_all add: thrown_statically_def eff_simps)

lemma thrown_statically_if:
  "thrown_statically s \<Longrightarrow> thrown_statically t \<Longrightarrow> thrown_statically (if b then s else t)"
  by simp

lemma thrown_statically_bind:
  "(\<And>a. thrown_statically (f a)) \<Longrightarrow> thrown_statically (eff_bind (eff_lift r) f)"
  by (cases r) (auto simp: thrown_statically_def eff_bind_def eff_simps)

lemma static_parts:
  "need_user u = eff_lift (case u of None \<Rightarrow> Inl (TypeError ''Cannot read properties of undefined'') | Some a \<Rightarrow> Inr a)"
  "need_amount a m = eff_lift (if falsy (a_amount a) then Inl (Thrown m) else Inr (the (a_amount a)))"
  by (auto simp: need_user_def need_amount_def eff_simps fun_eq_iff split: option.splits)

lemma behalf_address_static:
  "behalf_address E a u = eff_lift
     (case (if falsy (a_onBehalfOf a) then u else user_at False (c_users E) (a_onBehalfOf a)) of
        None \<Rightarrow> Inl (TypeError ''Cannot read properties of undefined'') | Some x \<Rightarrow> Inr x)"
  by (simp add: behalf_address_def static_parts)

lemma dispatch_thrown_statically: "thrown_statically (dispatch B E n r a u mode x m)"
  unfolding dispatch_def static_parts behalf_address_static Let_def
  by (intro thrown_statically_if thrown_statically_bind thrown_statically_lift
      thrown_statically_none actions_no_thrown)

text \<open>
  When the validation of an action rejects it by throwing a string, no transaction has been sent
  and the chain is as before; and the action is rejected with the same string in every state of the
  chain.
\<close>

theorem validation_errors_change_nothing:
  assumes "executeAction B E action w = (Inl (Thrown message), w')"
  shows "w' = w \<and> executeAction B E action v = (Inl (Thrown message), v)"
proof -
  have "thrown_statically (executeAction B E action)"
    by (auto simp: executeAction_def dispatch_thrown_statically thrown_statically_lift split: option.splits)
  then show ?thesis using assms unfolding thrown_statically_def by metis
qed

section \<open>What an action checks\<close>

definition pool_actions :: "string list" where
  "pool_actions =
     [''deposit'', ''withdraw'', ''borrow'', ''repay'', ''setUseAsCollateral'', ''swapBorrowRateMode'',
      ''rebalanceStableBorrowRate'']"

text \<open>The same chain with other reasons for its reverts.\<close>

definition with_reasons :: "(string \<Rightarrow> string) \<Rightarrow> ('n, 'w) chain \<Rightarrow> ('n, 'w) chain" where
  "with_reasons f E =
     E\<lparr>c_send := \<lambda>signer c w. case c_send E signer c w of (r, w') \<Rightarrow> (map_sum f id r, w')\<rparr>"

lemma send_revert_reasons: "send_revert (with_reasons f E) = send_revert E"
  by (auto simp: send_revert_def with_reasons_def fun_eq_iff split: prod.splits sum.splits)

lemma reads_reasons:
  "reserveAddress (with_reasons f E) = reserveAddress E"
  "convertToCurrencyDecimals (with_reasons f E) = convertToCurrencyDecimals E"
  "getContractsData B (with_reasons f E) = getContractsData B E"
  "getDataBeforeAction B (with_reasons f E) = getDataBeforeAction B E"
  "optional_value (with_reasons f E) = optional_value E"
  "behalf_address (with_reasons f E) = behalf_address E"
  "c_users (with_reasons f E) = c_users E"
  by (simp_all add: reserveAddress_def convertToCurrencyDecimals_def getContractsData_def
      getDataBeforeAction_def optional_value_def behalf_address_def with_reasons_def fun_eq_iff
      cong: if_cong option.case_cong)

lemma revert_reasons:
  "deposit B (with_reasons f E) s amt u x v ''revert'' m = deposit B E s amt u x v ''revert'' m'"
  "withdraw B (with_reasons f E) s amt u ''revert'' m = withdraw B E s amt u ''revert'' m'"
  "borrow B (with_reasons f E) s amt mode u x t ''revert'' m = borrow B E s amt mode u x t ''revert'' m'"
  "repay B (with_reasons f E) s amt mode u y v ''revert'' m = repay B E s amt mode u y v ''revert'' m'"
  "setUseAsCollateral B (with_reasons f E) s u c ''revert'' m = setUseAsCollateral B E s u c ''revert'' m'"
  "swapBorrowRateMode B (with_reasons f E) s u mode ''revert'' m = swapBorrowRateMode B E s u mode ''revert'' m'"
  "rebalanceStableBorrowRate B (with_reasons f E) s u y ''revert'' m
     = rebalanceStableBorrowRate B E s u y ''revert'' m'"
  by (simp_all add: deposit_def withdraw_def borrow_def repay_def setUseAsCollateral_def
      swapBorrowRateMode_def rebalanceStableBorrowRate_def reads_reasons send_revert_reasons cong: if_cong)

lemma dispatch_reasons:
  "n \<in> set pool_actions \<Longrightarrow> dispatch B (with_reasons f E) n r a u mode ''revert'' m = dispatch B E n r a u mode ''revert'' m'"
  unfolding pool_actions_def list.set insert_iff empty_iff
  by (elim disjE) (simp_all add: dispatch_def reads_reasons revert_reasons[where m' = m'] cong: if_cong)

text \<open>
  C17. One of the seven actions that end in a transaction to the pool (deposit, withdraw, borrow, repay, the use as
  collateral, the swap and the rebalance of a rate) that is expected to revert passes or fails by whether the transaction
  reverts, and not by why: neither the reasons the chain gives nor the message the story states for them have an
  influence. The delegation of an allowance, which is sent to a debt token, does compare the reason with the message.
\<close>

theorem revert_reason_not_checked:
  assumes "action_name action = Some n" and "n \<in> set pool_actions"
    and "action_expected action = Some ''revert''"
  shows "executeAction B (with_reasons f E) (action\<lparr>action_revertMessage := message\<rparr>) w
       = executeAction B E action w"
  using assms(1,3)
  by (simp add: executeAction_def reads_reasons split: option.split)
    (simp add: dispatch_reasons[OF assms(2), where m' = "action_revertMessage action"])

fun is_assertion :: "js_error \<Rightarrow> bool" where
  "is_assertion (AssertionError m) \<longleftrightarrow> True"
| "is_assertion _ \<longleftrightarrow> False"

lemmas reads_no_assertion = reads_no_errors[of is_assertion, simplified]

lemma need_amount_no_assertion: "eff_no_errors is_assertion (need_amount a m)"
  by (simp add: need_amount_def)

lemma actions_unknown_expected:
  assumes "x \<noteq> ''success''" "x \<noteq> ''revert''"
  shows "eff_pure (deposit B E s amt u y v x m) \<and> eff_no_errors is_assertion (deposit B E s amt u y v x m)"
    "eff_pure (withdraw B E s amt u x m) \<and> eff_no_errors is_assertion (withdraw B E s amt u x m)"
    "eff_pure (borrow B E s amt mode u y t x m) \<and> eff_no_errors is_assertion (borrow B E s amt mode u y t x m)"
    "eff_pure (repay B E s amt mode u z v x m) \<and> eff_no_errors is_assertion (repay B E s amt mode u z v x m)"
    "eff_pure (setUseAsCollateral B E s u c x m) \<and> eff_no_errors is_assertion (setUseAsCollateral B E s u c x m)"
    "eff_pure (swapBorrowRateMode B E s u mode x m) \<and> eff_no_errors is_assertion (swapBorrowRateMode B E s u mode x m)"
    "eff_pure (rebalanceStableBorrowRate B E s u z x m)
       \<and> eff_no_errors is_assertion (rebalanceStableBorrowRate B E s u z x m)"
  using assms
  by (auto simp: deposit_def withdraw_def borrow_def repay_def setUseAsCollateral_def Let_def
      swapBorrowRateMode_def rebalanceStableBorrowRate_def split: prod.splits
      intro!: eff_pure_bind eff_no_errors_bind reads_no_assertion)

lemma dispatch_unknown_expected:
  assumes "n \<in> set pool_actions" and x: "x \<noteq> ''success''" "x \<noteq> ''revert''"
  shows "eff_pure (dispatch B E n r a u mode x m) \<and> eff_no_errors is_assertion (dispatch B E n r a u mode x m)"
  using assms(1) unfolding pool_actions_def list.set insert_iff empty_iff
  by (elim disjE) (auto simp: dispatch_def Let_def actions_unknown_expected[OF x]
      intro!: eff_pure_bind eff_no_errors_bind reads_no_assertion need_amount_no_assertion)

text \<open>
  C15. One of the seven actions that end in a transaction to the pool whose expected result is neither of the two words, a
  misspelled one say, checks nothing:
  whatever the chain would do with the transaction, it leaves the chain as it is and fails with no assertion.
\<close>

theorem unknown_expected_checks_nothing:
  assumes "action_name action = Some n" and "n \<in> set pool_actions"
    and "action_expected action = Some x" and "x \<noteq> ''success''" and "x \<noteq> ''revert''"
  shows "snd (executeAction B E action w) = w \<and> fst (executeAction B E action w) \<noteq> Inl (AssertionError message)"
proof -
  have "eff_pure (executeAction B E action) \<and> eff_no_errors is_assertion (executeAction B E action)"
    using assms(1,3) by (simp add: executeAction_def dispatch_unknown_expected[OF assms(2,4,5)] split: option.split)
  moreover obtain r w' where "executeAction B E action w = (r, w')"
    by (cases "executeAction B E action w")
  ultimately show ?thesis
    unfolding eff_no_errors_def by (metis eff_pureD fst_conv is_assertion.simps(1) snd_conv)
qed

section \<open>Samples\<close>

text \<open>A chain with one reserve and one user that counts transactions and refuses withdrawals.\<close>

definition sample_chain :: "(dec, nat) chain" where
  "sample_chain =
     \<lparr>c_db = (\<lambda>(s, n). if s = ''WETN'' \<and> n = ''hardhat'' then Some ''0x01'' else None),
      c_network = ''hardhat'', c_pool = ''0x10'', c_users = [''0xa0''], c_skipIntegrityCheck = False,
      c_configuration = sample_conf, c_parseUnits = (\<lambda>s d. Some (s @ replicate d CHR ''0'')),
      c_decimals = (\<lambda>_ _. 18), c_reserve = (\<lambda>_ _. sample_raw),
      c_user = (\<lambda>_ _ _ w.
        \<lparr>r_scaledLTokenBalance = ''0'', r_currentELTokenBalance = ''0'', r_currentStableDebt = ''0'',
         r_currentVariableDebt = ''0'', r_userPrincipalStableDebt = ''0'', r_userScaledVariableDebt = ''0'',
         r_userStableBorrowRate = ''0'', r_userLiquidityRate = ''0'', r_usageAsCollateralEnabled = False,
         r_stableRateLastUpdated = ''0'', r_walletBalance = ''0''\<rparr>),
      c_timestamp = (\<lambda>_. ''1000''), c_blockTimestamp = (\<lambda>_ _. ''1000''), c_gasPrice = (\<lambda>_ _. ''1''),
      c_debtTokens = (\<lambda>_ _. (''0x20'', ''0x21'')), c_borrowAllowance = (\<lambda>_ _ _ _. ''0''),
      c_send = (\<lambda>signer c w. case c of
          WithdrawTx _ _ _ \<Rightarrow> (Inl ''4'', Suc w)
        | _ \<Rightarrow> (Inr \<lparr>blockNumber = Suc w, transactionHash = ''0xff'', cumulativeGasUsed = ''21000''\<rparr>, Suc w)),
      c_reasonMatches = (=), c_advanceTime = (\<lambda>_ w. w)\<rparr>"

definition sample_withdraw :: "string option \<Rightarrow> string \<Rightarrow> Action" where
  "sample_withdraw amount expected =
     \<lparr>action_name = Some ''withdraw'',
      action_args = Some \<lparr>a_reserve = Some ''WETN'', a_user = Some ''0'', a_borrowRateMode = None, a_amount = amount,
                          a_sendValue = None, a_onBehalfOf = None, a_toUser = None, a_timeTravel = None,
                          a_useAsCollateral = None, a_target = None\<rparr>,
      action_expected = Some expected, action_revertMessage = None\<rparr>"

lemma sample_user_at: "user_at False [''0xa0''] (Some ''0'') = Some ''0xa0''"
  by (simp add: user_at_def parseInt_def parseInt_unsigned_def is_white_def parse_eval)

lemmas sample_eval =
  executeAction_def dispatch_def withdraw_def sample_withdraw_def sample_chain_def falsy_def
  need_user_def need_amount_def getDataBeforeAction_def reserveAddress_def getReserveAddressFromSymbol_def
  convertToCurrencyDecimals_def getContractsData_def send_revert_def eff_bind_def eff_return_def eff_throw_def
  eff_read_def eff_lift_def sample_user_at

theorem validation_errors_change_nothing_witness:
  "executeAction (decimal scenario_config) sample_chain (sample_withdraw None ''success'') 9
     = (Inl (Thrown ''Invalid amount to withdraw from the WETN reserve''), 9)"
  by (rule validation_errors_change_nothing[where w = 5 and w' = 5, THEN conjunct2]) (simp add: sample_eval)

theorem revert_reason_not_checked_witness:
  "executeAction (decimal scenario_config) (with_reasons (\<lambda>_. ''another reason'') sample_chain)
     ((sample_withdraw (Some ''1'') ''revert'')\<lparr>action_revertMessage := Some ''expected reason''\<rparr>) 0
   = (Inr (), 1)"
  by (subst revert_reason_not_checked[where n = "''withdraw''"]) (simp_all add: sample_eval pool_actions_def)

theorem unknown_expected_checks_nothing_witness:
  "snd (executeAction (decimal scenario_config) sample_chain (sample_withdraw (Some ''1'') ''succes'') 3) = 3"
  by (rule unknown_expected_checks_nothing[where n = "''withdraw''" and x = "''succes''", THEN conjunct1])
    (simp_all add: sample_withdraw_def pool_actions_def)

end
