(* ===== verification/Scenario_Properties.thy ===== *)
theory Scenario_Properties
  imports Scenario User_Properties
begin

text \<open>
  What an action of a story has established when it passes: the numbers the contracts report after it, against the
  numbers they reported before.
\<close>

section \<open>What a passing action has checked\<close>
















section \<open>The amounts that have moved\<close>












section \<open>Samples\<close>










end
