(* ===== verification/Misc_Utils.thy ===== *)
theory Misc_Utils
  imports Market_Config Effects
begin

text \<open>
  The utilities of \<open>helpers/misc-utils.ts\<close> and \<open>helpers/mock-helpers.ts\<close>. An object is the
  association list of its own keys and values in the order of \<open>Object.entries\<close>; the keys are
  symbols, so they are in the order in which they were added. An assignment to a key replaces its value
  in place or adds the key at the end.
\<close>

section \<open>Objects\<close>

fun js_set :: "'a SymbolMap \<Rightarrow> string \<Rightarrow> 'a \<Rightarrow> 'a SymbolMap" where
  "js_set [] k v = [(k, v)]"
| "js_set ((l, u) # obj) k v = (if l = k then (k, v) # obj else (l, u) # js_set obj k v)"

lemma map_of_js_set [simp]: "map_of (js_set obj k v) = (map_of obj)(k \<mapsto> v)"
  by (induction obj k v rule: js_set.induct) auto

lemma keys_js_set [simp]: "set (map fst (js_set obj k v)) = insert k (set (map fst obj))"
  by (induction obj k v rule: js_set.induct) auto

lemma distinct_js_set [simp]: "distinct (map fst obj) \<Longrightarrow> distinct (map fst (js_set obj k v))"
proof (induction obj k v rule: js_set.induct)
  case (2 l u obj k v)
  moreover have "l \<notin> set (map fst (js_set obj k v))" if "l \<noteq> k" "l \<notin> set (map fst obj)"
    using that by (simp only: keys_js_set) auto
  ultimately show ?case by auto
qed simp

lemma js_set_new: "k \<notin> set (map fst obj) \<Longrightarrow> js_set obj k v = obj @ [(k, v)]"
  by (induction obj k v rule: js_set.induct) auto

definition filterMapBy :: "'a SymbolMap \<Rightarrow> (string \<Rightarrow> bool) \<Rightarrow> 'a SymbolMap" where
  "filterMapBy raw f =
     foldl (\<lambda>obj key. js_set obj key (the (map_of raw key))) [] (filter f (map fst raw))"

definition omit :: "'a SymbolMap \<Rightarrow> string list \<Rightarrow> 'a SymbolMap" where
  "omit obj keys =
     foldl (\<lambda>acc curr. if curr \<in> set keys then acc else js_set acc curr (the (map_of obj curr))) []
       (map fst obj)"

text \<open>The objects of mocked contracts become objects of their addresses.\<close>

definition getAllTokenAddresses :: "('c \<Rightarrow> tEthereumAddress) \<Rightarrow> 'c SymbolMap \<Rightarrow> tEthereumAddress SymbolMap" where
  "getAllTokenAddresses contractAddress mockTokens =
     foldl (\<lambda>accum (tokenSymbol, tokenContract). js_set accum tokenSymbol (contractAddress tokenContract)) []
       mockTokens"

definition getAllAggregatorsAddresses :: "('c \<Rightarrow> tEthereumAddress) \<Rightarrow> 'c SymbolMap \<Rightarrow> tEthereumAddress SymbolMap" where
  "getAllAggregatorsAddresses contractAddress mockAggregators =
     foldl (\<lambda>accum (tokenSymbol, aggregator). js_set accum tokenSymbol (contractAddress aggregator)) []
       mockAggregators"

lemma map_of_fold_set:
  "map_of (foldl (\<lambda>obj key. js_set obj key (f key)) obj0 keys) k
   = (if k \<in> set keys then Some (f k) else map_of obj0 k)"
  by (induction keys arbitrary: obj0) auto

lemma fold_omit:
  "foldl (\<lambda>acc curr. if P curr then acc else js_set acc curr (f curr)) acc0 keys
   = foldl (\<lambda>acc curr. js_set acc curr (f curr)) acc0 (filter (\<lambda>k. \<not> P k) keys)"
  by (induction keys arbitrary: acc0) auto

lemma map_of_the: "k \<in> fst ` set obj \<Longrightarrow> Some (the (map_of obj k)) = map_of obj k"
  by (cases "map_of obj k") (auto simp: map_of_eq_None_iff)

lemma map_of_None: "k \<notin> fst ` set obj \<Longrightarrow> map_of obj k = None"
  by (simp add: map_of_eq_None_iff)

lemma map_of_filterMapBy: "map_of (filterMapBy raw f) k = (if f k then map_of raw k else None)"
  by (simp add: filterMapBy_def map_of_fold_set map_of_the map_of_None)

lemma map_of_omit: "map_of (omit obj keys) k = (if k \<in> set keys then None else map_of obj k)"
  by (simp add: omit_def fold_omit map_of_fold_set map_of_the map_of_None)

lemma fold_set_append:
  "distinct keys \<Longrightarrow> set keys \<inter> set (map fst obj0) = {} \<Longrightarrow>
   foldl (\<lambda>obj key. js_set obj key (f key)) obj0 keys = obj0 @ map (\<lambda>k. (k, f k)) keys"
proof (induction keys arbitrary: obj0)
  case (Cons k keys)
  then have "js_set obj0 k (f k) = obj0 @ [(k, f k)]" by (intro js_set_new) auto
  then show ?case using Cons.prems by (simp, subst Cons.IH) auto
qed simp

lemma map_of_self:
  "distinct (map fst raw) \<Longrightarrow> map (\<lambda>k. (k, the (map_of raw k))) (filter P (map fst raw)) = filter (P \<circ> fst) raw"
proof (induction raw)
  case (Cons kv raw)
  obtain k v where kv: "kv = (k, v)" by (cases kv)
  have "map (\<lambda>l. (l, the (map_of (kv # raw) l))) (filter P (map fst raw))
      = map (\<lambda>l. (l, the (map_of raw l))) (filter P (map fst raw))"
    using Cons.prems by (intro map_cong) (auto simp: kv)
  also have "\<dots> = filter (P \<circ> fst) raw" using Cons by (simp add: comp_def)
  finally show ?case by (simp add: kv comp_def)
qed simp

lemma filterMapBy_filter: "distinct (map fst raw) \<Longrightarrow> filterMapBy raw f = filter (f \<circ> fst) raw"
  unfolding filterMapBy_def by (subst fold_set_append) (simp_all only: distinct_filter map_of_self, simp_all)

lemma omit_filter: "distinct (map fst obj) \<Longrightarrow> omit obj keys = filter (\<lambda>kv. fst kv \<notin> set keys) obj"
  unfolding omit_def fold_omit
  by (subst fold_set_append) (simp_all only: distinct_filter map_of_self, simp_all add: comp_def)

section \<open>Splitting a list into chunks\<close>

text \<open>
  \<open>chunk\<close> folds over the elements with their indices and slices the list at every index that is a
  multiple of the size; the remainder modulo zero is \<open>NaN\<close>, which counts as a multiple.
\<close>

definition chunk :: "'a list \<Rightarrow> nat \<Rightarrow> 'a list list" where
  "chunk arr chunkSize =
     foldl (\<lambda>prevVal (currIndx, currVal).
        if chunkSize = 0 \<or> currIndx mod chunkSize = 0
        then prevVal @ [take (currIndx + chunkSize - currIndx) (drop currIndx arr)]
        else prevVal) [] (enumerate 0 arr)"

lemma foldl_append_filter:
  "foldl (\<lambda>acc (i, x). if P i then acc @ [f i] else acc) acc0 ps = acc0 @ map f (filter P (map fst ps))"
  by (induction ps arbitrary: acc0) auto

lemma chunk_slices:
  "chunk arr n = map (\<lambda>i. take n (drop i arr)) (filter (\<lambda>i. n = 0 \<or> i mod n = 0) [0..<length arr])"
  unfolding chunk_def by (simp add: foldl_append_filter)

lemma multiples_below:
  "0 < n \<Longrightarrow> filter (\<lambda>i. i mod n = 0) [0..<l] = map (\<lambda>j. j * n) [0..<(l + n - 1) div n]"
proof (induction l)
  case (Suc l)
  have "(l + n) div n = Suc (l div n)" using Suc.prems by simp
  moreover have "(l + n - 1) div n = (if l mod n = 0 then l div n else Suc (l div n))"
  proof (cases l)
    case (Suc m)
    then have "(l + n - 1) div n = Suc (m div n)" using \<open>0 < n\<close> by simp
    then show ?thesis using Suc by (simp add: div_Suc)
  qed (use Suc.prems in simp)
  moreover have "l div n * n = l" if "l mod n = 0"
    using that by auto
  ultimately show ?case using Suc by auto
qed simp

lemma concat_slices: "concat (map (\<lambda>j. take n (drop (j * n) xs)) [0..<k]) = take (k * n) xs"
proof (induction k)
  case (Suc k)
  then show ?case using take_add[of "k * n" n xs] by (simp add: add.commute)
qed simp

lemma chunk_concat:
  assumes "0 < n"
  shows "concat (chunk xs n) = xs"
proof -
  have "length xs \<le> (length xs + n - 1) div n * n"
    using assms dividend_less_div_times[of n "length xs + n - 1"] by linarith
  then show ?thesis
    using assms by (simp add: chunk_slices multiples_below comp_def concat_slices)
qed

lemma chunk_length: "0 < n \<Longrightarrow> length (chunk xs n) = (length xs + n - 1) div n"
  by (simp add: chunk_slices multiples_below)

lemma chunk_sizes: "0 < n \<Longrightarrow> list_all (\<lambda>c. c \<noteq> [] \<and> length c \<le> n) (chunk xs n)"
  by (auto simp: chunk_slices list_all_iff)

lemma chunk_map: "chunk (map f xs) n = map (map f) (chunk xs n)"
  by (simp add: chunk_slices take_map drop_map)

text \<open>
  Chunks of a positive size partition a list in order: concatenated they give the list, none is empty or
  longer than the size, and there are as many as the length divided by the size, rounded up.
\<close>

theorem chunk_partitions:
  "concat (chunk xs (Suc n)) = xs
   \<and> list_all (\<lambda>c. c \<noteq> [] \<and> length c \<le> Suc n) (chunk xs (Suc n))
   \<and> length (chunk xs (Suc n)) = (length xs + n) div Suc n"
  using chunk_concat[of "Suc n" xs] chunk_sizes[of "Suc n" xs] chunk_length[of "Suc n" xs] by simp

text \<open>
  Filtering an object by its keys keeps exactly the entries whose key is accepted, and leaving
  keys out keeps exactly the others.
\<close>

theorem object_filters:
  "map_of (filterMapBy raw f) k = (if f k then map_of raw k else None)
   \<and> map_of (omit raw keys) k = (if k \<in> set keys then None else map_of raw k)"
  by (simp add: map_of_filterMapBy map_of_omit)

section \<open>Addresses, numbers and time\<close>

text \<open>The predicates on addresses come from the address libraries.\<close>

record address_library =
  isAddress :: "string \<Rightarrow> bool"
  isZeroAddress :: "string \<Rightarrow> bool"

definition notFalsyOrZeroAddress :: "address_library \<Rightarrow> tEthereumAddress option \<Rightarrow> bool" where
  "notFalsyOrZeroAddress A address =
     (case address of
        None \<Rightarrow> False
      | Some a \<Rightarrow> if a = '''' then False else isAddress A a \<and> \<not> isZeroAddress A a)"

definition toWad :: "'n bn \<Rightarrow> string \<Rightarrow> string" where
  "toWad B value = bn_toFixed B (bn_times B (bn_new B value) (bn_new B WAD))"

definition stringToBigNumber :: "'n bn \<Rightarrow> string \<Rightarrow> 'n" where
  "stringToBigNumber B amount = bn_new B amount"

text \<open>The requests that move the time of a development node.\<close>

datatype rpc = Evm_increaseTime int | Evm_mine "int option" | Evm_setNextBlockTimestamp int

definition advanceBlock :: "int \<Rightarrow> rpc list" where
  "advanceBlock timestamp = [Evm_mine (Some timestamp)]"

definition increaseTime :: "int \<Rightarrow> rpc list" where
  "increaseTime secondsToIncrease = [Evm_increaseTime secondsToIncrease, Evm_mine None]"

definition advanceTimeAndBlock :: "int option \<Rightarrow> int \<Rightarrow> rpc list" where
  "advanceTimeAndBlock currentTime forwardTime =
     (case currentTime of
        None \<Rightarrow> [Evm_increaseTime forwardTime, Evm_mine None, Evm_increaseTime 15]
      | Some t \<Rightarrow> [Evm_setNextBlockTimestamp (t + forwardTime), Evm_mine None])"

text \<open>Accounts are impersonated one after the other, and not at all on Tenderly.\<close>

definition impersonateAccountsHardhat ::
  "bool \<Rightarrow> (string \<Rightarrow> ('w, js_error, unit) eff) \<Rightarrow> string list \<Rightarrow> ('w, js_error, unit) eff" where
  "impersonateAccountsHardhat tenderlyEnv request accounts =
     (if tenderlyEnv then eff_return () else eff_each request accounts)"

end
