(* ===== verification/Verification.thy ===== *)
theory Verification
  imports Misc_Utils
begin

text \<open>
  Source verification with retries: \<open>helpers/etherscan-verification.ts\<close>. The task that is run, the
  temporary file with the constructor arguments and its removal are parameters over a state of any
  type. The removal is a function whose promise is not awaited, so it throws nothing.
\<close>

section \<open>The retry loop\<close>

definition fatalErrors :: "string list" where
  "fatalErrors =
     [''The address provided as argument contains a contract, but its bytecode'',
      ''Daily limit of 100 source code submissions reached'',
      ''has no bytecode. Is the contract deployed to this network'',
      ''The constructor for'']"

definition okErrors :: "string list" where
  "okErrors = [''Contract source code already verified'']"

definition unableVerifyError :: string where
  "unableVerifyError = ''Fail - Unable to verify''"

definition SUPPORTED_ETHERSCAN_NETWORKS :: "string list" where
  "SUPPORTED_ETHERSCAN_NETWORKS = [''testnet'', ''mainnet'']"

record verify_params =
  vp_address :: string
  vp_libraries :: "string option"
  vp_constructorArgs :: string
  vp_relatedSources :: bool

type_synonym 's task_runner = "string \<Rightarrow> verify_params \<Rightarrow> 's \<Rightarrow> (string + unit) \<times> 's"

definition ends_retries :: "string \<Rightarrow> bool" where
  "ends_retries message \<longleftrightarrow>
     list_ex (\<lambda>okReason. sublist okReason message) okErrors
     \<or> list_ex (\<lambda>fatalError. sublist fatalError message) fatalErrors"

fun runTaskWithRetry ::
  "'s task_runner \<Rightarrow> string \<Rightarrow> verify_params \<Rightarrow> nat \<Rightarrow> ('s \<Rightarrow> 's) \<Rightarrow> ('s, js_error, unit) eff" where
  "runTaskWithRetry run task params 0 cleanup s = (Inr (), cleanup s)"
| "runTaskWithRetry run task params (Suc counter) cleanup s =
     (let params = (if counter = 0 then params\<lparr>vp_relatedSources := False\<rparr> else params)
      in case run task params s of
           (Inr _, s') \<Rightarrow> (Inr (), cleanup s')
         | (Inl message, s') \<Rightarrow>
             if ends_retries message then (Inr (), s')
             else runTaskWithRetry run task
                    (if sublist unableVerifyError message then params\<lparr>vp_relatedSources := False\<rparr> else params)
                    counter cleanup s')"

text \<open>
  The verification of a contract: without a key or on another network it throws; every error after
  that is swallowed.
\<close>

record 's verifier =
  ve_ETHERSCAN_KEY :: "string option"
  ve_network :: string
  ve_newFile :: "'s \<Rightarrow> (string + string) \<times> 's"
  ve_run :: "'s task_runner"
  ve_cleanup :: "string \<Rightarrow> 's \<Rightarrow> 's"

definition verifyEtherscanContract ::
  "'s verifier \<Rightarrow> string \<Rightarrow> string option \<Rightarrow> ('s, js_error, unit) eff" where
  "verifyEtherscanContract V address libraries s =
     (if ve_ETHERSCAN_KEY V = None \<or> ve_ETHERSCAN_KEY V = Some ''''
      then (Inl (Error ''Missing process.env.ETHERSCAN_KEY.''), s)
      else if ve_network V \<notin> set SUPPORTED_ETHERSCAN_NETWORKS
      then (Inl (Error (''Current network '' @ ve_network V @ '' not supported. Please change to one of the next networks: testnet,mainnet'')), s)
      else case ve_newFile V s of
             (Inl e, s') \<Rightarrow> (Inr (), s')
           | (Inr path, s') \<Rightarrow>
               runTaskWithRetry (ve_run V) ''verify''
                 \<lparr>vp_address = address, vp_libraries = libraries, vp_constructorArgs = path, vp_relatedSources = True\<rparr>
                 4 (ve_cleanup V path) s')"

text \<open>\<open>checkVerification\<close> ends the process with a code, or lets it go on.\<close>

definition checkVerification :: "'s verifier \<Rightarrow> nat + unit" where
  "checkVerification V =
     (if ve_ETHERSCAN_KEY V = None \<or> ve_ETHERSCAN_KEY V = Some '''' then Inl 3
      else if ve_network V \<notin> set SUPPORTED_ETHERSCAN_NETWORKS then Inl 5 else Inr ())"

section \<open>How often the task runs\<close>

text \<open>The same task and removal, with a log of what has been done.\<close>

datatype retry_event = Ran verify_params "string + unit" | Cleaned

definition logged_run :: "'s task_runner \<Rightarrow> (retry_event list \<times> 's) task_runner" where
  "logged_run run task params ls =
     (case run task params (snd ls) of (r, s') \<Rightarrow> (r, (fst ls @ [Ran params r], s')))"

definition logged_cleanup :: "('s \<Rightarrow> 's) \<Rightarrow> retry_event list \<times> 's \<Rightarrow> retry_event list \<times> 's" where
  "logged_cleanup cleanup ls = (fst ls @ [Cleaned], cleanup (snd ls))"

text \<open>
  The logs a run of the loop can leave: failures that end nothing, and then a success or no further
  attempt, both with the removal, or a failure that ends the loop, without it.
\<close>

fun retried :: "retry_event \<Rightarrow> bool" where
  "retried (Ran p (Inl m)) \<longleftrightarrow> \<not> ends_retries m"
| "retried _ \<longleftrightarrow> False"

inductive retry_log :: "nat \<Rightarrow> retry_event list \<Rightarrow> bool" where
  exhausted: "retry_log 0 [Cleaned]"
| success: "retry_log (Suc n) [Ran p (Inr ()), Cleaned]"
| ended: "ends_retries m \<Longrightarrow> retry_log (Suc n) [Ran p (Inl m)]"
| retry: "retry_log n evs \<Longrightarrow> \<not> ends_retries m \<Longrightarrow> retry_log (Suc n) (Ran p (Inl m) # evs)"

lemma logged_run_eq:
  "run task p s = (r, s') \<Longrightarrow> logged_run run task p (evs, s) = (r, (evs @ [Ran p r], s'))"
  by (simp add: logged_run_def)

lemma runTaskWithRetry_log:
  "\<exists>evs s'. runTaskWithRetry (logged_run run) task params attempts (logged_cleanup cleanup) (log0, s)
     = (Inr (), (log0 @ evs, s')) \<and> retry_log attempts evs"
proof (induction attempts arbitrary: params log0 s)
  case 0
  then show ?case by (auto simp: logged_cleanup_def intro: retry_log.exhausted)
next
  case (Suc n)
  define p where "p = (if n = 0 then params\<lparr>vp_relatedSources := False\<rparr> else params)"
  obtain r s1 where run: "run task p s = (r, s1)" by (cases "run task p s")
  show ?case
  proof (cases r)
    case (Inr u)
    then show ?thesis using run
      by (auto simp: Let_def logged_run_eq logged_cleanup_def simp flip: p_def intro: retry_log.success)
  next
    case (Inl m)
    show ?thesis
    proof (cases "ends_retries m")
      case True
      then show ?thesis using run Inl
        by (auto simp: Let_def logged_run_eq simp flip: p_def intro: retry_log.ended)
    next
      case False
      define q where "q = (if sublist unableVerifyError m then p\<lparr>vp_relatedSources := False\<rparr> else p)"
      from Suc.IH[of q "log0 @ [Ran p (Inl m)]" s1] obtain evs s'
        where "runTaskWithRetry (logged_run run) task q n (logged_cleanup cleanup) (log0 @ [Ran p (Inl m)], s1)
            = (Inr (), (log0 @ Ran p (Inl m) # evs, s'))" "retry_log n evs"
        by auto
      then show ?thesis using run Inl False
        by (auto simp: Let_def logged_run_eq simp flip: p_def q_def intro!: retry_log.retry exI[of _ "Ran p (Inl m) # evs"])
    qed
  qed
qed

fun is_run :: "retry_event \<Rightarrow> bool" where
  "is_run (Ran p r) \<longleftrightarrow> True"
| "is_run Cleaned \<longleftrightarrow> False"

fun ended_by :: "retry_event \<Rightarrow> bool" where
  "ended_by (Ran p (Inl m)) \<longleftrightarrow> ends_retries m"
| "ended_by _ \<longleftrightarrow> False"

lemma retry_log_nonempty: "retry_log n evs \<Longrightarrow> evs \<noteq> []"
  by (induction rule: retry_log.induct) auto

lemma retry_log_counts:
  "retry_log n evs \<Longrightarrow>
   length (filter is_run evs) \<le> n \<and> length (filter (\<lambda>e. e = Cleaned) evs) = (if ended_by (last evs) then 0 else 1)"
proof (induction rule: retry_log.induct)
  case (retry n evs m p)
  then show ?case using retry_log_nonempty[OF retry.hyps(1)] by auto
qed auto

text \<open>
  C23. The retry loop always ends without an error, after running the task at most as often as it was
  told to; it removes the temporary file exactly once, except when an error ends the retries: then
  the file stays.
\<close>

theorem retries_bounded:
  "\<exists>evs s'. runTaskWithRetry (logged_run run) task params attempts (logged_cleanup cleanup) ([], s) = (Inr (), (evs, s'))
     \<and> length (filter is_run evs) \<le> attempts
     \<and> length (filter (\<lambda>e. e = Cleaned) evs) = (if ended_by (last evs) then 0 else 1)"
  using runTaskWithRetry_log[of run task params attempts cleanup "[]" s] retry_log_counts by fastforce

lemma runTaskWithRetry_total: "fst (runTaskWithRetry run task params attempts cleanup s) = Inr ()"
  by (induction run task params attempts cleanup s rule: runTaskWithRetry.induct)
    (simp_all add: Let_def split: prod.split sum.split)

lemma verifyEtherscanContract_cases:
  "fst (verifyEtherscanContract V a l s) = Inr () \<longleftrightarrow> checkVerification V = Inr ()"
  by (auto simp: verifyEtherscanContract_def checkVerification_def runTaskWithRetry_total split: prod.split sum.split)

end
