(* ===== verification/Contract_Registry.thy ===== *)
theory Contract_Registry
  imports Verification
begin

text \<open>
  The registry of deployed contracts: the database functions of \<open>helpers/contracts-helpers.ts\<close> over
  \<open>deployed-contracts.json\<close>, and \<open>helpers/contracts-getters.ts\<close>. The database is a map from a
  contract identifier and a network to an entry. The chain and the node are a parameter \<open>platform\<close>:
  deploying, waiting for a deployment, calling a method and verifying a contract are functions over a
  chain of any type, which may fail with an error.
\<close>

section \<open>The platform and the world\<close>

text \<open>An argument of a call: a string, an array, a boolean, a number, or \<open>undefined\<close>.\<close>

datatype arg = Arg string | Args "string list" | Flag bool | Numeral nat | Undefined

record contract_instance =
  i_factory :: string
  i_address :: string
  i_deployer :: string

record contract_handle =
  h_factory :: string
  h_address :: string

text \<open>A compiled contract: its byte code and the places where libraries are linked.\<close>

record fixup =
  fx_start :: nat
  fx_length :: nat

record artifact =
  bytecode :: string
  linkReferences :: "fixup list SymbolMap SymbolMap"

record 'w platform =
  p_network :: string
  p_FORK :: "string option"
  p_MAINNET_FORK :: "string option"
  p_signers :: "string list"
  p_addresses :: address_library
  p_hash :: "string \<Rightarrow> string"
  p_artifact :: "string \<Rightarrow> artifact"
  p_deploy :: "string \<Rightarrow> string SymbolMap \<Rightarrow> arg list \<Rightarrow> ('w, js_error, contract_instance) eff"
  p_deployBytecode :: "string \<Rightarrow> ('w, js_error, contract_instance) eff"
  p_deployData :: "string \<Rightarrow> string SymbolMap \<Rightarrow> arg list \<Rightarrow> string"
  p_bytecodeData :: "string \<Rightarrow> string"
  p_deployed :: "contract_instance \<Rightarrow> ('w, js_error, unit) eff"
  p_call :: "string \<Rightarrow> string \<Rightarrow> arg list \<Rightarrow> ('w, js_error, unit) eff"
  p_verifier :: "'w verifier"

record db_entry =
  db_address :: string
  db_deployer :: "string option"
  db_salt :: "string option"

record 'w world =
  w_db :: "string \<times> string \<Rightarrow> db_entry option"
  w_chain :: 'w

text \<open>An effect on the chain as an effect on the world.\<close>

definition on_chain :: "('w, 'e, 'a) eff \<Rightarrow> ('w world, 'e, 'a) eff" where
  "on_chain m w = (case m (w_chain w) of (r, c) \<Rightarrow> (r, w\<lparr>w_chain := c\<rparr>))"

section \<open>Registering contracts\<close>

definition db_set :: "'w platform \<Rightarrow> string \<Rightarrow> db_entry \<Rightarrow> ('w world, js_error, unit) eff" where
  "db_set P contractId e = eff_modify (\<lambda>w. w\<lparr>w_db := (w_db w)((contractId, p_network P) \<mapsto> e)\<rparr>)"

definition registerContractAddressInJsonDb ::
  "'w platform \<Rightarrow> string \<Rightarrow> string \<Rightarrow> string \<Rightarrow> ('w world, js_error, unit) eff" where
  "registerContractAddressInJsonDb P contractId address deployer =
     db_set P contractId \<lparr>db_address = address, db_deployer = Some deployer, db_salt = None\<rparr>"

definition registerContractAddressAndSaltInJsonDb ::
  "'w platform \<Rightarrow> string \<Rightarrow> string \<Rightarrow> string \<Rightarrow> string \<Rightarrow> ('w world, js_error, unit) eff" where
  "registerContractAddressAndSaltInJsonDb P contractId address deployer salt =
     db_set P contractId \<lparr>db_address = address, db_deployer = Some deployer, db_salt = Some salt\<rparr>"

definition registerContractInJsonDb ::
  "'w platform \<Rightarrow> string \<Rightarrow> contract_instance \<Rightarrow> ('w world, js_error, unit) eff" where
  "registerContractInJsonDb P contractId contractInstance =
     db_set P contractId
       \<lparr>db_address = i_address contractInstance, db_deployer = Some (i_deployer contractInstance), db_salt = None\<rparr>"

definition insertContractAddressInDb :: "'w platform \<Rightarrow> string \<Rightarrow> string \<Rightarrow> ('w world, js_error, unit) eff" where
  "insertContractAddressInDb P contractId address =
     db_set P contractId \<lparr>db_address = address, db_deployer = None, db_salt = None\<rparr>"

definition rawInsertContractAddressInDb :: "'w platform \<Rightarrow> string \<Rightarrow> string \<Rightarrow> ('w world, js_error, unit) eff" where
  "rawInsertContractAddressInDb P contractId address =
     db_set P contractId \<lparr>db_address = address, db_deployer = None, db_salt = None\<rparr>"

text \<open>
  The address a deployment will have according to its call data: the twenty bytes after the first
  sixteen when they are an address, otherwise a hash of the identifier. The call data are a string. The predicates on addresses, which the
  file does not import, are taken to be those of the address libraries.
\<close>

definition getElectroneumDeploymentAddress :: "'w platform \<Rightarrow> string \<Rightarrow> string \<Rightarrow> string" where
  "getElectroneumDeploymentAddress P contractId callData =
     (let deployerDestinationAddress = ''0x'' @ take 40 (drop 34 callData)
      in if isAddress (p_addresses P) deployerDestinationAddress
            \<and> \<not> isZeroAddress (p_addresses P) deployerDestinationAddress
         then deployerDestinationAddress
         else p_hash P (contractId @ ''electrolend''))"

definition toSalt :: "'w platform \<Rightarrow> string \<Rightarrow> string" where
  "toSalt P contractId = p_hash P (contractId @ ''electrolend-fi'')"

text \<open>\<open>saveDeploymentCallData\<close> also writes a file, which nothing reads.\<close>

definition saveDeploymentCallData :: "'w platform \<Rightarrow> string \<Rightarrow> string \<Rightarrow> ('w world, js_error, unit) eff" where
  "saveDeploymentCallData P contractId callData =
     (if p_network P = eElectroneumNetwork_name testnet \<or> p_network P = eOasysNetwork_name oasys
      then registerContractAddressAndSaltInJsonDb P contractId
             (getElectroneumDeploymentAddress P contractId callData) '''' (toSalt P contractId)
      else eff_return ())"

definition verifyContract ::
  "'w platform \<Rightarrow> string \<Rightarrow> string \<Rightarrow> arg list \<Rightarrow> string option \<Rightarrow> ('w world, js_error, unit) eff" where
  "verifyContract P contractId contractAddress args libraries =
     on_chain (verifyEtherscanContract (p_verifier P) contractAddress libraries)"

definition deployContract :: "'w platform \<Rightarrow> string \<Rightarrow> arg list \<Rightarrow> ('w world, js_error, contract_instance) eff" where
  "deployContract P contractName args =
     eff_bind (on_chain (p_deploy P contractName [] args)) (\<lambda>contract.
     eff_then (on_chain (p_deployed P contract))
     (eff_then (registerContractInJsonDb P contractName contract)
     (eff_return contract)))"

text \<open>
  There are two functions \<open>withSaveAndVerify\<close>. That of \<open>contracts-helpers.ts\<close> waits for the deployment
  and then registers it; that of \<open>contracts-deployments.ts\<close>, which the deployment functions call,
  registers it first. The latter calls \<open>verifyContract\<close>, which its file does not import; it is taken to be
  the one of \<open>contracts-helpers.ts\<close>.
\<close>

definition helpers_withSaveAndVerify ::
  "'w platform \<Rightarrow> contract_instance \<Rightarrow> string \<Rightarrow> arg list \<Rightarrow> bool \<Rightarrow> ('w world, js_error, contract_instance) eff" where
  "helpers_withSaveAndVerify P inst contractId args verify =
     eff_then (on_chain (p_deployed P inst))
     (eff_then (registerContractInJsonDb P contractId inst)
     (eff_then (if verify then verifyContract P contractId (i_address inst) args None else eff_return ())
     (eff_return inst)))"

definition withSaveAndVerify ::
  "'w platform \<Rightarrow> contract_instance \<Rightarrow> string \<Rightarrow> arg list \<Rightarrow> bool \<Rightarrow> bool
   \<Rightarrow> ('w world, js_error, contract_instance) eff" where
  "withSaveAndVerify P inst contractId args verify noWaitForConfirmation =
     eff_then (registerContractInJsonDb P contractId inst)
     (eff_then (if \<not> noWaitForConfirmation then on_chain (p_deployed P inst) else eff_return ())
     (eff_then (if verify then verifyContract P contractId (i_address inst) args None else eff_return ())
     (eff_return inst)))"

section \<open>Linking libraries\<close>

definition replace_fixup :: "string \<Rightarrow> string \<Rightarrow> fixup \<Rightarrow> string" where
  "replace_fixup addr code fx =
     take (2 + fx_start fx * 2) code @ drop 2 addr @ drop (2 + (fx_start fx + fx_length fx) * 2) code"

definition link_library :: "string SymbolMap \<Rightarrow> string \<Rightarrow> string \<times> fixup list \<Rightarrow> string" where
  "link_library libraries code lib =
     (case map_of libraries (fst lib) of
        None \<Rightarrow> code
      | Some addr \<Rightarrow> foldl (replace_fixup addr) code (snd lib))"

definition linkBytecode :: "artifact \<Rightarrow> string SymbolMap \<Rightarrow> string" where
  "linkBytecode art libraries =
     foldl (\<lambda>code fileReferences. foldl (link_library libraries) code (snd fileReferences))
       (bytecode art) (linkReferences art)"

section \<open>The getters\<close>

text \<open>
  A getter connects to the address it is given, or to the one registered on the current network; without an
  entry it reads a property of \<open>undefined\<close>.
\<close>

definition connect_registered :: "'w platform \<Rightarrow> string \<Rightarrow> string \<Rightarrow> ('w world, js_error, contract_handle) eff" where
  "connect_registered P factory contractId =
     eff_bind (eff_read (\<lambda>w. w_db w (contractId, p_network P)))
       (\<lambda>e. case e of
          None \<Rightarrow> eff_throw (TypeError ''Cannot read properties of undefined'')
        | Some d \<Rightarrow> eff_return \<lparr>h_factory = factory, h_address = db_address d\<rparr>)"

definition connect_or_db ::
  "'w platform \<Rightarrow> string \<Rightarrow> string \<Rightarrow> string option \<Rightarrow> ('w world, js_error, contract_handle) eff" where
  "connect_or_db P factory contractId address =
     (case address of
        Some a \<Rightarrow> if a = '''' then connect_registered P factory contractId
                  else eff_return \<lparr>h_factory = factory, h_address = a\<rparr>
      | None \<Rightarrow> connect_registered P factory contractId)"

definition getLendingPoolAddressesProvider :: "'w platform \<Rightarrow> string option \<Rightarrow> ('w world, js_error, contract_handle) eff" where
  "getLendingPoolAddressesProvider P address = connect_or_db P ''LendingPoolAddressesProviderFactory'' ''LendingPoolAddressesProvider'' address"

definition getLendingPoolConfiguratorProxy :: "'w platform \<Rightarrow> string option \<Rightarrow> ('w world, js_error, contract_handle) eff" where
  "getLendingPoolConfiguratorProxy P address = connect_or_db P ''LendingPoolConfiguratorFactory'' ''LendingPoolConfigurator'' address"

definition getLendingPool :: "'w platform \<Rightarrow> string option \<Rightarrow> ('w world, js_error, contract_handle) eff" where
  "getLendingPool P address = connect_or_db P ''LendingPoolFactory'' ''LendingPool'' address"

definition getPriceOracle :: "'w platform \<Rightarrow> string option \<Rightarrow> ('w world, js_error, contract_handle) eff" where
  "getPriceOracle P address = connect_or_db P ''PriceOracleFactory'' ''PriceOracle'' address"

definition getElectroFallbackOracle :: "'w platform \<Rightarrow> string option \<Rightarrow> ('w world, js_error, contract_handle) eff" where
  "getElectroFallbackOracle P address = connect_or_db P ''ElectroFallbackOracleFactory'' ''ElectroFallbackOracle'' address"

definition getELToken :: "'w platform \<Rightarrow> string option \<Rightarrow> ('w world, js_error, contract_handle) eff" where
  "getELToken P address = connect_or_db P ''ELTokenFactory'' ''ELToken'' address"

definition getStableDebtToken :: "'w platform \<Rightarrow> string option \<Rightarrow> ('w world, js_error, contract_handle) eff" where
  "getStableDebtToken P address = connect_or_db P ''StableDebtTokenFactory'' ''StableDebtToken'' address"

definition getVariableDebtToken :: "'w platform \<Rightarrow> string option \<Rightarrow> ('w world, js_error, contract_handle) eff" where
  "getVariableDebtToken P address = connect_or_db P ''VariableDebtTokenFactory'' ''VariableDebtToken'' address"

definition getMintableERC20 :: "'w platform \<Rightarrow> string option \<Rightarrow> ('w world, js_error, contract_handle) eff" where
  "getMintableERC20 P address = connect_or_db P ''MintableERC20Factory'' ''MintableERC20'' address"

definition getIErc20Detailed :: "'w platform \<Rightarrow> string option \<Rightarrow> ('w world, js_error, contract_handle) eff" where
  "getIErc20Detailed P address = connect_or_db P ''IERC20DetailedFactory'' ''IERC20Detailed'' address"

definition getElectroProtocolDataProvider :: "'w platform \<Rightarrow> string option \<Rightarrow> ('w world, js_error, contract_handle) eff" where
  "getElectroProtocolDataProvider P address = connect_or_db P ''ElectroProtocolDataProviderFactory'' ''ElectroProtocolDataProvider'' address"

definition getInterestRateStrategy :: "'w platform \<Rightarrow> string option \<Rightarrow> ('w world, js_error, contract_handle) eff" where
  "getInterestRateStrategy P address = connect_or_db P ''DefaultReserveInterestRateStrategyFactory'' ''DefaultReserveInterestRateStrategy'' address"

definition getMockFlashLoanReceiver :: "'w platform \<Rightarrow> string option \<Rightarrow> ('w world, js_error, contract_handle) eff" where
  "getMockFlashLoanReceiver P address = connect_or_db P ''MockFlashLoanReceiverFactory'' ''MockFlashLoanReceiver'' address"

definition getLendingRateOracle :: "'w platform \<Rightarrow> string option \<Rightarrow> ('w world, js_error, contract_handle) eff" where
  "getLendingRateOracle P address = connect_or_db P ''LendingRateOracleFactory'' ''LendingRateOracle'' address"

definition getReserveLogic :: "'w platform \<Rightarrow> string option \<Rightarrow> ('w world, js_error, contract_handle) eff" where
  "getReserveLogic P address = connect_or_db P ''ReserveLogicFactory'' ''ReserveLogic'' address"

definition getGenericLogic :: "'w platform \<Rightarrow> string option \<Rightarrow> ('w world, js_error, contract_handle) eff" where
  "getGenericLogic P address = connect_or_db P ''GenericLogicFactory'' ''GenericLogic'' address"

definition getStableAndVariableTokensHelper :: "'w platform \<Rightarrow> string option \<Rightarrow> ('w world, js_error, contract_handle) eff" where
  "getStableAndVariableTokensHelper P address = connect_or_db P ''StableAndVariableTokensHelperFactory'' ''StableAndVariableTokensHelper'' address"

definition getELTokensAndRatesHelper :: "'w platform \<Rightarrow> string option \<Rightarrow> ('w world, js_error, contract_handle) eff" where
  "getELTokensAndRatesHelper P address = connect_or_db P ''ELTokensAndRatesHelperFactory'' ''ELTokensAndRatesHelper'' address"

definition getWETHGateway :: "'w platform \<Rightarrow> string option \<Rightarrow> ('w world, js_error, contract_handle) eff" where
  "getWETHGateway P address = connect_or_db P ''WETHGatewayFactory'' ''WETHGateway'' address"

definition getWETHMocked :: "'w platform \<Rightarrow> string option \<Rightarrow> ('w world, js_error, contract_handle) eff" where
  "getWETHMocked P address = connect_or_db P ''WETH9MockedFactory'' ''WETNMocked'' address"

definition getMockELToken :: "'w platform \<Rightarrow> string option \<Rightarrow> ('w world, js_error, contract_handle) eff" where
  "getMockELToken P address = connect_or_db P ''MockELTokenFactory'' ''MockELToken'' address"

definition getMockVariableDebtToken :: "'w platform \<Rightarrow> string option \<Rightarrow> ('w world, js_error, contract_handle) eff" where
  "getMockVariableDebtToken P address = connect_or_db P ''MockVariableDebtTokenFactory'' ''MockVariableDebtToken'' address"

definition getMockStableDebtToken :: "'w platform \<Rightarrow> string option \<Rightarrow> ('w world, js_error, contract_handle) eff" where
  "getMockStableDebtToken P address = connect_or_db P ''MockStableDebtTokenFactory'' ''MockStableDebtToken'' address"

definition getSelfdestructTransferMock :: "'w platform \<Rightarrow> string option \<Rightarrow> ('w world, js_error, contract_handle) eff" where
  "getSelfdestructTransferMock P address = connect_or_db P ''SelfdestructTransferFactory'' ''SelfdestructTransferMock'' address"

definition getLendingPoolImpl :: "'w platform \<Rightarrow> string option \<Rightarrow> ('w world, js_error, contract_handle) eff" where
  "getLendingPoolImpl P address = connect_or_db P ''LendingPoolFactory'' ''LendingPoolImpl'' address"

definition getLendingPoolConfiguratorImpl :: "'w platform \<Rightarrow> string option \<Rightarrow> ('w world, js_error, contract_handle) eff" where
  "getLendingPoolConfiguratorImpl P address = connect_or_db P ''LendingPoolConfiguratorFactory'' ''LendingPoolConfiguratorImpl'' address"

definition getLendingPoolCollateralManagerImpl :: "'w platform \<Rightarrow> string option \<Rightarrow> ('w world, js_error, contract_handle) eff" where
  "getLendingPoolCollateralManagerImpl P address = connect_or_db P ''LendingPoolCollateralManagerFactory'' ''LendingPoolCollateralManagerImpl'' address"

definition getWalletProvider :: "'w platform \<Rightarrow> string option \<Rightarrow> ('w world, js_error, contract_handle) eff" where
  "getWalletProvider P address = connect_or_db P ''WalletBalanceProviderFactory'' ''WalletBalanceProvider'' address"

definition getLendingPoolCollateralManager :: "'w platform \<Rightarrow> string option \<Rightarrow> ('w world, js_error, contract_handle) eff" where
  "getLendingPoolCollateralManager P address = connect_or_db P ''LendingPoolCollateralManagerFactory'' ''LendingPoolCollateralManager'' address"

definition getElectroOracle :: "'w platform \<Rightarrow> string option \<Rightarrow> ('w world, js_error, contract_handle) eff" where
  "getElectroOracle P address = connect_or_db P ''ElectroOracleFactory'' ''ElectroOracle'' address"

definition getSimplePriceFeed :: "'w platform \<Rightarrow> string option \<Rightarrow> ('w world, js_error, contract_handle) eff" where
  "getSimplePriceFeed P address = connect_or_db P ''SimplePriceFeedFactory'' ''SimplePriceFeed'' address"

definition getSimplePriceFeedAdapter :: "'w platform \<Rightarrow> string option \<Rightarrow> ('w world, js_error, contract_handle) eff" where
  "getSimplePriceFeedAdapter P address = connect_or_db P ''SimplePriceFeedAdapterFactory'' ''SimplePriceFeedAdapter'' address"

definition getPriceAggregatorAdapterSimpleImpl :: "'w platform \<Rightarrow> string option \<Rightarrow> ('w world, js_error, contract_handle) eff" where
  "getPriceAggregatorAdapterSimpleImpl P address = connect_or_db P ''PriceAggregatorAdapterSimpleImplFactory'' ''PriceAggregatorAdapterSimpleImpl'' address"


definition getLendingPoolAddressesProviderRegistry ::
  "'w platform \<Rightarrow> string option \<Rightarrow> ('w world, js_error, contract_handle) eff" where
  "getLendingPoolAddressesProviderRegistry P address =
     (if notFalsyOrZeroAddress (p_addresses P) address
      then eff_return \<lparr>h_factory = ''LendingPoolAddressesProviderRegistryFactory'', h_address = the address\<rparr>
      else connect_registered P ''LendingPoolAddressesProviderRegistryFactory'' ''LendingPoolAddressesProviderRegistry'')"

definition getProxy :: "'w platform \<Rightarrow> string \<Rightarrow> ('w world, js_error, contract_handle) eff" where
  "getProxy P address =
     eff_return \<lparr>h_factory = ''InitializableAdminUpgradeabilityProxyFactory'', h_address = address\<rparr>"

definition getAddressById :: "'w platform \<Rightarrow> string \<Rightarrow> ('w world, js_error, string option) eff" where
  "getAddressById P contractId =
     eff_read (\<lambda>w. case w_db w (contractId, p_network P) of
       None \<Rightarrow> None | Some e \<Rightarrow> if db_address e = '''' then None else Some (db_address e))"

definition getFirstSigner :: "'w platform \<Rightarrow> string option" where
  "getFirstSigner P = (case p_signers P of [] \<Rightarrow> None | s # _ \<Rightarrow> Some s)"

section \<open>The mocked tokens\<close>

definition TokenContractId :: "string list" where
  "TokenContractId = [''WETN'', ''USD'', ''TUSDC'', ''TUSDT'']"

fun mocked_tokens ::
  "'w platform \<Rightarrow> string list \<Rightarrow> contract_handle SymbolMap \<Rightarrow> ('w world, js_error, contract_handle SymbolMap) eff" where
  "mocked_tokens P [] acc = eff_return acc"
| "mocked_tokens P (tokenSymbol # symbols) acc =
     eff_bind (connect_registered P ''MintableERC20Factory'' (toUpperCase tokenSymbol)) (\<lambda>registered.
     eff_bind (getMintableERC20 P (Some (h_address registered))) (\<lambda>token.
     mocked_tokens P symbols (js_set acc tokenSymbol token)))"

definition getMockedTokens ::
  "'w platform \<Rightarrow> PoolConfiguration \<Rightarrow> ('w world, js_error, contract_handle SymbolMap) eff" where
  "getMockedTokens P config = mocked_tokens P (map fst (ReservesConfig config)) []"

definition getAllMockedTokens :: "'w platform \<Rightarrow> ('w world, js_error, contract_handle SymbolMap) eff" where
  "getAllMockedTokens P = mocked_tokens P TokenContractId []"

section \<open>Pairs of assets and aggregators\<close>

definition getQuoteCurrencies :: "string \<Rightarrow> string list" where
  "getQuoteCurrencies oracleQuoteCurrency =
     (if oracleQuoteCurrency = ''USD'' then [''USD'']
      else if oracleQuoteCurrency = ''WETN'' \<or> oracleQuoteCurrency = ''WETH'' then [''ETH'', ''WETN'']
      else if oracleQuoteCurrency = ''NATIVE'' then [''NATIVE'']
      else [])"

text \<open>
  The aggregator of each symbol; the destructuring of \<open>entries[-1]\<close> throws when a symbol has none.
\<close>

fun aggregator_pairs ::
  "tEthereumAddress SymbolMap \<Rightarrow> tEthereumAddress SymbolMap \<Rightarrow> js_error + (string \<times> string) list" where
  "aggregator_pairs aggregatorsAddresses [] = Inr []"
| "aggregator_pairs aggregatorsAddresses ((tokenSymbol, tokenAddress) # assets) =
     (case find (\<lambda>(value, _). value = tokenSymbol) aggregatorsAddresses of
        None \<Rightarrow> Inl (TypeError ''undefined is not iterable'')
      | Some (_, aggregatorAddress) \<Rightarrow>
          map_sum id ((#) (tokenAddress, aggregatorAddress)) (aggregator_pairs aggregatorsAddresses assets))"

definition getPairsTokenAggregator ::
  "tEthereumAddress SymbolMap \<Rightarrow> tEthereumAddress SymbolMap \<Rightarrow> string \<Rightarrow> js_error + (string list \<times> string list)" where
  "getPairsTokenAggregator allAssetsAddresses aggregatorsAddresses oracleQuoteCurrency =
     map_sum id (\<lambda>pairs. (map fst pairs, map snd pairs))
       (aggregator_pairs aggregatorsAddresses (omit allAssetsAddresses (getQuoteCurrencies oracleQuoteCurrency)))"

section \<open>Deploying and registering\<close>

text \<open>
  The shape of most deployment functions: \<open>new Factory(signer).deploy(...args)\<close> passed to
  \<open>withSaveAndVerify\<close>. The mock of the wrapped native token is here since the configuration deploys it.
\<close>

definition deploy_and_save ::
  "'w platform \<Rightarrow> string \<Rightarrow> arg list \<Rightarrow> string \<Rightarrow> arg list \<Rightarrow> bool \<Rightarrow> ('w world, js_error, contract_instance) eff" where
  "deploy_and_save P factory deployArgs contractId args verify =
     eff_bind (on_chain (p_deploy P factory [] deployArgs)) (\<lambda>inst.
     withSaveAndVerify P inst contractId args verify False)"

definition deployWETHMocked :: "'w platform \<Rightarrow> bool \<Rightarrow> ('w world, js_error, contract_instance) eff" where
  "deployWETHMocked P verify = deploy_and_save P ''WETH9MockedFactory'' [] ''WETNMocked'' [] verify"

end
