(* ===== verification/Network_Config.thy ===== *)
theory Network_Config
  imports Contract_Registry
begin

text \<open>
  Parameters per network and the choice of addresses: \<open>getParamPerNetwork\<close> and its relatives and
  \<open>getContractAddressWithJsonFallback\<close> of \<open>helpers/contracts-helpers.ts\<close>, and
  \<open>helpers/configuration.ts\<close>. A parameter that is falsy is \<open>None\<close>, and so is a result that is \<open>undefined\<close>.
\<close>

section \<open>Parameters per network\<close>

definition truthy :: "string option \<Rightarrow> bool" where
  "truthy s \<longleftrightarrow> s \<noteq> None \<and> s \<noteq> Some ''''"

definition getParamPerNetwork :: "string option \<Rightarrow> 'a SymbolMap option \<Rightarrow> string \<Rightarrow> 'a option" where
  "getParamPerNetwork FORK param network =
     (case param of
        None \<Rightarrow> None
      | Some p \<Rightarrow>
          if network \<in> set [eElectroneumNetwork_name mainnet, eElectroneumNetwork_name testnet]
          then map_of p network
          else if network \<in> set [eOasysNetwork_name oasys, eOasysNetwork_name shiden]
          then map_of p network
          else if truthy FORK then map_of p (the FORK)
          else if network = eEthereumNetwork_name coverage then map_of p (eEthereumNetwork_name coverage)
          else if network = eEthereumNetwork_name buidlerevm then map_of p (eEthereumNetwork_name buidlerevm)
          else if network = eEthereumNetwork_name hardhat then map_of p (eEthereumNetwork_name buidlerevm)
          else if network = eEthereumNetwork_name tenderly then map_of p (eEthereumNetwork_name tenderly)
          else None)"

definition getOptionalParamAddressPerNetwork ::
  "string option \<Rightarrow> tEthereumAddress SymbolMap option \<Rightarrow> string \<Rightarrow> tEthereumAddress option" where
  "getOptionalParamAddressPerNetwork FORK param network =
     (case param of None \<Rightarrow> Some ZERO_ADDRESS | Some p \<Rightarrow> getParamPerNetwork FORK (Some p) network)"

record 'a iParamsPerPool =
  proto_params :: 'a

definition getParamPerPool :: "'a iParamsPerPool \<Rightarrow> ElectroPools \<Rightarrow> 'a" where
  "getParamPerPool params pool = (case pool of proto \<Rightarrow> proto_params params)"

section \<open>The pool configuration\<close>

datatype ConfigNames = Commons | ElectroLend | Unsupported string

definition loadPoolConfig :: "'n bn \<Rightarrow> ConfigNames \<Rightarrow> js_error + PoolConfiguration" where
  "loadPoolConfig B configName =
     (case configName of
        ElectroLend \<Rightarrow> Inr (ElectroConfig B)
      | Commons \<Rightarrow> Inr (CommonsConfig B)
      | Unsupported n \<Rightarrow>
          Inl (Error (''Unsupported pool configuration: '' @ n
                      @ '' is not one of the supported configs Commons,ElectroLend'')))"

definition getReservesConfigByPool :: "'n bn \<Rightarrow> ElectroPools \<Rightarrow> IReserveParams SymbolMap" where
  "getReservesConfigByPool B pool =
     getParamPerPool \<lparr>proto_params = ReservesConfig (ElectroConfig B)\<rparr> pool"

definition current_network :: "'w platform \<Rightarrow> string" where
  "current_network P = (if truthy (p_FORK P) then the (p_FORK P) else p_network P)"

text \<open>
  An administrator: the configured address, otherwise the signer with the configured index;
  \<open>None\<close> when there is no such signer.
\<close>

definition configured_or_signer :: "'w platform \<Rightarrow> string option SymbolMap \<Rightarrow> nat \<Rightarrow> string option" where
  "configured_or_signer P param index =
     (let targetAddress =
            (case getParamPerNetwork (p_FORK P) (Some param) (current_network P) of
               None \<Rightarrow> None | Some a \<Rightarrow> a)
      in if truthy targetAddress then targetAddress
         else if index < length (p_signers P) then Some (p_signers P ! index) else None)"

definition getGenesisPoolAdmin :: "'w platform \<Rightarrow> PoolConfiguration \<Rightarrow> string option" where
  "getGenesisPoolAdmin P config = configured_or_signer P (PoolAdmin config) (PoolAdminIndex config)"

definition getEmergencyAdmin :: "'w platform \<Rightarrow> PoolConfiguration \<Rightarrow> string option" where
  "getEmergencyAdmin P config = configured_or_signer P (EmergencyAdmin config) (EmergencyAdminIndex config)"

definition getTreasuryAddress :: "'w platform \<Rightarrow> PoolConfiguration \<Rightarrow> string option" where
  "getTreasuryAddress P config =
     getParamPerNetwork (p_FORK P) (Some (ReserveFactorTreasuryAddress config)) (current_network P)"

definition getELTokenDomainSeparatorPerNetwork :: "string option \<Rightarrow> string \<Rightarrow> PoolConfiguration \<Rightarrow> string option" where
  "getELTokenDomainSeparatorPerNetwork FORK network config =
     getParamPerNetwork FORK (Some (ELTokenDomainSeparator config)) network"

definition getWethAddress :: "'w platform \<Rightarrow> PoolConfiguration \<Rightarrow> ('w world, js_error, string) eff" where
  "getWethAddress P config =
     (let wethAddress = getParamPerNetwork (p_FORK P) (Some (WETH config)) (current_network P)
      in if truthy wethAddress then eff_return (the wethAddress)
         else eff_bind (deployWETHMocked P False) (\<lambda>weth. eff_return (i_address weth)))"

definition getWrappedNativeTokenAddress :: "'w platform \<Rightarrow> PoolConfiguration \<Rightarrow> ('w world, js_error, string) eff" where
  "getWrappedNativeTokenAddress P config =
     (let currentNetwork = (if p_MAINNET_FORK P = Some ''true'' then ''main'' else p_network P);
          wetnAddress = getParamPerNetwork (p_FORK P) (Some (WrappedNativeToken config)) currentNetwork
      in if truthy wetnAddress then eff_return (the wetnAddress)
         else if sublist ''electroneum'' currentNetwork
         then eff_throw (Error ''WETN not set at Electroneum configuration.'')
         else eff_bind (deployWETHMocked P False) (\<lambda>wetn. eff_return (i_address wetn)))"

text \<open>
  The rates of the assets of the network; \<open>Object.keys\<close> of \<open>undefined\<close> throws, once a key is filtered.
\<close>

definition getLendingRateOracles :: "'w platform \<Rightarrow> PoolConfiguration \<Rightarrow> js_error + string SymbolMap" where
  "getLendingRateOracles P poolConfig =
     (case map_of (ReserveAssets poolConfig) (current_network P) of
        None \<Rightarrow> if LendingRateOracleRatesCommon poolConfig = [] then Inr []
                else Inl (TypeError ''Cannot convert undefined or null to object'')
      | Some assets \<Rightarrow>
          Inr (filterMapBy (LendingRateOracleRatesCommon poolConfig) (\<lambda>key. key \<in> set (map fst assets))))"

definition getQuoteCurrency :: "'w platform \<Rightarrow> PoolConfiguration \<Rightarrow> ('w world, js_error, string) eff" where
  "getQuoteCurrency P config =
     (if OracleQuoteCurrency config \<in> set [''ETH'', ''WETH'', ''WETN''] then getWrappedNativeTokenAddress P config
      else if OracleQuoteCurrency config = ''USD'' then eff_return (UsdAddress (ProtocolGlobalParams config))
      else eff_throw (Thrown (''Quote '' @ OracleQuoteCurrency config
             @ '' currency not set. Add a new case to getQuoteCurrency switch'')))"

section \<open>The address of a contract\<close>

text \<open>
  \<open>poolConfig[id]\<close> for the keys whose value is an address per network; any other key that is looked up
  is not in the configuration.
\<close>

definition pool_addresses :: "PoolConfiguration \<Rightarrow> string SymbolMap SymbolMap" where
  "pool_addresses c =
     [(''ProviderRegistryOwner'', ProviderRegistryOwner c), (''ProviderRegistry'', ProviderRegistry c),
      (''ELTokenDomainSeparator'', ELTokenDomainSeparator c), (''WETH'', WETH c),
      (''WrappedNativeToken'', WrappedNativeToken c),
      (''ReserveFactorTreasuryAddress'', ReserveFactorTreasuryAddress c),
      (''IncentivesController'', IncentivesController c), (''StakedOas'', StakedOas c),
      (''OracleSenderAddress'', OracleSenderAddress c), (''LendingPoolConfigurator'', LendingPoolConfigurator c),
      (''SimplePriceFeed'', SimplePriceFeed c)]"

definition getContractAddressWithJsonFallback ::
  "'n bn \<Rightarrow> 'w platform \<Rightarrow> string \<Rightarrow> ConfigNames \<Rightarrow> ('w world, js_error, string) eff" where
  "getContractAddressWithJsonFallback B P contractId pool =
     eff_bind (eff_lift (loadPoolConfig B pool)) (\<lambda>poolConfig.
     let contractAtMarketConfig =
           getOptionalParamAddressPerNetwork (p_FORK P) (map_of (pool_addresses poolConfig) contractId) (p_network P)
     in if notFalsyOrZeroAddress (p_addresses P) contractAtMarketConfig
        then eff_return (the contractAtMarketConfig)
        else eff_bind (eff_read (\<lambda>w. map_option db_address (w_db w (contractId, p_network P)))) (\<lambda>contractAtDb.
             if truthy contractAtDb then eff_return (the contractAtDb)
             else eff_throw (Error (''Missing contract address '' @ contractId @ '' at Market config and JSON local db''))))"

end
