(* ===== verification/Deployments.thy ===== *)
theory Deployments
  imports Network_Config
begin

text \<open>
  The deployment functions of \<open>helpers/contracts-deployments.ts\<close>: what is deployed with which
  arguments, under which identifier it is registered, and what is called on the new contract. The contracts
  with the call data of their deployment come from the build, through the platform.
\<close>

section \<open>Contracts without further steps\<close>

definition deployUiIncentiveDataProviderV2 :: "'w platform \<Rightarrow> bool \<Rightarrow> ('w world, js_error, contract_instance) eff" where
  "deployUiIncentiveDataProviderV2 P verify = deploy_and_save P ''UiIncentiveDataProviderV2Factory'' [] ''UiIncentiveDataProviderV2'' [] verify"

definition deployUiPoolDataProviderV2 :: "'w platform \<Rightarrow> bool \<Rightarrow> ('w world, js_error, contract_instance) eff" where
  "deployUiPoolDataProviderV2 P verify = deploy_and_save P ''UiPoolDataProviderV2Factory'' [] ''UiPoolDataProviderV2'' [] verify"

definition deployReserveLogicLibrary :: "'w platform \<Rightarrow> bool \<Rightarrow> ('w world, js_error, contract_instance) eff" where
  "deployReserveLogicLibrary P verify = deploy_and_save P ''ReserveLogicFactory'' [] ''ReserveLogic'' [] verify"

definition deployPriceOracle :: "'w platform \<Rightarrow> bool \<Rightarrow> ('w world, js_error, contract_instance) eff" where
  "deployPriceOracle P verify = deploy_and_save P ''PriceOracleFactory'' [] ''PriceOracle'' [] verify"

definition deployInitializableAdminUpgradeabilityProxy :: "'w platform \<Rightarrow> bool \<Rightarrow> ('w world, js_error, contract_instance) eff" where
  "deployInitializableAdminUpgradeabilityProxy P verify = deploy_and_save P ''InitializableAdminUpgradeabilityProxyFactory'' [] ''InitializableAdminUpgradeabilityProxy'' [] verify"

definition deployWalletBalancerProvider :: "'w platform \<Rightarrow> bool \<Rightarrow> ('w world, js_error, contract_instance) eff" where
  "deployWalletBalancerProvider P verify = deploy_and_save P ''WalletBalanceProviderFactory'' [] ''WalletBalanceProvider'' [] verify"

definition deployElectroProtocolDataProvider :: "'w platform \<Rightarrow> bool \<Rightarrow> ('w world, js_error, contract_instance) eff" where
  "deployElectroProtocolDataProvider P verify = deploy_and_save P ''ElectroProtocolDataProviderFactory'' [] ''ElectroProtocolDataProvider'' [] verify"

definition deployGenericStableDebtToken :: "'w platform \<Rightarrow> bool \<Rightarrow> ('w world, js_error, contract_instance) eff" where
  "deployGenericStableDebtToken P verify = deploy_and_save P ''StableDebtTokenFactory'' [] ''StableDebtToken'' [] verify"

definition deployGenericVariableDebtToken :: "'w platform \<Rightarrow> bool \<Rightarrow> ('w world, js_error, contract_instance) eff" where
  "deployGenericVariableDebtToken P verify = deploy_and_save P ''VariableDebtTokenFactory'' [] ''VariableDebtToken'' [] verify"

definition deployGenericELTokenImpl :: "'w platform \<Rightarrow> bool \<Rightarrow> ('w world, js_error, contract_instance) eff" where
  "deployGenericELTokenImpl P verify = deploy_and_save P ''ELTokenFactory'' [] ''ELToken'' [] verify"

definition deployDelegationAwareELTokenImpl :: "'w platform \<Rightarrow> bool \<Rightarrow> ('w world, js_error, contract_instance) eff" where
  "deployDelegationAwareELTokenImpl P verify = deploy_and_save P ''DelegationAwareELTokenFactory'' [] ''DelegationAwareELToken'' [] verify"

definition deploySelfdestructTransferMock :: "'w platform \<Rightarrow> bool \<Rightarrow> ('w world, js_error, contract_instance) eff" where
  "deploySelfdestructTransferMock P verify = deploy_and_save P ''SelfdestructTransferFactory'' [] ''SelfdestructTransferMock'' [] verify"

text \<open>
  One argument for the constructor; some do not pass it to the verification. An owner is whatever the caller
  passes, which need not be a string.
\<close>

definition deployLendingPoolAddressesProviderRegistry :: "'w platform \<Rightarrow> string \<Rightarrow> bool \<Rightarrow> ('w world, js_error, contract_instance) eff" where
  "deployLendingPoolAddressesProviderRegistry P initialOwner verify =
     deploy_and_save P ''LendingPoolAddressesProviderRegistryFactory'' [Arg initialOwner] ''LendingPoolAddressesProviderRegistry'' [Arg initialOwner] verify"

definition deployElectroFallbackOracle :: "'w platform \<Rightarrow> arg \<Rightarrow> bool \<Rightarrow> ('w world, js_error, contract_instance) eff" where
  "deployElectroFallbackOracle P initialOwner verify =
     deploy_and_save P ''ElectroFallbackOracleFactory'' [initialOwner] ''ElectroFallbackOracle'' [] verify"

definition deployLendingRateOracle :: "'w platform \<Rightarrow> arg \<Rightarrow> bool \<Rightarrow> ('w world, js_error, contract_instance) eff" where
  "deployLendingRateOracle P initialOwner verify =
     deploy_and_save P ''LendingRateOracleFactory'' [initialOwner] ''LendingRateOracle'' [] verify"

definition deployMockFlashLoanReceiver :: "'w platform \<Rightarrow> string \<Rightarrow> bool \<Rightarrow> ('w world, js_error, contract_instance) eff" where
  "deployMockFlashLoanReceiver P addressesProvider verify =
     deploy_and_save P ''MockFlashLoanReceiverFactory'' [Arg addressesProvider] ''MockFlashLoanReceiver'' [Arg addressesProvider] verify"

definition deployStableAndVariableTokensHelper :: "'w platform \<Rightarrow> arg \<Rightarrow> bool \<Rightarrow> ('w world, js_error, contract_instance) eff" where
  "deployStableAndVariableTokensHelper P initialOwner verify =
     deploy_and_save P ''StableAndVariableTokensHelperFactory'' [initialOwner] ''StableAndVariableTokensHelper'' [] verify"

definition deployELTokensAndRatesHelper :: "'w platform \<Rightarrow> arg \<Rightarrow> bool \<Rightarrow> ('w world, js_error, contract_instance) eff" where
  "deployELTokensAndRatesHelper P initialOwner verify =
     deploy_and_save P ''ELTokensAndRatesHelperFactory'' [initialOwner] ''ELTokensAndRatesHelper'' [] verify"

text \<open>A tuple of arguments.\<close>

definition deployElectroOracle :: "'w platform \<Rightarrow> string list \<Rightarrow> bool \<Rightarrow> ('w world, js_error, contract_instance) eff" where
  "deployElectroOracle P args verify =
     deploy_and_save P ''ElectroOracleFactory'' (map Arg args) ''ElectroOracle'' (map Arg args) verify"

definition deployMintableERC20 :: "'w platform \<Rightarrow> string list \<Rightarrow> bool \<Rightarrow> ('w world, js_error, contract_instance) eff" where
  "deployMintableERC20 P args verify =
     deploy_and_save P ''MintableERC20Factory'' (map Arg args) ''MintableERC20'' (map Arg args) verify"

definition deployMintableDelegationERC20 :: "'w platform \<Rightarrow> string list \<Rightarrow> bool \<Rightarrow> ('w world, js_error, contract_instance) eff" where
  "deployMintableDelegationERC20 P args verify =
     deploy_and_save P ''MintableDelegationERC20Factory'' (map Arg args) ''MintableDelegationERC20'' (map Arg args) verify"

definition deployDefaultReserveInterestRateStrategy :: "'w platform \<Rightarrow> string list \<Rightarrow> bool \<Rightarrow> ('w world, js_error, contract_instance) eff" where
  "deployDefaultReserveInterestRateStrategy P args verify =
     deploy_and_save P ''DefaultReserveInterestRateStrategyFactory'' (map Arg args) ''DefaultReserveInterestRateStrategy'' (map Arg args) verify"

definition deployWETHGateway :: "'w platform \<Rightarrow> string list \<Rightarrow> bool \<Rightarrow> ('w world, js_error, contract_instance) eff" where
  "deployWETHGateway P args verify =
     deploy_and_save P ''WETHGatewayFactory'' (map Arg args) ''WETHGateway'' (map Arg args) verify"


definition deployLendingPoolAddressesProvider ::
  "'w platform \<Rightarrow> string \<Rightarrow> arg \<Rightarrow> bool \<Rightarrow> ('w world, js_error, contract_instance) eff" where
  "deployLendingPoolAddressesProvider P marketId initialOwner verify =
     deploy_and_save P ''LendingPoolAddressesProviderFactory'' [Arg marketId, initialOwner]
       ''LendingPoolAddressesProvider'' [Arg marketId, initialOwner] verify"

definition deployMockAggregator ::
  "'w platform \<Rightarrow> string list \<times> string list \<Rightarrow> bool \<Rightarrow> ('w world, js_error, contract_instance) eff" where
  "deployMockAggregator P args verify =
     deploy_and_save P ''MockAggregatorFactory'' [Args (fst args), Args (snd args)] ''MockAggregator''
       [Args (fst args), Args (snd args)] verify"

definition deployMockELToken ::
  "'w platform \<Rightarrow> string list \<Rightarrow> bool \<Rightarrow> ('w world, js_error, contract_instance) eff" where
  "deployMockELToken P args verify =
     deploy_and_save P ''MockLTokenFactory'' [] ''MockELToken'' (map Arg args) verify"

section \<open>Libraries and the lending pool\<close>

definition getGenericLogicContractFactory :: "'w platform \<Rightarrow> string \<Rightarrow> string" where
  "getGenericLogicContractFactory P reserveLogicAddress =
     linkBytecode (p_artifact P ''GenericLogic'') [(''ReserveLogic'', reserveLogicAddress)]"

definition exportGenericLogicDeploymentCallData :: "'w platform \<Rightarrow> string \<Rightarrow> string" where
  "exportGenericLogicDeploymentCallData P reserveLogicAddress =
     p_bytecodeData P (getGenericLogicContractFactory P reserveLogicAddress)"

definition getValidationLogicContractFactory :: "'w platform \<Rightarrow> string \<Rightarrow> string \<Rightarrow> string" where
  "getValidationLogicContractFactory P reserveLogicAddress genericLogicAddress =
     linkBytecode (p_artifact P ''ValidationLogic'')
       [(''ReserveLogic'', reserveLogicAddress), (''GenericLogic'', genericLogicAddress)]"

definition exportValidationLogicDeploymentCallData :: "'w platform \<Rightarrow> string \<Rightarrow> string \<Rightarrow> string" where
  "exportValidationLogicDeploymentCallData P reserveLogicAddress genericLogicAddress =
     p_bytecodeData P (getValidationLogicContractFactory P reserveLogicAddress genericLogicAddress)"

definition deployGenericLogic ::
  "'w platform \<Rightarrow> contract_instance \<Rightarrow> bool \<Rightarrow> ('w world, js_error, contract_instance) eff" where
  "deployGenericLogic P reserveLogic verify =
     eff_bind (on_chain (p_deployBytecode P (getGenericLogicContractFactory P (i_address reserveLogic)))) (\<lambda>genericLogic.
     eff_then (on_chain (p_deployed P genericLogic))
     (withSaveAndVerify P genericLogic ''GenericLogic'' [] verify False))"

definition deployValidationLogic ::
  "'w platform \<Rightarrow> contract_instance \<Rightarrow> contract_instance \<Rightarrow> bool \<Rightarrow> ('w world, js_error, contract_instance) eff" where
  "deployValidationLogic P reserveLogic genericLogic verify =
     eff_bind (on_chain (p_deployBytecode P
                (getValidationLogicContractFactory P (i_address reserveLogic) (i_address genericLogic)))) (\<lambda>validationLogic.
     eff_then (on_chain (p_deployed P validationLogic))
     (withSaveAndVerify P validationLogic ''ValidationLogic'' [] verify False))"

definition toElectroLibs :: "string \<Rightarrow> string \<Rightarrow> string SymbolMap" where
  "toElectroLibs validationLogicAddress reserveLogicAddress =
     [(''__$22cd43a9dda9ce44e9b92ba393b88fb9ac$__'', reserveLogicAddress),
      (''__$de8c0cf1a7d7c36c802af9a64fb9d86036$__'', validationLogicAddress)]"

definition deployElectroLibraries :: "'w platform \<Rightarrow> bool \<Rightarrow> ('w world, js_error, string SymbolMap) eff" where
  "deployElectroLibraries P verify =
     eff_bind (deployReserveLogicLibrary P verify) (\<lambda>reserveLogic.
     eff_bind (deployGenericLogic P reserveLogic verify) (\<lambda>genericLogic.
     eff_bind (deployValidationLogic P reserveLogic genericLogic verify) (\<lambda>validationLogic.
     eff_return (toElectroLibs (i_address validationLogic) (i_address reserveLogic)))))"

text \<open>An implementation is also registered under a second identifier, before the first.\<close>

definition deployLendingPool :: "'w platform \<Rightarrow> bool \<Rightarrow> ('w world, js_error, contract_instance) eff" where
  "deployLendingPool P verify =
     eff_bind (deployElectroLibraries P verify) (\<lambda>libraries.
     eff_bind (on_chain (p_deploy P ''LendingPoolFactory'' libraries [])) (\<lambda>lendingPoolImpl.
     eff_then (insertContractAddressInDb P ''LendingPoolImpl'' (i_address lendingPoolImpl))
     (withSaveAndVerify P lendingPoolImpl ''LendingPool'' [] verify False)))"

definition deployLendingPoolTmp :: "'w platform \<Rightarrow> bool \<Rightarrow> ('w world, js_error, contract_instance) eff" where
  "deployLendingPoolTmp P verify =
     eff_bind (deployElectroLibraries P verify) (\<lambda>libraries.
     eff_bind (on_chain (p_deploy P ''LendingPoolTmpFactory'' libraries [])) (\<lambda>lendingPoolImpl.
     eff_then (insertContractAddressInDb P ''LendingPoolTmpImpl'' (i_address lendingPoolImpl))
     (withSaveAndVerify P lendingPoolImpl ''LendingPoolTmpImpl'' [] verify False)))"

definition deployLendingPoolV4 :: "'w platform \<Rightarrow> bool \<Rightarrow> ('w world, js_error, contract_instance) eff" where
  "deployLendingPoolV4 P verify =
     eff_bind (deployElectroLibraries P verify) (\<lambda>libraries.
     eff_bind (on_chain (p_deploy P ''LendingPoolV4Factory'' libraries [])) (\<lambda>lendingPoolImpl.
     eff_then (insertContractAddressInDb P ''LendingPoolV4Impl'' (i_address lendingPoolImpl))
     (withSaveAndVerify P lendingPoolImpl ''LendingPoolV4Impl'' [] verify False)))"

definition deployLendingPoolConfigurator :: "'w platform \<Rightarrow> bool \<Rightarrow> ('w world, js_error, contract_instance) eff" where
  "deployLendingPoolConfigurator P verify =
     eff_bind (on_chain (p_deploy P ''LendingPoolConfiguratorFactory'' [] [])) (\<lambda>lendingPoolConfiguratorImpl.
     eff_then (insertContractAddressInDb P ''LendingPoolConfiguratorImpl'' (i_address lendingPoolConfiguratorImpl))
     (withSaveAndVerify P lendingPoolConfiguratorImpl ''LendingPoolConfigurator'' [] verify False))"

definition deployLendingPoolCollateralManager :: "'w platform \<Rightarrow> bool \<Rightarrow> ('w world, js_error, contract_instance) eff" where
  "deployLendingPoolCollateralManager P verify =
     eff_bind (on_chain (p_deploy P ''LendingPoolCollateralManagerFactory'' [] [])) (\<lambda>collateralManagerImpl.
     eff_then (insertContractAddressInDb P ''LendingPoolCollateralManagerImpl'' (i_address collateralManagerImpl))
     (withSaveAndVerify P collateralManagerImpl ''LendingPoolCollateralManager'' [] verify False))"

section \<open>Tokens\<close>

text \<open>Tokens that are initialized after they have been registered.\<close>

definition deploy_initialized ::
  "'w platform \<Rightarrow> string \<Rightarrow> string \<Rightarrow> string list \<Rightarrow> bool \<Rightarrow> ('w world, js_error, contract_instance) eff" where
  "deploy_initialized P factory contractId initArgs verify =
     eff_bind (deploy_and_save P factory [] contractId [] verify) (\<lambda>inst.
     eff_then (on_chain (p_call P (i_address inst) ''initialize'' (map Arg initArgs)))
     (eff_return inst))"

fun deployStableDebtToken ::
  "'w platform \<Rightarrow> string \<times> string \<times> string \<times> string \<times> string \<Rightarrow> bool \<Rightarrow> ('w world, js_error, contract_instance) eff" where
  "deployStableDebtToken P (a0, a1, a2, a3, a4) verify =
     deploy_initialized P ''StableDebtTokenFactory'' ''StableDebtToken'' [a0, a1, a2, ''18'', a3, a4, ''0x10''] verify"

fun deployVariableDebtToken ::
  "'w platform \<Rightarrow> string \<times> string \<times> string \<times> string \<times> string \<Rightarrow> bool \<Rightarrow> ('w world, js_error, contract_instance) eff" where
  "deployVariableDebtToken P (a0, a1, a2, a3, a4) verify =
     deploy_initialized P ''VariableDebtTokenFactory'' ''VariableDebtToken'' [a0, a1, a2, ''18'', a3, a4, ''0x10''] verify"

fun deployGenericELToken ::
  "'w platform \<Rightarrow> string \<times> string \<times> string \<times> string \<times> string \<times> string \<Rightarrow> bool
   \<Rightarrow> ('w world, js_error, contract_instance) eff" where
  "deployGenericELToken P (poolAddress, underlyingAssetAddress, treasuryAddress, incentivesController, tokenName, tokenSymbol) verify =
     deploy_initialized P ''ELTokenFactory'' ''ELToken''
       [poolAddress, treasuryAddress, underlyingAssetAddress, incentivesController, ''18'', tokenName, tokenSymbol, ''0x10''] verify"

fun deployDelegationAwareELToken ::
  "'w platform \<Rightarrow> string \<times> string \<times> string \<times> string \<times> string \<times> string \<Rightarrow> bool
   \<Rightarrow> ('w world, js_error, contract_instance) eff" where
  "deployDelegationAwareELToken P (pool, underlyingAssetAddress, treasuryAddress, incentivesController, tokenName, tokenSymbol) verify =
     deploy_initialized P ''DelegationAwareELTokenFactory'' ''DelegationAwareELToken''
       [pool, treasuryAddress, underlyingAssetAddress, incentivesController, ''18'', tokenName, tokenSymbol, ''0x10''] verify"

fun deployMockStableDebtToken ::
  "'w platform \<Rightarrow> string \<times> string \<times> string \<times> string \<times> string \<times> string \<Rightarrow> bool
   \<Rightarrow> ('w world, js_error, contract_instance) eff" where
  "deployMockStableDebtToken P (a0, a1, a2, a3, a4, a5) verify =
     deploy_initialized P ''MockStableDebtTokenFactory'' ''MockStableDebtToken'' [a0, a1, a2, ''18'', a3, a4, a5] verify"

fun deployMockVariableDebtToken ::
  "'w platform \<Rightarrow> string \<times> string \<times> string \<times> string \<times> string \<times> string \<Rightarrow> bool
   \<Rightarrow> ('w world, js_error, contract_instance) eff" where
  "deployMockVariableDebtToken P (a0, a1, a2, a3, a4, a5) verify =
     deploy_initialized P ''MockVariableDebtTokenFactory'' ''MockVariableDebtToken'' [a0, a1, a2, ''18'', a3, a4, a5] verify"

text \<open>
  Every mocked token, registered under its symbol; one that is not configured has 18 decimals.
\<close>

definition deployMockToken ::
  "'n bn \<Rightarrow> 'w platform \<Rightarrow> bool \<Rightarrow> string \<Rightarrow> ('w world, js_error, contract_instance) eff" where
  "deployMockToken B P verify tokenSymbol =
     eff_bind
       (if tokenSymbol = ''WETN'' then deployWETHMocked P False
        else deployMintableERC20 P
               [tokenSymbol, tokenSymbol,
                case map_of (getReservesConfigByPool B proto) tokenSymbol of
                  None \<Rightarrow> ''18'' | Some configData \<Rightarrow> reserveDecimals configData] verify)
       (\<lambda>token. eff_then (registerContractInJsonDb P (toUpperCase tokenSymbol) token) (eff_return token))"

fun deploy_mock_tokens ::
  "'n bn \<Rightarrow> 'w platform \<Rightarrow> bool \<Rightarrow> string list \<Rightarrow> contract_instance SymbolMap
   \<Rightarrow> ('w world, js_error, contract_instance SymbolMap) eff" where
  "deploy_mock_tokens B P verify [] tokens = eff_return tokens"
| "deploy_mock_tokens B P verify (tokenSymbol # symbols) tokens =
     eff_bind (deployMockToken B P verify tokenSymbol) (\<lambda>token.
     deploy_mock_tokens B P verify symbols (js_set tokens tokenSymbol token))"

definition deployAllMockTokens ::
  "'n bn \<Rightarrow> 'w platform \<Rightarrow> bool \<Rightarrow> ('w world, js_error, contract_instance SymbolMap) eff" where
  "deployAllMockTokens B P verify = deploy_mock_tokens B P verify TokenContractId []"

section \<open>Implementations, strategies and call data\<close>

definition authorizeWETHGateway :: "'w platform \<Rightarrow> string \<Rightarrow> string \<Rightarrow> ('w world, js_error, unit) eff" where
  "authorizeWETHGateway P wethGateWay lendingPool =
     on_chain (p_call P wethGateWay ''authorizeLendingPool'' [Arg lendingPool])"

definition chooseELTokenDeployment ::
  "'w platform \<Rightarrow> string \<Rightarrow> js_error + (bool \<Rightarrow> ('w world, js_error, contract_instance) eff)" where
  "chooseELTokenDeployment P contractId =
     (if contractId = ''ELToken'' then Inr (deployGenericELTokenImpl P)
      else if contractId = ''DelegationAwareELToken'' then Inr (deployDelegationAwareELTokenImpl P)
      else Inl (Error (''Missing elToken implementation deployment script for: '' @ contractId)))"

definition deployELTokenImplementation ::
  "'w platform \<Rightarrow> PoolConfiguration \<Rightarrow> bool \<Rightarrow> string \<Rightarrow> ('w world, js_error, unit) eff" where
  "deployELTokenImplementation P poolConfig verify implementation =
     (let elTokenAddress =
            getOptionalParamAddressPerNetwork (p_FORK P) (map_of (pool_addresses poolConfig) implementation) (p_network P)
      in if notFalsyOrZeroAddress (p_addresses P) elTokenAddress then eff_return ()
         else eff_bind (eff_lift (chooseELTokenDeployment P implementation)) (\<lambda>deployImplementationMethod.
              eff_then (deployImplementationMethod verify) (eff_return ())))"

definition deployELTokenImplementations ::
  "'n bn \<Rightarrow> 'w platform \<Rightarrow> ConfigNames \<Rightarrow> IReserveParams SymbolMap \<Rightarrow> bool \<Rightarrow> ('w world, js_error, unit) eff" where
  "deployELTokenImplementations B P pool reservesConfig verify =
     eff_bind (eff_lift (loadPoolConfig B pool)) (\<lambda>poolConfig.
     eff_then
       (eff_each (deployELTokenImplementation P poolConfig verify)
          (rev (remdups (rev (map (elTokenImpl \<circ> snd) reservesConfig)))))
     (eff_then (deployGenericStableDebtToken P verify)
     (eff_then (deployGenericVariableDebtToken P verify)
     (eff_return ()))))"

definition deployRateStrategy ::
  "'w platform \<Rightarrow> string \<Rightarrow> string list \<Rightarrow> bool \<Rightarrow> ('w world, js_error, string) eff" where
  "deployRateStrategy P strategyName args verify =
     eff_bind (deployDefaultReserveInterestRateStrategy P args verify) (\<lambda>inst. eff_return (i_address inst))"

text \<open>
  The constructor arguments of a contract: those that depend on the genesis administrator are undefined
  when there is none, which is the empty string here.
\<close>

definition getDeployArgs :: "'n bn \<Rightarrow> 'w platform \<Rightarrow> string \<Rightarrow> ('w world, js_error, arg list) eff" where
  "getDeployArgs B P contractId =
     (let config = ElectroConfig B;
          genesisAdmin = Arg (case getGenesisPoolAdmin P config of None \<Rightarrow> '''' | Some a \<Rightarrow> a)
      in if contractId = ''LendingPoolAddressesProvider'' then eff_return [Arg (MarketId config), genesisAdmin]
         else if contractId \<in> set [''LendingPoolAddressesProviderRegistry'', ''StableAndVariableTokensHelper'',
                ''ELTokensAndRatesHelper'', ''PriceAggregatorAdapterSimpleImpl'', ''LendingRateOracle'',
                ''ElectroFallbackOracle'']
         then eff_return [genesisAdmin]
         else if contractId = ''ElectroOracle'' then
           eff_bind (getQuoteCurrency P config) (\<lambda>quote.
           eff_return [Arg quote, Arg (OracleQuoteUnit config), genesisAdmin])
         else if contractId = ''WETHGateway'' then
           eff_bind (getWrappedNativeTokenAddress P config) (\<lambda>wetn. eff_return [Arg wetn, genesisAdmin])
         else eff_return [])"

definition getDeploymentCallData :: "'n bn \<Rightarrow> 'w platform \<Rightarrow> string \<Rightarrow> ('w world, js_error, string) eff" where
  "getDeploymentCallData B P contractName =
     eff_bind (getDeployArgs B P contractName) (\<lambda>args. eff_return (p_deployData P contractName [] args))"

definition exportDeploymentCallData :: "'n bn \<Rightarrow> 'w platform \<Rightarrow> string \<Rightarrow> ('w world, js_error, string) eff" where
  "exportDeploymentCallData B P contractId = getDeploymentCallData B P contractId"

definition registered_libraries :: "'n bn \<Rightarrow> 'w platform \<Rightarrow> ('w world, js_error, string SymbolMap) eff" where
  "registered_libraries B P =
     eff_bind (getContractAddressWithJsonFallback B P ''ReserveLogic'' ElectroLend) (\<lambda>reserveLogicAddress.
     eff_bind (getContractAddressWithJsonFallback B P ''ValidationLogic'' ElectroLend) (\<lambda>validationLogicAddress.
     eff_return (toElectroLibs validationLogicAddress reserveLogicAddress)))"

definition exportLendingPoolCallData :: "'n bn \<Rightarrow> 'w platform \<Rightarrow> ('w world, js_error, string) eff" where
  "exportLendingPoolCallData B P =
     eff_bind (registered_libraries B P) (\<lambda>libs. eff_return (p_deployData P ''LendingPoolFactory'' libs []))"

definition exportLendingPoolTmpAndV4CallData :: "'n bn \<Rightarrow> 'w platform \<Rightarrow> ('w world, js_error, string \<times> string) eff" where
  "exportLendingPoolTmpAndV4CallData B P =
     eff_bind (registered_libraries B P) (\<lambda>libs.
     eff_return (p_deployData P ''LendingPoolTmpFactory'' libs [], p_deployData P ''LendingPoolV4Factory'' libs []))"

end
