(* ===== verification/Reserve_Setup.thy ===== *)
theory Reserve_Setup
  imports Deployments
begin

text \<open>
  Initializing and configuring the reserves and the oracles: \<open>helpers/init-helpers.ts\<close> and
  \<open>helpers/oracles-helpers.ts\<close>. The transactions they send are a datatype; sending one is a parameter over
  the chain, and so is what the data provider says about a reserve. An array of prices or rates is the
  list of its symbols and values in order.
\<close>

section \<open>Transactions\<close>

record init_input =
  ii_elTokenImpl :: string
  ii_stableDebtTokenImpl :: string
  ii_variableDebtTokenImpl :: string
  ii_underlyingAssetDecimals :: string
  ii_interestRateStrategyAddress :: string
  ii_underlyingAsset :: string
  ii_treasury :: string
  ii_incentivesController :: string
  ii_underlyingAssetName :: string
  ii_elTokenName :: string
  ii_elTokenSymbol :: string
  ii_variableDebtTokenName :: string
  ii_variableDebtTokenSymbol :: string
  ii_stableDebtTokenName :: string
  ii_stableDebtTokenSymbol :: string
  ii_params :: string

record config_input =
  ci_asset :: string
  ci_baseLTV :: string
  ci_liquidationThreshold :: string
  ci_liquidationBonus :: string
  ci_reserveFactor :: string
  ci_stableBorrowingEnabled :: bool
  ci_borrowingEnabled :: bool

datatype setup_call =
    BatchInitReserve string "init_input list"
  | SetPoolAdmin string string
  | ConfigureReserves string "config_input list"
  | TransferOwnership string string
  | SetOracleBorrowRates string "string list" "string list" string
  | SetOracleOwnership string string string
  | SetAssetPrice string string string
  | SubmitPrices string "string list" "string list"

record 'w reserve_setup =
  su_platform :: "'w platform"
  su_send :: "setup_call \<Rightarrow> ('w, js_error, unit) eff"
  su_alreadyEnabled :: "string \<Rightarrow> string \<Rightarrow> 'w \<Rightarrow> bool"

definition send :: "'w reserve_setup \<Rightarrow> setup_call \<Rightarrow> ('w world, js_error, unit) eff" where
  "send S c = on_chain (su_send S c)"

definition valid_address :: "'w reserve_setup \<Rightarrow> string \<Rightarrow> bool" where
  "valid_address S a = notFalsyOrZeroAddress (p_addresses (su_platform S)) (Some a)"

text \<open>\<open>if (!condition) throw new Error(message)\<close>\<close>

definition require :: "bool \<Rightarrow> string \<Rightarrow> ('s, js_error, unit) eff" where
  "require b message = (if b then eff_return () else eff_throw (Error message))"

definition lookup_address :: "tEthereumAddress SymbolMap \<Rightarrow> string \<Rightarrow> string" where
  "lookup_address addresses key = (case map_of addresses key of None \<Rightarrow> '''' | Some a \<Rightarrow> a)"

section \<open>Initializing the reserves\<close>

definition getELTokenExtraParams :: "string \<Rightarrow> string \<Rightarrow> string" where
  "getELTokenExtraParams elTokenName tokenAddress = ''0x10''"

record init_names =
  elTokenNamePrefix :: string
  stableDebtTokenNamePrefix :: string
  variableDebtTokenNamePrefix :: string
  symbolPrefix :: string
  treasuryAddress :: string
  incentivesController :: string
  poolName :: ConfigNames

text \<open>The strategy of a reserve, deployed when there is none of its name yet.\<close>

definition ensure_strategy ::
  "'w reserve_setup \<Rightarrow> string \<Rightarrow> IInterestRateStrategyParams \<Rightarrow> bool \<Rightarrow> tEthereumAddress SymbolMap
   \<Rightarrow> ('w world, js_error, tEthereumAddress SymbolMap) eff" where
  "ensure_strategy S provider st verify strategies =
     (if lookup_address strategies (name st) = '''' then
        eff_bind (deployRateStrategy (su_platform S) (name st)
          [provider, optimalUtilizationRate st, baseVariableBorrowRate st, variableRateSlope1 st,
           variableRateSlope2 st, stableRateSlope1 st, stableRateSlope2 st] verify) (\<lambda>strategyAddress.
        eff_then (rawInsertContractAddressInDb (su_platform S) (name st) strategyAddress)
        (eff_return (js_set strategies (name st) strategyAddress)))
      else eff_return strategies)"

definition init_reserve_input ::
  "'n bn \<Rightarrow> 'w reserve_setup \<Rightarrow> init_names \<Rightarrow> string \<Rightarrow> IReserveParams \<Rightarrow> string \<Rightarrow> string
   \<Rightarrow> ('w world, js_error, init_input) eff" where
  "init_reserve_input B S N tok params tokenAddress strategyAddress =
     eff_then (require (valid_address S tokenAddress) (''token address of '' @ tok @ '' is not defined''))
     (eff_then (require (valid_address S strategyAddress) (''strategy address of '' @ strategyAddress @ '' is not defined''))
     (eff_bind (getContractAddressWithJsonFallback B (su_platform S) (elTokenImpl params) (poolName N)) (\<lambda>elTokenImplAddress.
     eff_then (require (valid_address S elTokenImplAddress) ''address of elTokenImpl is not defined'')
     (eff_bind (getContractAddressWithJsonFallback B (su_platform S) ''StableDebtToken'' (poolName N)) (\<lambda>sdTokenImplAddress.
     eff_then (require (valid_address S sdTokenImplAddress) ''address of sdTokenImpl is not defined'')
     (eff_bind (getContractAddressWithJsonFallback B (su_platform S) ''VariableDebtToken'' (poolName N)) (\<lambda>vdTokenImplAddress.
     eff_then (require (valid_address S vdTokenImplAddress) ''address of elTokenImpl is not defined'')
     (eff_then (require (valid_address S tokenAddress) (''underlying asset address of '' @ tokenAddress @ '' is not defined''))
     (eff_then (require (valid_address S (treasuryAddress N)) ''treasury address is not defined'')
     (eff_return
        \<lparr>ii_elTokenImpl = elTokenImplAddress, ii_stableDebtTokenImpl = sdTokenImplAddress,
         ii_variableDebtTokenImpl = vdTokenImplAddress, ii_underlyingAssetDecimals = reserveDecimals params,
         ii_interestRateStrategyAddress = strategyAddress, ii_underlyingAsset = tokenAddress,
         ii_treasury = treasuryAddress N, ii_incentivesController = incentivesController N,
         ii_underlyingAssetName = tok,
         ii_elTokenName = elTokenNamePrefix N @ '' '' @ tok,
         ii_elTokenSymbol = ''l'' @ symbolPrefix N @ tok,
         ii_variableDebtTokenName = variableDebtTokenNamePrefix N @ '' '' @ symbolPrefix N @ tok,
         ii_variableDebtTokenSymbol = ''vd'' @ symbolPrefix N @ tok,
         ii_stableDebtTokenName = stableDebtTokenNamePrefix N @ '' '' @ tok,
         ii_stableDebtTokenSymbol = ''sd'' @ symbolPrefix N @ tok,
         ii_params = getELTokenExtraParams (elTokenImpl params) tokenAddress\<rparr>))))))))))"

fun init_inputs ::
  "'n bn \<Rightarrow> 'w reserve_setup \<Rightarrow> init_names \<Rightarrow> string \<Rightarrow> bool \<Rightarrow> tEthereumAddress SymbolMap \<Rightarrow> IReserveParams SymbolMap
   \<Rightarrow> tEthereumAddress SymbolMap \<Rightarrow> ('w world, js_error, init_input list) eff" where
  "init_inputs B S N provider verify tokenAddresses [] strategies = eff_return []"
| "init_inputs B S N provider verify tokenAddresses ((tok, params) # reserves) strategies =
     (if lookup_address tokenAddresses tok = ''''
      then init_inputs B S N provider verify tokenAddresses reserves strategies
      else
        eff_bind (ensure_strategy S provider (strategy params) verify strategies) (\<lambda>strategies'.
        eff_bind (init_reserve_input B S N tok params (lookup_address tokenAddresses tok)
                    (lookup_address strategies' (name (strategy params)))) (\<lambda>input.
        eff_bind (init_inputs B S N provider verify tokenAddresses reserves strategies') (\<lambda>inputs.
        eff_return (input # inputs)))))"

definition initReservesByHelper ::
  "'n bn \<Rightarrow> 'w reserve_setup \<Rightarrow> init_names \<Rightarrow> IReserveParams SymbolMap \<Rightarrow> tEthereumAddress SymbolMap \<Rightarrow> bool
   \<Rightarrow> string option \<Rightarrow> string option \<Rightarrow> tEthereumAddress SymbolMap \<Rightarrow> ('w world, js_error, unit) eff" where
  "initReservesByHelper B S N reservesParams tokenAddresses verify
     lendingPoolAddressProviderAddress lendingPoolConfiguratorProxyAddress strategyAddresses =
     eff_bind (getLendingPoolAddressesProvider (su_platform S) lendingPoolAddressProviderAddress) (\<lambda>addressProvider.
     eff_bind (init_inputs B S N (h_address addressProvider) verify tokenAddresses reservesParams strategyAddresses) (\<lambda>initInputParams.
     eff_bind (getLendingPoolConfiguratorProxy (su_platform S) lendingPoolConfiguratorProxyAddress) (\<lambda>configurator.
     eff_each (\<lambda>chunk. send S (BatchInitReserve (h_address configurator) chunk)) (chunk initInputParams 1))))"

text \<open>The aggregator of each asset but \<open>ETH\<close>, \<open>USD\<close> and \<open>WETH\<close>.\<close>

definition init_getPairsTokenAggregator ::
  "tEthereumAddress SymbolMap \<Rightarrow> tEthereumAddress SymbolMap \<Rightarrow> js_error + (string list \<times> string list)" where
  "init_getPairsTokenAggregator allAssetsAddresses aggregatorsAddresses =
     map_sum id (\<lambda>pairs. (map fst pairs, map snd pairs))
       (aggregator_pairs aggregatorsAddresses (omit allAssetsAddresses [''ETH'', ''USD'', ''WETH'']))"

section \<open>Configuring the reserves\<close>

fun config_inputs ::
  "'w reserve_setup \<Rightarrow> string \<Rightarrow> tEthereumAddress SymbolMap \<Rightarrow> IReserveParams SymbolMap
   \<Rightarrow> ('w world, js_error, config_input list) eff" where
  "config_inputs S helpers tokenAddresses [] = eff_return []"
| "config_inputs S helpers tokenAddresses ((assetSymbol, params) # reserves) =
     (if lookup_address tokenAddresses assetSymbol = '''' then config_inputs S helpers tokenAddresses reserves
      else if baseLTVAsCollateral params = ''-1'' then config_inputs S helpers tokenAddresses reserves
      else
        let tokenAddress = lookup_address tokenAddresses assetSymbol in
        eff_bind (eff_read (\<lambda>w. su_alreadyEnabled S helpers tokenAddress (w_chain w))) (\<lambda>alreadyEnabled.
        if alreadyEnabled then config_inputs S helpers tokenAddresses reserves
        else
          eff_then (require (valid_address S tokenAddress) (''token address of '' @ assetSymbol @ '' is not defined''))
          (eff_bind (config_inputs S helpers tokenAddresses reserves) (\<lambda>inputs.
           eff_return
             (\<lparr>ci_asset = tokenAddress, ci_baseLTV = baseLTVAsCollateral params,
               ci_liquidationThreshold = liquidationThreshold params, ci_liquidationBonus = liquidationBonus params,
               ci_reserveFactor = reserveFactor params, ci_stableBorrowingEnabled = stableBorrowRateEnabled params,
               ci_borrowingEnabled = borrowingEnabled params\<rparr> # inputs)))))"

definition configureReservesByHelper ::
  "'w reserve_setup \<Rightarrow> IReserveParams SymbolMap \<Rightarrow> tEthereumAddress SymbolMap \<Rightarrow> string \<Rightarrow> string \<Rightarrow> string option \<Rightarrow> string option
   \<Rightarrow> ('w world, js_error, unit) eff" where
  "configureReservesByHelper S reservesParams tokenAddresses helpers admin
     lendingPoolAddressesProviderAddress lTokensAndRatesHelperAddress =
     eff_bind (getLendingPoolAddressesProvider (su_platform S) lendingPoolAddressesProviderAddress) (\<lambda>addressProvider.
     eff_bind (getELTokensAndRatesHelper (su_platform S) lTokensAndRatesHelperAddress) (\<lambda>deployer.
     eff_bind (config_inputs S helpers tokenAddresses reservesParams) (\<lambda>inputParams.
     if inputParams = [] then eff_return ()
     else
       eff_then (send S (SetPoolAdmin (h_address addressProvider) (h_address deployer)))
       (eff_then (eff_each (\<lambda>chunk. send S (ConfigureReserves (h_address deployer) chunk)) (chunk inputParams 20))
       (send S (SetPoolAdmin (h_address addressProvider) admin))))))"

section \<open>Oracles\<close>

text \<open>The addresses of the assets of a table; a symbol without an address throws.\<close>

fun table_addresses ::
  "tEthereumAddress SymbolMap \<Rightarrow> string SymbolMap \<Rightarrow> js_error + (string \<times> string) list" where
  "table_addresses assetsAddresses [] = Inr []"
| "table_addresses assetsAddresses ((assetSymbol, v) # table) =
     (case map_of assetsAddresses assetSymbol of
        None \<Rightarrow> Inl (TypeError ''undefined is not iterable'')
      | Some assetAddress \<Rightarrow> map_sum id ((#) (assetAddress, v)) (table_addresses assetsAddresses table))"

definition setInitialMarketRatesInRatesOracleByHelper ::
  "'w reserve_setup \<Rightarrow> string SymbolMap \<Rightarrow> tEthereumAddress SymbolMap \<Rightarrow> string \<Rightarrow> string \<Rightarrow> ('w world, js_error, unit) eff" where
  "setInitialMarketRatesInRatesOracleByHelper S marketRates assetsAddresses oracle admin =
     eff_bind (getStableAndVariableTokensHelper (su_platform S) None) (\<lambda>helper.
     eff_bind (eff_lift (table_addresses assetsAddresses marketRates)) (\<lambda>rates.
     eff_then (send S (TransferOwnership oracle (h_address helper)))
     (eff_then
       (eff_each (\<lambda>(tokens, borrowRates). send S (SetOracleBorrowRates (h_address helper) tokens borrowRates oracle))
          (zip (chunk (map fst rates) 20) (chunk (map snd rates) 20)))
     (send S (SetOracleOwnership (h_address helper) oracle admin)))))"

fun set_prices ::
  "'w reserve_setup \<Rightarrow> string SymbolMap \<Rightarrow> tEthereumAddress SymbolMap \<Rightarrow> string \<Rightarrow> ('w world, js_error, unit) eff" where
  "set_prices S [] assetsAddresses oracle = eff_return ()"
| "set_prices S ((assetSymbol, price) # prices) assetsAddresses oracle =
     (case map_of assetsAddresses assetSymbol of
        None \<Rightarrow> eff_throw (TypeError ''undefined is not iterable'')
      | Some assetAddress \<Rightarrow>
          eff_then (send S (SetAssetPrice oracle assetAddress price)) (set_prices S prices assetsAddresses oracle))"

definition setInitialAssetPricesInOracle ::
  "'w reserve_setup \<Rightarrow> string SymbolMap \<Rightarrow> tEthereumAddress SymbolMap \<Rightarrow> string \<Rightarrow> ('w world, js_error, unit) eff" where
  "setInitialAssetPricesInOracle S prices assetsAddresses oracle = set_prices S prices assetsAddresses oracle"

definition setAssetPricesInOracle ::
  "'w reserve_setup \<Rightarrow> string SymbolMap \<Rightarrow> tEthereumAddress SymbolMap \<Rightarrow> string \<Rightarrow> ('w world, js_error, unit) eff" where
  "setAssetPricesInOracle S prices assetsAddresses oracle = set_prices S prices assetsAddresses oracle"

definition setAssetPricesInFallbackOracle ::
  "'w reserve_setup \<Rightarrow> string SymbolMap \<Rightarrow> tEthereumAddress SymbolMap \<Rightarrow> string \<Rightarrow> ('w world, js_error, unit) eff" where
  "setAssetPricesInFallbackOracle S prices assetsAddresses oracle =
     eff_bind (eff_lift (table_addresses assetsAddresses prices)) (\<lambda>rows.
     send S (SubmitPrices oracle (map fst rows) (map snd rows)))"

definition deployMockAggregators ::
  "'w reserve_setup \<Rightarrow> string SymbolMap \<Rightarrow> tEthereumAddress SymbolMap \<Rightarrow> bool \<Rightarrow> ('w world, js_error, contract_instance) eff" where
  "deployMockAggregators S prices assetsAddresses verify =
     eff_bind (eff_lift (table_addresses assetsAddresses prices)) (\<lambda>rows.
     deployMockAggregator (su_platform S) (map fst rows, map snd rows) verify)"

end
