(* ===== verification/Registry_Properties.thy ===== *)
theory Registry_Properties
  imports Deployments
begin

text \<open>
  What the deployment functions leave in the registry, and that the getters find it there.
\<close>

section \<open>Effects on the registry\<close>

lemma on_chain_Inr_iff:
  "on_chain m w = (Inr a, w') \<longleftrightarrow> (\<exists>c. m (w_chain w) = (Inr a, c) \<and> w' = w\<lparr>w_chain := c\<rparr>)"
  by (auto simp: on_chain_def split: prod.splits)

lemma on_chain_db: "on_chain m w = (r, w') \<Longrightarrow> w_db w' = w_db w"
  by (auto simp: on_chain_def split: prod.splits)

lemma verifyContract_db: "verifyContract P i a args l w = (r, w') \<Longrightarrow> w_db w' = w_db w"
  unfolding verifyContract_def by (rule on_chain_db)

text \<open>A computation that keeps the entries of all identifiers but some.\<close>

definition writes_only :: "'w platform \<Rightarrow> string set \<Rightarrow> ('w world, js_error, 'a) eff \<Rightarrow> bool" where
  "writes_only P ids m \<longleftrightarrow>
     (\<forall>w r w' k. m w = (r, w') \<longrightarrow> k \<notin> (\<lambda>i. (i, p_network P)) ` ids \<longrightarrow> w_db w' k = w_db w k)"

named_theorems registry_intros \<open>which entries of the registry a computation writes\<close>

lemma writes_onlyI:
  "(\<And>w r w' k. m w = (r, w') \<Longrightarrow> k \<notin> (\<lambda>i. (i, p_network P)) ` ids \<Longrightarrow> w_db w' k = w_db w k) \<Longrightarrow> writes_only P ids m"
  by (auto simp: writes_only_def)

lemma writes_onlyD:
  "writes_only P ids m \<Longrightarrow> m w = (r, w') \<Longrightarrow> i \<notin> ids \<Longrightarrow> w_db w' (i, p_network P) = w_db w (i, p_network P)"
  unfolding writes_only_def by (drule spec[of _ w], drule spec[of _ r], drule spec[of _ w'], drule spec[of _ "(i, p_network P)"]) auto

lemma writes_only_on_chain [registry_intros]: "writes_only P ids (on_chain m)"
  by (rule writes_onlyI) (simp add: on_chain_db)

lemma writes_only_verifyContract [registry_intros]: "writes_only P ids (verifyContract P i a args l)"
  unfolding verifyContract_def by (rule writes_only_on_chain)

lemma writes_only_pure [registry_intros]:
  "writes_only P ids (eff_return a)" "writes_only P ids (eff_throw e)" "writes_only P ids (eff_read f)"
  "writes_only P ids (eff_lift x)"
  by (auto intro!: writes_onlyI simp: eff_simps)

lemma writes_only_bind [registry_intros]:
  "writes_only P ids m \<Longrightarrow> (\<And>a. writes_only P ids (f a)) \<Longrightarrow> writes_only P ids (eff_bind m f)"
  unfolding writes_only_def eff_bind_def by (fastforce split: prod.splits sum.splits)

lemma writes_only_then [registry_intros]:
  "writes_only P ids m \<Longrightarrow> writes_only P ids m' \<Longrightarrow> writes_only P ids (eff_then m m')"
  unfolding eff_then_def by (rule writes_only_bind)

lemma writes_only_if [registry_intros]:
  "writes_only P ids m \<Longrightarrow> writes_only P ids m' \<Longrightarrow> writes_only P ids (if b then m else m')"
  by simp

lemma writes_only_db_set: "i \<in> ids \<Longrightarrow> writes_only P ids (db_set P i e)"
  by (auto simp: writes_only_def db_set_def eff_simps)

lemma writes_only_register [registry_intros]:
  "i \<in> ids \<Longrightarrow> writes_only P ids (registerContractInJsonDb P i inst)"
  "i \<in> ids \<Longrightarrow> writes_only P ids (insertContractAddressInDb P i a)"
  by (simp_all add: registerContractInJsonDb_def insertContractAddressInDb_def writes_only_db_set)

lemma writes_only_withSaveAndVerify [registry_intros]:
  "i \<in> ids \<Longrightarrow> writes_only P ids (withSaveAndVerify P inst i args v n)"
  unfolding withSaveAndVerify_def by (intro registry_intros) auto

lemma writes_only_deploy_and_save [registry_intros]:
  "i \<in> ids \<Longrightarrow> writes_only P ids (deploy_and_save P f dargs i args v)"
  unfolding deploy_and_save_def by (intro registry_intros)

text \<open>A computation whose result is a deployed contract that is registered under an identifier.\<close>

definition registers :: "'w platform \<Rightarrow> string \<Rightarrow> ('w world, js_error, contract_instance) eff \<Rightarrow> bool" where
  "registers P i m \<longleftrightarrow>
     (\<forall>w inst w'. m w = (Inr inst, w') \<longrightarrow> map_option db_address (w_db w' (i, p_network P)) = Some (i_address inst))"

lemma registersD:
  "registers P i m \<Longrightarrow> m w = (Inr inst, w') \<Longrightarrow> map_option db_address (w_db w' (i, p_network P)) = Some (i_address inst)"
  by (simp add: registers_def)

lemma withSaveAndVerify_Inr:
  "withSaveAndVerify P inst i args v n w = (Inr inst', w') \<Longrightarrow>
   inst' = inst \<and> w_db w' = (w_db w)((i, p_network P) \<mapsto>
      \<lparr>db_address = i_address inst, db_deployer = Some (i_deployer inst), db_salt = None\<rparr>)"
  unfolding withSaveAndVerify_def
  by (auto simp: eff_then_Inr_iff registerContractInJsonDb_def db_set_def eff_simps
      dest!: on_chain_db verifyContract_db split: if_splits)

lemma registers_withSaveAndVerify [registry_intros]: "registers P i (withSaveAndVerify P inst i args v n)"
  by (auto simp: registers_def dest!: withSaveAndVerify_Inr)

lemma registers_bind [registry_intros]: "(\<And>a. registers P i (f a)) \<Longrightarrow> registers P i (eff_bind m f)"
  unfolding registers_def eff_bind_Inr_iff by blast

lemma registers_then [registry_intros]: "registers P i m' \<Longrightarrow> registers P i (eff_then m m')"
  unfolding eff_then_def by (rule registers_bind)

lemma registers_deploy_and_save [registry_intros]: "registers P i (deploy_and_save P f dargs i args v)"
  unfolding deploy_and_save_def by (intro registry_intros)

lemma registers_deploy_initialized [registry_intros]: "registers P i (deploy_initialized P f i args v)"
  unfolding registers_def deploy_initialized_def
  by (auto simp: eff_bind_Inr_iff eff_then_Inr_iff eff_simps dest!: on_chain_db
      registersD[OF registers_deploy_and_save])

lemma connect_registered_eq:
  "map_option db_address (w_db w (i, p_network P)) = Some a \<Longrightarrow>
   connect_registered P f i w = (Inr \<lparr>h_factory = f, h_address = a\<rparr>, w)"
  by (auto simp: connect_registered_def eff_bind_def eff_simps)

section \<open>Deploying and getting\<close>

lemmas simple_deployments =
  deployPriceOracle_def deployWalletBalancerProvider_def deployElectroProtocolDataProvider_def
  deployGenericStableDebtToken_def deployGenericVariableDebtToken_def deployGenericELTokenImpl_def
  deploySelfdestructTransferMock_def deployElectroFallbackOracle_def
  deployLendingRateOracle_def deployMockFlashLoanReceiver_def deployStableAndVariableTokensHelper_def
  deployELTokensAndRatesHelper_def deployElectroOracle_def deployMintableERC20_def
  deployDefaultReserveInterestRateStrategy_def deployWETHGateway_def deployLendingPoolAddressesProvider_def
  deployReserveLogicLibrary_def deployWETHMocked_def deployMockELToken_def

lemmas implementation_deployments =
  deployLendingPool_def deployLendingPoolConfigurator_def deployLendingPoolCollateralManager_def
  deployGenericLogic_def

lemmas registry_getters =
  getLendingPoolAddressesProvider_def getLendingPoolConfiguratorProxy_def getLendingPool_def getPriceOracle_def
  getElectroFallbackOracle_def getELToken_def getStableDebtToken_def getVariableDebtToken_def
  getMintableERC20_def getElectroProtocolDataProvider_def getInterestRateStrategy_def
  getMockFlashLoanReceiver_def getLendingRateOracle_def getReserveLogic_def getGenericLogic_def
  getStableAndVariableTokensHelper_def getELTokensAndRatesHelper_def getWETHGateway_def getWETHMocked_def
  getMockELToken_def getMockVariableDebtToken_def getMockStableDebtToken_def getSelfdestructTransferMock_def
  getLendingPoolImpl_def getLendingPoolConfiguratorImpl_def getLendingPoolCollateralManagerImpl_def
  getWalletProvider_def getLendingPoolCollateralManager_def getElectroOracle_def connect_or_db_def

text \<open>Every deployment function with the getter of what it deploys.\<close>

definition registry_pairs ::
  "'w platform \<Rightarrow> string \<Rightarrow> string list \<Rightarrow> string \<times> string \<times> string \<times> string \<times> string
   \<Rightarrow> string \<times> string \<times> string \<times> string \<times> string \<times> string \<Rightarrow> contract_instance \<Rightarrow> bool
   \<Rightarrow> (('w world, js_error, contract_instance) eff \<times> ('w world, js_error, contract_handle) eff) list" where
  "registry_pairs P a args args5 args6 library v =
     [(deployLendingPoolAddressesProvider P a (Arg a) v, getLendingPoolAddressesProvider P None),
      (deployLendingPoolConfigurator P v, getLendingPoolConfiguratorProxy P None),
      (deployLendingPoolConfigurator P v, getLendingPoolConfiguratorImpl P None),
      (deployLendingPool P v, getLendingPool P None), (deployLendingPool P v, getLendingPoolImpl P None),
      (deployLendingPoolCollateralManager P v, getLendingPoolCollateralManager P None),
      (deployLendingPoolCollateralManager P v, getLendingPoolCollateralManagerImpl P None),
      (deployPriceOracle P v, getPriceOracle P None),
      (deployElectroFallbackOracle P (Arg a) v, getElectroFallbackOracle P None),
      (deployElectroOracle P args v, getElectroOracle P None),
      (deployLendingRateOracle P (Arg a) v, getLendingRateOracle P None),
      (deployGenericELTokenImpl P v, getELToken P None), (deployGenericELToken P args6 v, getELToken P None),
      (deployGenericStableDebtToken P v, getStableDebtToken P None),
      (deployStableDebtToken P args5 v, getStableDebtToken P None),
      (deployGenericVariableDebtToken P v, getVariableDebtToken P None),
      (deployVariableDebtToken P args5 v, getVariableDebtToken P None),
      (deployMockELToken P args v, getMockELToken P None),
      (deployMockStableDebtToken P args6 v, getMockStableDebtToken P None),
      (deployMockVariableDebtToken P args6 v, getMockVariableDebtToken P None),
      (deployMintableERC20 P args v, getMintableERC20 P None), (deployWETHMocked P v, getWETHMocked P None),
      (deployElectroProtocolDataProvider P v, getElectroProtocolDataProvider P None),
      (deployDefaultReserveInterestRateStrategy P args v, getInterestRateStrategy P None),
      (deployMockFlashLoanReceiver P a v, getMockFlashLoanReceiver P None),
      (deployReserveLogicLibrary P v, getReserveLogic P None), (deployGenericLogic P library v, getGenericLogic P None),
      (deployStableAndVariableTokensHelper P (Arg a) v, getStableAndVariableTokensHelper P None),
      (deployELTokensAndRatesHelper P (Arg a) v, getELTokensAndRatesHelper P None),
      (deployWETHGateway P args v, getWETHGateway P None),
      (deploySelfdestructTransferMock P v, getSelfdestructTransferMock P None),
      (deployWalletBalancerProvider P v, getWalletProvider P None)]"

lemma registers_implementation:
  "i \<noteq> j \<Longrightarrow> registers P i (eff_then (insertContractAddressInDb P i (i_address inst)) (withSaveAndVerify P inst j args v n))"
  by (auto simp: registers_def eff_then_Inr_iff insertContractAddressInDb_def db_set_def eff_simps
      dest!: withSaveAndVerify_Inr)

lemma registers_implementations [registry_intros]:
  "registers P ''LendingPoolImpl'' (deployLendingPool P v)"
  "registers P ''LendingPoolConfiguratorImpl'' (deployLendingPoolConfigurator P v)"
  "registers P ''LendingPoolCollateralManagerImpl'' (deployLendingPoolCollateralManager P v)"
  unfolding implementation_deployments by (auto intro!: registers_bind registers_implementation)

lemma getterI: "g = connect_registered P f i \<Longrightarrow> registers P i d \<Longrightarrow> \<exists>f i. registers P i d \<and> g = connect_registered P f i"
  by blast

lemma registers_generic [registry_intros]:
  "registers P ''LendingPool'' (deployLendingPool P v)"
  "registers P ''LendingPoolConfigurator'' (deployLendingPoolConfigurator P v)"
  "registers P ''LendingPoolCollateralManager'' (deployLendingPoolCollateralManager P v)"
  "registers P ''GenericLogic'' (deployGenericLogic P library v)"
  unfolding implementation_deployments by (intro registry_intros)+

lemma registers_initialized [registry_intros]:
  "registers P ''StableDebtToken'' (deployStableDebtToken P args5 v)"
  "registers P ''VariableDebtToken'' (deployVariableDebtToken P args5 v)"
  "registers P ''ELToken'' (deployGenericELToken P args6 v)"
  "registers P ''MockStableDebtToken'' (deployMockStableDebtToken P args6 v)"
  "registers P ''MockVariableDebtToken'' (deployMockVariableDebtToken P args6 v)"
  by (cases args5; cases args6; simp add: registry_intros)+

lemma registers_pairs:
  "list_all (\<lambda>(d, g). \<exists>f i. registers P i d \<and> g = connect_registered P f i)
     (registry_pairs P a args args5 args6 library v)"
  unfolding registry_pairs_def list.pred_inject prod.case registry_getters option.case
  by (intro conjI; (rule list.pred_inject(1) | (rule getterI, rule refl, (rule registry_intros)?)))
    (unfold simple_deployments, (rule registry_intros)+)

text \<open>
  C18. Every deployment that succeeds registers the contract under the identifier its getter looks up: the getter
  then connects to the address of the new contract.
\<close>

theorem deploy_then_get:
  assumes "(deploy, get) \<in> set (registry_pairs P a args args5 args6 library v)"
    and "deploy w = (Inr inst, w')"
  shows "\<exists>factory. get w' = (Inr \<lparr>h_factory = factory, h_address = i_address inst\<rparr>, w')"
proof -
  obtain f i where "registers P i deploy" "get = connect_registered P f i"
    using registers_pairs[of P a args args5 args6 library v] assms(1) by (auto simp: list_all_iff)
  moreover from this(1) have "map_option db_address (w_db w' (i, p_network P)) = Some (i_address inst)"
    using assms(2) by (rule registersD)
  ultimately show ?thesis using connect_registered_eq by blast
qed

section \<open>Deployments that are not confirmed\<close>

text \<open>
  When a deployment is sent but not confirmed, both functions fail with the error of the wait; that
  of the deployment functions leaves the address of the missing contract in the registry, that of the helpers
  leaves the registry as it was.
\<close>

theorem unconfirmed_deployment_registered:
  assumes "p_deployed P inst (w_chain w) = (Inl e, c)"
  shows "(\<exists>w'. withSaveAndVerify P inst i args v False w = (Inl e, w')
           \<and> map_option db_address (w_db w' (i, p_network P)) = Some (i_address inst))
       \<and> (\<exists>w'. helpers_withSaveAndVerify P inst i args v w = (Inl e, w') \<and> w_db w' = w_db w)"
  using assms
  by (simp add: withSaveAndVerify_def helpers_withSaveAndVerify_def eff_then_Inl_iff on_chain_def
      registerContractInJsonDb_def db_set_def eff_then_def eff_bind_def eff_simps)

section \<open>Linked byte code\<close>

text \<open>The replacements that linking makes, in order: an address and a place.\<close>

definition library_steps :: "string SymbolMap \<Rightarrow> string \<times> fixup list \<Rightarrow> (string \<times> fixup) list" where
  "library_steps libraries lib =
     (case map_of libraries (fst lib) of None \<Rightarrow> [] | Some addr \<Rightarrow> map (Pair addr) (snd lib))"

definition link_steps :: "artifact \<Rightarrow> string SymbolMap \<Rightarrow> (string \<times> fixup) list" where
  "link_steps art libraries =
     concat (map (\<lambda>file. concat (map (library_steps libraries) (snd file))) (linkReferences art))"

definition apply_steps :: "(string \<times> fixup) list \<Rightarrow> string \<Rightarrow> string" where
  "apply_steps steps code = foldl (\<lambda>c (addr, fx). replace_fixup addr c fx) code steps"

lemma apply_steps_append: "apply_steps (xs @ ys) code = apply_steps ys (apply_steps xs code)"
  by (simp add: apply_steps_def)

lemma link_library_steps: "link_library libraries = (\<lambda>code lib. apply_steps (library_steps libraries lib) code)"
  by (simp add: fun_eq_iff link_library_def library_steps_def apply_steps_def foldl_map split: option.split)

lemma fold_concat_steps:
  "foldl (\<lambda>c x. apply_steps (f x) c) code xs = apply_steps (concat (map f xs)) code"
  by (induction xs arbitrary: code) (simp_all add: apply_steps_append, simp add: apply_steps_def)

lemma linkBytecode_steps: "linkBytecode art libraries = apply_steps (link_steps art libraries) (bytecode art)"
  unfolding linkBytecode_def link_steps_def by (simp add: link_library_steps fold_concat_steps)

text \<open>A place for an address of twenty bytes, inside the code; two places that do not overlap.\<close>

definition step_fits :: "nat \<Rightarrow> string \<times> fixup \<Rightarrow> bool" where
  "step_fits l step \<longleftrightarrow>
     length (fst step) = 42 \<and> fx_length (snd step) = 20 \<and> 2 + (fx_start (snd step) + 20) * 2 \<le> l"

definition steps_disjoint :: "string \<times> fixup \<Rightarrow> string \<times> fixup \<Rightarrow> bool" where
  "steps_disjoint s t \<longleftrightarrow>
     fx_start (snd s) + 20 \<le> fx_start (snd t) \<or> fx_start (snd t) + 20 \<le> fx_start (snd s)"

definition linked_at :: "string \<Rightarrow> string \<times> fixup \<Rightarrow> bool" where
  "linked_at code step \<longleftrightarrow> take 40 (drop (2 + fx_start (snd step) * 2) code) = drop 2 (fst step)"

lemma replace_fixup_length: "step_fits (length code) (addr, fx) \<Longrightarrow> length (replace_fixup addr code fx) = length code"
  by (auto simp: step_fits_def replace_fixup_def)

lemma replace_fixup_linked: "step_fits (length code) (addr, fx) \<Longrightarrow> linked_at (replace_fixup addr code fx) (addr, fx)"
  by (simp add: step_fits_def replace_fixup_def linked_at_def)

lemma replace_fixup_nth:
  assumes "step_fits (length code) (addr, fx)" "i < length code"
    and "i < 2 + fx_start fx * 2 \<or> 2 + (fx_start fx + 20) * 2 \<le> i"
  shows "replace_fixup addr code fx ! i = code ! i"
  using assms by (auto simp: step_fits_def replace_fixup_def nth_append)

lemma replace_fixup_other:
  assumes "step_fits (length code) (addr, fx)" "step_fits (length code) t" "steps_disjoint t (addr, fx)"
    and "linked_at code t"
  shows "linked_at (replace_fixup addr code fx) t"
proof -
  have "take 40 (drop (2 + fx_start (snd t) * 2) (replace_fixup addr code fx))
      = take 40 (drop (2 + fx_start (snd t) * 2) code)"
    using assms replace_fixup_length[OF assms(1)]
    by (intro nth_equalityI) (auto simp: step_fits_def steps_disjoint_def intro!: replace_fixup_nth)
  then show ?thesis using assms(4) by (simp add: linked_at_def)
qed

lemma apply_steps_linked:
  "list_all (step_fits (length code)) steps \<Longrightarrow> sorted_wrt steps_disjoint steps \<Longrightarrow>
   length (apply_steps steps code) = length code \<and> list_all (linked_at (apply_steps steps code)) steps"
proof (induction steps rule: rev_induct)
  case (snoc s steps)
  obtain addr fx where s: "s = (addr, fx)" by (cases s)
  let ?c = "apply_steps steps code"
  have IH: "length ?c = length code" "list_all (linked_at ?c) steps"
    using snoc by (auto simp: sorted_wrt_append)
  have fits: "step_fits (length ?c) (addr, fx)" using snoc.prems s IH(1) by simp
  have step: "apply_steps (steps @ [s]) code = replace_fixup addr ?c fx"
    by (simp add: apply_steps_def s)
  have "list_all (linked_at (replace_fixup addr ?c fx)) steps"
    using IH(2) snoc.prems s unfolding list_all_iff
    by (auto intro!: replace_fixup_other[OF fits] simp: IH(1) sorted_wrt_append)
  then show ?case
    using replace_fixup_linked[OF fits] replace_fixup_length[OF fits] IH(1) by (simp add: step[unfolded s] s)
qed (simp add: apply_steps_def)

text \<open>A position of the code outside a place to link.\<close>

definition outside :: "nat \<Rightarrow> string \<times> fixup \<Rightarrow> bool" where
  "outside i step \<longleftrightarrow> i < 2 + fx_start (snd step) * 2 \<or> 2 + (fx_start (snd step) + 20) * 2 \<le> i"

lemma apply_steps_outside:
  "list_all (step_fits (length code)) steps \<Longrightarrow> list_all (outside i) steps \<Longrightarrow> i < length code \<Longrightarrow>
   apply_steps steps code ! i = code ! i"
proof (induction steps arbitrary: code)
  case (Cons s steps)
  obtain addr fx where s: "s = (addr, fx)" by (cases s)
  have "length (replace_fixup addr code fx) = length code" "replace_fixup addr code fx ! i = code ! i"
    using Cons.prems s by (auto intro: replace_fixup_length replace_fixup_nth simp: outside_def)
  then show ?case using Cons.IH[of "replace_fixup addr code fx"] Cons.prems by (simp add: apply_steps_def s)
qed (simp add: apply_steps_def)

text \<open>
  C20. When the places to link hold twenty bytes inside the code and do not overlap, linking keeps the length
  of the code, puts the address of its library in every place, and leaves every other character as it was.
\<close>

theorem linkBytecode_links:
  assumes "list_all (step_fits (length (bytecode art))) (link_steps art libraries)"
    and "sorted_wrt steps_disjoint (link_steps art libraries)"
  shows "length (linkBytecode art libraries) = length (bytecode art)
       \<and> list_all (linked_at (linkBytecode art libraries)) (link_steps art libraries)
       \<and> (\<forall>i < length (bytecode art). list_all (outside i) (link_steps art libraries) \<longrightarrow>
            linkBytecode art libraries ! i = bytecode art ! i)"
  using apply_steps_linked[OF assms] apply_steps_outside[OF assms(1)] by (simp add: linkBytecode_steps)


section \<open>Mocked tokens\<close>

lemma deployMockToken_Inr:
  assumes "deployMockToken B P v tok w = (Inr inst, w')"
  shows "map_option db_address (w_db w' (toUpperCase tok, p_network P)) = Some (i_address inst)"
  using assms
  by (auto simp: deployMockToken_def eff_bind_Inr_iff eff_then_Inr_iff registerContractInJsonDb_def db_set_def eff_simps)

lemma writes_only_deployMockToken:
  "writes_only P {''MintableERC20'', ''WETNMocked'', toUpperCase tok} (deployMockToken B P v tok)"
  unfolding deployMockToken_def deployWETHMocked_def deployMintableERC20_def
  by (intro registry_intros) auto

lemma writes_only_mono: "writes_only P ids m \<Longrightarrow> ids \<subseteq> ids' \<Longrightarrow> writes_only P ids' m"
  unfolding writes_only_def by blast

lemma writes_only_deploy_mock_tokens:
  "writes_only P ({''MintableERC20'', ''WETNMocked''} \<union> toUpperCase ` set symbols) (deploy_mock_tokens B P v symbols tokens)"
proof (induction symbols arbitrary: tokens)
  case (Cons s symbols)
  show ?case
    by (auto intro!: writes_only_bind writes_only_mono[OF writes_only_deployMockToken] writes_only_mono[OF Cons.IH])
qed (auto intro: registry_intros)

definition set_all :: "(string \<times> 'a) list \<Rightarrow> 'a SymbolMap \<Rightarrow> 'a SymbolMap" where
  "set_all kvs obj = foldl (\<lambda>obj (k, v). js_set obj k v) obj kvs"

lemma set_all_simps [simp]:
  "set_all [] obj = obj" "set_all ((k, v) # kvs) obj = set_all kvs (js_set obj k v)"
  by (simp_all add: set_all_def)

lemma js_set_map: "map (map_prod id f) (js_set obj k v) = js_set (map (map_prod id f) obj) k (f v)"
  by (induction obj k v rule: js_set.induct) auto

lemma set_all_map: "map (map_prod id f) (set_all kvs obj) = set_all (map (map_prod id f) kvs) (map (map_prod id f) obj)"
  by (induction kvs arbitrary: obj) (auto simp: js_set_map)

lemma deploy_mock_tokens_Inr:
  "deploy_mock_tokens B P v symbols tokens w = (Inr tokens', w') \<Longrightarrow>
   distinct (map toUpperCase symbols) \<Longrightarrow> {''MintableERC20'', ''WETNMocked''} \<inter> toUpperCase ` set symbols = {} \<Longrightarrow>
   \<exists>insts. length insts = length symbols \<and> tokens' = set_all (zip symbols insts) tokens
     \<and> list_all (\<lambda>(s, i). map_option db_address (w_db w' (toUpperCase s, p_network P)) = Some (i_address i)) (zip symbols insts)"
proof (induction symbols arbitrary: tokens w)
  case Nil
  then show ?case by (simp add: eff_simps)
next
  case (Cons s symbols)
  from Cons.prems(1) obtain inst w1 where d: "deployMockToken B P v s w = (Inr inst, w1)"
    and r: "deploy_mock_tokens B P v symbols (js_set tokens s inst) w1 = (Inr tokens', w')"
    by (auto simp: eff_bind_Inr_iff)
  from Cons.IH[OF r] Cons.prems(2,3) obtain insts where IH: "length insts = length symbols"
    "tokens' = set_all (zip symbols insts) (js_set tokens s inst)"
    "list_all (\<lambda>(s, i). map_option db_address (w_db w' (toUpperCase s, p_network P)) = Some (i_address i)) (zip symbols insts)"
    by auto
  have "toUpperCase s \<notin> {''MintableERC20'', ''WETNMocked''} \<union> toUpperCase ` set symbols"
    using Cons.prems(2,3) by auto
  then have "w_db w' (toUpperCase s, p_network P) = w_db w1 (toUpperCase s, p_network P)"
    using writes_onlyD[OF writes_only_deploy_mock_tokens r] by blast
  then show ?case
    using IH deployMockToken_Inr[OF d] by (intro exI[of _ "inst # insts"]) simp
qed

lemma mocked_tokens_registered:
  "length addrs = length symbols \<Longrightarrow>
   list_all (\<lambda>(s, a). a \<noteq> '''' \<and> map_option db_address (w_db w (toUpperCase s, p_network P)) = Some a) (zip symbols addrs) \<Longrightarrow>
   mocked_tokens P symbols acc w
   = (Inr (set_all (zip symbols (map (\<lambda>a. \<lparr>h_factory = ''MintableERC20Factory'', h_address = a\<rparr>) addrs)) acc), w)"
proof (induction symbols arbitrary: addrs acc)
  case (Cons s symbols)
  then obtain a as where addrs: "addrs = a # as" by (cases addrs) auto
  have "connect_registered P ''MintableERC20Factory'' (toUpperCase s) w = (Inr \<lparr>h_factory = ''MintableERC20Factory'', h_address = a\<rparr>, w)"
    using Cons.prems addrs by (intro connect_registered_eq) simp
  then show ?case
    using Cons.prems Cons.IH[of as] addrs
    by (simp add: eff_bind_def getMintableERC20_def connect_or_db_def eff_simps)
qed (simp add: eff_simps)

lemma set_all_values: "(k, v) \<in> set (set_all kvs obj) \<Longrightarrow> (k, v) \<in> set kvs \<or> (k, v) \<in> set obj"
proof (induction kvs arbitrary: obj)
  case (Cons kv kvs)
  have "(k, v) \<in> set (js_set obj a b) \<Longrightarrow> (k, v) = (a, b) \<or> (k, v) \<in> set obj" for a b
    by (induction obj a b rule: js_set.induct) (auto split: if_splits)
  then show ?case using Cons by (cases kv) fastforce
qed simp

lemma set_all_fresh:
  "distinct (map fst kvs) \<Longrightarrow> set (map fst kvs) \<inter> set (map fst obj) = {} \<Longrightarrow> set_all kvs obj = obj @ kvs"
proof (induction kvs arbitrary: obj)
  case (Cons kv kvs)
  obtain k v where kv: "kv = (k, v)" by (cases kv)
  have "js_set obj k v = obj @ [(k, v)]" using Cons.prems by (intro js_set_new) (auto simp: kv)
  then show ?case using Cons.prems Cons.IH[of "obj @ [(k, v)]"] by (auto simp: kv)
qed simp

lemma symbols_distinct:
  "distinct (map toUpperCase TokenContractId)" "{''MintableERC20'', ''WETNMocked''} \<inter> toUpperCase ` set TokenContractId = {}"
  "distinct TokenContractId"
  by (simp_all add: TokenContractId_def toUpperCase_def upper_char_def)

text \<open>
  When every mocked token has been deployed, the getter of the mocked tokens finds them all, with the same
  symbols in the same order and the addresses of the deployed contracts.
\<close>

theorem mocked_tokens_roundtrip:
  assumes "deployAllMockTokens B P v w = (Inr tokens, w')"
    and "list_all (\<lambda>(s, i). i_address i \<noteq> '''') tokens"
  shows "\<exists>handles. getAllMockedTokens P w' = (Inr handles, w')
       \<and> map (map_prod id h_address) handles = map (map_prod id i_address) tokens
       \<and> map fst tokens = TokenContractId"
proof -
  obtain insts where insts: "length insts = length TokenContractId" "tokens = set_all (zip TokenContractId insts) []"
    "list_all (\<lambda>(s, i). map_option db_address (w_db w' (toUpperCase s, p_network P)) = Some (i_address i)) (zip TokenContractId insts)"
    using deploy_mock_tokens_Inr[OF assms(1)[unfolded deployAllMockTokens_def] symbols_distinct(1,2)] by blast
  then have tokens: "tokens = zip TokenContractId insts"
    using symbols_distinct(3) by (simp add: set_all_fresh)
  let ?h = "\<lambda>a. \<lparr>h_factory = ''MintableERC20Factory'', h_address = a\<rparr>"
  have "list_all (\<lambda>(s, a). a \<noteq> '''' \<and> map_option db_address (w_db w' (toUpperCase s, p_network P)) = Some a)
      (zip TokenContractId (map i_address insts))"
    using insts(3) assms(2) unfolding tokens by (auto simp: list_all_iff zip_map2)
  then have "getAllMockedTokens P w' = (Inr (set_all (zip TokenContractId (map ?h (map i_address insts))) []), w')"
    unfolding getAllMockedTokens_def using insts(1) by (intro mocked_tokens_registered) simp_all
  moreover have "set_all (zip TokenContractId (map ?h (map i_address insts))) [] = zip TokenContractId (map ?h (map i_address insts))"
    using symbols_distinct(3) insts(1) by (simp add: set_all_fresh)
  moreover have "map (map_prod id h_address) (zip TokenContractId (map ?h (map i_address insts))) = map (map_prod id i_address) tokens"
    unfolding tokens by (simp add: zip_map2 comp_def map_prod_def case_prod_beta)
  ultimately show ?thesis using insts(1) by (auto simp: tokens)
qed

section \<open>Libraries\<close>

lemma writes_only_libraries:
  "writes_only P {''GenericLogic''} (deployGenericLogic P library v)"
  "writes_only P {''ValidationLogic''} (deployValidationLogic P library library' v)"
  unfolding deployGenericLogic_def deployValidationLogic_def by (intro registry_intros insertI1)+

lemma registers_libraries:
  "registers P ''ReserveLogic'' (deployReserveLogicLibrary P v)"
  "registers P ''ValidationLogic'' (deployValidationLogic P library library' v)"
  unfolding deployReserveLogicLibrary_def deployValidationLogic_def by (intro registry_intros)+

lemma fallback_registered:
  assumes "isZeroAddress (p_addresses P) ZERO_ADDRESS" and "a \<noteq> ''''"
    and "map_of (pool_addresses (ElectroConfig B)) i = None"
    and "map_option db_address (w_db w (i, p_network P)) = Some a"
  shows "getContractAddressWithJsonFallback B P i ElectroLend w = (Inr a, w)"
  using assms
  by (auto simp: getContractAddressWithJsonFallback_def loadPoolConfig_def eff_bind_def eff_simps truthy_def
      getOptionalParamAddressPerNetwork_def notFalsyOrZeroAddress_def ZERO_ADDRESS_def)

text \<open>
  C19. The libraries that a deployment of the lending pool is linked with are the ones that are found afterwards
  through the registry, for the call data of the pool's implementations.
\<close>

theorem registered_libraries_roundtrip:
  assumes "isZeroAddress (p_addresses P) ZERO_ADDRESS"
    and "deployElectroLibraries P v w = (Inr libs, w')" and "list_all (\<lambda>(_, a). a \<noteq> '''') libs"
  shows "registered_libraries B P w' = (Inr libs, w')"
proof -
  obtain rl w1 gl w2 vl where r: "deployReserveLogicLibrary P v w = (Inr rl, w1)"
    and g: "deployGenericLogic P rl v w1 = (Inr gl, w2)" and l: "deployValidationLogic P rl gl v w2 = (Inr vl, w')"
    and libs: "libs = toElectroLibs (i_address vl) (i_address rl)"
    using assms(2) by (auto simp: deployElectroLibraries_def eff_bind_Inr_iff eff_simps)
  have "w_db w' (''ReserveLogic'', p_network P) = w_db w2 (''ReserveLogic'', p_network P)"
    by (rule writes_onlyD[OF writes_only_libraries(2) l]) simp
  also have "\<dots> = w_db w1 (''ReserveLogic'', p_network P)"
    by (rule writes_onlyD[OF writes_only_libraries(1) g]) simp
  finally have "map_option db_address (w_db w' (''ReserveLogic'', p_network P)) = Some (i_address rl)"
    using registersD[OF registers_libraries(1) r] by simp
  then have "getContractAddressWithJsonFallback B P ''ReserveLogic'' ElectroLend w' = (Inr (i_address rl), w')"
    using assms(1,3) libs by (intro fallback_registered) (simp_all add: toElectroLibs_def pool_addresses_def)
  moreover have "getContractAddressWithJsonFallback B P ''ValidationLogic'' ElectroLend w' = (Inr (i_address vl), w')"
    using assms(1,3) libs registersD[OF registers_libraries(2) l]
    by (intro fallback_registered) (simp_all add: toElectroLibs_def pool_addresses_def)
  ultimately show ?thesis by (simp add: registered_libraries_def eff_bind_def eff_simps libs)
qed

section \<open>A sample platform\<close>

text \<open>
  A network whose chain counts transactions: a deployment gets the address that ends in the digit of its number, and
  a deployment of a mocked aggregator is never confirmed.
\<close>

definition sample_address :: "nat \<Rightarrow> string" where
  "sample_address n = ''0x'' @ replicate 39 CHR ''0'' @ [digit_char n]"

definition sample_verifier :: "nat verifier" where
  "sample_verifier =
     \<lparr>ve_ETHERSCAN_KEY = Some ''key'', ve_network = ''testnet'', ve_newFile = (\<lambda>n. (Inr ''file'', n)),
      ve_run = (\<lambda>_ _ n. (Inr (), n)), ve_cleanup = (\<lambda>_ n. n)\<rparr>"

definition sample_platform :: "nat platform" where
  "sample_platform =
     \<lparr>p_network = ''testnet'', p_FORK = None, p_MAINNET_FORK = None, p_signers = [''0xa0'', ''0xa1''],
      p_addresses = \<lparr>isAddress = (\<lambda>a. length a = 42), isZeroAddress = (\<lambda>a. a = ZERO_ADDRESS)\<rparr>,
      p_hash = (\<lambda>s. s), p_artifact = (\<lambda>_. \<lparr>bytecode = '''', linkReferences = []\<rparr>),
      p_deploy = (\<lambda>f libs args n.
        (Inr \<lparr>i_factory = f, i_address = sample_address (Suc n), i_deployer = ''0xa0''\<rparr>, Suc n)),
      p_deployBytecode = (\<lambda>code n.
        (Inr \<lparr>i_factory = ''library'', i_address = sample_address (Suc n), i_deployer = ''0xa0''\<rparr>, Suc n)),
      p_deployData = (\<lambda>f libs args. ''0x''), p_bytecodeData = (\<lambda>code. code),
      p_deployed = (\<lambda>inst n.
        if i_factory inst = ''MockAggregatorFactory'' then (Inl (Error ''transaction failed''), n) else (Inr (), n)),
      p_call = (\<lambda>_ _ _ n. (Inr (), Suc n)), p_verifier = sample_verifier\<rparr>"

definition sample_world :: "nat world" where
  "sample_world = \<lparr>w_db = (\<lambda>_. None), w_chain = 0\<rparr>"

lemmas platform_eval =
  sample_platform_def sample_world_def on_chain_def db_set_def registerContractInJsonDb_def eff_simps
  withSaveAndVerify_def deploy_and_save_def eff_then_def eff_bind_def

lemma sample_address_nonempty [simp]: "sample_address n \<noteq> []"
  by (simp add: sample_address_def)

theorem deploy_then_get_witness:
  "\<exists>w'. getPriceOracle sample_platform None w'
      = (Inr \<lparr>h_factory = ''PriceOracleFactory'', h_address = sample_address 1\<rparr>, w')"
proof -
  let ?i = "\<lparr>i_factory = ''PriceOracleFactory'', i_address = sample_address 1, i_deployer = ''0xa0''\<rparr>"
  obtain w' where "deployPriceOracle sample_platform False sample_world = (Inr ?i, w')"
    by (simp add: deployPriceOracle_def platform_eval)
  then have "\<exists>f. getPriceOracle sample_platform None w' = (Inr \<lparr>h_factory = f, h_address = sample_address 1\<rparr>, w')"
    using deploy_then_get[of "deployPriceOracle sample_platform False" "getPriceOracle sample_platform None"
        sample_platform "''''" "[]" "('''', '''', '''', '''', '''')" "('''', '''', '''', '''', '''', '''')" ?i False sample_world ?i w']
    by (simp add: registry_pairs_def)
  then show ?thesis
    by (auto simp: getPriceOracle_def connect_or_db_def connect_registered_def eff_bind_def eff_simps split: option.splits)
qed

theorem unconfirmed_deployment_registered_witness:
  "\<exists>w'. withSaveAndVerify sample_platform
          \<lparr>i_factory = ''MockAggregatorFactory'', i_address = sample_address 1, i_deployer = ''0xa0''\<rparr>
          ''MockAggregator'' [] False False sample_world = (Inl (Error ''transaction failed''), w')
        \<and> map_option db_address (w_db w' (''MockAggregator'', ''testnet'')) = Some (sample_address 1)"
  using unconfirmed_deployment_registered[of sample_platform
      "\<lparr>i_factory = ''MockAggregatorFactory'', i_address = sample_address 1, i_deployer = ''0xa0''\<rparr>" sample_world
      "Error ''transaction failed''" 0 "''MockAggregator''" "[]" False]
  by (simp add: sample_platform_def sample_world_def)

definition sample_artifact :: artifact where
  "sample_artifact =
     \<lparr>bytecode = ''0x60'' @ replicate 40 CHR ''_'' @ ''00'' @ replicate 40 CHR ''_'',
      linkReferences =
        [(''ReserveLogic.sol'', [(''ReserveLogic'', [\<lparr>fx_start = 1, fx_length = 20\<rparr>, \<lparr>fx_start = 22, fx_length = 20\<rparr>])])]\<rparr>"

theorem linkBytecode_links_witness:
  "linked_at (linkBytecode sample_artifact [(''ReserveLogic'', sample_address 7)])
     (sample_address 7, \<lparr>fx_start = 22, fx_length = 20\<rparr>)
   \<and> linkBytecode sample_artifact [(''ReserveLogic'', sample_address 7)] ! 2 = CHR ''6''"
proof -
  have steps: "link_steps sample_artifact [(''ReserveLogic'', sample_address 7)]
      = [(sample_address 7, \<lparr>fx_start = 1, fx_length = 20\<rparr>), (sample_address 7, \<lparr>fx_start = 22, fx_length = 20\<rparr>)]"
    by (simp add: sample_artifact_def link_steps_def library_steps_def)
  have l: "length (sample_address 7) = 42" "length (bytecode sample_artifact) = 86" "bytecode sample_artifact ! 2 = CHR ''6''"
    by (simp_all add: sample_address_def sample_artifact_def)
  show ?thesis
    using linkBytecode_links[of sample_artifact "[(''ReserveLogic'', sample_address 7)]"]
    by (simp add: steps step_fits_def steps_disjoint_def l outside_def)
qed

theorem registered_libraries_roundtrip_witness:
  "\<exists>w'. registered_libraries (decimal scenario_config) sample_platform w'
        = (Inr (toElectroLibs (sample_address 3) (sample_address 1)), w')"
proof -
  obtain w' where "deployElectroLibraries sample_platform False sample_world
      = (Inr (toElectroLibs (sample_address 3) (sample_address 1)), w')"
    by (simp add: deployElectroLibraries_def deployReserveLogicLibrary_def deployGenericLogic_def
        deployValidationLogic_def platform_eval eval_nat_numeral)
  from registered_libraries_roundtrip[OF _ this] show ?thesis
    by (auto simp: sample_platform_def toElectroLibs_def)
qed

theorem mocked_tokens_roundtrip_witness:
  "\<exists>handles w'. getAllMockedTokens sample_platform w' = (Inr handles, w')
     \<and> map (map_prod id h_address) handles
       = [(''WETN'', sample_address 1), (''USD'', sample_address 2), (''TUSDC'', sample_address 3), (''TUSDT'', sample_address 4)]"
proof -
  obtain tokens w' where d: "deployAllMockTokens (decimal scenario_config) sample_platform False sample_world = (Inr tokens, w')"
    and "map (map_prod id i_address) tokens
       = [(''WETN'', sample_address 1), (''USD'', sample_address 2), (''TUSDC'', sample_address 3), (''TUSDT'', sample_address 4)]"
    by (simp add: deployAllMockTokens_def TokenContractId_def deployMockToken_def deployWETHMocked_def
        deployMintableERC20_def platform_eval eval_nat_numeral)
  moreover from this(2) have "list_all (\<lambda>(s, i). i_address i \<noteq> '''') tokens"
    by (auto simp: list_all_iff map_eq_Cons_conv dest!: sym[of "[]"])
  ultimately show ?thesis using mocked_tokens_roundtrip[OF d] by fastforce
qed

end
