(* ===== verification/Setup_Properties.thy ===== *)
theory Setup_Properties
  imports Reserve_Setup Registry_Properties
begin

text \<open>
  What the initialization of the reserves sends, and whose administrator the pool has after the
  configuration of the reserves.
\<close>

section \<open>Initialization\<close>

lemma require_iff: "require b m w = (Inr (), w') \<longleftrightarrow> b \<and> w' = w"
  by (auto simp: require_def eff_simps)

lemma eff_then_require_iff: "eff_then (require b msg) m w = (Inr a, w') \<longleftrightarrow> b \<and> m w = (Inr a, w')"
  by (auto simp: eff_then_Inr_iff require_iff)

lemma getters_pure [intro, simp]:
  "eff_pure (connect_registered P f i)" "eff_pure (connect_or_db P f i a)"
  "eff_pure (getContractAddressWithJsonFallback B P i pool)"
  "eff_pure (getLendingPoolAddressesProvider P a)" "eff_pure (getLendingPoolConfiguratorProxy P a)"
  "eff_pure (getELTokensAndRatesHelper P a)"
  by (auto simp: connect_registered_def connect_or_db_def getContractAddressWithJsonFallback_def Let_def
      getLendingPoolAddressesProvider_def getLendingPoolConfiguratorProxy_def getELTokensAndRatesHelper_def
      split: option.splits intro!: eff_pure_bind)

text \<open>An input fits the reserve it is for, with the strategy its name has in the table of strategies.\<close>

definition input_fits ::
  "'w reserve_setup \<Rightarrow> init_names \<Rightarrow> tEthereumAddress SymbolMap \<Rightarrow> tEthereumAddress SymbolMap
   \<Rightarrow> string \<times> IReserveParams \<Rightarrow> init_input \<Rightarrow> bool" where
  "input_fits S N tokenAddresses strategies reserve i \<longleftrightarrow>
     ii_underlyingAssetName i = fst reserve
     \<and> ii_underlyingAsset i = lookup_address tokenAddresses (fst reserve)
     \<and> ii_underlyingAssetDecimals i = reserveDecimals (snd reserve)
     \<and> ii_interestRateStrategyAddress i = lookup_address strategies (name (strategy (snd reserve)))
     \<and> ii_treasury i = treasuryAddress N
     \<and> ii_incentivesController i = incentivesController N
     \<and> ii_elTokenName i = elTokenNamePrefix N @ '' '' @ fst reserve
     \<and> ii_elTokenSymbol i = ''l'' @ symbolPrefix N @ fst reserve
     \<and> ii_stableDebtTokenName i = stableDebtTokenNamePrefix N @ '' '' @ fst reserve
     \<and> ii_stableDebtTokenSymbol i = ''sd'' @ symbolPrefix N @ fst reserve
     \<and> ii_variableDebtTokenName i = variableDebtTokenNamePrefix N @ '' '' @ symbolPrefix N @ fst reserve
     \<and> ii_variableDebtTokenSymbol i = ''vd'' @ symbolPrefix N @ fst reserve
     \<and> list_all (valid_address S)
         [ii_underlyingAsset i, ii_interestRateStrategyAddress i, ii_elTokenImpl i,
          ii_stableDebtTokenImpl i, ii_variableDebtTokenImpl i, ii_treasury i]"

definition extends_strategies :: "tEthereumAddress SymbolMap \<Rightarrow> tEthereumAddress SymbolMap \<Rightarrow> bool" where
  "extends_strategies F G \<longleftrightarrow> (\<forall>n. lookup_address G n \<noteq> '''' \<longrightarrow> lookup_address F n = lookup_address G n)"

lemma extends_trans: "extends_strategies F G \<Longrightarrow> extends_strategies G H \<Longrightarrow> extends_strategies F H"
  by (auto simp: extends_strategies_def)

lemma ensure_strategy_extends:
  "ensure_strategy S p st v strategies w = (Inr strategies', w') \<Longrightarrow> extends_strategies strategies' strategies"
  by (auto simp: ensure_strategy_def eff_bind_Inr_iff eff_then_Inr_iff eff_simps extends_strategies_def
      lookup_address_def split: if_splits option.splits)

lemma init_reserve_input_fits:
  assumes "init_reserve_input B S N tok params (lookup_address tokenAddresses tok) sa w = (Inr i, w')"
    and "lookup_address F (name (strategy params)) = sa"
  shows "input_fits S N tokenAddresses F (tok, params) i"
  using assms
  by (auto simp: init_reserve_input_def eff_then_require_iff eff_bind_pure_iff eff_simps input_fits_def)

lemma init_reserve_input_strategy:
  "init_reserve_input B S N tok params ta sa w = (Inr i, w') \<Longrightarrow> sa \<noteq> ''''"
  by (auto simp: init_reserve_input_def eff_then_require_iff valid_address_def notFalsyOrZeroAddress_def)

text \<open>The implementations of its three tokens are those of the configuration, or those registered in the world \<open>w\<close>.\<close>

definition implementations_found ::
  "'n bn \<Rightarrow> 'w reserve_setup \<Rightarrow> init_names \<Rightarrow> 'w world \<Rightarrow> string \<times> IReserveParams \<Rightarrow> init_input \<Rightarrow> bool" where
  "implementations_found B S N w reserve i \<longleftrightarrow>
     getContractAddressWithJsonFallback B (su_platform S) (elTokenImpl (snd reserve)) (poolName N) w = (Inr (ii_elTokenImpl i), w)
   \<and> getContractAddressWithJsonFallback B (su_platform S) ''StableDebtToken'' (poolName N) w = (Inr (ii_stableDebtTokenImpl i), w)
   \<and> getContractAddressWithJsonFallback B (su_platform S) ''VariableDebtToken'' (poolName N) w = (Inr (ii_variableDebtTokenImpl i), w)"

text \<open>What the deployment of the strategies writes in the registry, and worlds that differ in nothing else.\<close>

definition strategy_entries :: "(string \<times> IReserveParams) list \<Rightarrow> string set" where
  "strategy_entries reserves = insert ''DefaultReserveInterestRateStrategy'' ((\<lambda>r. name (strategy (snd r))) ` set reserves)"

definition same_registry :: "'w reserve_setup \<Rightarrow> string set \<Rightarrow> 'w world \<Rightarrow> 'w world \<Rightarrow> bool" where
  "same_registry S ids v w \<longleftrightarrow>
     (\<forall>k. k \<notin> (\<lambda>i. (i, p_network (su_platform S))) ` ids \<longrightarrow> w_db v k = w_db w k)"

lemma same_registry_trans: "same_registry S ids u v \<Longrightarrow> same_registry S ids v w \<Longrightarrow> same_registry S ids u w"
  by (simp add: same_registry_def)

lemma writes_only_same: "writes_only (su_platform S) ids m \<Longrightarrow> m w = (r, w') \<Longrightarrow> same_registry S ids w' w"
  by (auto simp: writes_only_def same_registry_def)

lemma ensure_strategy_registry:
  assumes "ensure_strategy S p st v strategies w = (Inr strategies', w')"
    and "''DefaultReserveInterestRateStrategy'' \<in> ids" "name st \<in> ids"
  shows "same_registry S ids w' w" and "lookup_address strategies (name st) \<noteq> '''' \<Longrightarrow> w' = w \<and> strategies' = strategies"
proof -
  have "writes_only (su_platform S) ids (ensure_strategy S p st v strategies)"
    using assms(2,3) unfolding ensure_strategy_def deployRateStrategy_def deployDefaultReserveInterestRateStrategy_def
      rawInsertContractAddressInDb_def
    by (intro registry_intros writes_only_db_set) auto
  then show "same_registry S ids w' w" using assms(1) by (rule writes_only_same)
  show "w' = w \<and> strategies' = strategies" if "lookup_address strategies (name st) \<noteq> ''''"
    using assms(1) that by (auto simp: ensure_strategy_def eff_simps)
qed

lemma fallback_same:
  assumes "getContractAddressWithJsonFallback B (su_platform S) i pool v = (Inr a, v)" and "same_registry S ids v w" and "i \<notin> ids"
  shows "getContractAddressWithJsonFallback B (su_platform S) i pool w = (Inr a, w)"
proof -
  have "w_db v (i, p_network (su_platform S)) = w_db w (i, p_network (su_platform S))"
    using assms(2,3) by (auto simp: same_registry_def)
  then show ?thesis
    using assms(1) unfolding getContractAddressWithJsonFallback_def Let_def
    by (auto simp: eff_bind_def eff_simps split: sum.splits if_splits)
qed

lemma init_reserve_input_found:
  assumes "init_reserve_input B S N tok params ta sa v = (Inr i, v')"
  shows "v' = v" and "implementations_found B S N v (tok, params) i"
proof -
  let ?get = "\<lambda>c. getContractAddressWithJsonFallback B (su_platform S) c (poolName N)"
  have pure: "?get c v = (Inr a, u) \<Longrightarrow> u = v" for c a u using eff_pureD[OF getters_pure(3)] by metis
  obtain a1 a2 a3 where "?get (elTokenImpl params) v = (Inr a1, v)" "?get ''StableDebtToken'' v = (Inr a2, v)"
    "?get ''VariableDebtToken'' v = (Inr a3, v)" "ii_elTokenImpl i = a1" "ii_stableDebtTokenImpl i = a2"
    "ii_variableDebtTokenImpl i = a3" "v' = v"
    using assms by (auto simp: init_reserve_input_def eff_then_require_iff eff_bind_pure_iff eff_simps)
  then show "v' = v" "implementations_found B S N v (tok, params) i" by (auto simp: implementations_found_def)
qed

lemma init_inputs_fit:
  assumes "init_inputs B S N provider v tokenAddresses reserves strategies w = (Inr inputs, w')"
    and "strategy_entries reserves \<subseteq> ids" and "same_registry S ids w w0"
    and "{''StableDebtToken'', ''VariableDebtToken''} \<union> (\<lambda>r. elTokenImpl (snd r)) ` set reserves \<subseteq> - ids"
  shows "\<exists>F. extends_strategies F strategies
     \<and> list_all2 (\<lambda>r i. input_fits S N tokenAddresses F r i \<and> implementations_found B S N w0 r i)
         (filter (\<lambda>r. lookup_address tokenAddresses (fst r) \<noteq> '''') reserves) inputs
     \<and> same_registry S ids w' w0
     \<and> (list_all (\<lambda>r. lookup_address strategies (name (strategy (snd r))) \<noteq> '''') reserves \<longrightarrow> w' = w)"
  using assms
proof (induction reserves arbitrary: strategies inputs w)
  case Nil
  then show ?case by (auto simp: eff_simps extends_strategies_def)
next
  case (Cons r reserves)
  obtain tok params where r: "r = (tok, params)" by (cases r)
  have ids: "strategy_entries reserves \<subseteq> ids" "''DefaultReserveInterestRateStrategy'' \<in> ids" "name (strategy params) \<in> ids"
    "{''StableDebtToken'', ''VariableDebtToken''} \<union> (\<lambda>r. elTokenImpl (snd r)) ` set reserves \<subseteq> - ids"
    "elTokenImpl params \<notin> ids" "''StableDebtToken'' \<notin> ids" "''VariableDebtToken'' \<notin> ids"
    using Cons.prems(2,4) r by (auto simp: strategy_entries_def)
  show ?case
  proof (cases "lookup_address tokenAddresses tok = ''''")
    case True
    then show ?thesis using Cons.IH[OF _ ids(1) Cons.prems(3) ids(4), of strategies inputs] Cons.prems(1) r by auto
  next
    case False
    let ?n = "name (strategy params)"
    obtain st w1 i w2 inputs' where e: "ensure_strategy S provider (strategy params) v strategies w = (Inr st, w1)"
      and i: "init_reserve_input B S N tok params (lookup_address tokenAddresses tok) (lookup_address st ?n) w1 = (Inr i, w2)"
      and rest: "init_inputs B S N provider v tokenAddresses reserves st w2 = (Inr inputs', w')"
      and inputs: "inputs = i # inputs'"
      using Cons.prems(1) False r by (auto simp: eff_bind_Inr_iff eff_simps)
    have same: "same_registry S ids w1 w0"
      using same_registry_trans[OF ensure_strategy_registry(1)[OF e ids(2,3)] Cons.prems(3)] .
    note found = init_reserve_input_found[OF i]
    have impl: "implementations_found B S N w0 (tok, params) i"
      using found(2) fallback_same[OF _ same] ids(5-7) by (auto simp: implementations_found_def)
    from Cons.IH[OF rest ids(1) _ ids(4)] same found(1) obtain F where F: "extends_strategies F st"
      "list_all2 (\<lambda>r i. input_fits S N tokenAddresses F r i \<and> implementations_found B S N w0 r i)
        (filter (\<lambda>r. lookup_address tokenAddresses (fst r) \<noteq> '''') reserves) inputs'" "same_registry S ids w' w0"
      "list_all (\<lambda>r. lookup_address st (name (strategy (snd r))) \<noteq> '''') reserves \<longrightarrow> w' = w2"
      by blast
    have "lookup_address F ?n = lookup_address st ?n"
      using F(1) init_reserve_input_strategy[OF i] by (simp add: extends_strategies_def)
    then have "input_fits S N tokenAddresses F r i" using init_reserve_input_fits[OF i] r by simp
    moreover have "w' = w" if "list_all (\<lambda>r. lookup_address strategies (name (strategy (snd r))) \<noteq> '''') (r # reserves)"
      using that F(4) ensure_strategy_registry(2)[OF e ids(2,3)] found(1) r by simp
    ultimately show ?thesis using F extends_trans[OF F(1) ensure_strategy_extends[OF e]] False inputs r impl by auto
  qed
qed

lemma chunk_singletons: "chunk xs 1 = map (\<lambda>x. [x]) xs"
proof -
  have "chunk xs 1 = map (\<lambda>i. take 1 (drop i xs)) [0..<length xs]" by (simp add: chunk_slices)
  also have "\<dots> = map (\<lambda>i. [xs ! i]) [0..<length xs]"
    by (intro map_cong) (auto simp: take_Suc hd_drop_conv_nth)
  also have "\<dots> = map (\<lambda>x. [x]) (map ((!) xs) [0..<length xs])" by simp
  finally show ?thesis by (simp add: map_nth)
qed

lemma eff_each_map: "eff_each f (map g xs) = eff_each (f \<circ> g) xs"
  by (induction xs) auto

text \<open>
  C21. A run of the initialization that succeeds sends one transaction per reserve that has a token address, in the
  order of the configuration, and nothing for the others. Each has the token of its reserve, the names made of the
  prefixes, the implementations that the configuration or the registry has for the three tokens when the run starts, and
  valid addresses; reserves whose strategies have the same name share one strategy contract, which is the given one
  if there is one. Before the first of them only the entries of strategies change in the registry, and nothing at all if every strategy is given.
  No strategy has the name of an implementation.
\<close>

theorem init_reserves_sent:
  assumes "initReservesByHelper B S N reserves tokenAddresses v providerAddress configuratorAddress strategies w = (Inr (), w')"
    and "{''StableDebtToken'', ''VariableDebtToken''} \<union> (\<lambda>r. elTokenImpl (snd r)) ` set reserves \<subseteq> - strategy_entries reserves"
  shows "\<exists>F inputs configurator w1.
      extends_strategies F strategies
    \<and> list_all2 (\<lambda>r i. input_fits S N tokenAddresses F r i \<and> implementations_found B S N w r i)
        (filter (\<lambda>r. lookup_address tokenAddresses (fst r) \<noteq> '''') reserves) inputs
    \<and> same_registry S (strategy_entries reserves) w1 w
    \<and> (list_all (\<lambda>r. lookup_address strategies (name (strategy (snd r))) \<noteq> '''') reserves \<longrightarrow> w1 = w)
    \<and> getLendingPoolConfiguratorProxy (su_platform S) configuratorAddress w1 = (Inr configurator, w1)
    \<and> eff_each (\<lambda>i. send S (BatchInitReserve (h_address configurator) [i])) inputs w1 = (Inr (), w')"
proof -
  let ?ids = "strategy_entries reserves"
  obtain p :: contract_handle where "eff_bind (init_inputs B S N (h_address p) v tokenAddresses reserves strategies) (\<lambda>inputs.
      eff_bind (getLendingPoolConfiguratorProxy (su_platform S) configuratorAddress) (\<lambda>c :: contract_handle.
      eff_each (\<lambda>chunk. send S (BatchInitReserve (h_address c) chunk)) (chunk inputs 1))) w = (Inr (), w')"
    using assms(1) by (auto simp: initReservesByHelper_def eff_bind_pure_iff)
  then obtain inputs w1 and c :: contract_handle where
    inputs: "init_inputs B S N (h_address p) v tokenAddresses reserves strategies w = (Inr inputs, w1)"
    and proxy: "getLendingPoolConfiguratorProxy (su_platform S) configuratorAddress w1 = (Inr c, w1)"
    and each: "eff_each (\<lambda>chunk. send S (BatchInitReserve (h_address c) chunk)) (chunk inputs 1) w1 = (Inr (), w')"
    unfolding eff_bind_Inr_iff[of "init_inputs B S N (h_address p) v tokenAddresses reserves strategies"]
    by (auto simp: eff_bind_pure_iff)
  have "eff_each (\<lambda>i. send S (BatchInitReserve (h_address c) [i])) inputs w1 = (Inr (), w')"
    using each by (simp only: chunk_singletons eff_each_map comp_def)
  moreover have "same_registry S ?ids w w" by (simp add: same_registry_def)
  ultimately show ?thesis using init_inputs_fit[OF inputs order.refl _ assms(2)] proxy by blast
qed

section \<open>A sample\<close>

definition sample_setup :: "nat reserve_setup" where
  "sample_setup =
     \<lparr>su_platform = sample_platform, su_send = (\<lambda>_ n. (Inr (), Suc n)), su_alreadyEnabled = (\<lambda>_ _ _. False)\<rparr>"

definition registered_world :: "nat world" where
  "registered_world =
     \<lparr>w_db = (\<lambda>(i, n). map_option (\<lambda>k. \<lparr>db_address = sample_address k, db_deployer = None, db_salt = None\<rparr>)
        (map_of [(''LendingPoolAddressesProvider'', 1), (''ELTokensAndRatesHelper'', 2), (''LendingPoolConfigurator'', 3),
                 (''ELToken'', 4), (''StableDebtToken'', 5), (''VariableDebtToken'', 6)] i)), w_chain = 0\<rparr>"

definition sample_names :: init_names where
  "sample_names =
     \<lparr>elTokenNamePrefix = ''EL'', stableDebtTokenNamePrefix = ''SD'', variableDebtTokenNamePrefix = ''VD'',
      symbolPrefix = '''', treasuryAddress = sample_address 9, incentivesController = ZERO_ADDRESS,
      poolName = ElectroLend\<rparr>"

definition sample_reserves :: "IReserveParams SymbolMap" where
  "sample_reserves =
     (let st = \<lparr>name = ''rates'', optimalUtilizationRate = ''9'', baseVariableBorrowRate = ''0'', variableRateSlope1 = ''1'',
                variableRateSlope2 = ''2'', stableRateSlope1 = ''1'', stableRateSlope2 = ''2''\<rparr>;
          p = \<lparr>borrowingEnabled = True, stableBorrowRateEnabled = False, reserveDecimals = ''6'',
               baseLTVAsCollateral = ''8000'', liquidationThreshold = ''8500'', liquidationBonus = ''10500'',
               elTokenImpl = ''ELToken'', reserveFactor = ''1000'', strategy = st\<rparr>
      in [(''TUSDC'', p), (''WBTC'', p)])"

lemma sample_address_valid [simp]: "valid_address sample_setup (sample_address n) \<longleftrightarrow> sample_address n \<noteq> ZERO_ADDRESS"
  by (simp add: valid_address_def notFalsyOrZeroAddress_def sample_setup_def sample_platform_def sample_address_def)

lemma sample_address_nonzero: "0 < n \<Longrightarrow> n < 10 \<Longrightarrow> sample_address n \<noteq> ZERO_ADDRESS"
proof -
  assume "0 < n" "n < 10"
  then have "digit_val (digit_char n) \<noteq> digit_val (CHR ''0'')" by (simp add: digit_vals)
  then have "digit_char n \<noteq> CHR ''0''" by metis
  moreover have "last (sample_address n) = digit_char n" by (simp add: sample_address_def)
  moreover have "last ZERO_ADDRESS = CHR ''0''" by (simp add: ZERO_ADDRESS_def)
  ultimately show ?thesis by metis
qed

lemma sample_registered:
  "map_option db_address (w_db registered_world (''ELToken'', n)) = Some (sample_address 4)"
  "map_option db_address (w_db registered_world (''StableDebtToken'', n)) = Some (sample_address 5)"
  "map_option db_address (w_db registered_world (''VariableDebtToken'', n)) = Some (sample_address 6)"
  by (simp_all add: registered_world_def)

lemma sample_unconfigured:
  "map_of (pool_addresses c) ''ELToken'' = None" "map_of (pool_addresses c) ''StableDebtToken'' = None"
  "map_of (pool_addresses c) ''VariableDebtToken'' = None"
  by (simp_all add: pool_addresses_def)

lemma sample_zero: "isZeroAddress (p_addresses sample_platform) ZERO_ADDRESS"
  by (simp add: sample_platform_def)

lemmas sample_fallback =
  fallback_registered[OF sample_zero sample_address_nonempty sample_unconfigured(1) sample_registered(1)]
  fallback_registered[OF sample_zero sample_address_nonempty sample_unconfigured(2) sample_registered(2)]
  fallback_registered[OF sample_zero sample_address_nonempty sample_unconfigured(3) sample_registered(3)]

theorem init_reserves_sent_witness:
  "\<exists>inputs. map ii_underlyingAssetName inputs = [''TUSDC'']
    \<and> map ii_interestRateStrategyAddress inputs = [sample_address 8]
    \<and> map ii_stableDebtTokenImpl inputs = [sample_address 5] \<and> map ii_variableDebtTokenImpl inputs = [sample_address 6]
    \<and> eff_each (\<lambda>i. send sample_setup (BatchInitReserve (sample_address 3) [i])) inputs registered_world
        = (Inr (), registered_world\<lparr>w_chain := 1\<rparr>)"
proof -
  let ?st = "[(''rates'', sample_address 8)]"
  let ?tokens = "[(''TUSDC'', sample_address 7)]"
  let ?i = "\<lparr>ii_elTokenImpl = sample_address 4, ii_stableDebtTokenImpl = sample_address 5,
      ii_variableDebtTokenImpl = sample_address 6, ii_underlyingAssetDecimals = ''6'',
      ii_interestRateStrategyAddress = sample_address 8, ii_underlyingAsset = sample_address 7,
      ii_treasury = sample_address 9, ii_incentivesController = ZERO_ADDRESS, ii_underlyingAssetName = ''TUSDC'',
      ii_elTokenName = ''EL TUSDC'', ii_elTokenSymbol = ''lTUSDC'', ii_variableDebtTokenName = ''VD TUSDC'',
      ii_variableDebtTokenSymbol = ''vdTUSDC'', ii_stableDebtTokenName = ''SD TUSDC'',
      ii_stableDebtTokenSymbol = ''sdTUSDC'', ii_params = ''0x10''\<rparr>"
  have platform: "su_platform sample_setup = sample_platform" by (simp add: sample_setup_def)
  have "init_inputs (decimal scenario_config) sample_setup sample_names p False ?tokens sample_reserves ?st registered_world
      = (Inr [?i], registered_world)" for p
    by (simp add: sample_reserves_def Let_def lookup_address_def ensure_strategy_def init_reserve_input_def platform
        sample_address_nonzero sample_fallback sample_names_def getELTokenExtraParams_def require_def eff_then_def eff_bind_def eff_simps)
  moreover have known: "getLendingPoolAddressesProvider sample_platform None registered_world
      = (Inr \<lparr>h_factory = ''LendingPoolAddressesProviderFactory'', h_address = sample_address 1\<rparr>, registered_world)"
    "getLendingPoolConfiguratorProxy sample_platform None registered_world
      = (Inr \<lparr>h_factory = ''LendingPoolConfiguratorFactory'', h_address = sample_address 3\<rparr>, registered_world)"
    by (simp_all add: getLendingPoolAddressesProvider_def getLendingPoolConfiguratorProxy_def connect_or_db_def
        connect_registered_def eff_bind_def eff_simps registered_world_def)
  moreover have "send sample_setup c registered_world = (Inr (), registered_world\<lparr>w_chain := 1\<rparr>)" for c
    by (simp add: send_def on_chain_def sample_setup_def registered_world_def)
  ultimately have run: "initReservesByHelper (decimal scenario_config) sample_setup sample_names sample_reserves ?tokens False
      None None ?st registered_world = (Inr (), registered_world\<lparr>w_chain := 1\<rparr>)"
    by (simp add: initReservesByHelper_def platform chunk_singletons[simplified] eff_then_def eff_bind_def eff_simps)
  have names: "{''StableDebtToken'', ''VariableDebtToken''} \<union> (\<lambda>r. elTokenImpl (snd r)) ` set sample_reserves
      \<subseteq> - strategy_entries sample_reserves"
    by (simp add: sample_reserves_def strategy_entries_def Let_def)
  from init_reserves_sent[OF run names] obtain F inputs configurator w1 where F: "extends_strategies F ?st"
    and fits: "list_all2 (\<lambda>r i. input_fits sample_setup sample_names ?tokens F r i
        \<and> implementations_found (decimal scenario_config) sample_setup sample_names registered_world r i)
      (filter (\<lambda>r. lookup_address ?tokens (fst r) \<noteq> '''') sample_reserves) inputs"
    and given: "list_all (\<lambda>r. lookup_address ?st (name (strategy (snd r))) \<noteq> '''') sample_reserves \<longrightarrow> w1 = registered_world"
    and proxy: "getLendingPoolConfiguratorProxy (su_platform sample_setup) None w1 = (Inr configurator, w1)"
    and sent: "eff_each (\<lambda>i. send sample_setup (BatchInitReserve (h_address configurator) [i])) inputs w1
      = (Inr (), registered_world\<lparr>w_chain := 1\<rparr>)"
    by blast
  have rates: "lookup_address F ''rates'' = sample_address 8"
    using F by (auto simp: extends_strategies_def lookup_address_def split: option.splits if_splits)
  have w1: "w1 = registered_world" using given by (simp add: sample_reserves_def Let_def lookup_address_def)
  then have "h_address configurator = sample_address 3"
    using proxy known(2) by (auto simp: platform)
  moreover obtain r i where "inputs = [i]" "input_fits sample_setup sample_names ?tokens F (''TUSDC'', r) i"
    "implementations_found (decimal scenario_config) sample_setup sample_names registered_world (''TUSDC'', r) i"
    "name (strategy r) = ''rates''"
    using fits by (auto simp: sample_reserves_def Let_def lookup_address_def list_all2_Cons1)
  ultimately show ?thesis
    using sent rates by (intro exI[of _ inputs]) (auto simp: w1 input_fits_def implementations_found_def sample_fallback platform sample_names_def)
qed

end
