(* ===== verification/Pool_Admin.thy ===== *)
theory Pool_Admin
  imports Setup_Properties
begin

text \<open>
  The pool administrator while the reserves are configured. The interface is what the configuration relies on:
  a transaction that sets the administrator, and transactions that do not. It is interpreted on the
  administrator functions of \<open>contracts/protocol/configuration/LendingPoolAddressesProvider.sol\<close>; what the
  configurator does to the reserves, which reads the administrator and writes other contracts, is a
  parameter.
\<close>

section \<open>The addresses provider\<close>

record addresses_provider =
  ap_owner :: string
  ap_addresses :: "string \<Rightarrow> string"

definition POOL_ADMIN :: string where "POOL_ADMIN = ''POOL_ADMIN''"

definition getAddress :: "addresses_provider \<Rightarrow> string \<Rightarrow> string" where
  "getAddress p contractId = ap_addresses p contractId"

definition getPoolAdmin :: "addresses_provider \<Rightarrow> string" where
  "getPoolAdmin p = getAddress p POOL_ADMIN"

text \<open>\<open>setPoolAdmin\<close> with the sender of the message; \<open>None\<close> is a revert of \<open>onlyOwner\<close>.\<close>

definition setPoolAdmin :: "string \<Rightarrow> string \<Rightarrow> addresses_provider \<Rightarrow> addresses_provider option" where
  "setPoolAdmin sender admin p =
     (if sender = ap_owner p then Some (p\<lparr>ap_addresses := (ap_addresses p)(POOL_ADMIN := admin)\<rparr>) else None)"

text \<open>
  The provider and the other contracts; a transaction that reverts changes nothing. There is one provider, and every
  administrator is set in it: the address a transaction is sent to is that of the market's provider.
\<close>

record 'r protocol =
  pr_provider :: addresses_provider
  pr_rest :: 'r

definition provider_send ::
  "string \<Rightarrow> (string \<Rightarrow> setup_call \<Rightarrow> 'r \<Rightarrow> 'r option) \<Rightarrow> setup_call \<Rightarrow> ('r protocol, js_error, unit) eff" where
  "provider_send sender others call c =
     (case call of
        SetPoolAdmin provider admin \<Rightarrow>
          (case setPoolAdmin sender admin (pr_provider c) of
             None \<Rightarrow> (Inl (Error ''transaction reverted''), c)
           | Some p \<Rightarrow> (Inr (), c\<lparr>pr_provider := p\<rparr>))
      | _ \<Rightarrow>
          (case others (getPoolAdmin (pr_provider c)) call (pr_rest c) of
             None \<Rightarrow> (Inl (Error ''transaction reverted''), c)
           | Some r \<Rightarrow> (Inr (), c\<lparr>pr_rest := r\<rparr>)))"

section \<open>The interface\<close>

locale pool_admin_chain =
  fixes transact :: "setup_call \<Rightarrow> ('w, js_error, unit) eff"
    and pool_admin :: "'w \<Rightarrow> string"
  assumes set_admin: "transact (SetPoolAdmin provider a) c = (Inr (), c') \<Longrightarrow> pool_admin c' = a"
    and set_admin_fails: "transact (SetPoolAdmin provider a) c = (Inl e, c') \<Longrightarrow> pool_admin c' = pool_admin c"
    and configure_keeps: "transact (ConfigureReserves helper inputs) c = (r, c') \<Longrightarrow> pool_admin c' = pool_admin c"
begin

lemma send_cases:
  assumes "su_send S = transact" and "send S call w = (r, w')"
  shows "transact call (w_chain w) = (r, w_chain w')"
  using assms by (auto simp: send_def on_chain_def split: prod.splits)

lemma configure_each_keeps:
  assumes S: "su_send S = transact"
  shows "eff_each (\<lambda>chunk. send S (ConfigureReserves helper chunk)) chunks w = (r, w') \<Longrightarrow>
    pool_admin (w_chain w') = pool_admin (w_chain w)"
proof (induction chunks arbitrary: w)
  case (Cons c chunks)
  obtain r1 w1 where 1: "send S (ConfigureReserves helper c) w = (r1, w1)" by fastforce
  have "pool_admin (w_chain w1) = pool_admin (w_chain w)"
    using configure_keeps[OF send_cases[OF S 1]] .
  then show ?case
    using Cons 1 by (cases r1) (auto simp: eff_then_def eff_bind_def)
qed (simp add: eff_simps)

lemma configure_calls:
  assumes S: "su_send S = transact"
    and run: "eff_then (send S (SetPoolAdmin provider helper))
       (eff_then (eff_each (\<lambda>chunk. send S (ConfigureReserves helper chunk)) chunks)
       (send S (SetPoolAdmin provider admin))) w = (r, w')"
  shows "case r of Inr _ \<Rightarrow> pool_admin (w_chain w') = admin
         | Inl _ \<Rightarrow> pool_admin (w_chain w') \<in> {pool_admin (w_chain w), helper}"
proof -
  obtain r1 w1 where 1: "send S (SetPoolAdmin provider helper) w = (r1, w1)" by fastforce
  obtain r2 w2 where 2: "eff_each (\<lambda>chunk. send S (ConfigureReserves helper chunk)) chunks w1 = (r2, w2)" by fastforce
  obtain r3 w3 where 3: "send S (SetPoolAdmin provider admin) w2 = (r3, w3)" by fastforce
  note e = send_cases[OF S 1] configure_each_keeps[OF S 2] send_cases[OF S 3]
  show ?thesis
  proof (cases r1)
    case (Inl err)
    then show ?thesis using run 1 set_admin_fails e(1) by (auto simp: eff_then_def eff_bind_def)
  next
    case (Inr u)
    have a: "pool_admin (w_chain w1) = helper" using set_admin e(1) Inr by simp
    show ?thesis
    proof (cases r2)
      case (Inl err)
      then show ?thesis using run 1 2 Inr a e(2) by (auto simp: eff_then_def eff_bind_def)
    next
      case (Inr u')
      have "(r, w') = (r3, w3)" using run 1 2 3 \<open>r1 = Inr u\<close> Inr by (simp add: eff_then_def eff_bind_def)
      then show ?thesis
        using a e(2) set_admin set_admin_fails e(3) by (cases r3) auto
    qed
  qed
qed

end

text \<open>The transactions of the configuration.\<close>

definition configure_transactions ::
  "'w reserve_setup \<Rightarrow> string \<Rightarrow> string \<Rightarrow> string \<Rightarrow> config_input list \<Rightarrow> ('w world, js_error, unit) eff" where
  "configure_transactions S provider helper admin inputs =
     eff_then (send S (SetPoolAdmin provider helper))
     (eff_then (eff_each (\<lambda>chunk. send S (ConfigureReserves helper chunk)) (chunk inputs 20))
     (send S (SetPoolAdmin provider admin)))"

lemma eff_bind_pure_changed:
  "eff_pure m \<Longrightarrow> eff_bind m f w = (r, w') \<Longrightarrow> w' \<noteq> w \<Longrightarrow> \<exists>a. m w = (Inr a, w) \<and> f a w = (r, w')"
  by (cases "m w") (auto simp: eff_bind_def dest: eff_pureD split: sum.splits)

lemma config_inputs_pure [intro, simp]: "eff_pure (config_inputs S helpers tokenAddresses reserves)"
  by (induction S helpers tokenAddresses reserves rule: config_inputs.induct)
    (auto simp: Let_def require_def intro!: eff_pure_bind eff_pure_then)

interpretation provider: pool_admin_chain "provider_send sender others" "\<lambda>c. getPoolAdmin (pr_provider c)"
  by unfold_locales
    (auto simp: provider_send_def setPoolAdmin_def getPoolAdmin_def getAddress_def split: option.splits if_splits)

text \<open>
  C22. After the reserves have been configured the administrator of the pool is the given one, unless there was nothing
  to configure and nothing was sent; when a transaction fails, the administrator is the one before or the
  helper contract, which is not taken back.
\<close>

theorem configure_reserves_admin:
  assumes "su_send S = provider_send sender others"
    and "configureReservesByHelper S reserves tokenAddresses helpers admin providerAddress helperAddress w = (r, w')"
  shows "w' = w
       \<or> (case r of
            Inr _ \<Rightarrow> getPoolAdmin (pr_provider (w_chain w')) = admin
          | Inl _ \<Rightarrow>
              \<exists>helper. getELTokensAndRatesHelper (su_platform S) helperAddress w = (Inr helper, w)
                \<and> getPoolAdmin (pr_provider (w_chain w'))
                    \<in> {getPoolAdmin (pr_provider (w_chain w)), h_address helper})"
proof (cases "w' = w")
  case changed: False
  have "eff_bind (getLendingPoolAddressesProvider (su_platform S) providerAddress) (\<lambda>addressProvider :: contract_handle.
     eff_bind (getELTokensAndRatesHelper (su_platform S) helperAddress) (\<lambda>deployer :: contract_handle.
     eff_bind (config_inputs S helpers tokenAddresses reserves) (\<lambda>inputParams.
     if inputParams = [] then eff_return ()
     else configure_transactions S (h_address addressProvider) (h_address deployer) admin inputParams))) w = (r, w')"
    using assms(2) by (simp add: configureReservesByHelper_def configure_transactions_def cong: if_cong)
  from eff_bind_pure_changed[OF getters_pure(4) this changed] obtain p :: contract_handle where
    "eff_bind (getELTokensAndRatesHelper (su_platform S) helperAddress) (\<lambda>deployer :: contract_handle.
     eff_bind (config_inputs S helpers tokenAddresses reserves) (\<lambda>inputParams.
     if inputParams = [] then eff_return ()
     else configure_transactions S (h_address p) (h_address deployer) admin inputParams)) w = (r, w')" by blast
  from eff_bind_pure_changed[OF getters_pure(6) this changed] obtain d where
    d: "getELTokensAndRatesHelper (su_platform S) helperAddress w = (Inr d, w)"
    and "eff_bind (config_inputs S helpers tokenAddresses reserves) (\<lambda>inputParams.
     if inputParams = [] then eff_return ()
     else configure_transactions S (h_address p) (h_address d) admin inputParams) w = (r, w')" by blast
  from eff_bind_pure_changed[OF config_inputs_pure this(2) changed] obtain inputs where
    "(if inputs = [] then eff_return () else configure_transactions S (h_address p) (h_address d) admin inputs) w = (r, w')"
    by blast
  then have "configure_transactions S (h_address p) (h_address d) admin inputs w = (r, w')"
    using changed by (auto simp: eff_simps split: if_splits)
  from provider.configure_calls[OF assms(1) this[unfolded configure_transactions_def]] d show ?thesis
    by (auto split: sum.splits)
qed simp

section \<open>A sample\<close>

text \<open>A protocol whose configurator refuses every configuration.\<close>

definition protocol_platform :: "unit protocol platform" where
  "protocol_platform =
     \<lparr>p_network = ''testnet'', p_FORK = None, p_MAINNET_FORK = None, p_signers = [''0xa0''],
      p_addresses = p_addresses sample_platform, p_hash = (\<lambda>s. s), p_artifact = (\<lambda>_. \<lparr>bytecode = '''', linkReferences = []\<rparr>),
      p_deploy = (\<lambda>f libs args c. (Inl (Error ''no deployment''), c)),
      p_deployBytecode = (\<lambda>code c. (Inl (Error ''no deployment''), c)),
      p_deployData = (\<lambda>f libs args. ''0x''), p_bytecodeData = (\<lambda>code. code), p_deployed = (\<lambda>inst c. (Inr (), c)),
      p_call = (\<lambda>_ _ _ c. (Inr (), c)),
      p_verifier = \<lparr>ve_ETHERSCAN_KEY = None, ve_network = ''testnet'', ve_newFile = (\<lambda>c. (Inl ''no file'', c)),
                    ve_run = (\<lambda>_ _ c. (Inr (), c)), ve_cleanup = (\<lambda>_ c. c)\<rparr>\<rparr>"

definition protocol_setup :: "unit protocol reserve_setup" where
  "protocol_setup =
     \<lparr>su_platform = protocol_platform, su_send = provider_send ''0xa0'' (\<lambda>admin call r. None),
      su_alreadyEnabled = (\<lambda>_ _ _. False)\<rparr>"

definition protocol_world :: "unit protocol world" where
  "protocol_world =
     \<lparr>w_db = w_db registered_world,
      w_chain = \<lparr>pr_provider = \<lparr>ap_owner = ''0xa0'', ap_addresses = (\<lambda>_. ''0xa1'')\<rparr>, pr_rest = ()\<rparr>\<rparr>"

theorem configure_reserves_admin_witness:
  "\<exists>w'. configureReservesByHelper protocol_setup sample_reserves [(''TUSDC'', sample_address 7)] '''' ''0xa1'' None None
          protocol_world = (Inl (Error ''transaction reverted''), w')
      \<and> getPoolAdmin (pr_provider (w_chain w')) \<in> {''0xa1'', sample_address 2}
      \<and> w' \<noteq> protocol_world"
proof -
  have valid: "valid_address protocol_setup (sample_address 7)"
    using sample_address_nonzero[of 7]
    by (simp add: protocol_setup_def protocol_platform_def valid_address_def notFalsyOrZeroAddress_def
        sample_platform_def sample_address_def)
  define w' where "w' = protocol_world\<lparr>w_chain := \<lparr>pr_provider =
      \<lparr>ap_owner = ''0xa0'', ap_addresses = (\<lambda>_. ''0xa1'')(POOL_ADMIN := sample_address 2)\<rparr>, pr_rest = ()\<rparr>\<rparr>"
  have inputs: "\<exists>i. config_inputs protocol_setup '''' [(''TUSDC'', sample_address 7)] sample_reserves protocol_world
      = (Inr [i], protocol_world)"
    by (simp add: sample_reserves_def Let_def lookup_address_def valid require_def eff_then_def eff_bind_def eff_simps)
      (simp add: protocol_setup_def)
  have P: "su_platform protocol_setup = protocol_platform" by (simp add: protocol_setup_def)
  have getters: "getLendingPoolAddressesProvider protocol_platform None protocol_world
      = (Inr \<lparr>h_factory = ''LendingPoolAddressesProviderFactory'', h_address = sample_address 1\<rparr>, protocol_world)"
    "getELTokensAndRatesHelper protocol_platform None protocol_world
      = (Inr \<lparr>h_factory = ''ELTokensAndRatesHelperFactory'', h_address = sample_address 2\<rparr>, protocol_world)"
    by (simp_all add: getLendingPoolAddressesProvider_def getELTokensAndRatesHelper_def connect_or_db_def
        connect_registered_def eff_bind_def eff_simps protocol_world_def registered_world_def protocol_platform_def)
  have sends: "send protocol_setup (SetPoolAdmin p (sample_address 2)) protocol_world = (Inr (), w')"
    "send protocol_setup (ConfigureReserves h cs) w' = (Inl (Error ''transaction reverted''), w')" for p h cs
    by (simp_all add: send_def on_chain_def protocol_setup_def provider_send_def setPoolAdmin_def protocol_world_def w'_def)
  have run: "configureReservesByHelper protocol_setup sample_reserves [(''TUSDC'', sample_address 7)] '''' ''0xa1'' None None
      protocol_world = (Inl (Error ''transaction reverted''), w')"
    using inputs
    by (auto simp: configureReservesByHelper_def P getters sends eff_then_def eff_bind_def chunk_slices)
  have changed: "w' \<noteq> protocol_world"
  proof
    assume "w' = protocol_world"
    then have "sample_address 2 = ''0xa1''"
      by (auto simp: w'_def protocol_world_def fun_upd_def dest!: fun_cong[of _ _ POOL_ADMIN])
    then have "length (sample_address 2) = 4" by simp
    then show False by (simp add: sample_address_def)
  qed
  have send: "su_send protocol_setup = provider_send ''0xa0'' (\<lambda>admin call r. None)"
    by (simp add: protocol_setup_def)
  have before: "getPoolAdmin (pr_provider (w_chain protocol_world)) = ''0xa1''"
    by (simp add: getPoolAdmin_def getAddress_def protocol_world_def)
  have "getPoolAdmin (pr_provider (w_chain w')) \<in> {''0xa1'', sample_address 2}"
    using configure_reserves_admin[OF send run] changed by (simp add: P getters(2) before)
  then show ?thesis using run changed by blast
qed

end
