(* ===== verification/Factory_Deployment.thy ===== *)
theory Factory_Deployment
  imports Contract_Registry
begin

text \<open>
  The deployment through a factory contract and the parameters of signatures and adapters, from
  \<open>helpers/contracts-helpers.ts\<close>. The factory computes the address of a contract from its byte code,
  its arguments and a salt; its answers, the node and the encoders are a parameter.
\<close>

section \<open>Deployment through the factory\<close>

record bytecode_file =
  bf_contractName :: string
  bf_constructorArgs :: string

text \<open>
  \<open>f_deploy\<close> sends the transaction and waits for it; \<open>f_call\<close> asks the node for the address it would
  give, \<open>None\<close> when the signer has no provider.
\<close>

record 'w factory =
  f_userKey :: "string option"
  f_network :: string
  f_platform :: "'w platform"
  f_keccak :: "string \<Rightarrow> string"
  f_readArtifact :: "string \<Rightarrow> ('w, js_error, bytecode_file) eff"
  f_bytecode :: "string \<Rightarrow> ('w, js_error, string) eff"
  f_encode :: "string \<Rightarrow> string \<Rightarrow> string \<Rightarrow> string"
  f_call :: "string \<Rightarrow> ('w, js_error, string option) eff"
  f_getCode :: "string \<Rightarrow> ('w, js_error, string) eff"
  f_deploy :: "string \<Rightarrow> string \<Rightarrow> string \<Rightarrow> nat \<Rightarrow> ('w, js_error, unit) eff"

record deployed_contract =
  dc_contract :: "contract_handle option"
  dc_address :: string
  dc_contractAddress :: string

text \<open>
  \<open>'0x' + answer?.slice(answer.length - 40)\<close>: the last forty characters; a negative start counts from the
  end, and no answer is written \<open>undefined\<close>.
\<close>

definition address_of_answer :: "string option \<Rightarrow> string" where
  "address_of_answer answer =
     ''0x'' @ (case answer of
        None \<Rightarrow> ''undefined''
      | Some s \<Rightarrow> if 40 \<le> length s then drop (length s - 40) s else drop (2 * length s - 40) s)"

definition deployToElectroneumTestnet :: "'w factory \<Rightarrow> string \<Rightarrow> ('w, js_error, deployed_contract) eff" where
  "deployToElectroneumTestnet F contractId =
     (if f_userKey F = None \<or> f_userKey F = Some ''''
      then eff_throw (Error ''USER_PRIVATE_KEY is empty, set env'')
      else
        eff_bind (f_readArtifact F contractId) (\<lambda>bytecodeFile.
        let salt = f_keccak F contractId in
        eff_bind (f_bytecode F (bf_contractName bytecodeFile)) (\<lambda>code.
        let callData = f_encode F code (bf_constructorArgs bytecodeFile) salt in
        eff_bind (f_call F callData) (\<lambda>answer.
        let contractAddressHex = address_of_answer answer;
            handle = \<lparr>h_factory = bf_contractName bytecodeFile, h_address = contractAddressHex\<rparr>;
            found = \<lparr>dc_contract = Some handle, dc_address = contractAddressHex, dc_contractAddress = contractAddressHex\<rparr> in
        eff_bind (f_getCode F contractAddressHex) (\<lambda>contractExists.
        if contractExists \<noteq> ''0x'' then eff_return found
        else if f_network F = eElectroneumNetwork_name mainnet then
          eff_then (f_deploy F code (bf_constructorArgs bytecodeFile) salt 6000000) (eff_return found)
        else
          let expected = getElectroneumDeploymentAddress (f_platform F) contractId callData in
          eff_return \<lparr>dc_contract = None, dc_address = expected, dc_contractAddress = expected\<rparr>)))))"

text \<open>Outside the main network nothing is ever sent: a missing contract gets the address it would have.\<close>

lemma testnet_sends_nothing:
  assumes "f_network F \<noteq> eElectroneumNetwork_name mainnet"
    and "\<And>i. eff_pure (f_readArtifact F i)" and "\<And>n. eff_pure (f_bytecode F n)"
    and "\<And>d. eff_pure (f_call F d)" and "\<And>a. eff_pure (f_getCode F a)"
  shows "eff_pure (deployToElectroneumTestnet F contractId)"
  using assms by (auto simp: deployToElectroneumTestnet_def Let_def intro!: eff_pure_bind)

text \<open>A contract that is there already is not deployed again.\<close>

lemma existing_not_deployed:
  assumes "f_userKey F = Some key" "key \<noteq> ''''"
    and "f_readArtifact F contractId w = (Inr file, w)" and "f_bytecode F (bf_contractName file) w = (Inr code, w)"
    and "f_call F (f_encode F code (bf_constructorArgs file) (f_keccak F contractId)) w = (Inr answer, w)"
    and "f_getCode F (address_of_answer answer) w = (Inr there, w)" and "there \<noteq> ''0x''"
  shows "\<exists>d. deployToElectroneumTestnet F contractId w = (Inr d, w) \<and> dc_address d = address_of_answer answer"
  using assms by (simp add: deployToElectroneumTestnet_def eff_bind_def eff_simps Let_def)

lemma address_of_word: "length s = 64 \<Longrightarrow> address_of_answer (Some (''0x'' @ s)) = ''0x'' @ drop 24 s"
  by (simp add: address_of_answer_def)

section \<open>Parameters of signatures and adapters\<close>

text \<open>The typed data of a permit.\<close>

record typed_field =
  tf_name :: string
  tf_type :: string

record permit_domain =
  pd_name :: string
  pd_version :: string
  pd_chainId :: int
  pd_verifyingContract :: string

record permit_message =
  pm_owner :: string
  pm_spender :: string
  pm_value :: string
  pm_nonce :: int
  pm_deadline :: string

record permit_params =
  pp_types :: "(string \<times> typed_field list) list"
  pp_primaryType :: string
  pp_domain :: permit_domain
  pp_message :: permit_message

definition typed_fields :: "(string \<times> string) list \<Rightarrow> typed_field list" where
  "typed_fields = map (\<lambda>(n, t). \<lparr>tf_name = n, tf_type = t\<rparr>)"

definition buildPermitParams ::
  "int \<Rightarrow> string \<Rightarrow> string \<Rightarrow> string \<Rightarrow> string \<Rightarrow> string \<Rightarrow> int \<Rightarrow> string \<Rightarrow> string \<Rightarrow> permit_params" where
  "buildPermitParams chainId token revision tokenName owner spender nonce deadline value =
     \<lparr>pp_types =
        [(''EIP712Domain'', typed_fields
            [(''name'', ''string''), (''version'', ''string''), (''chainId'', ''uint256''), (''verifyingContract'', ''address'')]),
         (''Permit'', typed_fields
            [(''owner'', ''address''), (''spender'', ''address''), (''value'', ''uint256''), (''nonce'', ''uint256''),
             (''deadline'', ''uint256'')])],
      pp_primaryType = ''Permit'',
      pp_domain = \<lparr>pd_name = tokenName, pd_version = revision, pd_chainId = chainId, pd_verifyingContract = token\<rparr>,
      pp_message = \<lparr>pm_owner = owner, pm_spender = spender, pm_value = value, pm_nonce = nonce, pm_deadline = deadline\<rparr>\<rparr>"

text \<open>Two permits have the same data only if they agree in every argument.\<close>

lemma buildPermitParams_injective:
  "buildPermitParams c t r n ow sp no de va = buildPermitParams c' t' r' n' ow' sp' no' de' va' \<longleftrightarrow>
   c = c' \<and> t = t' \<and> r = r' \<and> n = n' \<and> ow = ow' \<and> sp = sp' \<and> no = no' \<and> de = de' \<and> va = va'"
  by (auto simp: buildPermitParams_def)

text \<open>\<open>signTypedData_v4\<close> with the bytes of the key after its prefix, and the conversion of the signature.\<close>

definition getSignatureFromTypedData ::
  "(string \<Rightarrow> 'data \<Rightarrow> string) \<Rightarrow> (string \<Rightarrow> 'signature) \<Rightarrow> string \<Rightarrow> 'data \<Rightarrow> 'signature" where
  "getSignatureFromTypedData sign fromRpcSig privateKey typedData =
     fromRpcSig (sign (take 64 (drop 2 privateKey)) typedData)"

text \<open>The values of the ABI encoder, and the encoding of the parameters of the two adapters.\<close>

datatype abi_value =
    Abi_address string | Abi_uint string | Abi_bool bool | Abi_bytes32 string
  | Abi_addresses "string list" | Abi_uints "string list" | Abi_bools "bool list" | Abi_bytes32s "string list"

definition buildLiquiditySwapParams ::
  "(string list \<Rightarrow> abi_value list \<Rightarrow> string) \<Rightarrow> string list \<Rightarrow> string list \<Rightarrow> bool list \<Rightarrow> string list \<Rightarrow> string list
   \<Rightarrow> string list \<Rightarrow> string list \<Rightarrow> string list \<Rightarrow> bool list \<Rightarrow> string" where
  "buildLiquiditySwapParams encode assetToSwapToList minAmountsToReceive swapAllBalances permitAmounts deadlines v r s useEthPath =
     encode
       [''address[]'', ''uint256[]'', ''bool[]'', ''uint256[]'', ''uint256[]'', ''uint8[]'', ''bytes32[]'', ''bytes32[]'', ''bool[]'']
       [Abi_addresses assetToSwapToList, Abi_uints minAmountsToReceive, Abi_bools swapAllBalances, Abi_uints permitAmounts,
        Abi_uints deadlines, Abi_uints v, Abi_bytes32s r, Abi_bytes32s s, Abi_bools useEthPath]"

definition buildRepayAdapterParams ::
  "(string list \<Rightarrow> abi_value list \<Rightarrow> string) \<Rightarrow> tEthereumAddress \<Rightarrow> string \<Rightarrow> string \<Rightarrow> string
   \<Rightarrow> string \<Rightarrow> string \<Rightarrow> string \<Rightarrow> string \<Rightarrow> bool \<Rightarrow> string" where
  "buildRepayAdapterParams encode collateralAsset collateralAmount rateMode permitAmount deadline v r s useEthPath =
     encode
       [''address'', ''uint256'', ''uint256'', ''uint256'', ''uint256'', ''uint8'', ''bytes32'', ''bytes32'', ''bool'']
       [Abi_address collateralAsset, Abi_uint collateralAmount, Abi_uint rateMode, Abi_uint permitAmount, Abi_uint deadline,
        Abi_uint v, Abi_bytes32 r, Abi_bytes32 s, Abi_bool useEthPath]"

text \<open>An amount in the smallest unit of a token as a number of tokens; the decimals are read from the token.\<close>

definition convertToCurrencyUnits ::
  "'n bn \<Rightarrow> 'w platform \<Rightarrow> (string \<Rightarrow> ('w, js_error, nat) eff) \<Rightarrow> string \<Rightarrow> string \<Rightarrow> ('w world, js_error, string) eff" where
  "convertToCurrencyUnits B P token_decimals tokenAddress amount =
     eff_bind (getIErc20Detailed P (Some tokenAddress)) (\<lambda>token.
     eff_bind (on_chain (token_decimals (h_address token))) (\<lambda>decimals.
     eff_return (bn_toFixed B (bn_div B (bn_new B amount) (bn_pow B (bn_new B ''10'') decimals)))))"

section \<open>Networks of the build configuration\<close>

text \<open>
  \<open>helper-hardhat-config.ts\<close>: the node and the default price of gas of each network, and the fork that the local
  node starts from.
\<close>

definition GWEI :: nat where
  "GWEI = 1000 * 1000 * 1000"

definition NETWORKS_RPC_URL :: "string SymbolMap" where
  "NETWORKS_RPC_URL =
    [(eEthereumNetwork_name coverage, ''http://localhost:8555''),
     (eEthereumNetwork_name hardhat, ''http://localhost:8545''),
     (eEthereumNetwork_name buidlerevm, ''http://localhost:8545''),
     (eEthereumNetwork_name tenderly, ''https://rpc.tenderly.co/fork/''),
     (eElectroneumNetwork_name testnet, ''https://rpc.ankr.com/electroneum_testnet''),
     (eElectroneumNetwork_name mainnet, ''https://rpc.ankr.com/electroneum'')]"

definition NETWORKS_DEFAULT_GAS :: "nat SymbolMap" where
  "NETWORKS_DEFAULT_GAS =
    [(eEthereumNetwork_name coverage, 65 * GWEI),
     (eEthereumNetwork_name hardhat, 65 * GWEI),
     (eEthereumNetwork_name buidlerevm, 65 * GWEI),
     (eEthereumNetwork_name tenderly, 1 * GWEI),
     (eElectroneumNetwork_name testnet, 65 * GWEI),
     (eElectroneumNetwork_name mainnet, 100 * GWEI)]"

definition BLOCK_TO_FORK :: "nat option SymbolMap" where
  "BLOCK_TO_FORK =
    [(eEthereumNetwork_name coverage, None),
     (eEthereumNetwork_name hardhat, None),
     (eEthereumNetwork_name buidlerevm, None),
     (eEthereumNetwork_name tenderly, None),
     (eElectroneumNetwork_name testnet, None),
     (eElectroneumNetwork_name mainnet, None)]"

record fork_mode =
  fm_url :: "string option"
  fm_blockNumber :: "nat option"

text \<open>
  \<open>FORK\<close> is the empty string and \<open>FORK_BLOCK_NUMBER\<close> zero when the environment does not set them.
\<close>

definition buildForkConfig :: "string \<Rightarrow> nat \<Rightarrow> fork_mode option" where
  "buildForkConfig FORK FORK_BLOCK_NUMBER =
     (if FORK = '''' then None
      else Some \<lparr>fm_url = map_of NETWORKS_RPC_URL FORK,
        fm_blockNumber =
          (if FORK_BLOCK_NUMBER \<noteq> 0 then Some FORK_BLOCK_NUMBER
           else case map_of BLOCK_TO_FORK FORK of Some (Some b) \<Rightarrow> if b = 0 then None else Some b | _ \<Rightarrow> None)\<rparr>)"

lemma fork_of_latest_block: "FORK \<noteq> '''' \<Longrightarrow> buildForkConfig FORK 0 = Some \<lparr>fm_url = map_of NETWORKS_RPC_URL FORK, fm_blockNumber = None\<rparr>"
  by (auto simp: buildForkConfig_def BLOCK_TO_FORK_def split: option.split)

end
