(* ===== verification/Js_Number.thy ===== *)
theory Js_Number
  imports Big_Number
begin

text \<open>
  The numbers of JavaScript: doubles with 53 significant bits, rounded to the nearest and to even in a tie, with
  infinities and NaN, and the conversions between numbers and texts that the web application uses:
  \<open>parseFloat\<close>, \<open>toFixed\<close>. The two zeros are one value here: the application never divides by a zero nor writes
  a number in a way that tells them apart. The definitions follow the standard of the language and compute.
\<close>

section \<open>Rounding to a double\<close>

datatype number = Finite rat | Infinite bool | NaN

function bit_count :: "int \<Rightarrow> nat" where
  "bit_count n = (if n \<le> 0 then 0 else Suc (bit_count (n div 2)))"
  by auto
termination by (relation "measure nat") auto

declare bit_count.simps [simp del]

text \<open>The exponent of the largest power of two up to a positive number.\<close>

definition binade :: "rat \<Rightarrow> int" where
  "binade q =
     (let (a, b) = quotient_of q; e = int (bit_count a) - int (bit_count b)
      in if 2 powi e \<le> q then e else e - 1)"

definition round_half_even :: "rat \<Rightarrow> int" where
  "round_half_even x =
     (let f = \<lfloor>x\<rfloor>; d = x - of_int f
      in if d < 1 / 2 then f else if 1 / 2 < d then f + 1 else if even f then f else f + 1)"

text \<open>
  The unit in the last place of a number: 53 bits, but not below that of the smallest normal numbers.
\<close>

definition unit_exponent :: "rat \<Rightarrow> int" where
  "unit_exponent q = max (binade q - 52) (- 1074)"

definition round_positive :: "rat \<Rightarrow> rat" where
  "round_positive q =
     (let u = 2 powi unit_exponent q in of_int (round_half_even (q / u)) * u)"

definition double :: "rat \<Rightarrow> number" where
  "double q =
     (if q = 0 then Finite 0
      else (let v = round_positive \<bar>q\<bar>
        in if 2 ^ 1024 \<le> v then Infinite (q < 0) else Finite (if q < 0 then - v else v)))"

section \<open>Arithmetic\<close>

fun num_add :: "number \<Rightarrow> number \<Rightarrow> number" where
  "num_add (Finite a) (Finite b) = double (a + b)"
| "num_add (Infinite s) (Finite b) = Infinite s"
| "num_add (Finite a) (Infinite t) = Infinite t"
| "num_add (Infinite s) (Infinite t) = (if s = t then Infinite s else NaN)"
| "num_add _ _ = NaN"

fun num_minus :: "number \<Rightarrow> number" where
  "num_minus (Finite a) = Finite (- a)"
| "num_minus (Infinite s) = Infinite (\<not> s)"
| "num_minus NaN = NaN"

definition num_sub :: "number \<Rightarrow> number \<Rightarrow> number" where
  "num_sub x y = num_add x (num_minus y)"

fun num_mult :: "number \<Rightarrow> number \<Rightarrow> number" where
  "num_mult (Finite a) (Finite b) = double (a * b)"
| "num_mult (Infinite s) (Finite b) = (if b = 0 then NaN else Infinite (s \<noteq> (b < 0)))"
| "num_mult (Finite a) (Infinite t) = (if a = 0 then NaN else Infinite ((a < 0) \<noteq> t))"
| "num_mult (Infinite s) (Infinite t) = Infinite (s \<noteq> t)"
| "num_mult _ _ = NaN"

text \<open>A division by zero gives an infinity of the sign of the dividend: the zeros have no sign here.\<close>

fun num_div :: "number \<Rightarrow> number \<Rightarrow> number" where
  "num_div (Finite a) (Finite b) = (if b = 0 then (if a = 0 then NaN else Infinite (a < 0)) else double (a / b))"
| "num_div (Infinite s) (Finite b) = Infinite (s \<noteq> (b < 0))"
| "num_div (Finite a) (Infinite t) = Finite 0"
| "num_div _ _ = NaN"

text \<open>Comparisons with NaN are false.\<close>

fun num_less :: "number \<Rightarrow> number \<Rightarrow> bool" where
  "num_less (Finite a) (Finite b) \<longleftrightarrow> a < b"
| "num_less (Infinite s) (Finite b) \<longleftrightarrow> s"
| "num_less (Finite a) (Infinite t) \<longleftrightarrow> \<not> t"
| "num_less (Infinite s) (Infinite t) \<longleftrightarrow> s \<and> \<not> t"
| "num_less _ _ \<longleftrightarrow> False"

definition num_le :: "number \<Rightarrow> number \<Rightarrow> bool" where
  "num_le x y \<longleftrightarrow> num_less x y \<or> (x = y \<and> x \<noteq> NaN)"

text \<open>\<open>Math.max\<close>\<close>

definition num_max :: "number \<Rightarrow> number \<Rightarrow> number" where
  "num_max x y = (if x = NaN \<or> y = NaN then NaN else if num_less x y then y else x)"

section \<open>Numbers to texts\<close>

function decimal_string :: "int \<Rightarrow> string" where
  "decimal_string n =
     (if n < 10 then [digit_char (nat n)] else decimal_string (n div 10) @ [digit_char (nat (n mod 10))])"
  by auto
termination by (relation "measure nat") auto

declare decimal_string.simps [simp del]

text \<open>The decimal numeral of \<open>n / 10 ^ d\<close> with \<open>d\<close> places.\<close>

definition fixed_string :: "nat \<Rightarrow> int \<Rightarrow> string" where
  "fixed_string d n =
     (let s = decimal_string n; z = replicate (d + 1 - length s) (CHR ''0'') @ s; k = length z - d
      in if d = 0 then z else take k z @ ''.'' @ drop k z)"

text \<open>
  The shortest digits of a large number that are read back as the number, for a number that is written in
  scientific notation: \<open>17\<close> digits are enough for every double.
\<close>

definition with_digits :: "rat \<Rightarrow> nat \<Rightarrow> int \<times> nat" where
  "with_digits q k = (let j = length (decimal_string \<lfloor>q\<rfloor>) - k in (round_half_even (q / 10 ^ j), j))"

definition scientific :: "int \<times> nat \<Rightarrow> string" where
  "scientific = (\<lambda>(s, j). let digits = decimal_string s; e = ''e+'' @ decimal_string (int (length digits - 1 + j));
       significant = rev (dropWhile (\<lambda>c. c = CHR ''0'') (rev digits))
     in case significant of [] \<Rightarrow> ''0'' | [c] \<Rightarrow> [c] @ e | c # cs \<Rightarrow> [c] @ ''.'' @ cs @ e)"

definition large_string :: "rat \<Rightarrow> string" where
  "large_string q =
     (case find (\<lambda>k. case with_digits q k of (s, j) \<Rightarrow> double (of_int (s * 10 ^ j)) = Finite q) [1..<17] of
        Some k \<Rightarrow> scientific (with_digits q k)
      | None \<Rightarrow> scientific (with_digits q 17))"

text \<open>\<open>Number.prototype.toFixed\<close>: the nearest number with \<open>d\<close> places, the larger one in a tie, of the magnitude.\<close>

fun toFixed :: "nat \<Rightarrow> number \<Rightarrow> string" where
  "toFixed d (Finite q) =
     (if q < 0 then ''-'' else '''') @
     (if 10 ^ 21 \<le> \<bar>q\<bar> then large_string \<bar>q\<bar> else fixed_string d \<lfloor>\<bar>q\<bar> * 10 ^ d + 1 / 2\<rfloor>)"
| "toFixed d (Infinite s) = (if s then ''-Infinity'' else ''Infinity'')"
| "toFixed d NaN = ''NaN''"

section \<open>Texts to numbers\<close>

definition is_white :: "char \<Rightarrow> bool" where
  "is_white c \<longleftrightarrow> (of_char c :: nat) \<in> {9, 10, 11, 12, 13, 32, 160}"

text \<open>An exponent counts when it has digits.\<close>

definition exponent_part :: "string \<Rightarrow> int" where
  "exponent_part s =
     (case s of
        c # t \<Rightarrow>
          if c = CHR ''e'' \<or> c = CHR ''E''
          then (let u = (case t of x # v \<Rightarrow> if x = CHR ''+'' \<or> x = CHR ''-'' then v else t | [] \<Rightarrow> t);
                    n = int (digits_val (takeWhile is_digit u))
                in if take 1 t = ''-'' then - n else n)
          else 0
      | [] \<Rightarrow> 0)"

definition parse_number :: "string \<Rightarrow> number" where
  "parse_number s =
     (if take 8 s = ''Infinity'' then Infinite False
      else (let whole = takeWhile is_digit s; r = dropWhile is_digit s;
                fraction = (case r of c # t \<Rightarrow> if c = CHR ''.'' then takeWhile is_digit t else [] | [] \<Rightarrow> []);
                rest = (case r of c # t \<Rightarrow> if c = CHR ''.'' then dropWhile is_digit t else r | [] \<Rightarrow> [])
            in if whole = [] \<and> fraction = [] then NaN
               else double (of_nat (digits_val (whole @ fraction)) * 10 powi (exponent_part rest - int (length fraction)))))"

definition parseFloat :: "string \<Rightarrow> number" where
  "parseFloat s =
     (case dropWhile is_white s of
        c # t \<Rightarrow>
          if c = CHR ''-'' then num_minus (parse_number t)
          else if c = CHR ''+'' then parse_number t
          else parse_number (c # t)
      | [] \<Rightarrow> NaN)"

definition isNaN :: "number \<Rightarrow> bool" where
  "isNaN x \<longleftrightarrow> x = NaN"

end
