(* ===== verification/Lending_Service.thy ===== *)
theory Lending_Service
  imports Effects Js_Number
begin

text \<open>
  The lending service of the web application: \<open>electrolend-ui/src/utils/lendingService.ts\<close>. The wallet
  that the browser injects, the contracts it talks to and the number formats of the ethers library
  are not part of the repository; they are the fields of \<open>ethereum\<close>. Every exception of the service
  is caught: an operation answers \<open>false\<close>, a number answers \<open>"0"\<close>.
\<close>

section \<open>The wallet, the contracts and the library\<close>

text \<open>
  What is thrown carries a message, which may be missing (the empty string), and a code when it
  comes from the wallet.
\<close>

record exn =
  ex_code :: "int option"
  ex_message :: string

definition new_Error :: "string \<Rightarrow> exn" where
  "new_Error m = \<lparr>ex_code = None, ex_message = m\<rparr>"

datatype ui_call =
    Approve string string int
  | Deposit string int
  | Withdraw string int
  | Borrow string int
  | Repay string int

record tx_params =
  gasLimit :: nat
  gasPrice :: nat

record chain_params =
  chainId_hex :: string
  chainName :: string
  currencyName :: string
  currencySymbol :: string
  currencyDecimals :: nat
  rpcUrls :: "string list"
  blockExplorerUrls :: "string list"

text \<open>
  A transaction is sent, which gives its hash, and then waited for. Numbers read from the contracts are
  unsigned; \<open>parseUnits\<close> of a text may be negative. \<open>undefined_address\<close> is what the library throws
  when it is given \<open>undefined\<close> for an address.
\<close>

record 'w ethereum =
  injected :: bool
  eth_requestAccounts :: "('w, exn, unit) eff"
  eth_switchChain :: "string \<Rightarrow> ('w, exn, unit) eff"
  eth_addChain :: "chain_params \<Rightarrow> ('w, exn, unit) eff"
  eth_getNetwork :: "('w, exn, int) eff"
  eth_listAccounts :: "('w, exn, string list) eff"
  eth_getBalance :: "string \<Rightarrow> ('w, exn, nat) eff"
  signer_getAddress :: "('w, exn, string) eff"
  token_decimals :: "string \<Rightarrow> ('w, exn, nat) eff"
  token_balanceOf :: "string \<Rightarrow> string \<Rightarrow> ('w, exn, nat) eff"
  token_allowance :: "string \<Rightarrow> string \<Rightarrow> string \<Rightarrow> ('w, exn, nat) eff"
  lending_deposits :: "string \<Rightarrow> string \<Rightarrow> ('w, exn, nat) eff"
  lending_borrows :: "string \<Rightarrow> string \<Rightarrow> ('w, exn, nat) eff"
  lending_accountInfo :: "string \<Rightarrow> ('w, exn, nat \<times> nat \<times> nat) eff"
  lending_borrowWithInterest :: "string \<Rightarrow> string \<Rightarrow> ('w, exn, nat) eff"
  lending_ltv :: "string \<Rightarrow> ('w, exn, nat) eff"
  lending_borrowAPR :: "string \<Rightarrow> ('w, exn, nat) eff"
  tx_send :: "ui_call \<Rightarrow> tx_params \<Rightarrow> ('w, exn, string) eff"
  tx_wait :: "string \<Rightarrow> ('w, exn, unit) eff"
  undefined_address :: exn
  parseUnits :: "string \<Rightarrow> nat \<Rightarrow> exn + int"
  formatUnits :: "nat \<Rightarrow> nat \<Rightarrow> string"

section \<open>Addresses and prices\<close>

definition LENDING_ADDRESS :: string where
  "LENDING_ADDRESS = ''0x09308a46cb03915a530Cf4365078a3688ec90682''"

definition WETN_ADDRESS :: string where
  "WETN_ADDRESS = ''0x154c9fD7F006b92b6afa746098d8081A831DC1FC''"

definition USDC_ADDRESS :: string where
  "USDC_ADDRESS = ''0x9a110A3Ecc8704e93Bd4FA1bA44D5CF93327202B''"

definition USDT_ADDRESS :: string where
  "USDT_ADDRESS = ''0x02FeC8c559fB598762df8D033bD7A3Df9b374771''"

definition TOKEN_PRICES :: "(string \<times> number) list" where
  "TOKEN_PRICES = [(''WETN'', double (216 / 100000)), (''USDC'', double 1), (''USDT'', double 1)]"

definition TX_PARAMS :: tx_params where
  "TX_PARAMS = \<lparr>gasLimit = 3000000, gasPrice = 100 * 10 ^ 9\<rparr>"

definition getTokenAddress :: "string \<Rightarrow> exn + string" where
  "getTokenAddress symb =
     (let s = toUpperCase symb in
      if s = ''WETN'' then Inr WETN_ADDRESS
      else if s = ''USDC'' then Inr USDC_ADDRESS
      else if s = ''USDT'' then Inr USDT_ADDRESS
      else if s = ''LENDING'' then Inr LENDING_ADDRESS
      else Inl (new_Error (''Unsupported token: '' @ symb)))"

definition getTokenSymbol :: "string \<Rightarrow> exn + string" where
  "getTokenSymbol addr =
     (let normalizedAddress = toLowerCase addr in
      if normalizedAddress = toLowerCase WETN_ADDRESS then Inr ''WETN''
      else if normalizedAddress = toLowerCase USDC_ADDRESS then Inr ''USDC''
      else if normalizedAddress = toLowerCase USDT_ADDRESS then Inr ''USDT''
      else Inl (new_Error (''Unknown token address: '' @ addr)))"

definition getTokenPrice :: "string \<Rightarrow> exn + number" where
  "getTokenPrice symb =
     (case map_of TOKEN_PRICES (toUpperCase symb) of
        Some price \<Rightarrow> Inr price
      | None \<Rightarrow> Inl (new_Error (''Price not available for token: '' @ symb)))"

lemma token_addresses:
  "map (\<lambda>s. getTokenAddress s) [''WETN'', ''USDC'', ''USDT''] = map Inr [WETN_ADDRESS, USDC_ADDRESS, USDT_ADDRESS]"
  by (simp add: getTokenAddress_def toUpperCase_def upper_char_def)

lemma token_symbols:
  "map getTokenSymbol [WETN_ADDRESS, USDC_ADDRESS, USDT_ADDRESS] = map Inr [''WETN'', ''USDC'', ''USDT'']"
  by (simp add: getTokenSymbol_def toLowerCase_def lower_char_def WETN_ADDRESS_def USDC_ADDRESS_def USDT_ADDRESS_def)

text \<open>The symbol of the address of a token is the symbol in upper case; the lending contract has none.\<close>

lemma symbol_of_address:
  assumes "getTokenAddress symb = Inr a" and "toUpperCase symb \<noteq> ''LENDING''"
  shows "getTokenSymbol a = Inr (toUpperCase symb)"
  using assms token_symbols by (auto simp: getTokenAddress_def Let_def split: if_splits)

section \<open>Operations\<close>

definition getSigner :: "'w ethereum \<Rightarrow> ('w, exn, unit) eff" where
  "getSigner E =
     (if \<not> injected E then eff_throw (new_Error ''No Ethereum wallet detected'')
      else eth_requestAccounts E)"

definition getTokenDecimals :: "'w ethereum \<Rightarrow> string \<Rightarrow> ('w, exn, nat) eff" where
  "getTokenDecimals E tokenAddress =
     eff_catch (eff_then (getSigner E) (token_decimals E tokenAddress)) (\<lambda>_. eff_return 18)"

text \<open>\<open>formatAmount\<close> gives the parsed number (its decimal string in the code).\<close>

definition formatAmount :: "'w ethereum \<Rightarrow> string \<Rightarrow> string \<Rightarrow> ('w, exn, int) eff" where
  "formatAmount E amount tokenAddress =
     eff_bind (getTokenDecimals E tokenAddress) (\<lambda>decimals. eff_lift (parseUnits E amount decimals))"

text \<open>\<open>try { ... return true } catch { return false }\<close>\<close>

definition answer :: "('w, exn, bool) eff \<Rightarrow> ('w, exn, bool) eff" where
  "answer m = eff_catch m (\<lambda>_. eff_return False)"

definition confirm :: "'w ethereum \<Rightarrow> ui_call \<Rightarrow> ('w, exn, bool) eff" where
  "confirm E call =
     eff_bind (tx_send E call TX_PARAMS) (\<lambda>hash. eff_then (tx_wait E hash) (eff_return True))"

definition approveToken :: "'w ethereum \<Rightarrow> string \<Rightarrow> string \<Rightarrow> ('w, exn, bool) eff" where
  "approveToken E tokenAddress amount =
     answer
      (eff_then (getSigner E)
      (eff_bind (token_decimals E tokenAddress) (\<lambda>decimals.
       eff_bind (eff_lift (parseUnits E amount decimals)) (\<lambda>formattedAmount.
       eff_bind (signer_getAddress E) (\<lambda>signerAddress.
       eff_bind (token_allowance E tokenAddress signerAddress LENDING_ADDRESS) (\<lambda>allowance.
       if formattedAmount \<le> int allowance then eff_return True
       else confirm E (Approve tokenAddress LENDING_ADDRESS formattedAmount)))))))"

text \<open>What every operation on the lending contract does once nothing has to be approved any more.\<close>

definition submit :: "'w ethereum \<Rightarrow> (string \<Rightarrow> int \<Rightarrow> ui_call) \<Rightarrow> string \<Rightarrow> string \<Rightarrow> ('w, exn, bool) eff" where
  "submit E call tokenAddress amount =
     eff_then (getSigner E)
     (eff_bind (getTokenDecimals E tokenAddress) (\<lambda>decimals.
      eff_bind (eff_lift (parseUnits E amount decimals)) (\<lambda>formattedAmount.
      confirm E (call tokenAddress formattedAmount))))"

definition depositToken :: "'w ethereum \<Rightarrow> string \<Rightarrow> string \<Rightarrow> ('w, exn, bool) eff" where
  "depositToken E tokenAddress amount =
     answer (eff_bind (approveToken E tokenAddress amount) (\<lambda>approved.
       if \<not> approved then eff_return False else submit E Deposit tokenAddress amount))"

definition withdrawToken :: "'w ethereum \<Rightarrow> string \<Rightarrow> string \<Rightarrow> ('w, exn, bool) eff" where
  "withdrawToken E tokenAddress amount = answer (submit E Withdraw tokenAddress amount)"

definition borrowToken :: "'w ethereum \<Rightarrow> string \<Rightarrow> string \<Rightarrow> ('w, exn, bool) eff" where
  "borrowToken E tokenAddress amount = answer (submit E Borrow tokenAddress amount)"

definition repayToken :: "'w ethereum \<Rightarrow> string \<Rightarrow> string \<Rightarrow> ('w, exn, bool) eff" where
  "repayToken E tokenAddress amount =
     answer (eff_bind (approveToken E tokenAddress amount) (\<lambda>approved.
       if \<not> approved then eff_return False else submit E Repay tokenAddress amount))"

section \<open>Balances and account information\<close>

definition number_or_zero :: "('w, exn, string) eff \<Rightarrow> ('w, exn, string) eff" where
  "number_or_zero m = eff_catch m (\<lambda>_. eff_return ''0'')"

definition getTokenBalance :: "'w ethereum \<Rightarrow> string \<Rightarrow> ('w, exn, string) eff" where
  "getTokenBalance E tokenAddress =
     number_or_zero
      (eff_then (getSigner E)
      (eff_bind (signer_getAddress E) (\<lambda>userAddress.
       eff_bind (token_balanceOf E tokenAddress userAddress) (\<lambda>balance.
       eff_bind (token_decimals E tokenAddress) (\<lambda>decimals.
       eff_return (formatUnits E balance decimals))))))"

text \<open>The two readings of the lending contract differ in the call.\<close>

definition read_amount ::
  "'w ethereum \<Rightarrow> (string \<Rightarrow> string \<Rightarrow> ('w, exn, nat) eff) \<Rightarrow> string \<Rightarrow> ('w, exn, string) eff" where
  "read_amount E call tokenAddress =
     number_or_zero
      (eff_then (getSigner E)
      (eff_bind (signer_getAddress E) (\<lambda>userAddress.
       eff_bind (call userAddress tokenAddress) (\<lambda>amount.
       eff_bind (getTokenDecimals E tokenAddress) (\<lambda>decimals.
       eff_return (formatUnits E amount decimals))))))"

definition getDepositedAmount :: "'w ethereum \<Rightarrow> string \<Rightarrow> ('w, exn, string) eff" where
  "getDepositedAmount E tokenAddress = read_amount E (lending_deposits E) tokenAddress"

definition getBorrowedAmount :: "'w ethereum \<Rightarrow> string \<Rightarrow> ('w, exn, string) eff" where
  "getBorrowedAmount E tokenAddress = read_amount E (lending_borrows E) tokenAddress"

record TokenInfo =
  ti_symbol :: string
  ti_balance :: string
  ti_deposited :: string
  ti_borrowed :: string

fun token_infos :: "'w ethereum \<Rightarrow> (string \<times> string) list \<Rightarrow> ('w, exn, (string \<times> TokenInfo) list) eff" where
  "token_infos E [] = eff_return []"
| "token_infos E ((symb, token) # tokens) =
     eff_bind (getTokenBalance E token) (\<lambda>balance.
     eff_bind (getDepositedAmount E token) (\<lambda>deposited.
     eff_bind (getBorrowedAmount E token) (\<lambda>borrowed.
     eff_bind (token_infos E tokens) (\<lambda>rest.
     eff_return ((symb, \<lparr>ti_symbol = symb, ti_balance = balance, ti_deposited = deposited, ti_borrowed = borrowed\<rparr>) # rest)))))"

definition getAllTokenInfo :: "'w ethereum \<Rightarrow> ('w, exn, (string \<times> TokenInfo) list) eff" where
  "getAllTokenInfo E =
     token_infos E [(''WETN'', WETN_ADDRESS), (''USDC'', USDC_ADDRESS), (''USDT'', USDT_ADDRESS)]"

text \<open>
  An amount in dollars with two places; it is zero when the token or the amount is unknown.
\<close>

definition convertToUSD :: "string \<Rightarrow> string \<Rightarrow> string" where
  "convertToUSD amount symb =
     (case getTokenPrice symb of
        Inl e \<Rightarrow> ''0.00''
      | Inr price \<Rightarrow>
          (let parsedAmount = parseFloat (if amount = '''' then ''0'' else amount)
           in if isNaN parsedAmount then ''0.00'' else toFixed 2 (num_mult parsedAmount price)))"

text \<open>
  The health factor is the infinity sign when nothing is borrowed, or a number with two decimal places.
\<close>

datatype health = Infinity_sign | Health string

record UserAccountInfo =
  collateralValue :: string
  borrowValue :: string
  borrowLimit :: string
  healthFactor :: health

definition MAX_SAFE_INTEGER :: nat where
  "MAX_SAFE_INTEGER = 2 ^ 53 - 1"

definition health_factor :: "nat \<Rightarrow> nat \<Rightarrow> exn + health" where
  "health_factor collateral borrowed =
     (if borrowed = 0 then Inr Infinity_sign
      else (let healthFactorBN = collateral * 100 div borrowed in
        if healthFactorBN > MAX_SAFE_INTEGER then Inl (new_Error ''overflow'')
        else Inr (Health (toFixed 2 (num_div (Finite (of_nat healthFactorBN)) (Finite 100))))))"

definition getUserAccountInfo :: "'w ethereum \<Rightarrow> ('w, exn, UserAccountInfo) eff" where
  "getUserAccountInfo E =
     eff_catch
      (eff_then (getSigner E)
      (eff_bind (signer_getAddress E) (\<lambda>userAddress.
       eff_bind (lending_accountInfo E userAddress) (\<lambda>(collateral, borrowed, limit).
       eff_bind (eff_lift (health_factor collateral borrowed)) (\<lambda>h.
       eff_return \<lparr>collateralValue = formatUnits E collateral 8, borrowValue = formatUnits E borrowed 8,
         borrowLimit = formatUnits E limit 8, healthFactor = h\<rparr>)))))
      (\<lambda>_. eff_return \<lparr>collateralValue = ''0'', borrowValue = ''0'', borrowLimit = ''0'', healthFactor = Health ''0''\<rparr>)"

end
