(* ===== verification/Web3.thy ===== *)
theory Web3
  imports Lending_Service
begin

text \<open>
  The web3 module of the web application, \<open>electrolend-ui/src/utils/web3.ts\<close>: three module variables that
  \<open>initializeWeb3\<close> sets, the choice of the network, and operations that throw where those of the
  lending service answer \<open>false\<close>. A variable is known by whether it has been set.
\<close>

section \<open>The module\<close>

record 'w web3 =
  w3_world :: 'w
  w3_provider :: bool
  w3_lendingContract :: bool
  w3_signer :: bool

definition outside :: "('w, exn, 'a) eff \<Rightarrow> ('w web3, exn, 'a) eff" where
  "outside m s = (case m (w3_world s) of (r, w') \<Rightarrow> (r, s\<lparr>w3_world := w'\<rparr>))"

definition guard :: "('w web3 \<Rightarrow> bool) \<Rightarrow> ('w web3, exn, unit) eff" where
  "guard initialized s =
     (if initialized s then (Inr (), s)
      else (Inl (new_Error ''Web3 not initialized. Call initializeWeb3 first.''), s))"

definition electroneumTestnetId :: int where
  "electroneumTestnetId = 5201420"

definition electroneumTestnet :: chain_params where
  "electroneumTestnet =
    \<lparr>chainId_hex = ''0x4f5e0c'', chainName = ''Electroneum Testnet'', currencyName = ''Electroneum'',
     currencySymbol = ''ETN'', currencyDecimals = 18, rpcUrls = [''https://rpc.ankr.com/electroneum_testnet''],
     blockExplorerUrls = [''https://blockexplorer.thesecurityteam.rocks/'']\<rparr>"

definition ensure_network :: "'w ethereum \<Rightarrow> int \<Rightarrow> ('w, exn, unit) eff" where
  "ensure_network E chainId =
     (if chainId = electroneumTestnetId then eff_return ()
      else eff_catch (eth_switchChain E ''0x4f5e0c'') (\<lambda>switchError.
        if ex_code switchError = Some 4902 then
          eff_catch (eff_then (eth_addChain E electroneumTestnet) (eth_switchChain E ''0x4f5e0c''))
            (\<lambda>_. eff_throw (new_Error ''Failed to add Electroneum Testnet to your wallet. Please add it manually.''))
        else eff_throw (new_Error ''Failed to switch to Electroneum Testnet. Please switch networks manually.'')))"

definition initializeWeb3 :: "'w ethereum \<Rightarrow> bool \<Rightarrow> ('w web3, exn, unit) eff" where
  "initializeWeb3 E in_browser =
     (if \<not> in_browser then eff_throw (new_Error ''Cannot connect wallet in server-side environment'')
      else if \<not> injected E then
        eff_throw (new_Error ''No Ethereum provider found. Please install MetaMask or another Ethereum wallet.'')
      else eff_catch
        (eff_then (eff_modify (\<lambda>s. s\<lparr>w3_provider := True\<rparr>))
        (eff_then (outside (eth_requestAccounts E))
        (eff_bind (outside (eth_getNetwork E)) (\<lambda>chainId.
         eff_then (outside (ensure_network E chainId))
         (eff_modify (\<lambda>s. s\<lparr>w3_signer := True, w3_lendingContract := True\<rparr>))))))
        (\<lambda>error. eff_throw (new_Error
          (if ex_message error = '''' then ''Failed to connect wallet. Please try again.'' else ex_message error))))"

section \<open>Operations\<close>

definition getTokenContract :: "('w web3, exn, unit) eff" where
  "getTokenContract = guard w3_signer"

text \<open>The first account, which is \<open>undefined\<close> when there is none.\<close>

definition getUserAccount :: "'w ethereum \<Rightarrow> ('w web3, exn, string option) eff" where
  "getUserAccount E =
     eff_then (guard w3_provider)
     (eff_bind (outside (eth_listAccounts E)) (\<lambda>accounts.
      eff_return (if accounts = [] then None else Some (hd accounts))))"

definition with_account :: "'w ethereum \<Rightarrow> string option \<Rightarrow> (string \<Rightarrow> ('w, exn, 'a) eff) \<Rightarrow> ('w web3, exn, 'a) eff" where
  "with_account E account call =
     (case account of None \<Rightarrow> eff_throw (undefined_address E) | Some a \<Rightarrow> outside (call a))"

definition web3_getTokenBalance :: "'w ethereum \<Rightarrow> string \<Rightarrow> ('w web3, exn, string) eff" where
  "web3_getTokenBalance E tokenAddress =
     eff_bind (getUserAccount E) (\<lambda>account.
     eff_then getTokenContract
     (eff_bind (with_account E account (token_balanceOf E tokenAddress)) (\<lambda>balance.
      eff_bind (outside (token_decimals E tokenAddress)) (\<lambda>decimals.
      eff_return (formatUnits E balance decimals)))))"

definition parsed_amount :: "'w ethereum \<Rightarrow> string \<Rightarrow> string \<Rightarrow> ('w web3, exn, int) eff" where
  "parsed_amount E tokenAddress amount =
     eff_bind (outside (token_decimals E tokenAddress)) (\<lambda>decimals. eff_lift (parseUnits E amount decimals))"

definition send_and_wait :: "'w ethereum \<Rightarrow> nat \<Rightarrow> ui_call \<Rightarrow> ('w web3, exn, unit) eff" where
  "send_and_wait E limit call =
     eff_bind (outside (tx_send E call \<lparr>gasLimit = limit, gasPrice = 50 * 10 ^ 9\<rparr>)) (\<lambda>hash. outside (tx_wait E hash))"

definition web3_approveToken :: "'w ethereum \<Rightarrow> string \<Rightarrow> string \<Rightarrow> ('w web3, exn, unit) eff" where
  "web3_approveToken E tokenAddress amount =
     eff_then getTokenContract
     (eff_bind (parsed_amount E tokenAddress amount) (\<lambda>parsedAmount.
      send_and_wait E 300000 (Approve tokenAddress LENDING_ADDRESS parsedAmount)))"

definition approve_if_needed :: "'w ethereum \<Rightarrow> string \<Rightarrow> string \<Rightarrow> int \<Rightarrow> ('w web3, exn, unit) eff" where
  "approve_if_needed E tokenAddress amount parsedAmount =
     eff_bind (getUserAccount E) (\<lambda>account.
     eff_bind (with_account E account (\<lambda>a. token_allowance E tokenAddress a LENDING_ADDRESS)) (\<lambda>allowance.
     if int allowance < parsedAmount then web3_approveToken E tokenAddress amount else eff_return ()))"

definition web3_depositToken :: "'w ethereum \<Rightarrow> string \<Rightarrow> string \<Rightarrow> ('w web3, exn, unit) eff" where
  "web3_depositToken E tokenAddress amount =
     eff_then (guard w3_lendingContract)
     (eff_then getTokenContract
     (eff_bind (parsed_amount E tokenAddress amount) (\<lambda>parsedAmount.
      eff_then (approve_if_needed E tokenAddress amount parsedAmount)
      (send_and_wait E 500000 (Deposit tokenAddress parsedAmount)))))"

definition web3_withdrawToken :: "'w ethereum \<Rightarrow> string \<Rightarrow> string \<Rightarrow> ('w web3, exn, unit) eff" where
  "web3_withdrawToken E tokenAddress amount =
     eff_then (guard w3_lendingContract)
     (eff_then getTokenContract
     (eff_bind (parsed_amount E tokenAddress amount) (\<lambda>parsedAmount.
      send_and_wait E 500000 (Withdraw tokenAddress parsedAmount))))"

definition web3_borrowToken :: "'w ethereum \<Rightarrow> string \<Rightarrow> string \<Rightarrow> ('w web3, exn, unit) eff" where
  "web3_borrowToken E tokenAddress amount =
     eff_then (guard w3_lendingContract)
     (eff_then getTokenContract
     (eff_bind (parsed_amount E tokenAddress amount) (\<lambda>parsedAmount.
      send_and_wait E 500000 (Borrow tokenAddress parsedAmount))))"

definition web3_repayToken :: "'w ethereum \<Rightarrow> string \<Rightarrow> string \<Rightarrow> ('w web3, exn, unit) eff" where
  "web3_repayToken E tokenAddress amount =
     eff_then (guard w3_lendingContract)
     (eff_then getTokenContract
     (eff_bind (parsed_amount E tokenAddress amount) (\<lambda>parsedAmount.
      eff_then (approve_if_needed E tokenAddress amount parsedAmount)
      (send_and_wait E 500000 (Repay tokenAddress parsedAmount)))))"

text \<open>
  The values are formatted with 18 places here and with 8 in the lending service, and the health factor is
  that of the borrow limit here and that of the collateral there.
\<close>

definition web3_health_factor :: "'w ethereum \<Rightarrow> nat \<Rightarrow> nat \<Rightarrow> string" where
  "web3_health_factor E limit borrowed =
     (if 0 < borrowed then formatUnits E (limit * 100 div borrowed) 2 else ''Infinity'')"

definition web3_getUserAccountInfo :: "'w ethereum \<Rightarrow> ('w web3, exn, UserAccountInfo) eff" where
  "web3_getUserAccountInfo E =
     eff_then (guard w3_lendingContract)
     (eff_bind (getUserAccount E) (\<lambda>account.
      eff_bind (with_account E account (lending_accountInfo E)) (\<lambda>(collateral, borrowed, limit).
      eff_return \<lparr>collateralValue = formatUnits E collateral 18, borrowValue = formatUnits E borrowed 18,
        borrowLimit = formatUnits E limit 18, healthFactor = Health (web3_health_factor E limit borrowed)\<rparr>)))"

definition web3_getUserDeposits :: "'w ethereum \<Rightarrow> string \<Rightarrow> ('w web3, exn, string) eff" where
  "web3_getUserDeposits E tokenAddress =
     eff_then (guard w3_lendingContract)
     (eff_bind (getUserAccount E) (\<lambda>account.
      eff_bind (with_account E account (\<lambda>a. lending_deposits E a tokenAddress)) (\<lambda>deposits.
      eff_then getTokenContract
      (eff_bind (outside (token_decimals E tokenAddress)) (\<lambda>decimals.
       eff_return (formatUnits E deposits decimals))))))"

section \<open>Initialization\<close>

lemma outside_Inr: "outside m s = (Inr a, s') \<longleftrightarrow> (\<exists>w'. m (w3_world s) = (Inr a, w') \<and> s' = s\<lparr>w3_world := w'\<rparr>)"
  by (auto simp: outside_def split: prod.splits)

lemma outside_Inl: "outside m s = (Inl e, s') \<longleftrightarrow> (\<exists>w'. m (w3_world s) = (Inl e, w') \<and> s' = s\<lparr>w3_world := w'\<rparr>)"
  by (auto simp: outside_def split: prod.splits)

lemma catch_throw_Inr:
  "eff_catch m (\<lambda>e. eff_throw (h e)) s = (Inr a, s') \<longleftrightarrow> m s = (Inr a, s')"
  by (auto simp: eff_catch_def eff_simps split: prod.splits sum.splits)

text \<open>
  The wallet is on the network after a successful choice, if a wallet that accepts a switch is on the
  chain it was asked for.
\<close>

definition switches_to_testnet :: "'w ethereum \<Rightarrow> bool" where
  "switches_to_testnet E \<longleftrightarrow>
     (\<forall>w w'. eth_switchChain E ''0x4f5e0c'' w = (Inr (), w') \<longrightarrow> fst (eth_getNetwork E w') = Inr electroneumTestnetId)"

lemma ensure_network_Inr:
  assumes "switches_to_testnet E" and "ensure_network E chainId w = (Inr (), w')"
  shows "chainId = electroneumTestnetId \<and> w' = w \<or> fst (eth_getNetwork E w') = Inr electroneumTestnetId"
proof (cases "chainId = electroneumTestnetId")
  case True
  then show ?thesis using assms(2) by (simp add: ensure_network_def eff_simps)
next
  case False
  obtain r1 w1 where sw: "eth_switchChain E ''0x4f5e0c'' w = (r1, w1)" by fastforce
  show ?thesis
  proof (cases r1)
    case (Inr u)
    then show ?thesis
      using assms False sw by (auto simp: ensure_network_def eff_catch_def switches_to_testnet_def)
  next
    case (Inl e)
    then have "eff_then (eth_addChain E electroneumTestnet) (eth_switchChain E ''0x4f5e0c'') w1 = (Inr (), w')"
      using assms(2) False sw
      by (auto simp: ensure_network_def eff_catch_def eff_simps split: if_splits prod.splits sum.splits)
    then show ?thesis using assms(1) by (auto simp: eff_then_Inr_iff switches_to_testnet_def)
  qed
qed

text \<open>
  C35. When the initialization succeeds, every module variable is set and the wallet is on the
  Electroneum test network: it was there already, or it has switched, possibly after the network has
  been added.
\<close>

theorem initializeWeb3_network:
  assumes "switches_to_testnet E" and "eff_pure (eth_getNetwork E)"
    and "initializeWeb3 E in_browser s = (Inr (), s')"
  shows "w3_provider s' \<and> w3_signer s' \<and> w3_lendingContract s'
       \<and> fst (eth_getNetwork E (w3_world s')) = Inr electroneumTestnetId"
proof -
  from assms(3) obtain w1 w2 w3 chainId where
    accounts: "eth_requestAccounts E (w3_world s) = (Inr (), w1)"
    and network: "eth_getNetwork E w1 = (Inr chainId, w2)"
    and ensure: "ensure_network E chainId w2 = (Inr (), w3)"
    and s': "s' = s\<lparr>w3_world := w3, w3_provider := True, w3_signer := True, w3_lendingContract := True\<rparr>"
    by (auto simp: initializeWeb3_def catch_throw_Inr eff_result_iff outside_Inr eff_simps split: if_splits)
  have "w2 = w1" using assms(2) network by (rule eff_pureD)
  then show ?thesis using ensure_network_Inr[OF assms(1) ensure] network s' by auto
qed

text \<open>
  A wallet whose state is its chain and whether it knows the test network.
\<close>

definition sample_ethereum :: "(int \<times> bool) ethereum" where
  "sample_ethereum =
    \<lparr>injected = True,
     eth_requestAccounts = eff_return (),
     eth_switchChain = (\<lambda>c (chain, known).
       if known then (Inr (), (electroneumTestnetId, known))
       else (Inl \<lparr>ex_code = Some 4902, ex_message = ''Unrecognized chain ID''\<rparr>, (chain, known))),
     eth_addChain = (\<lambda>c (chain, known). (Inr (), (chain, True))),
     eth_getNetwork = eff_read fst,
     eth_listAccounts = eff_return [''0xabc''],
     eth_getBalance = (\<lambda>a. eff_return 0),
     signer_getAddress = eff_return ''0xabc'',
     token_decimals = (\<lambda>t. eff_return 6),
     token_balanceOf = (\<lambda>t a. eff_return 0),
     token_allowance = (\<lambda>t a b. eff_return 0),
     lending_deposits = (\<lambda>a t. eff_return 25),
     lending_borrows = (\<lambda>a t. eff_return 0),
     lending_accountInfo = (\<lambda>a. eff_return (0, 0, 0)),
     lending_borrowWithInterest = (\<lambda>a t. eff_return 0),
     lending_ltv = (\<lambda>t. eff_return 75),
     lending_borrowAPR = (\<lambda>t. eff_return 500),
     tx_send = (\<lambda>c p. eff_return ''0x1''),
     tx_wait = (\<lambda>h. eff_return ()),
     undefined_address = new_Error ''invalid address'',
     parseUnits = (\<lambda>a d. if a = '''' then Inl (new_Error ''invalid'') else Inr (int (length a))),
     formatUnits = (\<lambda>n d. replicate n (CHR ''1''))\<rparr>"

lemma initializeWeb3_network_witness:
  "fst (eth_getNetwork sample_ethereum
     (w3_world (snd (initializeWeb3 sample_ethereum True
       \<lparr>w3_world = (1, False), w3_provider = False, w3_lendingContract = False, w3_signer = False\<rparr>))))
   = Inr electroneumTestnetId"
proof -
  let ?s = "\<lparr>w3_world = (1, False), w3_provider = False, w3_lendingContract = False, w3_signer = False\<rparr>"
  have run: "initializeWeb3 sample_ethereum True ?s
      = (Inr (), \<lparr>w3_world = (electroneumTestnetId, True), w3_provider = True, w3_lendingContract = True, w3_signer = True\<rparr>)"
    by (simp add: initializeWeb3_def ensure_network_def sample_ethereum_def eff_catch_def eff_then_def eff_bind_def
        outside_def eff_simps electroneumTestnetId_def)
  have "switches_to_testnet sample_ethereum"
    by (simp add: switches_to_testnet_def sample_ethereum_def eff_simps)
  moreover have "eff_pure (eth_getNetwork sample_ethereum)"
    by (simp add: sample_ethereum_def)
  ultimately show ?thesis using initializeWeb3_network[OF _ _ run] by (simp add: run)
qed

text \<open>A variable that is set stays set, and the contract is only set together with the others.\<close>

definition initialized_in_order :: "'w web3 \<Rightarrow> bool" where
  "initialized_in_order s \<longleftrightarrow> (w3_lendingContract s \<longrightarrow> w3_signer s) \<and> (w3_signer s \<longrightarrow> w3_provider s)"

lemma initializeWeb3_in_order:
  "initialized_in_order s \<Longrightarrow> initialized_in_order (snd (initializeWeb3 E in_browser s))"
  by (auto simp: initializeWeb3_def initialized_in_order_def eff_catch_def eff_then_def eff_bind_def outside_def eff_simps
      split: prod.splits sum.splits)

text \<open>Before the initialization the operations on the lending contract throw and touch nothing.\<close>

lemma uninitialized_operations:
  assumes "\<not> w3_lendingContract s"
  shows "\<forall>operation \<in> {web3_depositToken E, web3_withdrawToken E, web3_borrowToken E, web3_repayToken E}.
    operation t a s = (Inl (new_Error ''Web3 not initialized. Call initializeWeb3 first.''), s)"
  using assms
  by (simp add: web3_depositToken_def web3_withdrawToken_def web3_borrowToken_def web3_repayToken_def
      guard_def eff_then_def eff_bind_def)

end
