(* ===== verification/Lending_Properties.thy ===== *)
theory Lending_Properties
  imports Web3
begin

text \<open>
  What the lending service promises, as a protocol of observable events: reading the allowance, sending a
  transaction, its confirmation. Every operation of the service performs a run of the protocol and
  answers whether it has been completed.
\<close>

section \<open>Observing the service\<close>

datatype ui_event = Allowance nat | Sent ui_call | Confirmed string

definition observe ::
  "('a \<Rightarrow> ui_event list) \<Rightarrow> ('w, exn, 'a) eff \<Rightarrow> ('w \<times> ui_event list, exn, 'a) eff" where
  "observe f m = (\<lambda>(w, evs). case m w of
      (Inl e, w') \<Rightarrow> (Inl e, (w', evs))
    | (Inr a, w') \<Rightarrow> (Inr a, (w', evs @ f a)))"

definition silent :: "('w, exn, 'a) eff \<Rightarrow> ('w \<times> ui_event list, exn, 'a) eff" where
  "silent m = observe (\<lambda>_. []) m"

definition observed :: "'w ethereum \<Rightarrow> ('w \<times> ui_event list) ethereum" where
  "observed E =
    \<lparr>injected = injected E,
     eth_requestAccounts = silent (eth_requestAccounts E),
     eth_switchChain = (\<lambda>c. silent (eth_switchChain E c)),
     eth_addChain = (\<lambda>c. silent (eth_addChain E c)),
     eth_getNetwork = silent (eth_getNetwork E),
     eth_listAccounts = silent (eth_listAccounts E),
     eth_getBalance = (\<lambda>a. silent (eth_getBalance E a)),
     signer_getAddress = silent (signer_getAddress E),
     token_decimals = (\<lambda>t. silent (token_decimals E t)),
     token_balanceOf = (\<lambda>t a. silent (token_balanceOf E t a)),
     token_allowance = (\<lambda>t a b. observe (\<lambda>n. [Allowance n]) (token_allowance E t a b)),
     lending_deposits = (\<lambda>a t. silent (lending_deposits E a t)),
     lending_borrows = (\<lambda>a t. silent (lending_borrows E a t)),
     lending_accountInfo = (\<lambda>a. silent (lending_accountInfo E a)),
     lending_borrowWithInterest = (\<lambda>a t. silent (lending_borrowWithInterest E a t)),
     lending_ltv = (\<lambda>t. silent (lending_ltv E t)),
     lending_borrowAPR = (\<lambda>t. silent (lending_borrowAPR E t)),
     tx_send = (\<lambda>c p. observe (\<lambda>_. [Sent c]) (tx_send E c p)),
     tx_wait = (\<lambda>h. observe (\<lambda>_. [Confirmed h]) (tx_wait E h)),
     undefined_address = undefined_address E,
     parseUnits = parseUnits E,
     formatUnits = formatUnits E\<rparr>"

section \<open>The protocol of a payment\<close>

text \<open>
  A payment of an amount, a text that is read with some number of decimals. With enough
  allowance, or after the confirmation of an approval of exactly the amount, it is ready; then one call is
  sent and confirmed.
\<close>

datatype phase = Start | Needs int | Approving | Ready | Submitted | Finished

inductive payment_step ::
  "(nat \<Rightarrow> exn + int) \<Rightarrow> string \<Rightarrow> (string \<Rightarrow> int \<Rightarrow> ui_call) \<Rightarrow> phase \<Rightarrow> ui_event \<Rightarrow> phase \<Rightarrow> bool"
  for amount token call where
  enough: "amount d = Inr n \<Longrightarrow> n \<le> int al \<Longrightarrow> payment_step amount token call Start (Allowance al) Ready"
| low: "amount d = Inr n \<Longrightarrow> int al < n \<Longrightarrow> payment_step amount token call Start (Allowance al) (Needs n)"
| approve: "payment_step amount token call (Needs n) (Sent (Approve token LENDING_ADDRESS n)) Approving"
| approved: "payment_step amount token call Approving (Confirmed h) Ready"
| submitted: "amount d = Inr n \<Longrightarrow> payment_step amount token call Ready (Sent (call token n)) Submitted"
| confirmed: "payment_step amount token call Submitted (Confirmed h) Finished"

inductive payment ::
  "(nat \<Rightarrow> exn + int) \<Rightarrow> string \<Rightarrow> (string \<Rightarrow> int \<Rightarrow> ui_call) \<Rightarrow> phase \<Rightarrow> ui_event list \<Rightarrow> phase \<Rightarrow> bool"
  for amount token call where
  stop: "payment amount token call p [] p"
| step: "payment_step amount token call p e q \<Longrightarrow> payment amount token call q evs r \<Longrightarrow> payment amount token call p (e # evs) r"

inductive_cases payment_stepE: "payment_step amount token call p e q"

inductive_simps payment_step_simps:
  "payment_step amount token call Start e q" "payment_step amount token call (Needs n) e q"
  "payment_step amount token call Approving e q" "payment_step amount token call Ready e q"
  "payment_step amount token call Submitted e q" "payment_step amount token call Finished e q"

inductive_simps payment_simps: "payment amount token call p [] q" "payment amount token call p (e # evs) q"

lemma payment_append:
  "payment amount token call p evs q \<Longrightarrow> payment amount token call q evs' r \<Longrightarrow> payment amount token call p (evs @ evs') r"
  by (induction rule: payment.induct) (auto intro: payment.intros)

text \<open>The runs of the protocol that complete a payment.\<close>

text \<open>The runs that the operations make.\<close>

lemma ready_runs:
  "payment amount token call Ready [] Ready"
  "amount d = Inr n \<Longrightarrow> payment amount token call Ready [Sent (call token n)] Submitted"
  "amount d = Inr n \<Longrightarrow> payment amount token call Ready [Sent (call token n), Confirmed h] Finished"
  by (auto intro!: payment.intros intro: payment_step.intros)

lemma start_runs:
  "payment amount token call Start [] Start"
  "amount d = Inr n \<Longrightarrow> n \<le> int al \<Longrightarrow> payment amount token call Start [Allowance al] Ready"
  "amount d = Inr n \<Longrightarrow> int al < n \<Longrightarrow> payment amount token call Start [Allowance al] (Needs n)"
  "amount d = Inr n \<Longrightarrow> int al < n \<Longrightarrow>
   payment amount token call Start [Allowance al, Sent (Approve token LENDING_ADDRESS n)] Approving"
  "amount d = Inr n \<Longrightarrow> int al < n \<Longrightarrow>
   payment amount token call Start [Allowance al, Sent (Approve token LENDING_ADDRESS n), Confirmed h] Ready"
  by (auto intro!: payment.intros intro: payment_step.intros)

lemma payment_Cons:
  "payment amount token call p (e # evs) r \<longleftrightarrow> (\<exists>q. payment_step amount token call p e q \<and> payment amount token call q evs r)"
  by (auto simp: payment_simps)

lemma payment_to_Finished:
  "payment amount token call Submitted evs Finished \<longleftrightarrow> (\<exists>h. evs = [Confirmed h])"
  "payment amount token call Approving evs Finished
   \<longleftrightarrow> (\<exists>h rest. evs = Confirmed h # rest \<and> payment amount token call Ready rest Finished)"
proof -
  have "payment amount token call Finished evs Finished \<longleftrightarrow> evs = []" for evs
    by (cases evs) (auto simp: payment_simps payment_step_simps)
  then show "payment amount token call Submitted evs Finished \<longleftrightarrow> (\<exists>h. evs = [Confirmed h])"
    by (cases evs) (auto simp: payment_simps payment_step_simps)
  show "payment amount token call Approving evs Finished
   \<longleftrightarrow> (\<exists>h rest. evs = Confirmed h # rest \<and> payment amount token call Ready rest Finished)"
    by (cases evs) (auto simp: payment_simps payment_step_simps)
qed

lemma payment_from_Ready:
  "payment amount token call Ready evs Finished
   \<longleftrightarrow> (\<exists>d n h. amount d = Inr n \<and> evs = [Sent (call token n), Confirmed h])"
proof
  assume "payment amount token call Ready evs Finished"
  then show "\<exists>d n h. amount d = Inr n \<and> evs = [Sent (call token n), Confirmed h]"
    by (cases evs) (auto simp: payment_simps payment_step_simps payment_to_Finished(1), blast)
qed (auto intro: ready_runs)

lemma payment_from_Needs:
  "payment amount token call (Needs n) evs Finished
   \<longleftrightarrow> (\<exists>h rest. evs = Sent (Approve token LENDING_ADDRESS n) # Confirmed h # rest
        \<and> payment amount token call Ready rest Finished)"
  by (cases evs) (auto simp: payment_simps payment_step_simps payment_to_Finished(2))

text \<open>
  A completed payment has read a sufficient allowance, or an approval of the amount has been confirmed
  before the call was sent.
\<close>

lemma payment_from_Start:
  assumes "payment amount token call Start evs Finished"
  obtains (sufficient) d n al rest where "amount d = Inr n" "n \<le> int al" "evs = Allowance al # rest"
      "payment amount token call Ready rest Finished"
  | (approval) d n al h rest where "amount d = Inr n" "int al < n"
      "evs = Allowance al # Sent (Approve token LENDING_ADDRESS n) # Confirmed h # rest"
      "payment amount token call Ready rest Finished"
proof (cases evs)
  case Nil
  then show ?thesis using assms by (simp add: payment_simps)
next
  case (Cons e rest)
  with assms obtain q where q: "payment_step amount token call Start e q" "payment amount token call q rest Finished"
    by (auto simp: payment_Cons)
  from q(1) show ?thesis
  proof (cases rule: payment_step.cases)
    case (enough d n al)
    then show ?thesis using sufficient q(2) Cons by blast
  next
    case (low d n al)
    then show ?thesis using approval q(2) Cons by (auto simp: payment_from_Needs)
  qed
qed

section \<open>The operations of the service\<close>

lemma observe_Inr: "observe f m (w, evs) = (Inr a, s') \<longleftrightarrow> (\<exists>w'. m w = (Inr a, w') \<and> s' = (w', evs @ f a))"
  by (auto simp: observe_def split: prod.splits sum.splits)

lemma observe_Inl: "observe f m (w, evs) = (Inl e, s') \<longleftrightarrow> (\<exists>w'. m w = (Inl e, w') \<and> s' = (w', evs))"
  by (auto simp: observe_def split: prod.splits sum.splits)

definition runs_to :: "('w \<times> ui_event list, exn, 'a) eff \<Rightarrow> (exn + 'a \<Rightarrow> ui_event list \<Rightarrow> bool) \<Rightarrow> bool" where
  "runs_to m Q \<longleftrightarrow> (\<forall>w evs r w' evs'. m (w, evs) = (r, (w', evs')) \<longrightarrow> (\<exists>new. evs' = evs @ new \<and> Q r new))"

lemma runs_toI [intro?]:
  "(\<And>w evs r w' evs'. m (w, evs) = (r, (w', evs')) \<Longrightarrow> \<exists>new. evs' = evs @ new \<and> Q r new) \<Longrightarrow> runs_to m Q"
  by (simp add: runs_to_def)

lemma runs_to_mono: "runs_to m Q \<Longrightarrow> (\<And>r new. Q r new \<Longrightarrow> Q' r new) \<Longrightarrow> runs_to m Q'"
  unfolding runs_to_def by blast

lemma runs_to_return [simp]: "runs_to (eff_return a) Q \<longleftrightarrow> Q (Inr a) []"
  by (auto simp: runs_to_def eff_simps)

lemma runs_to_throw [simp]: "runs_to (eff_throw e) Q \<longleftrightarrow> Q (Inl e) []"
  by (auto simp: runs_to_def eff_simps)

lemma runs_to_lift [simp]: "runs_to (eff_lift r) Q \<longleftrightarrow> Q r []"
  by (auto simp: runs_to_def eff_simps)

lemma runs_to_observe: "(\<And>e. Q (Inl e) []) \<Longrightarrow> (\<And>a. Q (Inr a) (f a)) \<Longrightarrow> runs_to (observe f m) Q"
  by (auto simp: runs_to_def observe_def split: prod.splits sum.splits)

lemma runs_to_silent: "(\<And>e. Q (Inl e) []) \<Longrightarrow> (\<And>a. Q (Inr a) []) \<Longrightarrow> runs_to (silent m) Q"
  by (simp add: silent_def runs_to_observe)

lemma runs_to_bind:
  assumes "runs_to m (\<lambda>r new. case r of Inl e \<Rightarrow> Q (Inl e) new | Inr a \<Rightarrow> runs_to (f a) (\<lambda>r' new'. Q r' (new @ new')))"
  shows "runs_to (eff_bind m f) Q"
proof
  fix w evs r w' evs'
  assume run: "eff_bind m f (w, evs) = (r, (w', evs'))"
  obtain r1 w1 evs1 where m: "m (w, evs) = (r1, (w1, evs1))" by (metis surj_pair)
  with assms obtain new where new: "evs1 = evs @ new"
    "case r1 of Inl e \<Rightarrow> Q (Inl e) new | Inr a \<Rightarrow> runs_to (f a) (\<lambda>r' new'. Q r' (new @ new'))"
    unfolding runs_to_def by meson
  show "\<exists>new. evs' = evs @ new \<and> Q r new"
  proof (cases r1)
    case (Inl e)
    then show ?thesis using run m new by (auto simp: eff_bind_def)
  next
    case (Inr a)
    then have "f a (w1, evs1) = (r, (w', evs'))" using run m by (simp add: eff_bind_def)
    moreover have "runs_to (f a) (\<lambda>r' new'. Q r' (new @ new'))" using new(2) Inr by simp
    ultimately obtain new' where "evs' = evs1 @ new'" "Q r (new @ new')"
      unfolding runs_to_def by blast
    then show ?thesis using new(1) by simp
  qed
qed

lemma runs_to_then:
  "runs_to m (\<lambda>r new. case r of Inl e \<Rightarrow> Q (Inl e) new | Inr _ \<Rightarrow> runs_to m' (\<lambda>r' new'. Q r' (new @ new'))) \<Longrightarrow>
   runs_to (eff_then m m') Q"
  unfolding eff_then_def by (rule runs_to_bind)

lemma runs_to_catch:
  assumes "runs_to m (\<lambda>r new. case r of Inl e \<Rightarrow> runs_to (h e) (\<lambda>r' new'. Q r' (new @ new')) | Inr a \<Rightarrow> Q (Inr a) new)"
  shows "runs_to (eff_catch m h) Q"
proof
  fix w evs r w' evs'
  assume run: "eff_catch m h (w, evs) = (r, (w', evs'))"
  obtain r1 w1 evs1 where m: "m (w, evs) = (r1, (w1, evs1))" by (metis surj_pair)
  with assms obtain new where new: "evs1 = evs @ new"
    "case r1 of Inl e \<Rightarrow> runs_to (h e) (\<lambda>r' new'. Q r' (new @ new')) | Inr a \<Rightarrow> Q (Inr a) new"
    unfolding runs_to_def by meson
  show "\<exists>new. evs' = evs @ new \<and> Q r new"
  proof (cases r1)
    case (Inr a)
    then show ?thesis using run m new by (auto simp: eff_catch_def)
  next
    case (Inl e)
    then have "h e (w1, evs1) = (r, (w', evs'))" using run m by (simp add: eff_catch_def)
    moreover have "runs_to (h e) (\<lambda>r' new'. Q r' (new @ new'))" using new(2) Inl by simp
    ultimately obtain new' where "evs' = evs1 @ new'" "Q r (new @ new')"
      unfolding runs_to_def by blast
    then show ?thesis using new(1) by simp
  qed
qed

lemma runs_to_answer:
  "runs_to m (\<lambda>r new. case r of Inl e \<Rightarrow> Q (Inr False) new | Inr a \<Rightarrow> Q (Inr a) new) \<Longrightarrow> runs_to (answer m) Q"
  unfolding answer_def by (rule runs_to_catch) (erule runs_to_mono, auto split: sum.splits)

text \<open>The calls of the wallet and of the contracts, and the parts of the operations, as rules of \<open>runs_to\<close>.\<close>

lemma runs_to_calls:
  "(\<And>e. Q (Inl e) []) \<Longrightarrow> (\<And>a. Q (Inr a) []) \<Longrightarrow> runs_to (eth_requestAccounts (observed E)) Q"
  "(\<And>e. Q1 (Inl e) []) \<Longrightarrow> (\<And>a. Q1 (Inr a) []) \<Longrightarrow> runs_to (signer_getAddress (observed E)) Q1"
  "(\<And>e. Q2 (Inl e) []) \<Longrightarrow> (\<And>a. Q2 (Inr a) []) \<Longrightarrow> runs_to (token_decimals (observed E) t) Q2"
  "(\<And>e. Q3 (Inl e) []) \<Longrightarrow> (\<And>n. Q3 (Inr n) [Allowance n]) \<Longrightarrow> runs_to (token_allowance (observed E) t a b) Q3"
  "(\<And>e. Q4 (Inl e) []) \<Longrightarrow> (\<And>h. Q4 (Inr h) [Sent c]) \<Longrightarrow> runs_to (tx_send (observed E) c p) Q4"
  "(\<And>e. Q5 (Inl e) []) \<Longrightarrow> (\<And>u. Q5 (Inr u) [Confirmed h]) \<Longrightarrow> runs_to (tx_wait (observed E) h) Q5"
  by (simp_all add: observed_def runs_to_silent runs_to_observe)

lemma observed_simps [simp]:
  "injected (observed E) = injected E" "parseUnits (observed E) = parseUnits E" "formatUnits (observed E) = formatUnits E"
  by (simp_all add: observed_def)

lemma runs_to_getSigner:
  "(\<And>e. Q (Inl e) []) \<Longrightarrow> Q (Inr ()) [] \<Longrightarrow> runs_to (getSigner (observed E)) Q"
  by (auto simp: getSigner_def intro!: runs_to_calls)

lemma runs_to_getTokenDecimals: "(\<And>d. Q (Inr d) []) \<Longrightarrow> runs_to (getTokenDecimals (observed E) t) Q"
  unfolding getTokenDecimals_def
  by (auto intro!: runs_to_catch runs_to_then runs_to_getSigner runs_to_calls)

lemma runs_to_confirm:
  "(\<And>e. Q (Inl e) []) \<Longrightarrow> (\<And>e. Q (Inl e) [Sent c]) \<Longrightarrow> (\<And>h. Q (Inr True) [Sent c, Confirmed h]) \<Longrightarrow>
   runs_to (confirm (observed E) c) Q"
  unfolding confirm_def by (auto intro!: runs_to_bind runs_to_then runs_to_calls)

lemma runs_to_submit:
  assumes "\<And>e. Q (Inl e) []"
    and "\<And>d n. parseUnits E a d = Inr n \<Longrightarrow>
      (\<forall>e. Q (Inl e) [Sent (call t n)]) \<and> (\<forall>h. Q (Inr True) [Sent (call t n), Confirmed h])"
  shows "runs_to (submit (observed E) call t a) Q"
  unfolding submit_def using assms
  by (auto intro!: runs_to_bind runs_to_then runs_to_getSigner runs_to_getTokenDecimals runs_to_confirm split: sum.split)

lemma runs_to_approve:
  assumes "Q (Inr False) []"
    and "\<And>d n al. parseUnits E a d = Inr n \<Longrightarrow> n \<le> int al \<Longrightarrow> Q (Inr True) [Allowance al]"
    and "\<And>d n al. parseUnits E a d = Inr n \<Longrightarrow> int al < n \<Longrightarrow>
      Q (Inr False) [Allowance al] \<and> Q (Inr False) [Allowance al, Sent (Approve t LENDING_ADDRESS n)]
      \<and> (\<forall>h. Q (Inr True) [Allowance al, Sent (Approve t LENDING_ADDRESS n), Confirmed h])"
  shows "runs_to (approveToken (observed E) t a) Q"
  unfolding approveToken_def using assms
  by (auto simp: not_le
      intro!: runs_to_answer runs_to_bind runs_to_then runs_to_getSigner runs_to_calls runs_to_confirm split: sum.split)

text \<open>
  An operation that always answers, by whether its events are a completed run of the protocol of a payment
  from the given phase; the events of any other answer are the beginning of a run.
\<close>

definition performs ::
  "'w ethereum \<Rightarrow> string \<Rightarrow> string \<Rightarrow> (string \<Rightarrow> int \<Rightarrow> ui_call) \<Rightarrow> phase \<Rightarrow> ('w \<times> ui_event list, exn, bool) eff \<Rightarrow> bool" where
  "performs E t a call p operation \<longleftrightarrow>
     (\<forall>w. \<exists>completed w' evs q. operation (w, []) = (Inr completed, (w', evs))
        \<and> payment (parseUnits E a) t call p evs q \<and> (completed \<longleftrightarrow> q = Finished))"

definition follows :: "'w ethereum \<Rightarrow> string \<Rightarrow> string \<Rightarrow> (string \<Rightarrow> int \<Rightarrow> ui_call) \<Rightarrow> phase \<Rightarrow> exn + bool \<Rightarrow> ui_event list \<Rightarrow> bool" where
  "follows E t a call p r evs \<longleftrightarrow>
     (\<exists>completed q. r = Inr completed \<and> payment (parseUnits E a) t call p evs q \<and> (completed \<longleftrightarrow> q = Finished))"

lemma performsI: "runs_to operation (follows E t a call p) \<Longrightarrow> performs E t a call p operation"
  unfolding performs_def follows_def runs_to_def
  by (metis append_Nil surj_pair)

lemma follows_simps:
  "follows E t a call p (Inl e) evs \<longleftrightarrow> False"
  "follows E t a call p (Inr False) evs \<longleftrightarrow> (\<exists>q. payment (parseUnits E a) t call p evs q \<and> q \<noteq> Finished)"
  "follows E t a call p (Inr True) evs \<longleftrightarrow> payment (parseUnits E a) t call p evs Finished"
  by (auto simp: follows_def)

lemma submit_follows: "runs_to (answer (submit (observed E) call t a)) (follows E t a call Ready)"
  by (intro runs_to_answer runs_to_submit) (auto simp: follows_simps intro: ready_runs)

lemma payment_follows:
  "runs_to (answer (eff_bind (approveToken (observed E) t a) (\<lambda>approved.
     if \<not> approved then eff_return False else submit (observed E) call t a))) (follows E t a call Start)"
proof -
  let ?answered = "\<lambda>r evs. case r of Inl e \<Rightarrow> follows E t a call Start (Inr False) evs | Inr b \<Rightarrow> follows E t a call Start (Inr b) evs"
  have then_submit: "runs_to (submit (observed E) call t a) (\<lambda>r new. ?answered r (evs @ new))"
    if ready: "payment (parseUnits E a) t call Start evs Ready" for evs
  proof (rule runs_to_submit)
    show "?answered (Inl e) (evs @ [])" for e
      using ready by (auto simp: follows_simps)
    show "(\<forall>e. ?answered (Inl e) (evs @ [Sent (call t n)])) \<and> (\<forall>h. ?answered (Inr True) (evs @ [Sent (call t n), Confirmed h]))"
      if parsed: "parseUnits E a d = Inr n" for d n
    proof -
      have "payment (parseUnits E a) t call Start (evs @ [Sent (call t n)]) Submitted"
        using ready by (rule payment_append) (rule ready_runs(2)[where amount = "parseUnits E a", OF parsed])
      moreover have "payment (parseUnits E a) t call Start (evs @ [Sent (call t n), Confirmed h]) Finished" for h
        using ready by (rule payment_append) (rule ready_runs(3)[where amount = "parseUnits E a", OF parsed])
      ultimately show ?thesis by (auto simp: follows_simps)
    qed
  qed
  show ?thesis
    by (intro runs_to_answer runs_to_bind runs_to_approve) (auto simp: follows_simps intro: start_runs then_submit)
qed

text \<open>
  C6. The four operations of the lending service refine the protocol of a payment: deposits and
  repayments from its start, withdrawals and loans from the phase where nothing has to be approved. None of
  them throws, whatever the wallet, the contracts and the library do, and each answers true exactly when
  the run is completed: the allowance was sufficient or an approval of the amount has been confirmed,
  and the call itself has been confirmed.
\<close>

theorem service_refines_payment:
  "performs E t a Deposit Start (depositToken (observed E) t a)
   \<and> performs E t a Repay Start (repayToken (observed E) t a)
   \<and> performs E t a Withdraw Ready (withdrawToken (observed E) t a)
   \<and> performs E t a Borrow Ready (borrowToken (observed E) t a)"
  unfolding depositToken_def repayToken_def withdrawToken_def borrowToken_def
  by (intro conjI performsI payment_follows submit_follows)

section \<open>Withdrawing what has been deposited\<close>

text \<open>
  The deposited amount that the service shows, entered as the amount to withdraw, asks for exactly
  the deposit, if reading back a number that the library has formatted with as many decimals gives the
  number: both functions take the same decimals, those of the token or the default when they cannot be
  read.
\<close>

lemma withdraw_deposited:
  assumes "getSigner E w = (Inr (), w)" and "signer_getAddress E w = (Inr u, w)"
    and "lending_deposits E u t w = (Inr n, w)" and "getTokenDecimals E t w = (Inr d, w)"
    and "parseUnits E (formatUnits E n d) d = Inr (int n)"
  shows "\<exists>shown. getDepositedAmount E t w = (Inr shown, w)
       \<and> withdrawToken E t shown w = answer (confirm E (Withdraw t (int n))) w"
proof -
  have "getDepositedAmount E t w = (Inr (formatUnits E n d), w)"
    using assms
    by (simp add: getDepositedAmount_def read_amount_def number_or_zero_def eff_catch_def eff_then_def eff_bind_def eff_simps)
  moreover have "withdrawToken E t (formatUnits E n d) w = answer (confirm E (Withdraw t (int n))) w"
    using assms
    by (simp add: withdrawToken_def submit_def answer_def eff_catch_def eff_then_def eff_bind_def eff_simps)
  ultimately show ?thesis by blast
qed

end
