(* ===== verification/Wallet_Context.thy ===== *)
theory Wallet_Context
  imports Lending_Properties
begin

text \<open>
  The wallet of the web application, \<open>electrolend-ui/src/context/WalletContext.tsx\<close>, as a state
  machine: the React state of the provider, the entry of the local storage, and the calls of
  \<open>connectWallet\<close>, \<open>updateBalance\<close> and \<open>refreshAccountInfo\<close> that are waiting for an answer. Between
  two awaits of a call any other event may happen.
\<close>

section \<open>State\<close>

text \<open>
  A connection is at one of its awaits. It keeps the values of \<open>isConnected\<close> and \<open>address\<close> of the
  rendering it was started in, which \<open>refreshAccountInfo\<close> reads at its end.
\<close>

datatype await = Initializing | Listing | Network_for string | Balance_for string | Account_info

record connection =
  awaiting :: await
  seen_isConnected :: bool
  seen_address :: "string option"

record wallet =
  isConnected :: bool
  address :: "string option"
  balance :: "string option"
  chainId :: "int option"
  connecting :: bool
  accountInfo :: "UserAccountInfo option"
  stored :: "string option"
  connections :: "connection list"
  balance_updates :: nat
  refreshes :: nat

datatype reply =
    Failed
  | Initialized
  | Accounts "string list"
  | Network int
  | Balance "string option"
  | Info UserAccountInfo

text \<open>
  What may happen: the buttons, the events of the wallet (a change of the chain reloads the page), and the
  answers to the pending calls, with the position of the connection.
\<close>

datatype wallet_event =
    Connect
  | Disconnect
  | Reply nat reply
  | AccountsChanged "string list"
  | ChainChanged
  | BalanceUpdated "string option"
  | Refresh
  | Refreshed UserAccountInfo

section \<open>Operations\<close>

definition disconnectWallet :: "wallet \<Rightarrow> wallet" where
  "disconnectWallet s = s\<lparr>isConnected := False, address := None, balance := None, chainId := None,
     accountInfo := None, stored := None\<rparr>"

text \<open>The call up to its first await.\<close>

definition connectWallet :: "wallet \<Rightarrow> wallet" where
  "connectWallet s =
     (if connecting s then s
      else s\<lparr>connecting := True,
             connections := connections s @ [\<lparr>awaiting = Initializing, seen_isConnected = isConnected s, seen_address = address s\<rparr>]\<rparr>)"

definition setBalance :: "string option \<Rightarrow> wallet \<Rightarrow> wallet" where
  "setBalance fetched s = (case fetched of None \<Rightarrow> s | Some b \<Rightarrow> s\<lparr>balance := Some b\<rparr>)"

text \<open>
  What the answer to an await does: the new state and the next await, \<open>None\<close> at the end. The
  catch block disconnects, and the finally block resets \<open>connecting\<close> on both ends. A balance that cannot
  be read is left as it was; an empty address has none.
\<close>

fun resume :: "connection \<Rightarrow> reply \<Rightarrow> wallet \<Rightarrow> wallet \<times> await option" where
  "resume c r s =
     (case (awaiting c, r) of
        (Initializing, Initialized) \<Rightarrow> (s, Some Listing)
      | (Listing, Accounts (a # _)) \<Rightarrow> (s, Some (Network_for a))
      | (Network_for a, Network n) \<Rightarrow>
          (s\<lparr>chainId := Some n, address := Some a, stored := Some a\<rparr>, Some (Balance_for a))
      | (Balance_for a, Balance b) \<Rightarrow> (if a = '''' then s else setBalance b s, Some Account_info)
      | (Account_info, Info i) \<Rightarrow>
          ((if \<not> seen_isConnected c \<and> seen_address c = None then s else s\<lparr>accountInfo := Some i\<rparr>)
             \<lparr>isConnected := True, connecting := False\<rparr>, None)
      | _ \<Rightarrow> ((disconnectWallet s)\<lparr>connecting := False\<rparr>, None))"

declare resume.simps [simp del]

text \<open>
  The answers that the calls can give: the helpers that read the balance and the account information
  catch their exceptions, so they do not fail.
\<close>

fun answers :: "await \<Rightarrow> reply \<Rightarrow> bool" where
  "answers Initializing r \<longleftrightarrow> r = Failed \<or> r = Initialized"
| "answers Listing r \<longleftrightarrow> r = Failed \<or> (\<exists>accounts. r = Accounts accounts)"
| "answers (Network_for a) r \<longleftrightarrow> r = Failed \<or> (\<exists>n. r = Network n)"
| "answers (Balance_for a) r \<longleftrightarrow> (\<exists>b. r = Balance b)"
| "answers Account_info r \<longleftrightarrow> (\<exists>i. r = Info i)"

definition reply_to :: "nat \<Rightarrow> reply \<Rightarrow> wallet \<Rightarrow> wallet" where
  "reply_to k r s =
     (let c = connections s ! k; (s', next_await) = resume c r s in
      s'\<lparr>connections := take k (connections s)
          @ (case next_await of None \<Rightarrow> [] | Some p \<Rightarrow> [c\<lparr>awaiting := p\<rparr>]) @ drop (Suc k) (connections s)\<rparr>)"

definition handleAccountsChanged :: "string list \<Rightarrow> wallet \<Rightarrow> wallet" where
  "handleAccountsChanged accounts s =
     (case accounts of
        [] \<Rightarrow> disconnectWallet s
      | a # _ \<Rightarrow>
          if Some a = address s then s
          else s\<lparr>address := Some a, stored := Some a,
                 balance_updates := (if a = '''' then 0 else 1) + balance_updates s\<rparr>)"

text \<open>Loading the page: the state of a new provider, which connects again if an address is stored.\<close>

definition mount :: "string option \<Rightarrow> wallet" where
  "mount saved =
     (let s = \<lparr>isConnected = False, address = None, balance = None, chainId = None, connecting = False,
        accountInfo = None, stored = saved, connections = [], balance_updates = 0, refreshes = 0\<rparr>
      in if saved = None \<or> saved = Some '''' then s else connectWallet s)"

definition refreshAccountInfo :: "wallet \<Rightarrow> wallet" where
  "refreshAccountInfo s =
     (if \<not> isConnected s \<and> address s = None then s else s\<lparr>refreshes := Suc (refreshes s)\<rparr>)"

text \<open>An answer that no call is waiting for, or that the call cannot get, does not happen.\<close>

fun possible :: "wallet_event \<Rightarrow> wallet \<Rightarrow> bool" where
  "possible (Reply k r) s \<longleftrightarrow> k < length (connections s) \<and> answers (awaiting (connections s ! k)) r"
| "possible (BalanceUpdated b) s \<longleftrightarrow> 0 < balance_updates s"
| "possible (Refreshed i) s \<longleftrightarrow> 0 < refreshes s"
| "possible _ s \<longleftrightarrow> True"

fun happen :: "wallet_event \<Rightarrow> wallet \<Rightarrow> wallet" where
  "happen Connect s = connectWallet s"
| "happen Disconnect s = disconnectWallet s"
| "happen (Reply k r) s = reply_to k r s"
| "happen (AccountsChanged accounts) s = handleAccountsChanged accounts s"
| "happen ChainChanged s = mount (stored s)"
| "happen (BalanceUpdated b) s = (setBalance b s)\<lparr>balance_updates := balance_updates s - 1\<rparr>"
| "happen Refresh s = refreshAccountInfo s"
| "happen (Refreshed i) s = s\<lparr>accountInfo := Some i, refreshes := refreshes s - 1\<rparr>"

inductive wallet_step :: "wallet \<Rightarrow> wallet_event \<Rightarrow> wallet \<Rightarrow> bool" where
  "possible e s \<Longrightarrow> wallet_step s e (happen e s)"

inductive reachable :: "wallet \<Rightarrow> bool" where
  loaded: "reachable (mount saved)"
| stepped: "reachable s \<Longrightarrow> wallet_step s e s' \<Longrightarrow> reachable s'"

inductive_cases wallet_stepE: "wallet_step s e s'"

lemmas wallet_operations =
  disconnectWallet_def connectWallet_def setBalance_def handleAccountsChanged_def refreshAccountInfo_def

section \<open>Runs\<close>

text \<open>Runs of events that can happen, for the concrete runs.\<close>

fun can_run :: "wallet \<Rightarrow> wallet_event list \<Rightarrow> bool" where
  "can_run s [] \<longleftrightarrow> True"
| "can_run s (e # es) \<longleftrightarrow> possible e s \<and> can_run (happen e s) es"

definition run_events :: "wallet \<Rightarrow> wallet_event list \<Rightarrow> wallet" where
  "run_events s es = foldl (\<lambda>s e. happen e s) s es"

lemma run_events_simps [simp]:
  "run_events s [] = s" "run_events s (e # es) = run_events (happen e s) es"
  by (simp_all add: run_events_def)

lemma reachable_run: "reachable s \<Longrightarrow> can_run s es \<Longrightarrow> reachable (run_events s es)"
  by (induction es arbitrary: s) (auto intro: stepped wallet_step.intros)

definition connection_events :: "string \<Rightarrow> int \<Rightarrow> UserAccountInfo \<Rightarrow> wallet_event list" where
  "connection_events a n i =
     [Connect, Reply 0 Initialized, Reply 0 (Accounts [a]), Reply 0 (Network n), Reply 0 (Balance None), Reply 0 (Info i)]"

lemmas run_simps = connection_events_def reply_to_def resume.simps mount_def wallet_operations

definition sample_info :: UserAccountInfo where
  "sample_info = \<lparr>collateralValue = ''1.0'', borrowValue = ''0.0'', borrowLimit = ''0.8'', healthFactor = Infinity_sign\<rparr>"

text \<open>A first connection to an account, and the state it leads to.\<close>

lemma sample_run:
  "can_run (mount None) (connection_events ''0xabc'' 5201420 sample_info)"
  "run_events (mount None) (connection_events ''0xabc'' 5201420 sample_info)
   = (mount None)\<lparr>isConnected := True, address := Some ''0xabc'', chainId := Some 5201420, stored := Some ''0xabc''\<rparr>"
  by (simp_all add: run_simps)

section \<open>The well-formedness of the state\<close>

text \<open>
  One connection is pending while the wallet is connecting and none otherwise; an address that is
  shown is the stored one.
\<close>

definition well_formed :: "wallet \<Rightarrow> bool" where
  "well_formed s \<longleftrightarrow>
     length (connections s) = (if connecting s then 1 else 0)
     \<and> (address s \<noteq> None \<longrightarrow> stored s = address s)"

lemma well_formed_mount: "well_formed (mount saved)"
  by (simp add: mount_def well_formed_def connectWallet_def Let_def)

lemma resume_cases:
  assumes "answers (awaiting c) r"
  obtains (initialized) "awaiting c = Initializing" "r = Initialized" "resume c r s = (s, Some Listing)"
  | (listed) a rest where "awaiting c = Listing" "r = Accounts (a # rest)" "resume c r s = (s, Some (Network_for a))"
  | (network) a n where "awaiting c = Network_for a" "r = Network n"
      "resume c r s = (s\<lparr>chainId := Some n, address := Some a, stored := Some a\<rparr>, Some (Balance_for a))"
  | (balance) a b where "awaiting c = Balance_for a" "r = Balance b"
      "resume c r s = (if a = '''' then s else setBalance b s, Some Account_info)"
  | (finished) i where "awaiting c = Account_info" "r = Info i"
      "resume c r s = ((if \<not> seen_isConnected c \<and> seen_address c = None then s else s\<lparr>accountInfo := Some i\<rparr>)
        \<lparr>isConnected := True, connecting := False\<rparr>, None)"
  | (failed) "awaiting c \<in> {Initializing, Listing} \<union> range Network_for" "r = Failed \<or> r = Accounts []"
      "resume c r s = ((disconnectWallet s)\<lparr>connecting := False\<rparr>, None)"
  using assms
  by (cases "awaiting c"; cases r) (auto simp: resume.simps split: list.splits, metis list.exhaust)

lemma single_connection:
  assumes "well_formed s" and "k < length (connections s)"
  obtains c where "k = 0" "connections s = [c]" "connecting s"
  using assms by (cases "connections s") (auto simp: well_formed_def split: if_splits)

lemma reply_to_single:
  "connections s = [c] \<Longrightarrow> resume c r s = (s', p) \<Longrightarrow>
   reply_to 0 r s = s'\<lparr>connections := (case p of None \<Rightarrow> [] | Some q \<Rightarrow> [c\<lparr>awaiting := q\<rparr>])\<rparr>"
  by (simp add: reply_to_def)

lemma well_formed_reply:
  assumes "well_formed s" and "k < length (connections s)" and "answers (awaiting (connections s ! k)) r"
  shows "well_formed (reply_to k r s)"
proof -
  obtain c where c: "k = 0" "connections s = [c]" "connecting s"
    using single_connection[OF assms(1,2)] .
  then have ans: "answers (awaiting c) r" using assms(3) by simp
  from ans show ?thesis
    using assms(1) c reply_to_single[OF c(2)]
    by (cases rule: resume_cases[of c r s])
      (auto simp: well_formed_def disconnectWallet_def setBalance_def split: option.split)
qed

lemma well_formed_step: "wallet_step s e s' \<Longrightarrow> well_formed s \<Longrightarrow> well_formed s'"
proof (erule wallet_stepE)
  assume "well_formed s" "possible e s" "s' = happen e s"
  then show "well_formed s'"
    by (cases e)
      (auto simp: well_formed_reply well_formed_mount, auto simp: well_formed_def wallet_operations split: list.split option.split)
qed

lemma reachable_well_formed_state: "reachable s \<Longrightarrow> well_formed s"
  by (induction rule: reachable.induct) (auto intro: well_formed_mount well_formed_step)

text \<open>
  C5. In every state the wallet of the application can get into, whatever the order of the user's actions, the
  events of the wallet and the answers to pending calls, there is one pending connection while the
  wallet is connecting and none otherwise, and an address that is shown is the one in the local
  storage.
\<close>

theorem reachable_well_formed:
  assumes "reachable s"
  shows "length (connections s) = (if connecting s then 1 else 0)
       \<and> (address s \<noteq> None \<longrightarrow> stored s = address s)"
  using reachable_well_formed_state[OF assms] by (simp add: well_formed_def)

lemma reachable_well_formed_witness:
  "stored ((mount None)\<lparr>isConnected := True, address := Some ''0xabc'', chainId := Some 5201420, stored := Some ''0xabc''\<rparr>)
   = Some ''0xabc''"
  using reachable_well_formed[OF reachable_run[OF loaded sample_run(1)]] by (simp add: sample_run(2))

section \<open>Connecting without interruption\<close>

text \<open>
  A connection is interrupted when the wallet is disconnected, by the button or because the wallet has no account
  any more, while it is pending.
\<close>

fun interrupts :: "wallet_event \<Rightarrow> wallet \<Rightarrow> bool" where
  "interrupts Disconnect s \<longleftrightarrow> connecting s"
| "interrupts (AccountsChanged accounts) s \<longleftrightarrow> connecting s \<and> accounts = []"
| "interrupts _ s \<longleftrightarrow> False"

inductive undisturbed :: "wallet \<Rightarrow> bool" where
  undisturbed_loaded: "undisturbed (mount saved)"
| undisturbed_stepped: "undisturbed s \<Longrightarrow> wallet_step s e s' \<Longrightarrow> \<not> interrupts e s \<Longrightarrow> undisturbed s'"

lemma undisturbed_reachable: "undisturbed s \<Longrightarrow> reachable s"
  by (induction rule: undisturbed.induct) (auto intro: reachable.intros)

fun has_account :: "await \<Rightarrow> bool" where
  "has_account (Balance_for a) \<longleftrightarrow> True"
| "has_account Account_info \<longleftrightarrow> True"
| "has_account _ \<longleftrightarrow> False"

definition selected :: "wallet \<Rightarrow> bool" where
  "selected s \<longleftrightarrow> address s \<noteq> None \<and> chainId s \<noteq> None"

definition connected_well :: "wallet \<Rightarrow> bool" where
  "connected_well s \<longleftrightarrow>
     (isConnected s \<longrightarrow> selected s) \<and> (\<forall>c \<in> set (connections s). has_account (awaiting c) \<longrightarrow> selected s)"

lemma connected_well_mount: "connected_well (mount saved)"
  by (simp add: mount_def connected_well_def connectWallet_def Let_def)

lemma connected_well_reply:
  assumes "well_formed s" and "connected_well s" and "k < length (connections s)" and "answers (awaiting (connections s ! k)) r"
  shows "connected_well (reply_to k r s)"
proof -
  obtain c where c: "k = 0" "connections s = [c]" "connecting s"
    using single_connection[OF assms(1,3)] .
  then have ans: "answers (awaiting c) r" using assms(4) by simp
  from ans show ?thesis
    using assms(2) c reply_to_single[OF c(2)]
    by (cases rule: resume_cases[of c r s])
      (auto simp: connected_well_def selected_def disconnectWallet_def setBalance_def split: option.split)
qed

lemma connected_well_step:
  assumes "wallet_step s e s'" and "\<not> interrupts e s" and "well_formed s" and "connected_well s"
  shows "connected_well s'"
  using assms
proof (induction rule: wallet_step.induct)
  case (1 e s)
  then have "connections s = [] \<or> connecting s"
    by (auto simp: well_formed_def split: if_splits)
  with 1 show ?case
    by (cases e)
      (auto simp: connected_well_reply connected_well_mount,
       auto simp: connected_well_def selected_def wallet_operations split: list.split option.split if_splits)
qed

text \<open>
  As long as no connection is interrupted by a disconnection, a connected wallet has an address, which is the
  stored one, and a chain.
\<close>

theorem connected_has_address:
  assumes "undisturbed s" and "isConnected s"
  shows "\<exists>a n. address s = Some a \<and> stored s = Some a \<and> chainId s = Some n"
proof -
  have "well_formed s \<and> connected_well s"
    using assms(1)
    by (induction rule: undisturbed.induct)
      (auto intro: well_formed_mount well_formed_step connected_well_mount connected_well_step)
  then show ?thesis using assms(2) by (auto simp: well_formed_def connected_well_def selected_def)
qed

fun none_interrupts :: "wallet \<Rightarrow> wallet_event list \<Rightarrow> bool" where
  "none_interrupts s [] \<longleftrightarrow> True"
| "none_interrupts s (e # es) \<longleftrightarrow> \<not> interrupts e s \<and> none_interrupts (happen e s) es"

lemma undisturbed_run: "undisturbed s \<Longrightarrow> can_run s es \<Longrightarrow> none_interrupts s es \<Longrightarrow> undisturbed (run_events s es)"
  by (induction es arbitrary: s) (auto intro: undisturbed_stepped wallet_step.intros)

lemma connected_has_address_witness:
  "\<exists>a n. address (run_events (mount None) (connection_events ''0xabc'' 5201420 sample_info)) = Some a
     \<and> stored (run_events (mount None) (connection_events ''0xabc'' 5201420 sample_info)) = Some a
     \<and> chainId (run_events (mount None) (connection_events ''0xabc'' 5201420 sample_info)) = Some n"
proof (rule connected_has_address)
  show "undisturbed (run_events (mount None) (connection_events ''0xabc'' 5201420 sample_info))"
    by (intro undisturbed_run undisturbed_loaded sample_run(1)) (simp add: connection_events_def)
  show "isConnected (run_events (mount None) (connection_events ''0xabc'' 5201420 sample_info))"
    by (simp add: sample_run(2))
qed

section \<open>Interrupted connections\<close>

text \<open>
  A connection that is interrupted after the address has been set goes on to its end: the wallet is
  then connected, without an address, a chain or a stored address, and its account information is not
  loaded.
\<close>

theorem interrupted_connection_connects:
  "\<exists>s. reachable s \<and> isConnected s \<and> address s = None \<and> chainId s = None \<and> stored s = None \<and> accountInfo s = None"
proof -
  let ?es = "take 4 (connection_events ''0xabc'' 5201420 i) @ Disconnect # drop 4 (connection_events ''0xabc'' 5201420 i)"
  have "reachable (run_events (mount None) ?es)"
    by (intro reachable_run loaded) (simp add: run_simps)
  then show ?thesis
    by (intro exI[of _ "run_events (mount None) ?es"]) (simp add: run_simps)
qed

text \<open>
  The first connection connects the wallet and does not load its account information, although the code asks
  for it: the call reads the state of the rendering in which the connection was started, where the wallet
  was not connected. A connection that is started again from the connected wallet loads it.
\<close>

theorem first_connection_lacks_account_info:
  "can_run (mount None) (connection_events a n i)
   \<and> run_events (mount None) (connection_events a n i)
     = (mount None)\<lparr>isConnected := True, address := Some a, chainId := Some n, stored := Some a\<rparr>
   \<and> accountInfo (run_events (mount None) (connection_events a n i @ connection_events a n j)) = Some j"
  by (cases "a = []") (simp_all add: run_simps Let_def cong: if_cong)

section \<open>Every connection ends\<close>

text \<open>The pending connection gets an answer to its await.\<close>

definition answer_next :: "(await \<Rightarrow> reply) \<Rightarrow> wallet \<Rightarrow> wallet" where
  "answer_next f s = (case connections s of [] \<Rightarrow> s | c # _ \<Rightarrow> happen (Reply 0 (f (awaiting c))) s)"

fun awaits_left :: "await \<Rightarrow> nat" where
  "awaits_left Initializing = 5"
| "awaits_left Listing = 4"
| "awaits_left (Network_for a) = 3"
| "awaits_left (Balance_for a) = 2"
| "awaits_left Account_info = 1"

lemma awaits_left_bounds [simp]: "awaits_left p \<noteq> 0" "awaits_left p \<le> 5"
  by (cases p; simp)+

definition connection_left :: "wallet \<Rightarrow> nat" where
  "connection_left s = (case connections s of [] \<Rightarrow> 0 | c # _ \<Rightarrow> awaits_left (awaiting c))"

lemma answer_next_decreases:
  assumes "well_formed s" and "\<And>p. answers p (f p)"
  shows "well_formed (answer_next f s) \<and> connection_left (answer_next f s) \<le> connection_left s - 1"
proof (cases "connections s")
  case Nil
  then show ?thesis using assms(1) by (simp add: answer_next_def connection_left_def)
next
  case (Cons c rest)
  then have c: "connections s = [c]" using assms(1) by (auto simp: well_formed_def split: if_splits)
  have next_state: "answer_next f s = reply_to 0 (f (awaiting c)) s"
    using c by (simp add: answer_next_def)
  have "well_formed (reply_to 0 (f (awaiting c)) s)"
    using c assms by (intro well_formed_reply) simp_all
  moreover from assms(2)[of "awaiting c"] have "connection_left (reply_to 0 (f (awaiting c)) s) \<le> connection_left s - 1"
    using c reply_to_single[OF c]
    by (cases rule: resume_cases[of c "f (awaiting c)" s]) (auto simp: connection_left_def)
  ultimately show ?thesis by (simp add: next_state)
qed

lemma answer_next_iterated:
  assumes "well_formed s" and "\<And>p. answers p (f p)"
  shows "well_formed ((answer_next f ^^ k) s) \<and> connection_left ((answer_next f ^^ k) s) \<le> connection_left s - k"
proof (induction k)
  case 0
  then show ?case using assms(1) by simp
next
  case (Suc k)
  then show ?case using answer_next_decreases[of "(answer_next f ^^ k) s" f] assms(2) by fastforce
qed

text \<open>
  C7. Whatever it is answered, as long as it is answered, a pending connection is over after at most five
  answers, in success or in failure: the wallet can be connected again.
\<close>

theorem connections_end:
  assumes "reachable s" and "\<And>p. answers p (f p)"
  shows "\<not> connecting ((answer_next f ^^ 5) s) \<and> connections ((answer_next f ^^ 5) s) = []"
proof -
  have "well_formed s" using reachable_well_formed_state[OF assms(1)] .
  note it = answer_next_iterated[OF this assms(2), of 5]
  have "connection_left s \<le> 5"
    by (auto simp: connection_left_def split: list.split)
  with it have "connection_left ((answer_next f ^^ 5) s) = 0" "well_formed ((answer_next f ^^ 5) s)"
    by auto
  then show ?thesis
    by (cases "connections ((answer_next f ^^ 5) s)")
      (simp_all add: connection_left_def well_formed_def split: if_splits)
qed

fun sample_answer :: "await \<Rightarrow> reply" where
  "sample_answer Initializing = Initialized"
| "sample_answer Listing = Accounts [''0xabc'']"
| "sample_answer (Network_for a) = Network 5201420"
| "sample_answer (Balance_for a) = Balance (Some ''1.5'')"
| "sample_answer Account_info = Info sample_info"

lemma connections_end_witness:
  "\<not> connecting ((answer_next sample_answer ^^ 5) (mount (Some ''0xabc'')))
   \<and> connections ((answer_next sample_answer ^^ 5) (mount (Some ''0xabc''))) = []"
proof (rule connections_end[OF loaded])
  show "answers p (sample_answer p)" for p by (cases p) simp_all
qed

end
