(* ===== verification/App_Pages.thy ===== *)
theory App_Pages
  imports Wallet_Context
begin

text \<open>
  The actions of the pages: the operations that \<open>context/WalletContext.tsx\<close> gives them, the modal and the
  confirmation of an action in \<open>app/app/markets/page.tsx\<close> and \<open>app/app/page.tsx\<close>.
\<close>

section \<open>The operations of the context\<close>

definition getTokenAddressHelper :: "string \<Rightarrow> exn + string" where
  "getTokenAddressHelper tokenSymbolOrAddress =
     (if take 2 tokenSymbolOrAddress = ''0x'' \<and> 10 < length tokenSymbolOrAddress then Inr tokenSymbolOrAddress
      else getTokenAddress tokenSymbolOrAddress)"

definition handleDepositToken :: "'w ethereum \<Rightarrow> string \<Rightarrow> string \<Rightarrow> ('w, exn, bool) eff" where
  "handleDepositToken E tokenSymbol amount =
     eff_bind (eff_lift (getTokenAddressHelper tokenSymbol)) (\<lambda>tokenAddress. depositToken E tokenAddress amount)"

definition handleWithdrawToken :: "'w ethereum \<Rightarrow> string \<Rightarrow> string \<Rightarrow> ('w, exn, bool) eff" where
  "handleWithdrawToken E tokenSymbol amount =
     eff_bind (eff_lift (getTokenAddressHelper tokenSymbol)) (\<lambda>tokenAddress. withdrawToken E tokenAddress amount)"

definition handleBorrowToken :: "'w ethereum \<Rightarrow> string \<Rightarrow> string \<Rightarrow> ('w, exn, bool) eff" where
  "handleBorrowToken E tokenSymbol amount =
     eff_bind (eff_lift (getTokenAddressHelper tokenSymbol)) (\<lambda>tokenAddress. borrowToken E tokenAddress amount)"

definition handleRepayToken :: "'w ethereum \<Rightarrow> string \<Rightarrow> string \<Rightarrow> ('w, exn, bool) eff" where
  "handleRepayToken E tokenSymbol amount =
     eff_bind (eff_lift (getTokenAddressHelper tokenSymbol)) (\<lambda>tokenAddress. repayToken E tokenAddress amount)"

definition handleGetTokenBalance :: "'w ethereum \<Rightarrow> string \<Rightarrow> ('w, exn, string) eff" where
  "handleGetTokenBalance E tokenSymbol =
     eff_bind (eff_lift (getTokenAddressHelper tokenSymbol)) (\<lambda>tokenAddress. getTokenBalance E tokenAddress)"

definition handleGetUserDeposits :: "'w ethereum \<Rightarrow> string \<Rightarrow> ('w, exn, string) eff" where
  "handleGetUserDeposits E tokenSymbol =
     eff_bind (eff_lift (getTokenAddressHelper tokenSymbol)) (\<lambda>tokenAddress. getDepositedAmount E tokenAddress)"

section \<open>The modal\<close>

datatype AssetAction = Supply_asset | Withdraw_asset | Borrow_asset | Repay_asset

record asset_ref =
  asset_name :: string
  asset_symbol :: string

text \<open>The largest amount that the modal of the markets offers; a loan and an error have fixed ones.\<close>

definition markets_loadMaxAmount :: "'w ethereum \<Rightarrow> AssetAction option \<Rightarrow> asset_ref \<Rightarrow> ('w, exn, string) eff" where
  "markets_loadMaxAmount E action market =
     eff_catch
      (case action of
         Some Supply_asset \<Rightarrow> handleGetTokenBalance E (asset_symbol market)
       | Some Borrow_asset \<Rightarrow> eff_return ''100''
       | Some Withdraw_asset \<Rightarrow> handleGetUserDeposits E (asset_symbol market)
       | Some Repay_asset \<Rightarrow> handleGetTokenBalance E (asset_symbol market)
       | None \<Rightarrow> eff_return ''0'')
      (\<lambda>_. eff_return ''0'')"

text \<open>That of the dashboard does nothing without an action; \<open>shown\<close> is the amount it shows so far.\<close>

definition dashboard_loadMaxAmount ::
  "'w ethereum \<Rightarrow> AssetAction option \<Rightarrow> asset_ref \<Rightarrow> string \<Rightarrow> ('w, exn, string) eff" where
  "dashboard_loadMaxAmount E action asset shown =
     (case action of
        None \<Rightarrow> eff_return shown
      | Some a \<Rightarrow> eff_catch
          (case a of
             Supply_asset \<Rightarrow> handleGetTokenBalance E (asset_symbol asset)
           | Withdraw_asset \<Rightarrow> handleGetUserDeposits E (asset_symbol asset)
           | Borrow_asset \<Rightarrow> eff_return ''1000''
           | Repay_asset \<Rightarrow> handleGetTokenBalance E (asset_symbol asset))
          (\<lambda>_. eff_return ''0''))"

definition confirm_enabled :: "bool \<Rightarrow> string \<Rightarrow> bool" where
  "confirm_enabled isLoading amount \<longleftrightarrow> \<not> (isLoading \<or> amount = '''' \<or> amount = ''0'')"

definition getModalTitle :: "AssetAction option \<Rightarrow> asset_ref option \<Rightarrow> string" where
  "getModalTitle action market =
     (case (market, action) of
        (Some m, Some Supply_asset) \<Rightarrow> ''Supply '' @ asset_name m
      | (Some m, Some Borrow_asset) \<Rightarrow> ''Borrow '' @ asset_name m
      | (Some m, Some Withdraw_asset) \<Rightarrow> ''Withdraw '' @ asset_name m
      | (Some m, Some Repay_asset) \<Rightarrow> ''Repay '' @ asset_name m
      | _ \<Rightarrow> '''')"

section \<open>Confirming an action\<close>

datatype toast_type = success | error

text \<open>
  The state of a page: the modal, the loading flag, the messages shown, and how often the data of the page
  has been asked for again.
\<close>

record 'w page =
  pg_world :: 'w
  pg_open :: bool
  pg_action :: "AssetAction option"
  pg_asset :: "asset_ref option"
  pg_loading :: bool
  pg_toasts :: "(string \<times> toast_type) list"
  pg_fetches :: nat

definition on_page :: "('w, exn, 'a) eff \<Rightarrow> ('w page, exn, 'a) eff" where
  "on_page m s = (case m (pg_world s) of (r, w') \<Rightarrow> (r, s\<lparr>pg_world := w'\<rparr>))"

definition showToast :: "string \<Rightarrow> toast_type \<Rightarrow> 'w page \<Rightarrow> 'w page" where
  "showToast m t s = s\<lparr>pg_toasts := pg_toasts s @ [(m, t)]\<rparr>"

definition openModal :: "AssetAction \<Rightarrow> asset_ref \<Rightarrow> 'w page \<Rightarrow> 'w page" where
  "openModal action a s = s\<lparr>pg_open := True, pg_action := Some action, pg_asset := Some a\<rparr>"

definition closeModal :: "'w page \<Rightarrow> 'w page" where
  "closeModal s = s\<lparr>pg_open := False, pg_action := None, pg_asset := None\<rparr>"

fun perform :: "'w ethereum \<Rightarrow> AssetAction \<Rightarrow> string \<Rightarrow> string \<Rightarrow> ('w, exn, bool) eff" where
  "perform E Supply_asset symb amount = handleDepositToken E symb amount"
| "perform E Withdraw_asset symb amount = handleWithdrawToken E symb amount"
| "perform E Borrow_asset symb amount = handleBorrowToken E symb amount"
| "perform E Repay_asset symb amount = handleRepayToken E symb amount"

fun done_message :: "AssetAction \<Rightarrow> string" where
  "done_message Supply_asset = ''Successfully supplied ''"
| "done_message Withdraw_asset = ''Successfully withdrew ''"
| "done_message Borrow_asset = ''Successfully borrowed ''"
| "done_message Repay_asset = ''Successfully repaid ''"

text \<open>
  Both pages; that of the markets also announces a success. \<open>refresh\<close> is the \<open>refreshAccountInfo\<close> of the
  context, which asks the lending service when the wallet is known.
\<close>

definition refresh :: "'w ethereum \<Rightarrow> bool \<Rightarrow> ('w, exn, unit) eff" where
  "refresh E known = (if known then eff_bind (getUserAccountInfo E) (\<lambda>_. eff_return ()) else eff_return ())"

definition confirm_action ::
  "bool \<Rightarrow> 'w ethereum \<Rightarrow> bool \<Rightarrow> asset_ref \<Rightarrow> string \<Rightarrow> ('w page, exn, unit) eff" where
  "confirm_action announces E known market amount s =
     (let s1 = s\<lparr>pg_loading := True\<rparr>;
        body = eff_bind
          (case pg_action s of
             None \<Rightarrow> eff_then (eff_modify (showToast ''Invalid action'' error)) (eff_return False)
           | Some action \<Rightarrow>
               eff_bind (on_page (perform E action (asset_symbol market) amount)) (\<lambda>succeeded.
               eff_then (eff_modify (if succeeded \<and> announces
                   then showToast (done_message action @ amount @ '' '' @ asset_name market) success else id))
                 (eff_return succeeded)))
          (\<lambda>succeeded. if succeeded then
             eff_then (eff_modify closeModal)
             (eff_then (on_page (refresh E known))
             (eff_modify (\<lambda>s. s\<lparr>pg_fetches := Suc (pg_fetches s)\<rparr>)))
           else eff_return ());
        (r, s2) = eff_catch body (\<lambda>e. eff_modify (showToast (''Error: '' @ ex_message e) error)) s1
      in (r, s2\<lparr>pg_loading := False\<rparr>))"

definition markets_handleActionConfirm ::
  "'w ethereum \<Rightarrow> bool \<Rightarrow> asset_ref option \<Rightarrow> string \<Rightarrow> ('w page, exn, unit) eff" where
  "markets_handleActionConfirm E known market amount =
     (case market of None \<Rightarrow> eff_return () | Some m \<Rightarrow> confirm_action True E known m amount)"

definition dashboard_handleActionConfirm ::
  "'w ethereum \<Rightarrow> bool \<Rightarrow> asset_ref \<Rightarrow> string \<Rightarrow> ('w page, exn, unit) eff" where
  "dashboard_handleActionConfirm E known a amount = confirm_action False E known a amount"

section \<open>Outcomes\<close>

lemma getUserAccountInfo_answers: "\<exists>i w'. getUserAccountInfo E w = (Inr i, w')"
  by (auto simp: getUserAccountInfo_def eff_catch_def eff_simps split: prod.split sum.split)

lemma refresh_answers: "\<exists>w'. refresh E known w = (Inr (), w')"
  using getUserAccountInfo_answers[of E w] by (auto simp: refresh_def eff_bind_def eff_simps)

text \<open>
  Confirming an action of the modal ends with the loading flag reset. A completed action closes the modal,
  asks for the data again and, on the page of the markets, is announced; an exception, which only an unknown
  token causes, is shown and leaves the modal open; an action that the lending service has answered with
  \<open>false\<close> changes nothing on the page and shows nothing.
\<close>

theorem confirm_outcomes:
  "case perform E action (asset_symbol m) amount (pg_world s) of
     (Inr True, w1) \<Rightarrow>
       (\<exists>w2. refresh E known w1 = (Inr (), w2)
          \<and> markets_handleActionConfirm E known (Some m) amount (s\<lparr>pg_action := Some action\<rparr>)
            = (Inr (), (closeModal s)\<lparr>pg_world := w2, pg_loading := False, pg_fetches := Suc (pg_fetches s),
                pg_toasts := pg_toasts s @ [(done_message action @ amount @ '' '' @ asset_name m, success)]\<rparr>))
   | (Inr False, w1) \<Rightarrow>
       markets_handleActionConfirm E known (Some m) amount (s\<lparr>pg_action := Some action\<rparr>)
       = (Inr (), s\<lparr>pg_action := Some action, pg_world := w1, pg_loading := False\<rparr>)
   | (Inl e, w1) \<Rightarrow>
       markets_handleActionConfirm E known (Some m) amount (s\<lparr>pg_action := Some action\<rparr>)
       = (Inr (), s\<lparr>pg_action := Some action, pg_world := w1, pg_loading := False,
            pg_toasts := pg_toasts s @ [(''Error: '' @ ex_message e, error)]\<rparr>)"
proof -
  obtain r w1 where run: "perform E action (asset_symbol m) amount (pg_world s) = (r, w1)" by fastforce
  obtain w2 where w2: "refresh E known w1 = (Inr (), w2)" using refresh_answers[of E known w1] by blast
  note unfold = markets_handleActionConfirm_def confirm_action_def Let_def on_page_def eff_then_def eff_bind_def
    eff_catch_def eff_simps showToast_def closeModal_def
  show ?thesis
  proof (cases r)
    case (Inl e)
    then show ?thesis using run by (simp add: unfold)
  next
    case (Inr b)
    then show ?thesis using run w2 by (cases b) (simp_all add: unfold)
  qed
qed

text \<open>The service answers, so an exception of an action is that of an unknown token.\<close>

lemma perform_error:
  assumes "perform E action symb amount w = (Inl e, w')"
  shows "getTokenAddressHelper symb = Inl e \<and> w' = w"
proof -
  have "fst (answer m v) \<noteq> Inl x" for m :: "('w, exn, bool) eff" and v x
    by (auto simp: answer_def eff_catch_def eff_simps split: prod.split sum.split)
  then have ans: "answer m v \<noteq> (Inl x, v')" for m :: "('w, exn, bool) eff" and v x v'
    by (metis fst_conv)
  show ?thesis
    using assms
    by (cases action)
      (auto simp: handleDepositToken_def handleWithdrawToken_def handleBorrowToken_def handleRepayToken_def
        depositToken_def withdrawToken_def borrowToken_def repayToken_def eff_bind_Inl_iff eff_simps ans)
qed

text \<open>
  C36. Taking the largest amount that the modal offers for a withdrawal and confirming it asks for exactly the
  deposit, if reading back a number that the library has formatted with as many decimals gives the
  number: both calls take the same decimals, those of the token or the default when they cannot be read.
\<close>

theorem withdraw_maximum:
  assumes "getTokenAddressHelper (asset_symbol m) = Inr t"
    and "getSigner E w = (Inr (), w)" and "signer_getAddress E w = (Inr u, w)"
    and "lending_deposits E u t w = (Inr n, w)" and "getTokenDecimals E t w = (Inr d, w)"
    and "parseUnits E (formatUnits E n d) d = Inr (int n)"
  shows "\<exists>max. markets_loadMaxAmount E (Some Withdraw_asset) m w = (Inr max, w)
       \<and> perform E Withdraw_asset (asset_symbol m) max w = answer (confirm E (Withdraw t (int n))) w"
proof -
  obtain shown where shown: "getDepositedAmount E t w = (Inr shown, w)"
    "withdrawToken E t shown w = answer (confirm E (Withdraw t (int n))) w"
    using withdraw_deposited[OF assms(2-6)] by blast
  then show ?thesis
    using assms(1)
    by (intro exI[of _ shown])
      (simp add: markets_loadMaxAmount_def handleGetUserDeposits_def handleWithdrawToken_def eff_catch_def eff_bind_def eff_simps)
qed

lemma withdraw_maximum_witness:
  "\<exists>max. markets_loadMaxAmount sample_ethereum (Some Withdraw_asset) \<lparr>asset_name = ''USD Coin'', asset_symbol = ''USDC''\<rparr> (1, True)
       = (Inr max, (1, True))
     \<and> perform sample_ethereum Withdraw_asset (asset_symbol \<lparr>asset_name = ''USD Coin'', asset_symbol = ''USDC''\<rparr>) max (1, True)
       = answer (confirm sample_ethereum (Withdraw USDC_ADDRESS (int 25))) (1, True)"
  by (rule withdraw_maximum[where u = "''0xabc''" and d = 6])
    (simp_all add: sample_ethereum_def getSigner_def getTokenDecimals_def eff_catch_def eff_then_def eff_bind_def eff_simps
      getTokenAddressHelper_def getTokenAddress_def toUpperCase_def upper_char_def)

end
