(* ===== verification/Js_Number_Properties.thy ===== *)
theory Js_Number_Properties
  imports Js_Number
begin

text \<open>
  The facts about the numbers of JavaScript that the pages rest on: rounding to a double is monotone, exact on the
  numbers that fit 53 bits, and off by at most a part in \<open>2 ^ 53\<close>; \<open>toFixed\<close> is the nearest numeral; a
  numeral that is read back gives the double nearest to what it says.
\<close>

named_theorems number_simps \<open>values and comparisons of doubles\<close>

section \<open>The binade of a number\<close>

lemma bit_count_bounds: "0 < n \<Longrightarrow> 2 ^ bit_count n \<le> 2 * n \<and> n < 2 ^ bit_count n"
proof (induction n rule: bit_count.induct)
  case (1 n)
  show ?case
  proof (cases "n = 1")
    case True
    then show ?thesis by (simp add: bit_count.simps)
  next
    case False
    then have "2 ^ bit_count (n div 2) \<le> 2 * (n div 2) \<and> n div 2 < 2 ^ bit_count (n div 2)"
      using 1 by simp
    moreover have "bit_count n = Suc (bit_count (n div 2))"
      using 1(2) by (simp add: bit_count.simps[of n])
    ultimately show ?thesis by auto
  qed
qed

lemma binade_bounds:
  assumes "0 < q"
  shows "2 powi binade q \<le> q" "q < 2 powi (binade q + 1)"
proof -
  obtain a b where ab: "quotient_of q = (a, b)" by fastforce
  have q: "q = of_int a / of_int b" and b: "0 < b"
    using quotient_of_div[OF ab] quotient_of_denom_pos[OF ab] .
  have a: "0 < a" using assms b unfolding q by (simp add: zero_less_divide_iff)
  define i where "i = int (bit_count a)"
  define j where "j = int (bit_count b)"
  have ia: "(2::rat) powi i \<le> 2 * of_int a" "(of_int a :: rat) < 2 powi i"
    using bit_count_bounds[OF a] unfolding i_def power_int_of_nat
    by (metis of_int_le_iff of_int_mult of_int_numeral of_int_power, metis of_int_less_iff of_int_numeral of_int_power)
  have jb: "(2::rat) powi j \<le> 2 * of_int b" "(of_int b :: rat) < 2 powi j"
    using bit_count_bounds[OF b] unfolding j_def power_int_of_nat
    by (metis of_int_le_iff of_int_mult of_int_numeral of_int_power, metis of_int_less_iff of_int_numeral of_int_power)
  have upper: "q < 2 powi (i - j + 1)"
  proof -
    have "q < 2 powi i / of_int b"
      unfolding q using ia(2) b by (intro divide_strict_right_mono) simp_all
    also have "... \<le> 2 powi i / (2 powi j / 2)"
      using jb(1) b by (intro divide_left_mono) simp_all
    also have "... = 2 powi (i - j + 1)"
      by (simp add: power_int_add power_int_diff)
    finally show ?thesis .
  qed
  have lower: "2 powi (i - j - 1) \<le> q"
  proof -
    have "(2::rat) powi (i - j - 1) = (2 powi i / 2) / 2 powi j"
      by (simp add: power_int_diff)
    also have "... \<le> of_int a / 2 powi j"
      using ia(1) by (intro divide_right_mono) simp_all
    also have "... \<le> q"
      unfolding q using jb(2) a b by (intro divide_left_mono) simp_all
    finally show ?thesis .
  qed
  have "binade q = (if 2 powi (i - j) \<le> q then i - j else i - j - 1)"
    by (simp add: binade_def ab i_def j_def Let_def)
  with upper lower show "2 powi binade q \<le> q" "q < 2 powi (binade q + 1)"
    by (auto split: if_splits)
qed

lemma powi_less_cancel: "(2::rat) powi a < 2 powi b \<Longrightarrow> a < b"
  using power_int_increasing[of b a "2::rat"] by (meson linorder_not_less order_less_imp_le one_le_numeral)

lemma binade_mono:
  assumes "0 < p" and "p \<le> q"
  shows "binade p \<le> binade q"
proof -
  have "(2::rat) powi binade p < 2 powi (binade q + 1)"
    using binade_bounds(1)[of p] binade_bounds(2)[of q] assms by linarith
  from powi_less_cancel[OF this] show ?thesis by simp
qed

lemma binade_less: "0 < q \<Longrightarrow> q < 2 powi e \<Longrightarrow> binade q < e"
  using binade_bounds(1)[of q] powi_less_cancel[of "binade q" e] by linarith

section \<open>Rounding to an integer\<close>

lemma round_half_even_cases:
  obtains "round_half_even x = \<lfloor>x\<rfloor>" "x - of_int \<lfloor>x\<rfloor> \<le> 1 / 2"
  | "round_half_even x = \<lfloor>x\<rfloor> + 1" "1 / 2 \<le> x - of_int \<lfloor>x\<rfloor>"
  by (cases "x - of_int \<lfloor>x\<rfloor>" "1 / 2 :: rat" rule: linorder_cases; cases "even \<lfloor>x\<rfloor>")
    (simp_all add: round_half_even_def Let_def)

lemma round_half_even_error: "\<bar>of_int (round_half_even x) - x\<bar> \<le> 1 / 2"
proof (cases rule: round_half_even_cases[of x])
  case 1
  then show ?thesis using of_int_floor_le[of x] by simp
next
  case 2
  moreover have "x < of_int \<lfloor>x\<rfloor> + 1" by linarith
  ultimately show ?thesis by simp
qed

lemma round_half_even_of_int [simp]: "round_half_even (of_int n) = n"
  by (simp add: round_half_even_def)

lemma round_half_even_mono:
  assumes "x \<le> y"
  shows "round_half_even x \<le> round_half_even y"
proof (cases "\<lfloor>x\<rfloor> = \<lfloor>y\<rfloor>")
  case True
  then show ?thesis using assms by (auto simp: round_half_even_def Let_def)
next
  case False
  then have "\<lfloor>x\<rfloor> + 1 \<le> \<lfloor>y\<rfloor>" using floor_mono[OF assms] by simp
  then show ?thesis
    by (cases rule: round_half_even_cases[of x]; cases rule: round_half_even_cases[of y]) simp_all
qed

lemma round_half_even_le: "x \<le> of_int n \<Longrightarrow> round_half_even x \<le> n"
  using round_half_even_mono[of x "of_int n"] by simp

lemma round_half_even_ge: "of_int n \<le> x \<Longrightarrow> n \<le> round_half_even x"
  using round_half_even_mono[of "of_int n" x] by simp

section \<open>Rounding to a double\<close>

text \<open>The positive numbers with at most 53 significant bits, above the underflow.\<close>

definition representable :: "rat \<Rightarrow> bool" where
  "representable v \<longleftrightarrow> (\<exists>m e. 0 \<le> m \<and> m < 2 ^ 53 \<and> - 1074 \<le> e \<and> v = of_int m * 2 powi e)"

lemma unit_bound:
  assumes "0 < q"
  shows "q < 2 ^ 53 * 2 powi unit_exponent q"
proof -
  have "q < 2 powi (binade q + 1)" by (rule binade_bounds(2)[OF assms])
  also have "... \<le> 2 powi (unit_exponent q + 53)"
    by (rule power_int_increasing) (simp_all add: unit_exponent_def)
  also have "... = 2 ^ 53 * 2 powi unit_exponent q"
    by (simp add: power_int_add mult.commute)
  finally show ?thesis .
qed

lemma unit_normal:
  assumes "0 < q" and "- 1074 < unit_exponent q"
  shows "2 ^ 52 * 2 powi unit_exponent q \<le> q"
proof -
  have "(2::rat) ^ 52 * 2 powi unit_exponent q = 2 powi (unit_exponent q + 52)"
    by (simp add: power_int_add mult.commute)
  also have "... = 2 powi binade q"
    using assms(2) by (simp add: unit_exponent_def max_def split: if_splits)
  also have "... \<le> q" by (rule binade_bounds(1)[OF assms(1)])
  finally show ?thesis .
qed

lemma unit_exponent_mono: "0 < p \<Longrightarrow> p \<le> q \<Longrightarrow> unit_exponent p \<le> unit_exponent q"
  using binade_mono[of p q] by (simp add: unit_exponent_def)

text \<open>The number of units that a number is rounded to.\<close>

definition significand :: "rat \<Rightarrow> int" where
  "significand q = round_half_even (q / 2 powi unit_exponent q)"

lemma round_positive_significand: "round_positive q = of_int (significand q) * 2 powi unit_exponent q"
  by (simp add: round_positive_def significand_def Let_def)

lemma significand_bounds:
  assumes "0 < q"
  shows "0 \<le> significand q" "significand q \<le> 2 ^ 53"
proof -
  let ?u = "(2::rat) powi unit_exponent q"
  show "0 \<le> significand q"
    unfolding significand_def using assms by (intro round_half_even_ge) simp
  show "significand q \<le> 2 ^ 53"
    unfolding significand_def using unit_bound[OF assms] by (intro round_half_even_le) (simp add: pos_divide_le_eq)
qed

lemma round_positive_bounds:
  assumes "0 < q"
  shows "0 \<le> round_positive q" "round_positive q \<le> 2 ^ 53 * 2 powi unit_exponent q"
proof -
  let ?u = "(2::rat) powi unit_exponent q"
  show "0 \<le> round_positive q"
    using significand_bounds(1)[OF assms] by (simp add: round_positive_significand)
  have "significand q \<le> 2 ^ 53" by (rule significand_bounds(2)[OF assms])
  then have "(of_int (significand q) :: rat) \<le> 2 ^ 53"
    by (metis of_int_le_iff of_int_numeral of_int_power)
  then show "round_positive q \<le> 2 ^ 53 * ?u"
    unfolding round_positive_significand by (intro mult_right_mono) simp_all
qed

lemma round_positive_normal:
  assumes "0 < q" and "- 1074 < unit_exponent q"
  shows "2 ^ 52 * 2 powi unit_exponent q \<le> round_positive q"
proof -
  let ?u = "(2::rat) powi unit_exponent q"
  have "2 ^ 52 \<le> round_half_even (q / ?u)"
    using unit_normal[OF assms] by (intro round_half_even_ge) (simp add: pos_le_divide_eq)
  then have "(2 ^ 52 :: rat) \<le> of_int (round_half_even (q / ?u))"
    by (metis of_int_le_iff of_int_numeral of_int_power)
  then show ?thesis unfolding round_positive_def Let_def by (intro mult_right_mono) simp_all
qed

lemma round_positive_mono:
  assumes "0 < p" and "p \<le> q"
  shows "round_positive p \<le> round_positive q"
proof (cases "unit_exponent p = unit_exponent q")
  case True
  have "round_half_even (p / 2 powi unit_exponent q) \<le> round_half_even (q / 2 powi unit_exponent q)"
    using assms(2) by (intro round_half_even_mono divide_right_mono) simp_all
  then show ?thesis
    unfolding round_positive_def Let_def True by (intro mult_right_mono) simp_all
next
  case False
  then have less: "unit_exponent p + 1 \<le> unit_exponent q" using unit_exponent_mono[OF assms] by simp
  moreover have "- 1074 \<le> unit_exponent p" by (simp add: unit_exponent_def)
  ultimately have normal: "- 1074 < unit_exponent q" by simp
  have "round_positive p \<le> 2 ^ 53 * 2 powi unit_exponent p"
    by (rule round_positive_bounds(2)[OF assms(1)])
  also have "... = 2 ^ 52 * 2 powi (unit_exponent p + 1)"
    by (simp add: power_int_add)
  also have "... \<le> 2 ^ 52 * 2 powi unit_exponent q"
    using less by (intro mult_left_mono power_int_increasing) simp_all
  also have "... \<le> round_positive q"
    using assms normal by (intro round_positive_normal) simp_all
  finally show ?thesis .
qed

lemma round_positive_representable:
  assumes "0 < q"
  shows "representable (round_positive q)"
proof (cases "significand q = 2 ^ 53")
  case True
  have "round_positive q = of_int (2 ^ 52) * 2 powi (unit_exponent q + 1)"
    by (simp add: round_positive_significand True power_int_add)
  moreover have "- 1074 \<le> unit_exponent q + 1" by (simp add: unit_exponent_def)
  moreover have "(0::int) \<le> 2 ^ 52" "(2::int) ^ 52 < 2 ^ 53" by simp_all
  ultimately show ?thesis unfolding representable_def by blast
next
  case False
  then have "significand q < 2 ^ 53" using significand_bounds(2)[OF assms] by (rule le_neq_trans[rotated])
  moreover have "- 1074 \<le> unit_exponent q" by (simp add: unit_exponent_def)
  ultimately show ?thesis
    unfolding representable_def using significand_bounds(1)[OF assms] round_positive_significand by blast
qed

lemma round_positive_exact:
  assumes "0 < v" and "representable v"
  shows "round_positive v = v"
proof -
  obtain m e where m: "0 \<le> m" "m < 2 ^ 53" "- 1074 \<le> e" and v: "v = of_int m * 2 powi e"
    using assms(2) by (auto simp: representable_def)
  have "(of_int m :: rat) < 2 ^ 53"
    using m(2) by (metis of_int_less_iff of_int_numeral of_int_power)
  then have "v < 2 ^ 53 * 2 powi e"
    unfolding v by (intro mult_strict_right_mono) simp_all
  then have "v < 2 powi (e + 53)" by (simp add: power_int_add mult.commute)
  then have "binade v < e + 53" by (rule binade_less[OF assms(1)])
  then have "unit_exponent v \<le> e" using m(3) by (simp add: unit_exponent_def)
  then obtain k where k: "e = unit_exponent v + int k" by (metis zle_iff_zadd)
  let ?u = "(2::rat) powi unit_exponent v"
  have v': "v = of_int (m * 2 ^ k) * ?u"
    by (subst v, subst k) (simp add: power_int_add)
  then have "v / ?u = of_int (m * 2 ^ k)" by (simp add: nonzero_divide_eq_eq)
  then have "round_positive v = of_int (m * 2 ^ k) * ?u"
    by (simp only: round_positive_def Let_def round_half_even_of_int)
  with v' show ?thesis by simp
qed

lemma round_positive_error:
  assumes "0 < q"
  shows "\<bar>round_positive q - q\<bar> \<le> 2 powi unit_exponent q / 2"
proof -
  let ?u = "(2::rat) powi unit_exponent q"
  have "round_positive q - q = (of_int (round_half_even (q / ?u)) - q / ?u) * ?u"
    by (simp add: round_positive_def Let_def left_diff_distrib)
  then have "\<bar>round_positive q - q\<bar> = \<bar>of_int (round_half_even (q / ?u)) - q / ?u\<bar> * ?u"
    by (simp add: abs_mult)
  also have "... \<le> 1 / 2 * ?u"
    by (intro mult_right_mono round_half_even_error) simp
  finally show ?thesis by simp
qed

lemma round_positive_relative:
  assumes "2 powi (- 1022) \<le> q"
  shows "\<bar>round_positive q - q\<bar> \<le> q / 2 ^ 53"
proof -
  have q: "0 < q" using assms by (rule less_le_trans[rotated]) simp
  have "(2::rat) powi (- 1022) < 2 powi (binade q + 1)"
    using assms binade_bounds(2)[OF q] by (rule le_less_trans)
  then have "- 1022 < binade q + 1" by (rule powi_less_cancel)
  then have "unit_exponent q = binade q - 52" by (simp add: unit_exponent_def)
  then have "(2::rat) powi unit_exponent q / 2 = 2 powi binade q / 2 ^ 53"
    by (simp add: power_int_diff)
  also have "... \<le> q / 2 ^ 53"
    using binade_bounds(1)[OF q] by (intro divide_right_mono) simp_all
  finally show ?thesis using round_positive_error[OF q] by linarith
qed

section \<open>The nearest double\<close>

text \<open>The value that a number is rounded to, were there no overflow.\<close>

definition nearest :: "rat \<Rightarrow> rat" where
  "nearest q = (if q = 0 then 0 else if q < 0 then - round_positive (- q) else round_positive q)"

lemma nearest_zero [simp, number_simps]: "nearest 0 = 0"
  by (simp add: nearest_def)

lemma nearest_minus: "nearest (- q) = - nearest q"
  by (simp add: nearest_def)

lemma nearest_nonneg: "0 \<le> q \<Longrightarrow> 0 \<le> nearest q"
  using round_positive_bounds(1)[of q] by (simp add: nearest_def)

lemma double_nearest:
  "double q = (if 2 ^ 1024 \<le> \<bar>nearest q\<bar> then Infinite (q < 0) else Finite (nearest q))"
  using round_positive_bounds(1)[of q] round_positive_bounds(1)[of "- q"]
  by (cases q "0 :: rat" rule: linorder_cases) (simp_all add: double_def nearest_def Let_def)

lemma nearest_mono:
  assumes "p \<le> q"
  shows "nearest p \<le> nearest q"
proof -
  consider "0 < p" | "q < 0" | "p \<le> 0" "0 \<le> q" using assms by linarith
  then show ?thesis
  proof cases
    case 1
    then show ?thesis using round_positive_mono[OF 1 assms] assms by (simp add: nearest_def)
  next
    case 2
    then show ?thesis using round_positive_mono[of "- q" "- p"] assms by (simp add: nearest_def)
  next
    case 3
    then show ?thesis using nearest_nonneg[of q] nearest_nonneg[of "- p"] by (simp add: nearest_minus)
  qed
qed

lemma nearest_exact:
  assumes "representable \<bar>v\<bar>"
  shows "nearest v = v"
  using round_positive_exact[of "\<bar>v\<bar>"] assms by (cases v "0 :: rat" rule: linorder_cases) (simp_all add: nearest_def)

lemma nearest_representable: "q \<noteq> 0 \<Longrightarrow> representable \<bar>nearest q\<bar>"
  using round_positive_representable[of q] round_positive_representable[of "- q"]
    round_positive_bounds(1)[of q] round_positive_bounds(1)[of "- q"]
  by (cases q "0 :: rat" rule: linorder_cases) (simp_all add: nearest_def)

lemma nearest_nearest [simp, number_simps]: "nearest (nearest q) = nearest q"
  by (cases "q = 0") (simp_all add: nearest_exact nearest_representable)

lemma representable_of_int: "\<bar>n\<bar> < 2 ^ 53 \<Longrightarrow> representable \<bar>of_int n\<bar>"
  unfolding representable_def by (intro exI[of _ "\<bar>n\<bar>"] exI[of _ 0]) simp

lemma nearest_of_int [number_simps]: "\<bar>n\<bar> < 2 ^ 53 \<Longrightarrow> nearest (of_int n) = of_int n"
  by (intro nearest_exact representable_of_int)

lemma nearest_relative:
  assumes "q = 0 \<or> 2 powi (- 1022) \<le> \<bar>q\<bar>"
  shows "\<bar>nearest q - q\<bar> \<le> \<bar>q\<bar> / 2 ^ 53"
proof (cases "q = 0")
  case False
  with assms have "\<bar>round_positive \<bar>q\<bar> - \<bar>q\<bar>\<bar> \<le> \<bar>q\<bar> / 2 ^ 53"
    by (intro round_positive_relative) simp
  then show ?thesis by (cases "q < 0") (simp_all add: nearest_def abs_minus_commute False)
qed simp

text \<open>The hypothesis on the range as it is used: a hundredth of a millionth is far from the underflow.\<close>

lemma not_tiny: "1 / 10 ^ 60 \<le> q \<Longrightarrow> 2 powi (- 1022) \<le> (q :: rat)"
proof -
  assume q: "1 / 10 ^ 60 \<le> q"
  have "(2::rat) powi (- 1022) \<le> 2 powi (- 240)" by (rule power_int_increasing) simp_all
  also have "... = 1 / 2 ^ 240" by (simp add: power_int_minus inverse_eq_divide)
  also have "... = 1 / 16 ^ 60" using power_mult[of "2::rat" 4 60] by simp
  also have "... \<le> 1 / 10 ^ 60" by (intro divide_left_mono power_mono) simp_all
  finally show ?thesis using q by simp
qed

lemma nearest_bound:
  assumes "\<bar>q\<bar> \<le> of_int n" and "n < 2 ^ 53"
  shows "\<bar>nearest q\<bar> \<le> of_int n"
proof -
  have "0 \<le> n" using assms(1) by (smt (verit) abs_ge_zero of_int_0_le_iff order_trans)
  then have "nearest (of_int n) = of_int n" using assms(2) by (intro nearest_of_int) simp
  then show ?thesis
    using nearest_mono[of q "of_int n"] nearest_mono[of "- of_int n" q] assms(1)
    by (simp add: nearest_minus abs_le_iff)
qed

lemma double_finite:
  assumes "\<bar>q\<bar> \<le> 2 ^ 1000"
  shows "double q = Finite (nearest q)"
proof -
  have "representable \<bar>2 ^ 1000\<bar>"
    unfolding representable_def by (intro exI[of _ 1] exI[of _ 1000]) (simp add: power_int_numeral)
  then have "nearest (2 ^ 1000) = 2 ^ 1000" by (rule nearest_exact)
  then have "\<bar>nearest q\<bar> \<le> 2 ^ 1000"
    using nearest_mono[of q "2 ^ 1000"] nearest_mono[of "- (2 ^ 1000)" q] assms
    unfolding nearest_minus abs_le_iff by linarith
  moreover have "(2 :: rat) ^ 1000 < 2 ^ 1024" by (rule power_strict_increasing) simp_all
  ultimately have "\<not> 2 ^ 1024 \<le> \<bar>nearest q\<bar>" by linarith
  then show ?thesis by (simp only: double_nearest if_False)
qed

lemma double_mono:
  assumes "p \<le> q"
  shows "num_le (double p) (double q)"
  using nearest_mono[OF assms] nearest_nonneg[of p] nearest_nonneg[of q] nearest_nonneg[of "- p"] nearest_nonneg[of "- q"] assms
  by (cases "p < 0"; cases "q < 0") (auto simp: double_nearest num_le_def nearest_minus abs_le_iff)

section \<open>Decimal numerals\<close>

lemma digits_val_foldl: "foldl (\<lambda>acc c. 10 * acc + digit_val c) a ds = a * 10 ^ length ds + digits_val ds"
proof (induction ds arbitrary: a)
  case (Cons c ds)
  show ?case
    using Cons[of "10 * a + digit_val c"] Cons[of "digit_val c"] by (simp add: digits_val_def algebra_simps)
qed (simp add: digits_val_def)

lemma digits_val_append: "digits_val (xs @ ys) = digits_val xs * 10 ^ length ys + digits_val ys"
  using digits_val_foldl[of "digits_val xs" ys] by (simp add: digits_val_def)

lemma digits_val_zeros [simp]: "digits_val (replicate k (CHR ''0'')) = 0"
  by (induction k) (simp_all add: digits_val_def digit_val_def)

lemma decimal_string_digits:
  "0 \<le> n \<Longrightarrow> list_all is_digit (decimal_string n) \<and> decimal_string n \<noteq> [] \<and> digits_val (decimal_string n) = nat n"
proof (induction n rule: decimal_string.induct)
  case (1 n)
  show ?case
  proof (cases "n < 10")
    case True
    then show ?thesis using 1(2) digits_val_snoc[of "[]" "digit_char (nat n)"]
      by (simp add: decimal_string.simps[of n])
  next
    case False
    have "nat (n div 10) * 10 + nat (n mod 10) = nat n"
      using 1(2) by (simp add: nat_div_distrib nat_mod_distrib)
    with 1 False show ?thesis by (simp add: decimal_string.simps[of n] digits_val_snoc mult.commute)
  qed
qed

lemma decimal_string_all [simp]: "0 \<le> n \<Longrightarrow> list_all is_digit (decimal_string n)"
  and decimal_string_nonempty [simp]: "0 \<le> n \<Longrightarrow> decimal_string n \<noteq> []"
  and digits_val_decimal_string [simp]: "0 \<le> n \<Longrightarrow> digits_val (decimal_string n) = nat n"
  using decimal_string_digits by blast+

text \<open>The digits of a numeral with places, and the point.\<close>

definition padded :: "nat \<Rightarrow> int \<Rightarrow> string" where
  "padded d n = replicate (d + 1 - length (decimal_string n)) (CHR ''0'') @ decimal_string n"

lemma padded_digits:
  assumes "0 \<le> n"
  shows "list_all is_digit (padded d n)" "d < length (padded d n)" "digits_val (padded d n) = nat n"
proof -
  have "is_digit (CHR ''0'')" by (simp add: is_digit_def)
  then show "list_all is_digit (padded d n)" using decimal_string_all[OF assms] by (auto simp: padded_def list_all_iff)
  show "d < length (padded d n)" by (simp add: padded_def)
  show "digits_val (padded d n) = nat n" using assms by (simp add: padded_def digits_val_append)
qed

lemma fixed_string_padded:
  "fixed_string d n =
     (if d = 0 then padded 0 n
      else take (length (padded d n) - d) (padded d n) @ ''.'' @ drop (length (padded d n) - d) (padded d n))"
  by (simp add: fixed_string_def padded_def Let_def)

lemma takeWhile_digits_of:
  "list_all is_digit ds \<Longrightarrow> takeWhile is_digit ds = ds \<and> dropWhile is_digit ds = []"
  "list_all is_digit ds \<Longrightarrow> \<not> is_digit c \<Longrightarrow> takeWhile is_digit (ds @ c # r) = ds \<and> dropWhile is_digit (ds @ c # r) = c # r"
  by (induction ds) auto

lemma parseFloat_digits:
  assumes "list_all is_digit s" and "s \<noteq> []"
  shows "parseFloat s = double (of_nat (digits_val s))"
    and "list_all is_digit f \<Longrightarrow>
      parseFloat (s @ ''.'' @ f) = double (of_nat (digits_val (s @ f)) * 10 powi (- int (length f)))"
proof -
  obtain c t where s: "s = c # t" using assms(2) by (cases s) simp_all
  then have c: "is_digit c" using assms(1) by simp
  then have "\<not> is_white c" "c \<noteq> CHR ''-''" "c \<noteq> CHR ''+''" "c \<noteq> CHR ''I''"
    by (auto simp: is_digit_def is_white_def)
  then have parse: "parseFloat (s @ r) = parse_number (s @ r)" "take 8 (s @ r) \<noteq> ''Infinity''" for r
    by (simp_all add: parseFloat_def s)
  have dot: "\<not> is_digit (CHR ''.'')" by (simp add: is_digit_def)
  show "parseFloat s = double (of_nat (digits_val s))"
    using parse[of "[]"] assms(2)
    by (simp add: parse_number_def exponent_part_def Let_def takeWhile_digits_of(1)[OF assms(1)])
  show "list_all is_digit f \<Longrightarrow>
      parseFloat (s @ ''.'' @ f) = double (of_nat (digits_val (s @ f)) * 10 powi (- int (length f)))"
    using parse[of "''.'' @ f"] assms(2)
    by (simp add: parse_number_def exponent_part_def Let_def takeWhile_digits_of(2)[OF assms(1) dot]
      takeWhile_digits_of(1)[of f])
qed

text \<open>A number is read up to the first character that does not belong to it.\<close>

lemma parseFloat_prefix:
  assumes "list_all is_digit s" and "s \<noteq> []" and "\<not> is_digit c" and "c \<noteq> CHR ''.''" and "c \<noteq> CHR ''e''" and "c \<noteq> CHR ''E''"
  shows "parseFloat (s @ c # r) = double (of_nat (digits_val s))"
proof -
  obtain x t where s: "s = x # t" using assms(2) by (cases s) simp_all
  then have x: "is_digit x" using assms(1) by simp
  then have "\<not> is_white x" "x \<noteq> CHR ''-''" "x \<noteq> CHR ''+''" "x \<noteq> CHR ''I''"
    by (auto simp: is_digit_def is_white_def)
  then have "parseFloat (s @ c # r) = parse_number (s @ c # r)" "take 8 (s @ c # r) \<noteq> ''Infinity''"
    by (simp_all add: parseFloat_def s)
  then show ?thesis
    using assms(2,4-6) by (simp add: parse_number_def exponent_part_def Let_def takeWhile_digits_of(2)[OF assms(1,3)])
qed

text \<open>A numeral with places is read back as the double nearest to it.\<close>

lemma parseFloat_fixed_string:
  assumes "0 \<le> n"
  shows "parseFloat (fixed_string d n) = double (of_int n / 10 ^ d)"
proof (cases "d = 0")
  case True
  have "padded 0 n \<noteq> []" using padded_digits(2)[OF assms, of 0] by auto
  then show ?thesis
    using padded_digits[OF assms, of 0] parseFloat_digits(1)[of "padded 0 n"] assms True
    by (simp add: fixed_string_padded)
next
  case False
  let ?z = "padded d n"
  let ?k = "length ?z - d"
  have z: "list_all is_digit (take ?k ?z)" "list_all is_digit (drop ?k ?z)" "take ?k ?z \<noteq> []" "length (drop ?k ?z) = d"
    using padded_digits[OF assms, of d] by (auto simp: list_all_iff dest: in_set_takeD in_set_dropD)
  have "parseFloat (fixed_string d n) = double (of_nat (digits_val ?z) * 10 powi (- int d))"
    using parseFloat_digits(2)[OF z(1,3,2)] z(4) False by (simp add: fixed_string_padded)
  then show ?thesis
    using padded_digits(3)[OF assms, of d] assms by (simp add: power_int_minus divide_inverse)
qed

section \<open>Numbers with a fixed number of places\<close>

lemma toFixed_nonneg:
  "0 \<le> q \<Longrightarrow> q < 10 ^ 21 \<Longrightarrow> toFixed d (Finite q) = fixed_string d \<lfloor>q * 10 ^ d + 1 / 2\<rfloor>"
  by simp

declare toFixed.simps(1) [simp del]

lemma floor_half_error: "\<bar>of_int \<lfloor>x + 1 / 2\<rfloor> - x\<bar> \<le> (1 / 2 :: rat)"
  by linarith

text \<open>What \<open>toFixed\<close> shows is within half a unit of its last place of the number.\<close>

lemma toFixed_error:
  assumes "0 \<le> q" and "q < 10 ^ 21"
  obtains t where "0 \<le> t" "toFixed d (Finite q) = fixed_string d t" "\<bar>of_int t - q * 10 ^ d\<bar> \<le> 1 / 2"
proof
  show "0 \<le> \<lfloor>q * 10 ^ d + 1 / 2\<rfloor>" using assms(1) by simp
  show "toFixed d (Finite q) = fixed_string d \<lfloor>q * 10 ^ d + 1 / 2\<rfloor>" using assms by (rule toFixed_nonneg)
  show "\<bar>of_int \<lfloor>q * 10 ^ d + 1 / 2\<rfloor> - q * 10 ^ d\<bar> \<le> 1 / 2" by (rule floor_half_error)
qed

lemma fraction_not_tiny:
  assumes "0 < n" and "k \<le> 60"
  shows "2 powi (- 1022) \<le> (of_int n / 10 ^ k :: rat)"
proof (rule not_tiny)
  have "(1::rat) / 10 ^ 60 \<le> 1 / 10 ^ k"
    using assms(2) by (intro divide_left_mono power_increasing) simp_all
  also have "... \<le> of_int n / 10 ^ k" using assms(1) by (intro divide_right_mono) simp_all
  finally show "1 / 10 ^ 60 \<le> of_int n / (10 ^ k :: rat)" .
qed

lemma nearest_fraction:
  assumes "0 \<le> n" and "k \<le> 60"
  shows "\<bar>nearest (of_int n / 10 ^ k) - of_int n / 10 ^ k\<bar> \<le> of_int n / 10 ^ k / 2 ^ 53"
proof -
  have "\<bar>nearest (of_int n / 10 ^ k) - of_int n / 10 ^ k\<bar> \<le> \<bar>of_int n / 10 ^ k\<bar> / 2 ^ 53"
  proof (rule nearest_relative)
    show "of_int n / 10 ^ k = (0::rat) \<or> 2 powi (- 1022) \<le> \<bar>of_int n / 10 ^ k :: rat\<bar>"
      using assms fraction_not_tiny[of n k] by (cases "n = 0") simp_all
  qed
  then show ?thesis using assms(1) by simp
qed

lemma double_fraction:
  assumes "0 \<le> n" and "n < 2 ^ 53"
  shows "double (of_int n / 10 ^ k) = Finite (nearest (of_int n / 10 ^ k))"
    and "0 \<le> nearest (of_int n / 10 ^ k)" and "nearest (of_int n / 10 ^ k) < 10 ^ 21"
proof -
  have q: "0 \<le> (of_int n / 10 ^ k :: rat)" "(of_int n / 10 ^ k :: rat) \<le> of_int n"
    using assms(1) divide_left_mono[of 1 "10 ^ k" "of_int n :: rat"] by simp_all
  then have small: "\<bar>of_int n / 10 ^ k :: rat\<bar> \<le> of_int (2 ^ 53 - 1)"
  proof -
    have "(of_int n :: rat) \<le> of_int (2 ^ 53 - 1)" using assms(2) by (simp only: of_int_le_iff)
    with q show ?thesis by linarith
  qed
  show "0 \<le> nearest (of_int n / 10 ^ k)" using q(1) by (rule nearest_nonneg)
  have "\<bar>nearest (of_int n / 10 ^ k)\<bar> \<le> of_int (2 ^ 53 - 1)" by (rule nearest_bound[OF small]) simp
  then show "nearest (of_int n / 10 ^ k) < 10 ^ 21" by simp
  have "(of_int (2 ^ 53 - 1) :: rat) \<le> 2 ^ 53" by simp
  also have "... \<le> 2 ^ 1000" by (rule power_increasing) simp_all
  finally show "double (of_int n / 10 ^ k) = Finite (nearest (of_int n / 10 ^ k))"
    using small by (intro double_finite) linarith
qed

text \<open>
  A number with \<open>k\<close> places that goes through a double is shown with \<open>d\<close> places as it would be without it, up to
  the choice in a tie.
\<close>

lemma shown_exactly:
  assumes "0 \<le> n" and "n < 2 ^ 52" and "d \<le> 60"
  shows "toFixed d (double (of_int n / 10 ^ d)) = fixed_string d n"
proof -
  let ?q = "of_int n / 10 ^ d :: rat"
  have n: "n < 2 ^ 53" using assms(2) by simp
  note fin = double_fraction[OF assms(1) n, of d]
  have "\<bar>nearest ?q - ?q\<bar> * 10 ^ d \<le> of_int n / 10 ^ d / 2 ^ 53 * 10 ^ d"
    by (intro mult_right_mono nearest_fraction assms) simp_all
  then have "\<bar>nearest ?q * 10 ^ d - of_int n\<bar> \<le> of_int n / 2 ^ 53"
    by (simp add: abs_mult_pos left_diff_distrib)
  moreover have "(of_int n :: rat) < 2 ^ 52"
    using assms(2) by (metis of_int_less_iff of_int_numeral of_int_power)
  ultimately have "\<bar>nearest ?q * 10 ^ d - of_int n\<bar> < 1 / 2" by simp
  then have "\<lfloor>nearest ?q * 10 ^ d + 1 / 2\<rfloor> = n" by (intro floor_unique) linarith+
  then show ?thesis using fin toFixed_nonneg[OF fin(2,3)] by simp
qed

lemma shown_rounded:
  assumes "0 \<le> n" and "n < 2 ^ 53" and "d < k" and "k \<le> 60"
  obtains t where "0 \<le> t" "toFixed d (double (of_int n / 10 ^ k)) = fixed_string d t"
    "2 * \<bar>t * 10 ^ (k - d) - n\<bar> \<le> 10 ^ (k - d)"
proof -
  let ?q = "of_int n / 10 ^ k :: rat" and ?u = "10 ^ (k - d) :: rat"
  note fin = double_fraction[OF assms(1,2), of k]
  obtain t where t: "0 \<le> t" "toFixed d (Finite (nearest ?q)) = fixed_string d t"
    "\<bar>of_int t - nearest ?q * 10 ^ d\<bar> \<le> 1 / 2"
    using toFixed_error[OF fin(2,3), of d] .
  have k: "(10::rat) ^ k = 10 ^ d * ?u" using assms(3) by (simp flip: power_add)
  have "\<bar>nearest ?q - ?q\<bar> * 10 ^ k \<le> of_int n / 10 ^ k / 2 ^ 53 * 10 ^ k"
    by (intro mult_right_mono nearest_fraction assms) simp_all
  then have "\<bar>nearest ?q * 10 ^ k - of_int n\<bar> \<le> of_int n / 2 ^ 53"
    by (simp add: abs_mult_pos left_diff_distrib)
  moreover have "(of_int n :: rat) < 2 ^ 53"
    using assms(2) by (metis of_int_less_iff of_int_numeral of_int_power)
  ultimately have near: "\<bar>nearest ?q * 10 ^ d * ?u - of_int n\<bar> < 1" by (simp add: k mult.assoc)
  have "\<bar>of_int t - nearest ?q * 10 ^ d\<bar> * ?u \<le> 1 / 2 * ?u"
    using t(3) by (intro mult_right_mono) simp_all
  then have "\<bar>of_int t * ?u - nearest ?q * 10 ^ d * ?u\<bar> \<le> ?u / 2"
    by (simp add: abs_mult_pos left_diff_distrib)
  with near have "\<bar>of_int t * ?u - of_int n\<bar> < ?u / 2 + 1" by linarith
  then have "of_int (2 * \<bar>t * 10 ^ (k - d) - n\<bar>) < (of_int (10 ^ (k - d) + 2) :: rat)"
    by simp
  then have "2 * \<bar>t * 10 ^ (k - d) - n\<bar> < 10 ^ (k - d) + 2" by (simp only: of_int_less_iff)
  moreover have "even (10 ^ (k - d) :: int)" using assms(3) by simp
  then obtain h :: int where "10 ^ (k - d) = 2 * h" by blast
  ultimately have "2 * \<bar>t * 10 ^ (k - d) - n\<bar> \<le> 10 ^ (k - d)" by simp
  with t show ?thesis using that fin(1) by simp
qed

lemma double_of_nat:
  assumes "n < 2 ^ 53"
  shows "double (of_nat n) = Finite (of_nat n)"
proof -
  have n: "int n < 2 ^ 53" using assms by simp
  then have "nearest (of_int (int n)) = of_int (int n)" by (intro nearest_of_int) simp
  then show ?thesis using double_fraction(1)[of "int n" 0] n by simp
qed

section \<open>Errors of a computation\<close>

text \<open>\<open>a\<close> is the positive number \<open>x\<close> up to a relative error. The errors of a computation add up.\<close>

definition close :: "rat \<Rightarrow> rat \<Rightarrow> rat \<Rightarrow> bool" where
  "close e x a \<longleftrightarrow> \<bar>a - x\<bar> \<le> e * x"

lemma close_bounds: "close e x a \<longleftrightarrow> (1 - e) * x \<le> a \<and> a \<le> (1 + e) * x"
  by (auto simp: close_def abs_le_iff algebra_simps)

lemma close_trans:
  assumes "close d x y" and "close e y z" and "0 \<le> x" "0 \<le> d" "0 \<le> e"
  shows "close (d + e + d * e) x z"
proof -
  have "e * y \<le> e * ((1 + d) * x)" using assms(1,5) by (intro mult_left_mono) (simp_all add: close_bounds)
  moreover have "\<bar>z - x\<bar> \<le> \<bar>z - y\<bar> + \<bar>y - x\<bar>" by simp
  ultimately have "\<bar>z - x\<bar> \<le> e * ((1 + d) * x) + d * x" using assms(1,2) by (simp add: close_def)
  then show ?thesis by (simp add: close_def algebra_simps)
qed

lemma close_mult:
  assumes "close d x a" and "close e y b" and "0 \<le> x" "0 \<le> y" "0 \<le> d" "0 \<le> e"
  shows "close (d + e + d * e) (x * y) (a * b)"
proof -
  have "\<bar>a * b - x * y\<bar> = \<bar>(a - x) * y + a * (b - y)\<bar>" by (simp add: algebra_simps)
  also have "... \<le> \<bar>a - x\<bar> * y + \<bar>a\<bar> * \<bar>b - y\<bar>"
    using abs_triangle_ineq[of "(a - x) * y" "a * (b - y)"] assms(4) by (simp add: abs_mult)
  also have "... \<le> (d * x) * y + ((1 + d) * x) * (e * y)"
  proof (intro add_mono mult_right_mono mult_mono)
    have "\<bar>a\<bar> \<le> \<bar>a - x\<bar> + x" using assms(3) by simp
    then show "\<bar>a\<bar> \<le> (1 + d) * x" using assms(1) by (simp add: close_def algebra_simps)
  qed (use assms in \<open>simp_all add: close_def\<close>)
  finally show ?thesis by (simp add: close_def algebra_simps)
qed

lemma close_mono: "close d x a \<Longrightarrow> d \<le> e \<Longrightarrow> 0 \<le> x \<Longrightarrow> close e x a"
  unfolding close_def by (erule order_trans) (rule mult_right_mono)

lemma close_chain:
  "close d x y \<Longrightarrow> close e y z \<Longrightarrow> 0 \<le> x \<Longrightarrow> 0 \<le> d \<Longrightarrow> 0 \<le> e \<Longrightarrow> d + e + d * e \<le> f \<Longrightarrow> close f x z"
  using close_trans close_mono by blast

lemma close_nearest:
  assumes "q = 0 \<or> 1 / 10 ^ 60 \<le> q"
  shows "close (1 / 2 ^ 53) q (nearest q)"
proof -
  have "0 \<le> q" using assms by (auto intro: order_trans[rotated])
  moreover have "q = 0 \<or> 2 powi (- 1022) \<le> \<bar>q\<bar>" using assms not_tiny[of q] \<open>0 \<le> q\<close> by auto
  ultimately show ?thesis using nearest_relative[of q] by (simp add: close_def)
qed

lemma close_lower: "close e x a \<Longrightarrow> e \<le> 1 / 2 \<Longrightarrow> 0 \<le> x \<Longrightarrow> x / 2 \<le> a"
  using mult_right_mono[of "1 / 2" "1 - e" x] by (simp add: close_bounds)

lemma close_upper: "close e x a \<Longrightarrow> e \<le> 1 \<Longrightarrow> 0 \<le> x \<Longrightarrow> a \<le> 2 * x"
  using mult_right_mono[of "1 + e" 2 x] by (simp add: close_bounds)

text \<open>A product of two numbers that are rounded before, and after, they are multiplied.\<close>

lemma close_product:
  assumes "x = 0 \<or> 1 / 10 ^ 25 \<le> x" and "1 / 10 ^ 25 \<le> y"
  shows "close (1 / 2 ^ 51) (x * y) (nearest (nearest x * nearest y))"
proof -
  let ?e = "1 / 2 ^ 53 :: rat"
  have nn: "0 \<le> x" "0 \<le> y" using assms by (auto intro: order_trans[rotated])
  have big: "1 / 10 ^ 25 \<le> z \<Longrightarrow> 1 / 10 ^ 60 \<le> z" for z :: rat
    by (rule order_trans[of _ "1 / 10 ^ 25"]) simp_all
  have cx: "close ?e x (nearest x)" by (rule close_nearest) (use assms(1) big in blast)
  have cy: "close ?e y (nearest y)" by (rule close_nearest) (use assms(2) big in blast)
  have "nearest x * nearest y = 0 \<or> 1 / 10 ^ 60 \<le> nearest x * nearest y"
  proof (cases "x = 0")
    case False
    have "x / 2 \<le> nearest x" by (rule close_lower[OF cx _ nn(1)]) simp
    moreover have "y / 2 \<le> nearest y" by (rule close_lower[OF cy _ nn(2)]) simp
    ultimately have "(1 / 10 ^ 25 / 2) * (1 / 10 ^ 25 / 2) \<le> nearest x * nearest y"
      using assms False by (intro mult_mono) auto
    moreover have "1 / 10 ^ 60 \<le> (1 / 10 ^ 25 / 2) * (1 / 10 ^ 25 / 2 :: rat)" by simp
    ultimately have "1 / 10 ^ 60 \<le> nearest x * nearest y" by (rule order_trans[rotated])
    then show ?thesis ..
  qed simp
  then have last: "close ?e (nearest x * nearest y) (nearest (nearest x * nearest y))" by (rule close_nearest)
  have xy: "0 \<le> x * y" using nn by simp
  have "close (?e + ?e + ?e * ?e) (x * y) (nearest x * nearest y)" by (rule close_mult[OF cx cy nn]) simp_all
  from close_chain[OF this last xy] show ?thesis by simp
qed

lemma half_bound: "a / 2 \<le> b \<Longrightarrow> c \<le> a \<Longrightarrow> d \<le> c / 2 \<Longrightarrow> d \<le> (b :: rat)"
  by linarith

lemma close_inverse:
  assumes "close e y b" and "0 < y" and "0 \<le> e" "e \<le> 1 / 2"
  shows "close (2 * e) (1 / y) (1 / b)"
proof -
  have b: "y / 2 \<le> b" using close_lower[of e y b] assms by simp
  then have "0 < b" using assms(2) by linarith
  have "\<bar>1 / b - 1 / y\<bar> = \<bar>b - y\<bar> / (b * y)"
    using \<open>0 < b\<close> assms(2) by (simp add: field_simps abs_mult abs_minus_commute)
  also have "... \<le> (e * y) / (y / 2 * y)"
    using assms b by (intro frac_le) (simp_all add: close_def)
  also have "... = 2 * e * (1 / y)" using assms(2) by (simp add: field_simps)
  finally show ?thesis by (simp add: close_def)
qed

lemma close_quotient:
  assumes "x = 0 \<or> 1 / 10 ^ 25 \<le> x" and "1 / 10 ^ 25 \<le> y" and "x = 0 \<or> 1 / 10 ^ 55 \<le> x / y"
  shows "close (1 / 2 ^ 50) (x / y) (nearest (nearest x / nearest y))"
proof -
  let ?e = "1 / 2 ^ 53 :: rat"
  have y0: "0 < y" using assms(2) by (rule less_le_trans[rotated]) simp
  have nn: "0 \<le> x" "0 \<le> y" using assms y0 by (auto intro: order_trans[rotated])
  have big: "1 / 10 ^ 25 \<le> z \<Longrightarrow> 1 / 10 ^ 60 \<le> z" for z :: rat
    by (rule order_trans[of _ "1 / 10 ^ 25"]) simp_all
  have cx: "close ?e x (nearest x)" by (rule close_nearest) (use assms(1) big in blast)
  have cy: "close ?e y (nearest y)" by (rule close_nearest) (use assms(2) big in blast)
  have ci: "close (2 * ?e) (1 / y) (1 / nearest y)" using cy y0 by (rule close_inverse) simp_all
  have "close (?e + 2 * ?e + ?e * (2 * ?e)) (x * (1 / y)) (nearest x * (1 / nearest y))"
    by (rule close_mult[OF cx ci]) (use nn in simp_all)
  then have cq: "close (?e + 2 * ?e + ?e * (2 * ?e)) (x / y) (nearest x / nearest y)" by simp
  have q0: "0 \<le> x / y" using nn by simp
  have "nearest x / nearest y = 0 \<or> 1 / 10 ^ 60 \<le> nearest x / nearest y"
  proof (cases "x = 0")
    case False
    have "x / y / 2 \<le> nearest x / nearest y" by (rule close_lower[OF cq _ q0]) simp
    moreover have "1 / 10 ^ 55 \<le> x / y" using assms(3) False by blast
    moreover have "1 / 10 ^ 60 \<le> (1 / 10 ^ 55 / 2 :: rat)" by simp
    ultimately have "1 / 10 ^ 60 \<le> nearest x / nearest y" by (rule half_bound)
    then show ?thesis ..
  qed simp
  then have "close ?e (nearest x / nearest y) (nearest (nearest x / nearest y))" by (rule close_nearest)
  from close_chain[OF cq this q0] show ?thesis by simp
qed

end
