(* ===== verification/Dashboard_Page.thy ===== *)
theory Dashboard_Page
  imports App_Pages Js_Number_Properties
begin

text \<open>
  The dashboard of the web application, \<open>electrolend-ui/src/app/app/page.tsx\<close>, with the data of
  \<open>types/lending.ts\<close>: what its modal computes for an asset, \<open>fetchUserPositions\<close>, which builds the position of a
  user from the readings of the lending contract, and the figures and the colour that the page shows.
\<close>

section \<open>Markets and positions\<close>

datatype apy = One_rate string | Rates string string

record MarketAsset =
  ma_asset :: string
  ma_symbol :: string
  ma_logoSrc :: string
  ma_full_name :: "string option"
  ma_depositAPY :: string
  ma_borrowAPY :: apy
  ma_totalSupplied :: string
  ma_totalBorrowed :: string
  ma_liquidity :: string
  ma_price :: string
  ma_canBeCollateral :: "bool option"
  ma_ltv :: "number option"
  ma_utilizationRate :: "nat option"
  ma_change :: string
  ma_trending :: "string option"

record UserAsset =
  ua_asset :: string
  ua_symbol :: string
  ua_amount :: string
  ua_value :: string
  ua_apy :: string
  ua_isCollateral :: "bool option"

record UserPosition =
  up_netWorth :: string
  up_supplied_total :: string
  up_supplied_assets :: "UserAsset list"
  up_borrowed_total :: string
  up_borrowed_assets :: "UserAsset list"
  up_healthFactor :: health

definition emptyUserPosition :: UserPosition where
  "emptyUserPosition =
     \<lparr>up_netWorth = ''$0.00'', up_supplied_total = ''$0.00'', up_supplied_assets = [],
      up_borrowed_total = ''$0.00'', up_borrowed_assets = [], up_healthFactor = Health ''0.0''\<rparr>"

record TokenInfo_row =
  tk_symbol :: string
  tk_name :: string
  tk_decimals :: nat

definition TOKEN_SYMBOLS :: "(string \<times> TokenInfo_row) list" where
  "TOKEN_SYMBOLS =
     [(WETN_ADDRESS, \<lparr>tk_symbol = ''WETN'', tk_name = ''Wrapped Electroneum'', tk_decimals = 18\<rparr>),
      (USDC_ADDRESS, \<lparr>tk_symbol = ''USDC'', tk_name = ''USD Coin'', tk_decimals = 18\<rparr>),
      (USDT_ADDRESS, \<lparr>tk_symbol = ''USDT'', tk_name = ''Tether USD'', tk_decimals = 18\<rparr>)]"

text \<open>The figures of the sample markets are texts: percentages, amounts in short and a price.\<close>

type_synonym percentage = string
type_synonym short_amount = string

definition dashboard_market ::
  "string \<Rightarrow> string \<Rightarrow> percentage \<Rightarrow> percentage \<Rightarrow> short_amount \<Rightarrow> short_amount \<Rightarrow> short_amount \<Rightarrow> string
   \<Rightarrow> percentage \<Rightarrow> string \<Rightarrow> MarketAsset" where
  "dashboard_market symb logo deposit borrow supplied borrowed liquid price change trend =
     \<lparr>ma_asset = symb, ma_symbol = symb, ma_logoSrc = logo, ma_full_name = None, ma_depositAPY = deposit,
      ma_borrowAPY = One_rate borrow, ma_totalSupplied = supplied, ma_totalBorrowed = borrowed, ma_liquidity = liquid,
      ma_price = price, ma_canBeCollateral = None, ma_ltv = None, ma_utilizationRate = None, ma_change = change,
      ma_trending = Some trend\<rparr>"

definition marketData :: "MarketAsset list" where
  "marketData =
     [dashboard_market ''WETN'' ''/images/etn-logo.png'' ''3.2%'' ''5.8%'' ''2.47M'' ''1.12M'' ''1.35M'' ''$0.00216'' ''+2.5%'' ''up'',
      dashboard_market ''USDC'' ''/images/usdc-logo.png'' ''4.1%'' ''6.3%'' ''1.95M'' ''0.88M'' ''1.07M'' ''$0.99'' ''+0.1%'' ''up'',
      dashboard_market ''USDT'' ''/images/usdt-logo.png'' ''3.9%'' ''6.2%'' ''0.98M'' ''0.42M'' ''0.56M'' ''$1.00'' ''0%'' ''neutral'']"

section \<open>The modal\<close>

datatype modal_asset = Market_asset MarketAsset | User_asset UserAsset

fun modal_symbol :: "modal_asset \<Rightarrow> string" where
  "modal_symbol (Market_asset m) = ma_symbol m"
| "modal_symbol (User_asset u) = ua_symbol u"

text \<open>The value in dollars that the modal shows for the amount as it is typed.\<close>

definition modal_usdValue :: "modal_asset option \<Rightarrow> string \<Rightarrow> string" where
  "modal_usdValue asset amount =
     (case asset of
        None \<Rightarrow> ''0.0000''
      | Some a \<Rightarrow>
          if amount = '''' then ''0.0000''
          else (case getTokenPrice (modal_symbol a) of
                  Inl e \<Rightarrow> ''0.0000''
                | Inr tokenPrice \<Rightarrow> toFixed 4 (num_mult (parseFloat amount) tokenPrice)))"

definition determineTokenAddress :: "string \<Rightarrow> exn + string" where
  "determineTokenAddress symb =
     (let s = toUpperCase symb in
      if s = ''WETN'' then Inr WETN_ADDRESS
      else if s = ''USDC'' then Inr USDC_ADDRESS
      else if s = ''USDT'' then Inr USDT_ADDRESS
      else Inl (new_Error (''Unsupported token: '' @ symb)))"

definition getDepositAPY :: "modal_asset option \<Rightarrow> string" where
  "getDepositAPY asset =
     (case asset of
        None \<Rightarrow> ''0%''
      | Some (Market_asset m) \<Rightarrow> ma_depositAPY m
      | Some (User_asset u) \<Rightarrow> ua_apy u)"

definition getBorrowAPY :: "modal_asset option \<Rightarrow> string" where
  "getBorrowAPY asset =
     (case asset of
        None \<Rightarrow> ''0%''
      | Some (Market_asset m) \<Rightarrow> (case ma_borrowAPY m of One_rate r \<Rightarrow> r | Rates v st \<Rightarrow> v)
      | Some (User_asset u) \<Rightarrow> ua_apy u)"

definition getTokenPriceDisplay :: "modal_asset option \<Rightarrow> string" where
  "getTokenPriceDisplay asset =
     (case asset of
        None \<Rightarrow> ''$0.0000''
      | Some a \<Rightarrow>
          (case getTokenPrice (modal_symbol a) of
             Inl e \<Rightarrow> ''$0.0000''
           | Inr price \<Rightarrow> ''$'' @ toFixed (if modal_symbol a = ''WETN'' then 5 else 4) price))"

section \<open>Fetching the positions\<close>

text \<open>
  The local variables of \<open>fetchUserPositions\<close>: an exception of a token ends its turn of the loop and keeps what has
  been added before.
\<close>

record tally =
  totalSuppliedValue :: number
  totalBorrowedValue :: number
  suppliedAssets :: "UserAsset list"
  borrowedAssets :: "UserAsset list"

definition empty_tally :: tally where
  "empty_tally = \<lparr>totalSuppliedValue = Finite 0, totalBorrowedValue = Finite 0, suppliedAssets = [], borrowedAssets = []\<rparr>"

definition beside :: "('w, exn, 'a) eff \<Rightarrow> ('w \<times> 't, exn, 'a) eff" where
  "beside m s = (case m (fst s) of (r, w') \<Rightarrow> (r, (w', snd s)))"

definition deposit_apy :: "string \<Rightarrow> string" where
  "deposit_apy symb = (if symb = ''WETN'' then ''3.2%'' else if symb = ''USDC'' then ''4.1%'' else ''3.9%'')"

definition borrow_apy :: "string \<Rightarrow> string" where
  "borrow_apy symb = (if symb = ''WETN'' then ''5.0%'' else if symb = ''USDC'' then ''3.0%'' else ''3.0%'')"

text \<open>The value of an amount of a token in dollars, and its row.\<close>

definition usd_value :: "'w ethereum \<Rightarrow> TokenInfo_row \<Rightarrow> number \<Rightarrow> nat \<Rightarrow> number" where
  "usd_value E info tokenPrice amount = num_mult (parseFloat (formatUnits E amount (tk_decimals info))) tokenPrice"

definition asset_row :: "'w ethereum \<Rightarrow> TokenInfo_row \<Rightarrow> number \<Rightarrow> nat \<Rightarrow> string \<Rightarrow> UserAsset" where
  "asset_row E info tokenPrice amount rate =
     \<lparr>ua_asset = tk_name info, ua_symbol = tk_symbol info,
      ua_amount = toFixed 4 (parseFloat (formatUnits E amount (tk_decimals info))),
      ua_value = ''$'' @ toFixed 4 (usd_value E info tokenPrice amount), ua_apy = rate, ua_isCollateral = None\<rparr>"

definition add_supplied :: "'w ethereum \<Rightarrow> TokenInfo_row \<Rightarrow> number \<Rightarrow> nat \<Rightarrow> tally \<Rightarrow> tally" where
  "add_supplied E info tokenPrice amount t =
     t\<lparr>totalSuppliedValue := num_add (totalSuppliedValue t) (usd_value E info tokenPrice amount),
       suppliedAssets := suppliedAssets t @ [asset_row E info tokenPrice amount (deposit_apy (tk_symbol info))]\<rparr>"

definition add_borrowed :: "'w ethereum \<Rightarrow> TokenInfo_row \<Rightarrow> number \<Rightarrow> nat \<Rightarrow> tally \<Rightarrow> tally" where
  "add_borrowed E info tokenPrice amount t =
     t\<lparr>totalBorrowedValue := num_add (totalBorrowedValue t) (usd_value E info tokenPrice amount),
       borrowedAssets := borrowedAssets t @ [asset_row E info tokenPrice amount (borrow_apy (tk_symbol info))]\<rparr>"

text \<open>Nothing is added, and no price asked for, when the amount is zero.\<close>

definition tally_amount ::
  "('w, exn, nat) eff \<Rightarrow> (TokenInfo_row \<Rightarrow> number \<Rightarrow> nat \<Rightarrow> tally \<Rightarrow> tally) \<Rightarrow> TokenInfo_row
   \<Rightarrow> ('w \<times> tally, exn, unit) eff" where
  "tally_amount reading add info =
     eff_bind (beside reading) (\<lambda>amount.
       if 0 < amount then
         eff_bind (eff_lift (getTokenPrice (tk_symbol info))) (\<lambda>tokenPrice.
         eff_modify (\<lambda>(w, t). (w, add info tokenPrice amount t)))
       else eff_return ())"

definition process_token :: "'w ethereum \<Rightarrow> string \<Rightarrow> string \<Rightarrow> ('w \<times> tally, exn, unit) eff" where
  "process_token E user tokenAddress =
     (case map_of TOKEN_SYMBOLS tokenAddress of
        None \<Rightarrow> eff_return ()
      | Some tokenInfo \<Rightarrow>
          eff_catch
           (eff_then (tally_amount (lending_deposits E user tokenAddress) (add_supplied E) tokenInfo)
           (tally_amount (lending_borrowWithInterest E user tokenAddress) (add_borrowed E) tokenInfo))
           (\<lambda>_. eff_return ()))"

definition tokenAddresses :: "string list" where
  "tokenAddresses = [WETN_ADDRESS, USDC_ADDRESS, USDT_ADDRESS]"

definition dashboard_health :: "'w ethereum \<Rightarrow> nat \<Rightarrow> nat \<Rightarrow> health" where
  "dashboard_health E collateral borrowed =
     (let collateralValueUSD = parseFloat (formatUnits E collateral 8); borrowValueUSD = parseFloat (formatUnits E borrowed 8)
      in if num_less (Finite 0) borrowValueUSD then Health (toFixed 2 (num_div collateralValueUSD borrowValueUSD))
         else Infinity_sign)"

definition position_of :: "health \<Rightarrow> tally \<Rightarrow> UserPosition" where
  "position_of h t =
     (let netWorth = num_max (Finite 0) (num_sub (totalSuppliedValue t) (totalBorrowedValue t))
      in \<lparr>up_netWorth = ''$'' @ toFixed 2 netWorth,
          up_supplied_total = ''$'' @ toFixed 2 (totalSuppliedValue t), up_supplied_assets = suppliedAssets t,
          up_borrowed_total = ''$'' @ toFixed 2 (totalBorrowedValue t), up_borrowed_assets = borrowedAssets t,
          up_healthFactor = h\<rparr>)"

record 'w dashboard =
  db_world :: 'w
  db_positions :: UserPosition
  db_loading :: bool
  db_toasts :: "(string \<times> toast_type) list"

definition load_position :: "'w ethereum \<Rightarrow> string \<Rightarrow> ('w, exn, UserPosition) eff" where
  "load_position E user =
     (if \<not> injected E then eff_throw (new_Error ''No Ethereum wallet detected'')
      else eff_bind (lending_accountInfo E user) (\<lambda>(collateral, borrowed, limit) w.
        (case eff_each (process_token E user) tokenAddresses (w, empty_tally) of
           (Inl e, (w', t)) \<Rightarrow> (Inl e, w')
         | (Inr u, (w', t)) \<Rightarrow> (Inr (position_of (dashboard_health E collateral borrowed) t), w'))))"

definition fetchUserPositions :: "'w ethereum \<Rightarrow> bool \<Rightarrow> string option \<Rightarrow> 'w dashboard \<Rightarrow> 'w dashboard" where
  "fetchUserPositions E known user s =
     (case (known, user) of
        (True, Some a) \<Rightarrow>
          if a = '''' then s
          else (case load_position E a (db_world (s\<lparr>db_loading := True\<rparr>)) of
                  (Inr p, w') \<Rightarrow> s\<lparr>db_world := w', db_positions := p, db_loading := False\<rparr>
                | (Inl e, w') \<Rightarrow> s\<lparr>db_world := w', db_loading := False,
                    db_toasts := db_toasts s @ [(''Failed to load your positions'', error)]\<rparr>)
      | _ \<Rightarrow> s)"

section \<open>The figures on the page\<close>

text \<open>
  The account information of the wallet is preferred to the fetched position where its text is not empty.
  \<open>locale_text\<close> is how the browser writes a number with two places in the language of the user.
\<close>

record dashboard_figures =
  fg_netWorth :: string
  fg_supplied :: string
  fg_borrowed :: string
  fg_healthFactor :: health

definition dashboard_figures_of ::
  "(number \<Rightarrow> string) \<Rightarrow> UserAccountInfo option \<Rightarrow> UserPosition \<Rightarrow> dashboard_figures" where
  "dashboard_figures_of locale_text info p =
     (let figure = (\<lambda>field other. case info of
            None \<Rightarrow> other
          | Some i \<Rightarrow> if field i = '''' then other else ''$'' @ locale_text (parseFloat (field i)))
      in \<lparr>fg_netWorth = figure collateralValue (up_netWorth p),
          fg_supplied = figure collateralValue (up_supplied_total p),
          fg_borrowed = figure borrowValue (up_borrowed_total p),
          fg_healthFactor = (case info of
             None \<Rightarrow> up_healthFactor p
           | Some i \<Rightarrow> if healthFactor i = Health '''' then up_healthFactor p else healthFactor i)\<rparr>)"

text \<open>The infinity sign is not read as a number.\<close>

fun health_number :: "health \<Rightarrow> number" where
  "health_number Infinity_sign = NaN"
| "health_number (Health s) = parseFloat s"

datatype colour = Green | Yellow | Red

definition health_colour :: "health \<Rightarrow> colour" where
  "health_colour h =
     (if num_less (Finite 2) (health_number h) then Green
      else if num_less (Finite 1) (health_number h) then Yellow
      else Red)"

section \<open>The page\<close>

text \<open>What a table shows: a text instead of it, or its header and its rows, each with the action of its button.\<close>

datatype 'r shown = Text_only string | Table "string list" "'r list"

record position_row =
  pr_cells :: "string list"
  pr_title :: string
  pr_action :: AssetAction

definition position_header :: "string list" where
  "position_header = [''Asset'', ''Amount'', ''Value'', ''APY'', ''Actions'']"

definition supplied_table :: "UserPosition \<Rightarrow> position_row shown" where
  "supplied_table p =
     (if 0 < length (up_supplied_assets p)
      then Table position_header
        (map (\<lambda>a. \<lparr>pr_cells = [ua_asset a, ua_amount a, ua_value a, ua_apy a], pr_title = ''Withdraw'', pr_action = Withdraw_asset\<rparr>)
          (up_supplied_assets p))
      else Text_only ''No supplied assets'')"

definition borrowed_table :: "UserPosition \<Rightarrow> position_row shown" where
  "borrowed_table p =
     (if 0 < length (up_borrowed_assets p)
      then Table position_header
        (map (\<lambda>a. \<lparr>pr_cells = [ua_asset a, ua_amount a, ua_value a, ua_apy a], pr_title = ''Repay'', pr_action = Repay_asset\<rparr>)
          (up_borrowed_assets p))
      else Text_only ''No borrowed assets'')"

text \<open>
  The open modal. \<open>locale_amount\<close> is how the browser writes a number with up to six places.
\<close>

record modal_view =
  mv_title :: string
  mv_amount :: string
  mv_available :: string
  mv_usd :: string
  mv_price :: string
  mv_apy_label :: string
  mv_apy :: string
  mv_inputs_enabled :: bool
  mv_confirm_enabled :: bool
  mv_confirm :: string

definition is_deposit_side :: "AssetAction option \<Rightarrow> bool" where
  "is_deposit_side action \<longleftrightarrow> action = Some Supply_asset \<or> action = Some Withdraw_asset"

definition dashboard_modal ::
  "(number \<Rightarrow> string) \<Rightarrow> bool \<Rightarrow> AssetAction option \<Rightarrow> modal_asset option \<Rightarrow> bool \<Rightarrow> string \<Rightarrow> string \<Rightarrow> string \<Rightarrow> modal_view option" where
  "dashboard_modal locale_amount isOpen action asset isLoading amount maxAmount usdValue =
     (if \<not> isOpen then None
      else Some \<lparr>
        mv_title = (if action = Some Supply_asset then ''Supply'' else if action = Some Withdraw_asset then ''Withdraw''
          else if action = Some Borrow_asset then ''Borrow'' else ''Repay'')
          @ '' '' @ (case asset of None \<Rightarrow> '''' | Some a \<Rightarrow> modal_symbol a),
        mv_amount = amount,
        mv_available = ''Available: '' @ locale_amount (parseFloat (if maxAmount = '''' then ''0'' else maxAmount)),
        mv_usd = ''~$'' @ usdValue,
        mv_price = getTokenPriceDisplay asset,
        mv_apy_label = (if is_deposit_side action then ''Deposit'' else ''Borrow'') @ '' APY:'',
        mv_apy = (if is_deposit_side action then getDepositAPY asset else getBorrowAPY asset),
        mv_inputs_enabled = (\<not> isLoading),
        mv_confirm_enabled = confirm_enabled isLoading amount,
        mv_confirm = (if isLoading then ''Processing'' else ''Confirm'')\<rparr>)"

end
