(* ===== verification/Dashboard_Properties.thy ===== *)
theory Dashboard_Properties
  imports Dashboard_Page
begin

text \<open>
  What the dashboard shows is right: the fetched position lists exactly the readings that succeeded, its figures
  are within half a unit of their last place of the exact values, and how the figures of the two sources compare.
\<close>

section \<open>The fetched position\<close>

text \<open>What has been read of a token when its turn in the loop is over: after a failure the rest is not read.\<close>

definition supply_read :: "(string \<Rightarrow> exn + nat) \<Rightarrow> string \<Rightarrow> nat" where
  "supply_read dep a = (case dep a of Inl e \<Rightarrow> 0 | Inr n \<Rightarrow> n)"

definition loan_read :: "(string \<Rightarrow> exn + nat) \<Rightarrow> (string \<Rightarrow> exn + nat) \<Rightarrow> string \<Rightarrow> nat" where
  "loan_read dep bor a = (case dep a of Inl e \<Rightarrow> 0 | Inr n \<Rightarrow> (case bor a of Inl e \<Rightarrow> 0 | Inr k \<Rightarrow> k))"

definition price_of :: "TokenInfo_row \<Rightarrow> number" where
  "price_of info = (case getTokenPrice (tk_symbol info) of Inr p \<Rightarrow> p | Inl e \<Rightarrow> NaN)"

lemma token_prices:
  assumes "(a, info) \<in> set TOKEN_SYMBOLS"
  shows "getTokenPrice (tk_symbol info) = Inr (price_of info)"
  using assms
  by (auto simp: TOKEN_SYMBOLS_def price_of_def getTokenPrice_def TOKEN_PRICES_def toUpperCase_def upper_char_def)

lemma token_table:
  "map fst TOKEN_SYMBOLS = tokenAddresses" "distinct (map fst TOKEN_SYMBOLS)"
  by (simp_all add: TOKEN_SYMBOLS_def tokenAddresses_def WETN_ADDRESS_def USDC_ADDRESS_def USDT_ADDRESS_def)

text \<open>The rows and the total that a list of amounts gives.\<close>

definition rows_of :: "'w ethereum \<Rightarrow> (string \<Rightarrow> nat) \<Rightarrow> (string \<Rightarrow> string) \<Rightarrow> (string \<times> TokenInfo_row) list \<Rightarrow> UserAsset list" where
  "rows_of E amount rate tokens =
     map (\<lambda>(a, info). asset_row E info (price_of info) (amount a) (rate (tk_symbol info)))
       (filter (\<lambda>(a, info). 0 < amount a) tokens)"

definition total_of :: "'w ethereum \<Rightarrow> (string \<Rightarrow> nat) \<Rightarrow> number \<Rightarrow> (string \<times> TokenInfo_row) list \<Rightarrow> number" where
  "total_of E amount start tokens =
     foldl (\<lambda>total (a, info). num_add total (usd_value E info (price_of info) (amount a))) start
       (filter (\<lambda>(a, info). 0 < amount a) tokens)"

definition tally_step :: "'w ethereum \<Rightarrow> (string \<Rightarrow> nat) \<Rightarrow> (string \<Rightarrow> nat) \<Rightarrow> tally \<Rightarrow> string \<times> TokenInfo_row \<Rightarrow> tally" where
  "tally_step E supply loan t token =
     (let t1 = (if 0 < supply (fst token) then add_supplied E (snd token) (price_of (snd token)) (supply (fst token)) t else t)
      in if 0 < loan (fst token) then add_borrowed E (snd token) (price_of (snd token)) (loan (fst token)) t1 else t1)"

lemma rows_of_simps [simp]:
  "rows_of E amount rate [] = []"
  "rows_of E amount rate ((a, info) # tokens) =
     (if 0 < amount a then [asset_row E info (price_of info) (amount a) (rate (tk_symbol info))] else [])
       @ rows_of E amount rate tokens"
  by (simp_all add: rows_of_def)

lemma total_of_simps [simp]:
  "total_of E amount start [] = start"
  "total_of E amount start ((a, info) # tokens) =
     total_of E amount (if 0 < amount a then num_add start (usd_value E info (price_of info) (amount a)) else start) tokens"
  by (simp_all add: total_of_def)

lemma tally_step_fields:
  "totalSuppliedValue (tally_step E supply loan t (a, info)) = total_of E supply (totalSuppliedValue t) [(a, info)]"
  "totalBorrowedValue (tally_step E supply loan t (a, info)) = total_of E loan (totalBorrowedValue t) [(a, info)]"
  "suppliedAssets (tally_step E supply loan t (a, info)) = suppliedAssets t @ rows_of E supply deposit_apy [(a, info)]"
  "borrowedAssets (tally_step E supply loan t (a, info)) = borrowedAssets t @ rows_of E loan borrow_apy [(a, info)]"
  by (simp_all add: tally_step_def Let_def add_supplied_def add_borrowed_def)

lemma tally_steps:
  "foldl (tally_step E supply loan) t tokens =
     \<lparr>totalSuppliedValue = total_of E supply (totalSuppliedValue t) tokens,
      totalBorrowedValue = total_of E loan (totalBorrowedValue t) tokens,
      suppliedAssets = suppliedAssets t @ rows_of E supply deposit_apy tokens,
      borrowedAssets = borrowedAssets t @ rows_of E loan borrow_apy tokens\<rparr>"
proof (induction tokens arbitrary: t)
  case (Cons x tokens)
  then show ?case by (cases x) (simp add: tally_step_fields)
qed simp

lemma process_token_reads:
  assumes "(a, info) \<in> set TOKEN_SYMBOLS"
    and "lending_deposits E u a w = (dep a, w)" and "lending_borrowWithInterest E u a w = (bor a, w)"
  shows "process_token E u a (w, t) = (Inr (), (w, tally_step E (supply_read dep) (loan_read dep bor) t (a, info)))"
proof -
  have "map_of TOKEN_SYMBOLS a = Some info" using assms(1) token_table(2) by (rule map_of_is_SomeI[rotated])
  then show ?thesis
    using assms(2,3) token_prices[OF assms(1)]
    by (cases "dep a"; cases "bor a")
      (simp_all add: process_token_def tally_amount_def beside_def tally_step_def supply_read_def loan_read_def
        eff_catch_def eff_then_def eff_bind_def eff_simps Let_def)
qed

lemma process_tokens_reads:
  assumes "set tokens \<subseteq> set TOKEN_SYMBOLS"
    and "\<And>a. lending_deposits E u a w = (dep a, w)" and "\<And>a. lending_borrowWithInterest E u a w = (bor a, w)"
  shows "eff_each (process_token E u) (map fst tokens) (w, t)
       = (Inr (), (w, foldl (tally_step E (supply_read dep) (loan_read dep bor)) t tokens))"
  using assms(1)
proof (induction tokens arbitrary: t)
  case (Cons x tokens)
  obtain a info where x: "x = (a, info)" by fastforce
  then have "(a, info) \<in> set TOKEN_SYMBOLS" using Cons.prems by simp
  note step = process_token_reads[OF this, of E u w dep bor t, OF assms(2,3)]
  show ?case using Cons by (simp add: x eff_then_def eff_bind_def step)
qed (simp add: eff_simps)

text \<open>The position that a list of readings gives.\<close>

definition position_read ::
  "'w ethereum \<Rightarrow> health \<Rightarrow> (string \<Rightarrow> nat) \<Rightarrow> (string \<Rightarrow> nat) \<Rightarrow> UserPosition" where
  "position_read E h supply loan =
     (let supplied = total_of E supply (Finite 0) TOKEN_SYMBOLS; borrowed = total_of E loan (Finite 0) TOKEN_SYMBOLS
      in \<lparr>up_netWorth = ''$'' @ toFixed 2 (num_max (Finite 0) (num_sub supplied borrowed)),
          up_supplied_total = ''$'' @ toFixed 2 supplied, up_supplied_assets = rows_of E supply deposit_apy TOKEN_SYMBOLS,
          up_borrowed_total = ''$'' @ toFixed 2 borrowed, up_borrowed_assets = rows_of E loan borrow_apy TOKEN_SYMBOLS,
          up_healthFactor = h\<rparr>)"

lemma load_position_reads:
  assumes "injected E" and "lending_accountInfo E u w0 = (Inr (collateral, borrowed, limit), w)"
    and "\<And>a. lending_deposits E u a w = (dep a, w)" and "\<And>a. lending_borrowWithInterest E u a w = (bor a, w)"
  shows "load_position E u w0
       = (Inr (position_read E (dashboard_health E collateral borrowed) (supply_read dep) (loan_read dep bor)), w)"
  using process_tokens_reads[of TOKEN_SYMBOLS E u w dep bor empty_tally, OF subset_refl assms(3,4)]
  by (simp add: load_position_def eff_bind_def assms(1,2) token_table(1) tally_steps position_of_def position_read_def
      empty_tally_def Let_def)

lemma fetch_readings:
  assumes "injected E" and "u \<noteq> ''''" and "lending_accountInfo E u (db_world s) = (Inr (collateral, borrowed, limit), w)"
    and "\<And>a. lending_deposits E u a w = (dep a, w)" and "\<And>a. lending_borrowWithInterest E u a w = (bor a, w)"
  shows "fetchUserPositions E True (Some u) s
       = s\<lparr>db_world := w, db_loading := False,
           db_positions := position_read E (dashboard_health E collateral borrowed) (supply_read dep) (loan_read dep bor)\<rparr>"
  using load_position_reads[OF assms(1,3-5)] assms(2) by (simp add: fetchUserPositions_def)

text \<open>
  C38. A fetch that gets the account information shows the position that the readings of the contract give: a row
  for each token with a positive amount, in the order of the tokens, and the totals of the rows. Of a token
  whose deposit cannot be read nothing is shown, and of one whose loan cannot be read the deposit. Whatever happens
  to the tokens, the page is no longer loading and no message is shown.
\<close>

theorem fetch_shows_readings:
  assumes "injected E" and "u \<noteq> ''''" and "lending_accountInfo E u (db_world s) = (Inr (collateral, borrowed, limit), w)"
    and "\<And>a. lending_deposits E u a w = (dep a, w)" and "\<And>a. lending_borrowWithInterest E u a w = (bor a, w)"
  shows "fetchUserPositions E True (Some u) s
       = s\<lparr>db_world := w, db_loading := False,
           db_positions := position_read E (dashboard_health E collateral borrowed) (supply_read dep) (loan_read dep bor)\<rparr>"
  using assms by (rule fetch_readings)

definition sample_dashboard :: "(int \<times> bool) dashboard" where
  "sample_dashboard = \<lparr>db_world = (1, True), db_positions = emptyUserPosition, db_loading = False, db_toasts = []\<rparr>"

lemma fetch_shows_readings_witness:
  "db_positions (fetchUserPositions sample_ethereum True (Some ''0xabc'') sample_dashboard)
   = position_read sample_ethereum (dashboard_health sample_ethereum 0 0) (supply_read (\<lambda>a. Inr 25))
       (loan_read (\<lambda>a. Inr 25) (\<lambda>a. Inr 0))"
  by (subst fetch_shows_readings[where collateral = 0 and borrowed = 0 and limit = 0 and w = "(1, True)"
        and dep = "\<lambda>a. Inr 25" and bor = "\<lambda>a. Inr 0"])
    (simp_all add: sample_ethereum_def sample_dashboard_def eff_simps)

text \<open>
  A fetch that has no wallet, or whose account information cannot be read, keeps the position that is shown, says
  so and is no longer loading.
\<close>

theorem fetch_fails:
  assumes "u \<noteq> ''''" and "\<not> injected E \<and> w = db_world s \<or> injected E \<and> lending_accountInfo E u (db_world s) = (Inl e, w)"
  shows "fetchUserPositions E True (Some u) s
       = s\<lparr>db_world := w, db_loading := False, db_toasts := db_toasts s @ [(''Failed to load your positions'', error)]\<rparr>"
  using assms by (auto simp: fetchUserPositions_def load_position_def eff_simps eff_bind_def)

lemma fetch_fails_witness:
  "db_toasts (fetchUserPositions (sample_ethereum\<lparr>injected := False\<rparr>) True (Some ''0xabc'') sample_dashboard)
   = [(''Failed to load your positions'', error)]"
  by (subst fetch_fails[where w = "(1, True)"]) (simp_all add: sample_dashboard_def)

text \<open>
  When the deposit of a token cannot be read, its loan is left out as well and nobody is told: the page is the same
  whatever is owed in the token.
\<close>

theorem unread_deposit_hides_loan:
  assumes "injected E" and "u \<noteq> ''''" and "lending_accountInfo E u (db_world s) = (Inr (collateral, borrowed, limit), w)"
    and "\<And>a. lending_deposits E u a w = (dep a, w)" and "\<And>a. lending_borrowWithInterest E u a w = (bor a, w)"
    and "dep a0 = Inl e"
  shows "fetchUserPositions (E\<lparr>lending_borrowWithInterest := \<lambda>v a. if a = a0 then eff_return n
           else lending_borrowWithInterest E v a\<rparr>) True (Some u) s
       = fetchUserPositions E True (Some u) s"
proof -
  let ?E = "E\<lparr>lending_borrowWithInterest := \<lambda>v a. if a = a0 then eff_return n else lending_borrowWithInterest E v a\<rparr>"
  have same: "usd_value ?E = usd_value E" "asset_row ?E = asset_row E" "dashboard_health ?E = dashboard_health E"
    by (simp_all add: fun_eq_iff usd_value_def asset_row_def dashboard_health_def)
  have "loan_read dep (bor(a0 := Inr n)) = loan_read dep bor"
    using assms(6) by (auto simp: fun_eq_iff loan_read_def split: sum.split)
  moreover have "fetchUserPositions ?E True (Some u) s
       = s\<lparr>db_world := w, db_loading := False,
           db_positions := position_read ?E (dashboard_health ?E collateral borrowed) (supply_read dep) (loan_read dep (bor(a0 := Inr n)))\<rparr>"
    using assms by (intro fetch_readings) (simp_all add: eff_simps)
  ultimately show ?thesis
    unfolding fetch_readings[OF assms(1-5)] position_read_def rows_of_def total_of_def same by simp
qed

definition reverting_ethereum :: "(int \<times> bool) ethereum" where
  "reverting_ethereum =
     sample_ethereum\<lparr>lending_deposits := \<lambda>v a. if a = USDC_ADDRESS then eff_throw (new_Error ''call revert'') else eff_return 25\<rparr>"

lemma unread_deposit_hides_loan_witness:
  "fetchUserPositions (reverting_ethereum\<lparr>lending_borrowWithInterest := \<lambda>v a. if a = USDC_ADDRESS then eff_return 40
       else lending_borrowWithInterest reverting_ethereum v a\<rparr>) True (Some ''0xabc'') sample_dashboard
   = fetchUserPositions reverting_ethereum True (Some ''0xabc'') sample_dashboard"
  by (rule unread_deposit_hides_loan[where collateral = 0 and borrowed = 0 and limit = 0 and w = "(1, True)"
      and dep = "\<lambda>a. if a = USDC_ADDRESS then Inl (new_Error ''call revert'') else Inr 25" and bor = "\<lambda>a. Inr 0"])
    (simp_all add: reverting_ethereum_def sample_ethereum_def sample_dashboard_def eff_simps)

section \<open>The accuracy of the figures\<close>

text \<open>
  What the library that formats the numbers of the contract promises: a decimal numeral of the number with its
  decimals, so that reading it gives the double nearest to the number.
\<close>

definition formats_decimals :: "'w ethereum \<Rightarrow> bool" where
  "formats_decimals E \<longleftrightarrow> (\<forall>n d. parseFloat (formatUnits E n d) = double (of_nat n / 10 ^ d))"

definition dollar_price :: "TokenInfo_row \<Rightarrow> rat" where
  "dollar_price info = (if tk_symbol info = ''WETN'' then 216 / 100000 else 1)"

lemma nearest_one [simp]: "nearest 1 = 1"
  using nearest_of_int[of 1] by simp

lemma small_is_finite: "\<bar>q\<bar> \<le> 10 ^ 80 \<Longrightarrow> double q = Finite (nearest q)"
proof (rule double_finite)
  assume "\<bar>q\<bar> \<le> 10 ^ 80"
  also have "(10::rat) ^ 80 \<le> 16 ^ 80" by (rule power_mono) simp_all
  also have "... = 2 ^ 320" using power_mult[of "2::rat" 4 80] by simp
  also have "... \<le> 2 ^ 1000" by (rule power_increasing) simp_all
  finally show "\<bar>q\<bar> \<le> 2 ^ 1000" .
qed

lemma token_row_facts:
  assumes "(a, info) \<in> set TOKEN_SYMBOLS"
  shows "price_of info = Finite (nearest (dollar_price info))" "tk_decimals info = 18"
    "1 / 10 ^ 25 \<le> dollar_price info" "dollar_price info \<le> 1"
  using assms
  by (auto simp: TOKEN_SYMBOLS_def price_of_def dollar_price_def getTokenPrice_def TOKEN_PRICES_def toUpperCase_def
      upper_char_def small_is_finite)

lemma amount_facts:
  fixes n :: nat
  assumes "n < 10 ^ 38"
  shows "0 \<le> (of_nat n / 10 ^ 18 :: rat)" "(of_nat n / 10 ^ 18 :: rat) < 10 ^ 20"
    "of_nat n / 10 ^ 18 = (0::rat) \<or> 1 / 10 ^ 25 \<le> (of_nat n / 10 ^ 18 :: rat)"
proof -
  have "(of_nat n :: rat) < 10 ^ 38"
    using assms by (metis of_nat_less_iff of_nat_numeral of_nat_power)
  then show "(of_nat n / 10 ^ 18 :: rat) < 10 ^ 20" by simp
  have "n = 0 \<or> (1::rat) \<le> of_nat n" by (cases n) simp_all
  then show "of_nat n / 10 ^ 18 = (0::rat) \<or> 1 / 10 ^ 25 \<le> (of_nat n / 10 ^ 18 :: rat)" by auto
qed simp

text \<open>A text that \<open>toFixed\<close> makes of a value that is close to an exact one.\<close>

lemma shown_close:
  assumes "close e x v" and "0 \<le> x" and "0 \<le> e" "e \<le> 1 / 2" and "x < 10 ^ 20"
  obtains t where "0 \<le> t" "toFixed d (Finite v) = fixed_string d t"
    "\<bar>of_int t - x * 10 ^ d\<bar> \<le> 1 / 2 + e * (x * 10 ^ d)"
proof -
  have "e * x \<le> 1 / 2 * x" using assms(2,4) by (intro mult_right_mono)
  moreover have "x - e * x \<le> v" "v \<le> x + e * x" using assms(1) by (simp_all add: close_def abs_le_iff)
  moreover have "(10::rat) ^ 20 + 10 ^ 20 \<le> 10 ^ 21" by simp
  ultimately have v: "0 \<le> v" "v < 10 ^ 21" using assms(2,5) by linarith+
  obtain t where t: "0 \<le> t" "toFixed d (Finite v) = fixed_string d t" "\<bar>of_int t - v * 10 ^ d\<bar> \<le> 1 / 2"
    using toFixed_error[OF v, of d] .
  have "\<bar>v - x\<bar> * 10 ^ d \<le> e * x * 10 ^ d" using assms(1) by (intro mult_right_mono) (simp_all add: close_def)
  then have "\<bar>v * 10 ^ d - x * 10 ^ d\<bar> \<le> e * (x * 10 ^ d)" by (simp add: abs_mult_pos left_diff_distrib mult.assoc)
  with t(3) have "\<bar>of_int t - x * 10 ^ d\<bar> \<le> 1 / 2 + e * (x * 10 ^ d)" by linarith
  with t that show ?thesis by blast
qed

text \<open>
  C37. The amount and the value in dollars of a row of the dashboard are right: up to half a unit in the fourth place, and a
  part in \<open>2 ^ 51\<close> for the doubles they are computed in, they are the amount of the token, with its 18 decimals,
  and the product of the amount with the price of the token.
\<close>

theorem shown_values_accurate:
  assumes "formats_decimals E" and "(a, info) \<in> set TOKEN_SYMBOLS" and "n < 10 ^ 38"
  shows "\<exists>k t. ua_amount (asset_row E info (price_of info) n rate) = fixed_string 4 k
           \<and> \<bar>of_int k - of_nat n / 10 ^ 14\<bar> \<le> (1 / 2 + of_nat n / 10 ^ 14 / 2 ^ 51 :: rat)
           \<and> ua_value (asset_row E info (price_of info) n rate) = ''$'' @ fixed_string 4 t
           \<and> \<bar>of_int t - of_nat n / 10 ^ 14 * dollar_price info\<bar> \<le> 1 / 2 + of_nat n / 10 ^ 14 * dollar_price info / 2 ^ 51"
proof -
  let ?x = "of_nat n / 10 ^ 18 :: rat" and ?p = "dollar_price info" and ?e = "1 / 2 ^ 51 :: rat"
  note x = amount_facts[OF assms(3)] and row = token_row_facts[OF assms(2)]
  have fin: "parseFloat (formatUnits E n (tk_decimals info)) = Finite (nearest ?x)"
    using assms(1) row(2) x(1,2) by (simp add: formats_decimals_def small_is_finite)
  have cx: "close ?e ?x (nearest ?x)"
    using close_product[of ?x 1] x(3) by simp
  have cv: "close ?e (?x * ?p) (nearest (nearest ?x * nearest ?p))"
    by (rule close_product[OF x(3) row(3)])
  have p0: "0 \<le> ?p" using row(3) by (rule order_trans[rotated]) simp
  have "?x * ?p \<le> ?x * 1" using x(1) row(4) by (intro mult_left_mono)
  then have xp: "0 \<le> ?x * ?p" "?x * ?p < 10 ^ 20" using x(1,2) p0 by simp_all
  have "nearest ?x * nearest ?p \<le> (2 * 10 ^ 20) * 2"
  proof (rule mult_mono)
    have "nearest ?x \<le> 2 * ?x" by (rule close_upper[OF cx _ x(1)]) simp
    then show "nearest ?x \<le> 2 * 10 ^ 20" using x(2) by linarith
    have "nearest ?p \<le> nearest 1" using row(4) by (rule nearest_mono)
    then show "nearest ?p \<le> 2" by simp
  qed (simp_all add: nearest_nonneg p0)
  then have "nearest ?x * nearest ?p \<le> 10 ^ 80" by simp
  then have fv: "usd_value E info (price_of info) n = Finite (nearest (nearest ?x * nearest ?p))"
    using nearest_nonneg[OF x(1)] nearest_nonneg[OF p0] by (simp add: usd_value_def fin row(1) small_is_finite)
  obtain k where k: "toFixed 4 (Finite (nearest ?x)) = fixed_string 4 k"
      "\<bar>of_int k - ?x * 10 ^ 4\<bar> \<le> 1 / 2 + ?e * (?x * 10 ^ 4)"
    using shown_close[OF cx x(1) _ _ x(2), of 4] by auto
  obtain t where t: "toFixed 4 (Finite (nearest (nearest ?x * nearest ?p))) = fixed_string 4 t"
      "\<bar>of_int t - ?x * ?p * 10 ^ 4\<bar> \<le> 1 / 2 + ?e * (?x * ?p * 10 ^ 4)"
    using shown_close[OF cv xp(1) _ _ xp(2), of 4] by auto
  have x4: "?x * 10 ^ 4 = of_nat n / 10 ^ 14" by simp
  have t2: "\<bar>of_int t - of_nat n / 10 ^ 14 * ?p\<bar> \<le> 1 / 2 + of_nat n / 10 ^ 14 * ?p / 2 ^ 51"
    using t(2) by (simp add: mult_ac)
  have k2: "\<bar>of_int k - of_nat n / 10 ^ 14\<bar> \<le> (1 / 2 + of_nat n / 10 ^ 14 / 2 ^ 51 :: rat)"
    using k(2) by (simp add: x4)
  have "ua_amount (asset_row E info (price_of info) n rate) = fixed_string 4 k"
    "ua_value (asset_row E info (price_of info) n rate) = ''$'' @ fixed_string 4 t"
    using k(1) t(1) by (simp_all add: asset_row_def fin fv)
  with k2 t2 show ?thesis by blast
qed

text \<open>A library that writes every decimal place.\<close>

definition decimal_ethereum :: "(int \<times> bool) ethereum" where
  "decimal_ethereum = sample_ethereum\<lparr>formatUnits := \<lambda>n d. fixed_string d (int n)\<rparr>"

lemma decimal_ethereum_formats: "formats_decimals decimal_ethereum"
  by (simp add: formats_decimals_def decimal_ethereum_def parseFloat_fixed_string)

lemma shown_values_accurate_witness:
  "\<exists>k t. ua_amount (asset_row decimal_ethereum \<lparr>tk_symbol = ''WETN'', tk_name = ''Wrapped Electroneum'', tk_decimals = 18\<rparr>
           (price_of \<lparr>tk_symbol = ''WETN'', tk_name = ''Wrapped Electroneum'', tk_decimals = 18\<rparr>) (12 * 10 ^ 18) ''5.0%'') = fixed_string 4 k
     \<and> \<bar>of_int k - of_nat (12 * 10 ^ 18) / 10 ^ 14\<bar> \<le> (1 / 2 + of_nat (12 * 10 ^ 18) / 10 ^ 14 / 2 ^ 51 :: rat)
     \<and> ua_value (asset_row decimal_ethereum \<lparr>tk_symbol = ''WETN'', tk_name = ''Wrapped Electroneum'', tk_decimals = 18\<rparr>
           (price_of \<lparr>tk_symbol = ''WETN'', tk_name = ''Wrapped Electroneum'', tk_decimals = 18\<rparr>) (12 * 10 ^ 18) ''5.0%'') = ''$'' @ fixed_string 4 t
     \<and> \<bar>of_int t - of_nat (12 * 10 ^ 18) / 10 ^ 14 * dollar_price \<lparr>tk_symbol = ''WETN'', tk_name = ''Wrapped Electroneum'', tk_decimals = 18\<rparr>\<bar>
         \<le> 1 / 2 + of_nat (12 * 10 ^ 18) / 10 ^ 14 * dollar_price \<lparr>tk_symbol = ''WETN'', tk_name = ''Wrapped Electroneum'', tk_decimals = 18\<rparr> / 2 ^ 51"
  by (rule shown_values_accurate[OF decimal_ethereum_formats, of WETN_ADDRESS]) (simp_all add: TOKEN_SYMBOLS_def)

text \<open>
  The net worth of a position with finite totals is their difference, rounded to a double, and never negative: it is zero
  as soon as the loans reach the deposits.
\<close>

theorem net_worth_never_negative:
  assumes "totalSuppliedValue t = Finite supplied" and "totalBorrowedValue t = Finite borrowed"
    and "\<bar>supplied - borrowed\<bar> \<le> 10 ^ 80"
  shows "up_netWorth (position_of h t) = ''$'' @ toFixed 2 (Finite (max 0 (nearest (supplied - borrowed))))
       \<and> (supplied \<le> borrowed \<longrightarrow> up_netWorth (position_of h t) = ''$0.00'')"
proof -
  have "num_sub (Finite supplied) (Finite borrowed) = Finite (nearest (supplied - borrowed))"
    using small_is_finite[OF assms(3)] by (simp add: num_sub_def)
  then have shown: "up_netWorth (position_of h t) = ''$'' @ toFixed 2 (Finite (max 0 (nearest (supplied - borrowed))))"
    by (auto simp: position_of_def assms(1,2) num_max_def Let_def max_def)
  have "supplied \<le> borrowed \<Longrightarrow> nearest (supplied - borrowed) \<le> 0"
    using nearest_mono[of "supplied - borrowed" 0] by simp
  moreover have "toFixed 2 (Finite 0) = ''0.00''" by code_simp
  ultimately show ?thesis using shown by (auto simp: max_def)
qed

lemma net_worth_never_negative_witness:
  "up_netWorth (position_of Infinity_sign (empty_tally\<lparr>totalBorrowedValue := Finite 3\<rparr>)) = ''$0.00''"
  using net_worth_never_negative[of "empty_tally\<lparr>totalBorrowedValue := Finite 3\<rparr>" 0 3 Infinity_sign, THEN conjunct2]
  by (simp add: empty_tally_def)

section \<open>The health factor\<close>

lemma shown_hundredths:
  assumes "k < 2 ^ 52"
  shows "toFixed 2 (num_div (Finite (of_nat k)) (Finite 100)) = fixed_string 2 (int k)"
proof -
  have "int k < 2 ^ 52" using assms by (metis of_nat_less_iff of_nat_numeral of_nat_power)
  then show ?thesis using shown_exactly[of "int k" 2] by simp
qed

lemma health_factor_shown:
  assumes "0 < borrowed" and "collateral * 100 div borrowed < 2 ^ 52"
  shows "health_factor collateral borrowed = Inr (Health (fixed_string 2 (int (collateral * 100 div borrowed))))"
proof -
  have "\<not> collateral * 100 div borrowed > MAX_SAFE_INTEGER"
    using assms(2) by (simp add: MAX_SAFE_INTEGER_def)
  then show ?thesis
    using assms(1) shown_hundredths[OF assms(2)] unfolding health_factor_def Let_def by simp
qed

lemma nearest_threshold:
  assumes "nearest (of_nat c) = of_nat c" and "of_nat c < nearest (of_nat (100 * c + 1) / 100)"
  shows "100 * c < k \<longleftrightarrow> of_nat c < nearest (of_nat k / 100)"
proof
  assume "100 * c < k"
  then have "(of_nat (100 * c + 1) :: rat) \<le> of_nat k" by (intro of_nat_mono) simp
  then have "nearest (of_nat (100 * c + 1) / 100) \<le> nearest (of_nat k / 100)"
    by (intro nearest_mono divide_right_mono) simp_all
  with assms(2) show "of_nat c < nearest (of_nat k / 100)" by (rule less_le_trans)
next
  assume above: "of_nat c < nearest (of_nat k / 100)"
  show "100 * c < k"
  proof (rule ccontr)
    assume "\<not> 100 * c < k"
    then have "(of_nat k :: rat) \<le> of_nat (100 * c)" by (intro of_nat_mono) simp
    then have "nearest (of_nat k / 100) \<le> nearest (of_nat c)" by (intro nearest_mono) simp
    with above assms(1) show False by simp
  qed
qed

text \<open>The colour of a health factor of \<open>k\<close> hundredths is that of the exact number.\<close>

lemma colour_of_hundredths:
  assumes "k < 2 ^ 52"
  shows "health_colour (Health (fixed_string 2 (int k))) = (if 200 < k then Green else if 100 < k then Yellow else Red)"
proof -
  have k: "int k < 2 ^ 53" using assms by simp
  have num: "health_number (Health (fixed_string 2 (int k))) = Finite (nearest (of_nat k / 100))"
    using parseFloat_fixed_string[of "int k" 2] double_fraction(1)[of "int k" 2] k by simp
  have above: "2 < nearest (201 / 100)" "1 < nearest (101 / 100)" by code_simp+
  have "nearest 2 = 2" using nearest_of_int[of 2] by simp
  then have "200 < k \<longleftrightarrow> 2 < nearest (of_nat k / 100)" "100 < k \<longleftrightarrow> 1 < nearest (of_nat k / 100)"
    using above nearest_threshold[of 2 k] nearest_threshold[of 1 k] by simp_all
  then show ?thesis unfolding health_colour_def num by simp
qed

text \<open>
  The colour in which the page shows the health factor of the lending service is right for every account with a loan:
  green above two, yellow above one, red otherwise. An account that owes nothing, whose health factor is
  the infinity sign, is shown in red.
\<close>

theorem account_colour:
  assumes "health_factor collateral borrowed = Inr h" and "collateral * 100 div borrowed < 2 ^ 52"
  shows "health_colour h =
     (if borrowed = 0 then Red
      else if 200 < collateral * 100 div borrowed then Green
      else if 100 < collateral * 100 div borrowed then Yellow
      else Red)"
proof (cases "borrowed = 0")
  case True
  then show ?thesis using assms(1) by (auto simp: health_factor_def health_colour_def)
next
  case False
  then show ?thesis
    using assms health_factor_shown[OF _ assms(2)] colour_of_hundredths[OF assms(2)] by simp
qed

lemma account_colour_witness:
  "health_colour Infinity_sign = Red \<and> health_colour (Health (fixed_string 2 250)) = Green"
proof -
  have "health_factor 5 2 = Inr (Health (fixed_string 2 250))" using health_factor_shown[of 2 5] by simp
  from account_colour[OF this] account_colour[of 5 0 Infinity_sign] show ?thesis by (simp add: health_factor_def)
qed

lemma cents_facts:
  fixes n :: nat
  assumes "n < 2 ^ 256"
  shows "double (of_nat n / 10 ^ 8) = Finite (nearest (of_nat n / 10 ^ 8))"
    and "of_nat n / 10 ^ 8 = (0::rat) \<or> 1 / 10 ^ 25 \<le> (of_nat n / 10 ^ 8 :: rat)"
proof -
  have "(of_nat n :: rat) < 2 ^ 256" using assms by (metis of_nat_less_iff of_nat_numeral of_nat_power)
  then have "\<bar>of_nat n / 10 ^ 8 :: rat\<bar> \<le> 10 ^ 80" by simp
  then show "double (of_nat n / 10 ^ 8) = Finite (nearest (of_nat n / 10 ^ 8))" by (rule small_is_finite)
  have "n = 0 \<or> (1::rat) \<le> of_nat n" by (cases n) simp_all
  then show "of_nat n / 10 ^ 8 = (0::rat) \<or> 1 / 10 ^ 25 \<le> (of_nat n / 10 ^ 8 :: rat)" by auto
qed

lemma ratio_hundredths:
  assumes "0 < borrowed" and "collateral * 100 div borrowed < 2 ^ 48"
  shows "of_nat (collateral * 100 div borrowed) \<le> of_nat collateral / of_nat borrowed * (100 :: rat)"
    "of_nat collateral / of_nat borrowed * (100 :: rat) < of_nat (collateral * 100 div borrowed) + 1"
    "of_nat (collateral * 100 div borrowed) + 1 \<le> (2 ^ 48 :: rat)"
proof -
  let ?k = "collateral * 100 div borrowed"
  have "borrowed * ?k \<le> collateral * 100" by simp
  then have "(of_nat (borrowed * ?k) :: rat) \<le> of_nat (collateral * 100)" by (rule of_nat_mono)
  then show "of_nat ?k \<le> of_nat collateral / of_nat borrowed * (100 :: rat)"
    using assms(1) by (simp add: field_simps)
  have "collateral * 100 < borrowed * (?k + 1)"
    using dividend_less_times_div[OF assms(1), of "collateral * 100"] by simp
  then have "(of_nat (collateral * 100) :: rat) < of_nat (borrowed * (?k + 1))" by (simp only: of_nat_less_iff)
  then show "of_nat collateral / of_nat borrowed * (100 :: rat) < of_nat ?k + 1"
    using assms(1) by (simp add: field_simps)
  have "?k + 1 \<le> 2 ^ 48" using assms(2) by simp
  then have "(of_nat (?k + 1) :: rat) \<le> of_nat (2 ^ 48)" by (rule of_nat_mono)
  then show "of_nat ?k + 1 \<le> (2 ^ 48 :: rat)" by simp
qed

lemma hundredths_near:
  assumes "close (1 / 2 ^ 50) q v" and "of_nat k \<le> q * 100" and "q * 100 < of_nat k + 1" and "of_nat k + 1 \<le> (2 ^ 48 :: rat)"
  shows "toFixed 2 (Finite v) \<in> {fixed_string 2 (int k), fixed_string 2 (int k + 1)}"
proof -
  let ?e = "1 / 2 ^ 50 :: rat"
  have q: "0 \<le> q" "q < 10 ^ 20"
  proof -
    show "0 \<le> q" using order_trans[OF of_nat_0_le_iff assms(2)] by simp
    have "q * 100 < 2 ^ 48" using assms(3,4) by (rule less_le_trans)
    then show "q < 10 ^ 20" by simp
  qed
  obtain t where t: "toFixed 2 (Finite v) = fixed_string 2 t" "\<bar>of_int t - q * 10 ^ 2\<bar> \<le> 1 / 2 + ?e * (q * 10 ^ 2)"
    using shown_close[OF assms(1) q(1) _ _ q(2), of 2] by auto
  have "?e * (q * 10 ^ 2) \<le> ?e * 2 ^ 48" using assms(3,4) by (intro mult_left_mono) simp_all
  then have "\<bar>of_int t - q * 100\<bar> \<le> 3 / 4" using t(2) by simp
  then have "of_nat k - 1 < (of_int t :: rat)" "(of_int t :: rat) < of_nat k + 2" using assms(2,3) by linarith+
  then have "of_int (int k - 1) < (of_int t :: rat)" "(of_int t :: rat) < of_int (int k + 2)" by simp_all
  then have "int k - 1 < t" "t < int k + 2" by (simp_all only: of_int_less_iff)
  then have "t = int k \<or> t = int k + 1" by linarith
  then show ?thesis using t(1) by auto
qed

text \<open>
  The dashboard computes its own health factor from the two values as they are formatted. It shows the hundredths of
  the lending service or one more: the service rounds down and the dashboard to the nearest.
\<close>

theorem dashboard_health_near:
  assumes "formats_decimals E" and "0 < borrowed" and "collateral < 2 ^ 180" and "borrowed < 2 ^ 180"
    and "collateral * 100 div borrowed < 2 ^ 48"
  shows "dashboard_health E collateral borrowed \<in>
     {Health (fixed_string 2 (int (collateral * 100 div borrowed))), Health (fixed_string 2 (int (collateral * 100 div borrowed) + 1))}"
proof -
  let ?k = "collateral * 100 div borrowed"
  let ?x = "of_nat collateral / 10 ^ 8 :: rat" and ?y = "of_nat borrowed / 10 ^ 8 :: rat"
  let ?q = "of_nat collateral / of_nat borrowed :: rat" and ?e = "1 / 2 ^ 50 :: rat"
  note k = ratio_hundredths[OF assms(2,5)]
  have bounds: "collateral < 2 ^ 256" "borrowed < 2 ^ 256" using assms(3,4) by simp_all
  note x = cents_facts[OF bounds(1)] and y = cents_facts[OF bounds(2)]
  have y0: "1 / 10 ^ 25 \<le> ?y" using y(2) assms(2) by simp
  have xy: "?x / ?y = ?q" by simp
  have "?x = 0 \<or> 1 / 10 ^ 55 \<le> ?q"
  proof (cases "collateral = 0")
    case False
    have "(of_nat borrowed :: rat) < 2 ^ 180" using assms(4) by (metis of_nat_less_iff of_nat_numeral of_nat_power)
    moreover have "(1 :: rat) \<le> of_nat collateral" using False by simp
    ultimately have "1 / 2 ^ 180 \<le> ?q" using assms(2) by (intro frac_le) simp_all
    then show ?thesis by (intro disjI2) simp
  qed simp
  then have c: "close ?e ?q (nearest (nearest ?x / nearest ?y))"
    using close_quotient[OF x(2) y0] by (simp only: xy)
  have "1 / 10 ^ 60 \<le> ?y" by (rule order_trans[OF _ y0]) simp
  then have cy: "close (1 / 2 ^ 53) ?y (nearest ?y)" by (intro close_nearest disjI2)
  have y_low: "?y / 2 \<le> nearest ?y" by (rule close_lower[OF cy]) simp_all
  have "0 < ?y / 2" using assms(2) by simp
  then have y_pos: "0 < nearest ?y" using y_low by (rule less_le_trans)
  have "nearest ?x / nearest ?y \<le> (2 * ?x) / (?y / 2)"
  proof (rule frac_le)
    have "close (1 / 2 ^ 53) ?x (nearest ?x)"
    proof (rule close_nearest)
      show "?x = 0 \<or> 1 / 10 ^ 60 \<le> ?x" using x(2) by (auto intro: order_trans[of _ "1 / 10 ^ 25"])
    qed
    then show "nearest ?x \<le> 2 * ?x" by (rule close_upper) simp_all
    show "0 < ?y / 2" using assms(2) by simp
  qed (use y_low in simp_all)
  moreover have "(2 * ?x) / (?y / 2) = 4 * ?q" using assms(2) by simp
  moreover have "4 * ?q \<le> 4 * 2 ^ 48"
  proof -
    have "r * 100 < 2 ^ 48 \<Longrightarrow> 0 \<le> r \<Longrightarrow> 4 * r \<le> 4 * 2 ^ 48" for r :: rat by linarith
    from this[OF less_le_trans[OF k(2,3)]] show ?thesis by simp
  qed
  ultimately have "nearest ?x / nearest ?y \<le> 4 * 2 ^ 48" by simp
  moreover have "0 \<le> nearest ?x / nearest ?y" using y_pos by (simp add: nearest_nonneg)
  ultimately have "\<bar>nearest ?x / nearest ?y\<bar> \<le> 10 ^ 80" by simp
  then have "double (nearest ?x / nearest ?y) = Finite (nearest (nearest ?x / nearest ?y))" by (rule small_is_finite)
  then show ?thesis
    using assms(1) x(1) y(1) y_pos hundredths_near[OF c k] by (auto simp: dashboard_health_def formats_decimals_def Let_def)
qed

lemma dashboard_health_near_witness:
  "dashboard_health decimal_ethereum 1999 1000 \<in> {Health (fixed_string 2 199), Health (fixed_string 2 200)}"
  using dashboard_health_near[OF decimal_ethereum_formats, of 1000 1999] by simp

lemma dashboard_health_rounds_up:
  "dashboard_health decimal_ethereum 199900000 100000000 = Health ''2.00''
   \<and> health_factor 199900000 100000000 = Inr (Health ''1.99'')"
proof
  let ?x = "1999 / 1000 :: rat"
  have "toFixed 2 (double ?x) = ''2.00''" by code_simp
  moreover have "double ?x = Finite (nearest ?x)" by (rule small_is_finite) simp
  moreover have "\<bar>nearest ?x\<bar> \<le> of_int 2" by (rule nearest_bound) simp_all
  then have "double (nearest ?x) = Finite (nearest ?x)" using small_is_finite[of "nearest ?x"] by simp
  moreover have "double 1 = Finite 1" using small_is_finite[of 1] by simp
  ultimately show "dashboard_health decimal_ethereum 199900000 100000000 = Health ''2.00''"
    using parseFloat_fixed_string[of 100000000 8] parseFloat_fixed_string[of 199900000 8]
    unfolding dashboard_health_def decimal_ethereum_def Let_def by simp
  have "fixed_string 2 199 = ''1.99''" by code_simp
  then show "health_factor 199900000 100000000 = Inr (Health ''1.99'')"
    using health_factor_shown[of 100000000 199900000] by simp
qed

text \<open>
  Once the wallet has loaded the account, the net worth on the page is the value of the collateral: it does not depend on
  what the account owes, nor on the position that was fetched.
\<close>

theorem net_worth_ignores_loans:
  assumes "collateralValue i = collateralValue j" and "collateralValue i \<noteq> ''''"
  shows "fg_netWorth (dashboard_figures_of locale_text (Some i) p) = fg_netWorth (dashboard_figures_of locale_text (Some j) q)
       \<and> fg_netWorth (dashboard_figures_of locale_text (Some i) p) = fg_supplied (dashboard_figures_of locale_text (Some i) p)"
  using assms by (simp add: dashboard_figures_of_def Let_def)

lemma net_worth_ignores_loans_witness:
  "fg_netWorth (dashboard_figures_of (toFixed 2)
     (Some \<lparr>collateralValue = ''100.0'', borrowValue = ''0.0'', borrowLimit = ''80.0'', healthFactor = Infinity_sign\<rparr>) emptyUserPosition)
   = fg_netWorth (dashboard_figures_of (toFixed 2)
     (Some \<lparr>collateralValue = ''100.0'', borrowValue = ''80.0'', borrowLimit = ''80.0'', healthFactor = Health ''1.25''\<rparr>) emptyUserPosition)"
  by (intro net_worth_ignores_loans[THEN conjunct1]) simp_all

end
