(* ===== verification/Market_Page.thy ===== *)
theory Market_Page
  imports Dashboard_Properties
begin

text \<open>
  The page of the markets, \<open>electrolend-ui/src/app/app/markets/page.tsx\<close>: its configuration, what its modal shows for a
  market and an action, \<open>fetchMarketData\<close>, the filter and the drop-down menus. The readings of the three
  markets are made in the order of the list; the code starts them together and waits for all of them.
\<close>

section \<open>Configuration\<close>

record TokenConfig =
  tc_ltv :: nat
  tc_borrowAPR :: number
  tc_depositAPR :: number

definition TOKEN_CONFIG :: "(string \<times> TokenConfig) list" where
  "TOKEN_CONFIG =
     [(''WETN'', \<lparr>tc_ltv = 75, tc_borrowAPR = double 5, tc_depositAPR = double (32 / 10)\<rparr>),
      (''USDC'', \<lparr>tc_ltv = 80, tc_borrowAPR = double 3, tc_depositAPR = double (41 / 10)\<rparr>),
      (''USDT'', \<lparr>tc_ltv = 80, tc_borrowAPR = double 3, tc_depositAPR = double (39 / 10)\<rparr>)]"

definition markets_TOKEN_SYMBOLS :: "(string \<times> string) list" where
  "markets_TOKEN_SYMBOLS = [(WETN_ADDRESS, ''WETN''), (USDC_ADDRESS, ''USDC''), (USDT_ADDRESS, ''USDT'')]"

definition initial_market :: "string \<Rightarrow> string \<Rightarrow> string \<Rightarrow> string \<Rightarrow> string \<Rightarrow> string \<Rightarrow> string \<Rightarrow> rat \<Rightarrow> MarketAsset" where
  "initial_market symb logo full deposit variable_rate stable_rate price l =
     \<lparr>ma_asset = symb, ma_symbol = symb, ma_logoSrc = logo, ma_full_name = Some full, ma_depositAPY = deposit,
      ma_borrowAPY = Rates variable_rate stable_rate, ma_totalSupplied = ''0'', ma_totalBorrowed = ''0'', ma_liquidity = ''0'',
      ma_price = price, ma_canBeCollateral = Some True, ma_ltv = Some (double l), ma_utilizationRate = Some 0,
      ma_change = ''0%'', ma_trending = Some ''neutral''\<rparr>"

definition initialMarketData :: "MarketAsset list" where
  "initialMarketData =
     [initial_market ''WETN'' ''/images/etn-logo.png'' ''Wrapped Electroneum'' ''3.2%'' ''5.0%'' ''5.5%'' ''$0.00216'' 75,
      initial_market ''USDC'' ''/images/usdc-logo.png'' ''USD Coin'' ''4.1%'' ''3.0%'' ''3.5%'' ''$1.00'' 80,
      initial_market ''USDT'' ''/images/usdt-logo.png'' ''Tether USD'' ''3.9%'' ''3.0%'' ''3.5%'' ''$1.00'' 80]"

section \<open>The modal\<close>

definition markets_usdValue :: "MarketAsset option \<Rightarrow> string \<Rightarrow> string" where
  "markets_usdValue market amount = modal_usdValue (map_option Market_asset market) amount"

definition markets_determineTokenAddress :: "string \<Rightarrow> exn + string" where
  "markets_determineTokenAddress symb =
     (if symb = ''WETN'' then Inr WETN_ADDRESS
      else if symb = ''USDC'' then Inr USDC_ADDRESS
      else if symb = ''USDT'' then Inr USDT_ADDRESS
      else Inl (new_Error (''Unknown token symbol: '' @ symb)))"

text \<open>The stable rate is not shown: of two rates a loan shows the variable one and a repayment none.\<close>

definition markets_getBorrowAPY :: "AssetAction option \<Rightarrow> MarketAsset option \<Rightarrow> string" where
  "markets_getBorrowAPY action market =
     (case market of
        None \<Rightarrow> ''''
      | Some m \<Rightarrow> (case ma_borrowAPY m of
            One_rate r \<Rightarrow> r
          | Rates v st \<Rightarrow> if action = Some Borrow_asset then v else ''''))"

fun getAvailableLabel :: "AssetAction option \<Rightarrow> string" where
  "getAvailableLabel (Some Supply_asset) = ''Wallet Balance''"
| "getAvailableLabel (Some Repay_asset) = ''Wallet Balance''"
| "getAvailableLabel (Some Withdraw_asset) = ''Deposited''"
| "getAvailableLabel (Some Borrow_asset) = ''Available to Borrow''"
| "getAvailableLabel None = ''Available''"

fun getAPYLabel :: "AssetAction option \<Rightarrow> string" where
  "getAPYLabel (Some Supply_asset) = ''Deposit APY''"
| "getAPYLabel (Some Withdraw_asset) = ''Deposit APY''"
| "getAPYLabel (Some Borrow_asset) = ''Borrow APY''"
| "getAPYLabel (Some Repay_asset) = ''Borrow APY''"
| "getAPYLabel None = ''APY''"

definition getAPYValue :: "AssetAction option \<Rightarrow> MarketAsset option \<Rightarrow> string" where
  "getAPYValue action market =
     (case market of
        None \<Rightarrow> ''''
      | Some m \<Rightarrow> (case action of
            Some Supply_asset \<Rightarrow> ma_depositAPY m
          | Some Withdraw_asset \<Rightarrow> ma_depositAPY m
          | Some Borrow_asset \<Rightarrow> markets_getBorrowAPY action market
          | Some Repay_asset \<Rightarrow> markets_getBorrowAPY action market
          | None \<Rightarrow> ''''))"

fun getAPYColorClass :: "AssetAction option \<Rightarrow> string" where
  "getAPYColorClass (Some Supply_asset) = ''text-green-600 dark:text-green-400''"
| "getAPYColorClass (Some Withdraw_asset) = ''text-green-600 dark:text-green-400''"
| "getAPYColorClass (Some Borrow_asset) = ''text-red-600 dark:text-red-400''"
| "getAPYColorClass (Some Repay_asset) = ''text-red-600 dark:text-red-400''"
| "getAPYColorClass None = ''''"

definition markets_getTokenPriceDisplay :: "MarketAsset option \<Rightarrow> string" where
  "markets_getTokenPriceDisplay market = getTokenPriceDisplay (map_option Market_asset market)"

section \<open>Fetching the markets\<close>

text \<open>The figures of a market that are not read from the contract.\<close>

record sample_figures =
  sf_totalSupplied :: string
  sf_totalBorrowed :: string
  sf_liquidity :: string
  sf_utilizationRate :: nat
  sf_change :: string
  sf_trending :: string

definition sample_figures_of :: "string \<Rightarrow> sample_figures" where
  "sample_figures_of symb =
     (if symb = ''WETN'' then
        \<lparr>sf_totalSupplied = ''2.47M'', sf_totalBorrowed = ''1.12M'', sf_liquidity = ''1.35M'', sf_utilizationRate = 45,
         sf_change = ''+2.5%'', sf_trending = ''up''\<rparr>
      else if symb = ''USDC'' then
        \<lparr>sf_totalSupplied = ''1.95M'', sf_totalBorrowed = ''0.88M'', sf_liquidity = ''1.07M'', sf_utilizationRate = 45,
         sf_change = ''+0.1%'', sf_trending = ''up''\<rparr>
      else if symb = ''USDT'' then
        \<lparr>sf_totalSupplied = ''0.98M'', sf_totalBorrowed = ''0.42M'', sf_liquidity = ''0.56M'', sf_utilizationRate = 43,
         sf_change = ''0%'', sf_trending = ''neutral''\<rparr>
      else
        \<lparr>sf_totalSupplied = '''', sf_totalBorrowed = '''', sf_liquidity = '''', sf_utilizationRate = 0,
         sf_change = '''', sf_trending = ''neutral''\<rparr>)"

definition priceFormatted :: "string \<Rightarrow> string" where
  "priceFormatted symb =
     (if symb = ''WETN'' then ''$0.00216'' else if symb = ''USDC'' \<or> symb = ''USDT'' then ''$1.00'' else ''$0.00'')"

definition updated_market :: "'w ethereum \<Rightarrow> MarketAsset \<Rightarrow> nat \<Rightarrow> nat \<Rightarrow> MarketAsset" where
  "updated_market E market tokenLTV tokenBorrowAPR =
     (let depositAPR = num_mult (parseFloat (formatUnits E tokenBorrowAPR 2)) (double (7 / 10));
          ltvFormatted = parseFloat (formatUnits E tokenLTV 0);
          borrowAPRFormatted = toFixed 1 (parseFloat (formatUnits E tokenBorrowAPR 2));
          figures = sample_figures_of (ma_symbol market)
      in market\<lparr>ma_depositAPY := toFixed 1 depositAPR @ ''%'',
           ma_borrowAPY := Rates (borrowAPRFormatted @ ''%'')
             (toFixed 1 (num_add (parseFloat borrowAPRFormatted) (double (1 / 2))) @ ''%''),
           ma_totalSupplied := sf_totalSupplied figures, ma_totalBorrowed := sf_totalBorrowed figures,
           ma_liquidity := sf_liquidity figures, ma_price := priceFormatted (ma_symbol market), ma_ltv := Some ltvFormatted,
           ma_utilizationRate := Some (sf_utilizationRate figures), ma_change := sf_change figures,
           ma_trending := Some (sf_trending figures)\<rparr>)"

definition fetch_market :: "'w ethereum \<Rightarrow> MarketAsset \<Rightarrow> ('w, exn, MarketAsset) eff" where
  "fetch_market E market =
     eff_bind (eff_lift (getTokenAddress (ma_symbol market))) (\<lambda>tokenAddress.
     eff_catch
      (eff_bind (lending_ltv E tokenAddress) (\<lambda>tokenLTV.
       eff_bind (lending_borrowAPR E tokenAddress) (\<lambda>tokenBorrowAPR.
       eff_return (updated_market E market tokenLTV tokenBorrowAPR))))
      (\<lambda>_. eff_return market))"

fun fetch_markets :: "'w ethereum \<Rightarrow> MarketAsset list \<Rightarrow> ('w, exn, MarketAsset list) eff" where
  "fetch_markets E [] = eff_return []"
| "fetch_markets E (m # ms) =
     eff_bind (fetch_market E m) (\<lambda>m'. eff_bind (fetch_markets E ms) (\<lambda>ms'. eff_return (m' # ms')))"

record 'w markets =
  mk_world :: 'w
  mk_data :: "MarketAsset list"
  mk_loading :: bool
  mk_toasts :: "(string \<times> toast_type) list"

definition fetchMarketData :: "'w ethereum \<Rightarrow> 'w markets \<Rightarrow> 'w markets" where
  "fetchMarketData E s =
     (case (if \<not> injected E then eff_throw (new_Error ''No Ethereum wallet detected'') else fetch_markets E initialMarketData)
             (mk_world (s\<lparr>mk_loading := True\<rparr>)) of
        (Inr updatedMarketData, w') \<Rightarrow> s\<lparr>mk_world := w', mk_data := updatedMarketData, mk_loading := False\<rparr>
      | (Inl e, w') \<Rightarrow> s\<lparr>mk_world := w', mk_loading := False,
          mk_toasts := mk_toasts s @ [(''Failed to load market data'', error)]\<rparr>)"

section \<open>The filter and the menus\<close>

definition js_includes :: "string \<Rightarrow> string \<Rightarrow> bool" where
  "js_includes text part = sublist part text"

definition filteredMarkets :: "string \<Rightarrow> string \<Rightarrow> MarketAsset list \<Rightarrow> MarketAsset list" where
  "filteredMarkets searchTerm activeFilter data =
     filter (\<lambda>market.
       let matchesSearch = js_includes (toLowerCase (ma_asset market)) (toLowerCase searchTerm)
         \<or> (case ma_full_name market of None \<Rightarrow> False | Some n \<Rightarrow> js_includes (toLowerCase n) (toLowerCase searchTerm))
       in if activeFilter = ''all'' then matchesSearch
          else if activeFilter = ''collateral'' then matchesSearch \<and> ma_canBeCollateral market = Some True
          else matchesSearch) data"

definition toggleDropdown :: "string option \<Rightarrow> string \<Rightarrow> string option" where
  "toggleDropdown activeDropdown marketSymbol =
     (if activeDropdown = Some marketSymbol then None else Some marketSymbol)"

text \<open>A press of the mouse outside of the menus closes an open one.\<close>

definition handleClickOutside :: "bool \<Rightarrow> string option \<Rightarrow> string option" where
  "handleClickOutside in_dropdown activeDropdown =
     (if activeDropdown \<noteq> None \<and> \<not> in_dropdown then None else activeDropdown)"

lemma filteredMarkets_all: "filteredMarkets '''' ''all'' rows = rows"
  by (simp add: filteredMarkets_def js_includes_def toLowerCase_def)

section \<open>The page\<close>

text \<open>A row of the table with its buttons: whether they can be pressed, and the action each of them opens the modal for.\<close>

record market_row =
  mr_logo :: string
  mr_asset :: string
  mr_full_name :: "string option"
  mr_cells :: "string list"
  mr_buttons :: "(AssetAction \<times> bool) list"
  mr_menu :: "AssetAction list"

definition market_row_of :: "bool \<Rightarrow> string option \<Rightarrow> MarketAsset \<Rightarrow> market_row" where
  "market_row_of is_connected activeDropdown market =
     \<lparr>mr_logo = ma_logoSrc market, mr_asset = ma_asset market, mr_full_name = ma_full_name market,
      mr_cells = [ma_price market, ''$'' @ ma_totalSupplied market, ''$'' @ ma_totalBorrowed market, ma_depositAPY market,
        (case ma_borrowAPY market of One_rate r \<Rightarrow> r | Rates v st \<Rightarrow> v)],
      mr_buttons = [(Supply_asset, is_connected), (Borrow_asset, is_connected)],
      mr_menu = (if activeDropdown = Some (ma_symbol market) then [Withdraw_asset, Repay_asset] else [])\<rparr>"

definition market_header :: "string list" where
  "market_header = [''Asset'', ''Price'', ''Total Supplied'', ''Total Borrowed'', ''Deposit APY'', ''Borrow APY'', ''Actions'']"

definition market_table :: "bool \<Rightarrow> bool \<Rightarrow> string option \<Rightarrow> string \<Rightarrow> string \<Rightarrow> MarketAsset list \<Rightarrow> market_row shown" where
  "market_table isLoading is_connected activeDropdown searchTerm activeFilter data =
     (if isLoading then Text_only ''Loading markets...''
      else (let found = filteredMarkets searchTerm activeFilter data
        in if 0 < length found then Table market_header (map (market_row_of is_connected activeDropdown) found)
           else Text_only ''No markets found''))"

definition markets_modal ::
  "(number \<Rightarrow> string) \<Rightarrow> bool \<Rightarrow> AssetAction option \<Rightarrow> MarketAsset option \<Rightarrow> bool \<Rightarrow> string \<Rightarrow> string \<Rightarrow> string \<Rightarrow> modal_view option" where
  "markets_modal locale_amount isOpen action market isLoading amount maxAmount usdValue =
     (if \<not> isOpen then None
      else Some \<lparr>
        mv_title = getModalTitle action (map_option (\<lambda>m. \<lparr>asset_name = ma_asset m, asset_symbol = ma_symbol m\<rparr>) market),
        mv_amount = amount,
        mv_available = getAvailableLabel action @ '': '' @ locale_amount (parseFloat (if maxAmount = '''' then ''0'' else maxAmount)),
        mv_usd = ''~$'' @ usdValue,
        mv_price = markets_getTokenPriceDisplay market,
        mv_apy_label = getAPYLabel action,
        mv_apy = getAPYValue action market,
        mv_inputs_enabled = (\<not> isLoading),
        mv_confirm_enabled = confirm_enabled isLoading amount,
        mv_confirm = (if isLoading then ''Processing...'' else ''Confirm'')\<rparr>)"

end
