(* ===== verification/Market_Properties.thy ===== *)
theory Market_Properties
  imports Market_Page
begin

text \<open>
  What the page of the markets shows: whatever fails, the three markets in their order; the rates that have been
  read, rounded to a tenth, with the stable rate half a point above the variable one.
\<close>

section \<open>Fetching the markets\<close>

definition market_read :: "'w ethereum \<Rightarrow> (string \<Rightarrow> exn + nat) \<Rightarrow> (string \<Rightarrow> exn + nat) \<Rightarrow> MarketAsset \<Rightarrow> MarketAsset" where
  "market_read E ltv apr m =
     (case getTokenAddress (ma_symbol m) of
        Inl e \<Rightarrow> m
      | Inr t \<Rightarrow> (case (ltv t, apr t) of (Inr l, Inr r) \<Rightarrow> updated_market E m l r | _ \<Rightarrow> m))"

lemma fetch_markets_read:
  assumes "\<And>t. lending_ltv E t w = (ltv t, w)" and "\<And>t. lending_borrowAPR E t w = (apr t, w)"
    and "\<And>m. m \<in> set ms \<Longrightarrow> \<exists>t. getTokenAddress (ma_symbol m) = Inr t"
  shows "fetch_markets E ms w = (Inr (map (market_read E ltv apr) ms), w)"
  using assms(3)
proof (induction ms)
  case (Cons m ms)
  then obtain t where t: "getTokenAddress (ma_symbol m) = Inr t" by auto
  have "fetch_market E m w = (Inr (market_read E ltv apr m), w)"
    using assms(1,2)[of t]
    by (cases "ltv t"; cases "apr t") (simp_all add: fetch_market_def market_read_def t eff_catch_def eff_bind_def eff_simps)
  then show ?case using Cons by (simp add: eff_bind_def eff_simps)
qed (simp add: eff_simps)

lemma initial_markets_known: "m \<in> set initialMarketData \<Longrightarrow> \<exists>t. getTokenAddress (ma_symbol m) = Inr t"
  by (auto simp: initialMarketData_def initial_market_def getTokenAddress_def toUpperCase_def upper_char_def)

text \<open>
  The page of the markets shows the three markets, in their order, whatever readings fail: those of which both the
  loan to value and the rate have been read are updated, the others keep their defaults, and the page is no
  longer loading. Without a wallet the page keeps what it shows and says so.
\<close>

theorem fetch_market_data:
  assumes "\<And>t. lending_ltv E t (mk_world s) = (ltv t, mk_world s)" and "\<And>t. lending_borrowAPR E t (mk_world s) = (apr t, mk_world s)"
  shows "fetchMarketData E s =
     (if injected E then s\<lparr>mk_data := map (market_read E ltv apr) initialMarketData, mk_loading := False\<rparr>
      else s\<lparr>mk_loading := False, mk_toasts := mk_toasts s @ [(''Failed to load market data'', error)]\<rparr>)
   \<and> map ma_symbol (map (market_read E ltv apr) initialMarketData) = [''WETN'', ''USDC'', ''USDT'']"
proof
  show "fetchMarketData E s =
     (if injected E then s\<lparr>mk_data := map (market_read E ltv apr) initialMarketData, mk_loading := False\<rparr>
      else s\<lparr>mk_loading := False, mk_toasts := mk_toasts s @ [(''Failed to load market data'', error)]\<rparr>)"
    using fetch_markets_read[OF assms initial_markets_known]
    by (simp add: fetchMarketData_def eff_simps)
  have "ma_symbol (market_read E ltv apr m) = ma_symbol m" for m
    by (auto simp: market_read_def updated_market_def Let_def split: sum.split)
  then show "map ma_symbol (map (market_read E ltv apr) initialMarketData) = [''WETN'', ''USDC'', ''USDT'']"
    by (simp add: initialMarketData_def initial_market_def)
qed

definition sample_markets :: "(int \<times> bool) markets" where
  "sample_markets = \<lparr>mk_world = (1, True), mk_data = [], mk_loading = True, mk_toasts = []\<rparr>"

lemma fetch_market_data_witness:
  "mk_data (fetchMarketData decimal_ethereum sample_markets)
   = map (market_read decimal_ethereum (\<lambda>t. Inr 75) (\<lambda>t. Inr 500)) initialMarketData"
  using fetch_market_data[of decimal_ethereum sample_markets "\<lambda>t. Inr 75" "\<lambda>t. Inr 500"]
  by (simp add: decimal_ethereum_def sample_ethereum_def sample_markets_def eff_simps)

section \<open>The rates\<close>

text \<open>A number with \<open>d\<close> places that is computed closely enough is shown exactly.\<close>

lemma shown_exact:
  assumes "close e (of_int n / 10 ^ d) v" and "0 \<le> n" and "e \<le> 1" and "e * of_int n < 1 / 2" and "of_int n / 10 ^ d < (10 :: rat) ^ 20"
  shows "toFixed d (Finite v) = fixed_string d n"
proof -
  let ?x = "of_int n / 10 ^ d :: rat"
  have x: "0 \<le> ?x" using assms(2) by simp
  have "\<bar>v - ?x\<bar> * 10 ^ d \<le> e * ?x * 10 ^ d" using assms(1) by (intro mult_right_mono) (simp_all add: close_def)
  then have "\<bar>v * 10 ^ d - of_int n\<bar> \<le> e * of_int n" by (simp add: abs_mult_pos left_diff_distrib)
  then have near: "\<bar>v * 10 ^ d - of_int n\<bar> < 1 / 2" using assms(4) by linarith
  then have fl: "\<lfloor>v * 10 ^ d + 1 / 2\<rfloor> = n" by (intro floor_unique) linarith+
  have "(1 - e) * ?x \<le> v" using assms(1) by (simp add: close_bounds)
  moreover have "0 \<le> (1 - e) * ?x" using assms(3) x by (intro mult_nonneg_nonneg) simp_all
  ultimately have "0 \<le> v" by linarith
  moreover have "v \<le> 2 * ?x" by (rule close_upper[OF assms(1,3) x])
  then have "v < 10 ^ 21" using assms(5) by simp
  ultimately show ?thesis using toFixed_nonneg[of v d] fl by simp
qed

lemma half_point_above:
  assumes "0 \<le> n" and "n < 2 ^ 48"
  shows "toFixed 1 (num_add (parseFloat (fixed_string 1 n)) (double (1 / 2))) = fixed_string 1 (n + 5)"
proof -
  let ?x = "of_int n / 10 :: rat" and ?e = "1 / 2 ^ 53 :: rat"
  have bound: "(of_int n :: rat) < 2 ^ 48" using assms(2) by (metis of_int_less_iff of_int_numeral of_int_power)
  have n0: "(0 :: rat) \<le> of_int n" using assms(1) by simp
  have "n = 0 \<or> (1 :: rat) \<le> of_int n" using assms(1) by auto
  then have "close ?e ?x (nearest ?x)" by (intro close_nearest) auto
  moreover have "?e * ?x \<le> ?e * (?x + 1 / 2)" by simp
  ultimately have "\<bar>nearest ?x - ?x\<bar> \<le> ?e * (?x + 1 / 2)" by (simp add: close_def)
  then have c1: "close ?e (?x + 1 / 2) (nearest ?x + 1 / 2)" by (simp add: close_def)
  have low: "0 \<le> nearest ?x" using n0 by (intro nearest_nonneg) simp
  have c2: "close ?e (nearest ?x + 1 / 2) (nearest (nearest ?x + 1 / 2))"
    using low by (intro close_nearest disjI2) (rule order_trans[of _ "1 / 2"], simp_all)
  have c: "close (1 / 2 ^ 51) (?x + 1 / 2) (nearest (nearest ?x + 1 / 2))"
    by (rule close_chain[OF c1 c2]) (use n0 in simp_all)
  have eq: "?x + 1 / 2 = of_int (n + 5) / 10 ^ 1" by simp
  have shown: "toFixed 1 (Finite (nearest (nearest ?x + 1 / 2))) = fixed_string 1 (n + 5)"
    by (rule shown_exact[OF c[unfolded eq]]) (use assms(1) bound in simp_all)
  have small: "\<bar>?x\<bar> \<le> of_int (2 ^ 48)" using n0 bound by simp
  have "\<bar>nearest ?x\<bar> \<le> of_int (2 ^ 48)" by (rule nearest_bound[OF small]) simp
  then have fin: "double ?x = Finite (nearest ?x)" "double (nearest ?x + 1 / 2) = Finite (nearest (nearest ?x + 1 / 2))"
    using small by (auto intro!: small_is_finite)
  have "double (1 / 2) = Finite (1 / 2)" by code_simp
  then show ?thesis using shown fin parseFloat_fixed_string[OF assms(1), of 1] by simp
qed

text \<open>
  C39. For a rate in basis points the page shows the variable rate rounded to a tenth of a percent, up to the choice in a
  tie, the stable rate exactly half a point above it, and a deposit rate within half a tenth of seven tenths of
  the rate, up to a part in \<open>2 ^ 51\<close>.
\<close>

theorem shown_rates:
  assumes "formats_decimals E" and "apr < 2 ^ 46"
  shows "\<exists>v t. ma_borrowAPY (updated_market E m l apr) = Rates (fixed_string 1 v @ ''%'') (fixed_string 1 (v + 5) @ ''%'')
           \<and> 2 * \<bar>v * 10 - int apr\<bar> \<le> 10
           \<and> ma_depositAPY (updated_market E m l apr) = fixed_string 1 t @ ''%''
           \<and> \<bar>of_int t - 7 * of_nat apr / 100\<bar> \<le> (1 / 2 + 7 * of_nat apr / 100 / 2 ^ 51 :: rat)"
proof -
  let ?x = "of_nat apr / 100 :: rat" and ?y = "7 / 10 :: rat"
  have apr: "int apr < 2 ^ 46" using assms(2) by (metis of_nat_less_iff of_nat_numeral of_nat_power)
  have parsed: "parseFloat (formatUnits E apr 2) = double (of_int (int apr) / 10 ^ 2)"
    using assms(1) by (simp add: formats_decimals_def)
  obtain v where v: "0 \<le> v" "toFixed 1 (double (of_int (int apr) / 10 ^ 2)) = fixed_string 1 v"
      "2 * \<bar>v * 10 ^ (2 - 1) - int apr\<bar> \<le> 10 ^ (2 - 1)"
    using shown_rounded[of "int apr" 1 2] apr by auto
  then have "v < 2 ^ 48" using apr by simp
  note stable = half_point_above[OF v(1) this]
  have bound: "(of_nat apr :: rat) < 2 ^ 46" using assms(2) by (metis of_nat_less_iff of_nat_numeral of_nat_power)
  have x: "?x = 0 \<or> 1 / 10 ^ 25 \<le> ?x" by (cases apr) simp_all
  have c: "close (1 / 2 ^ 51) (?x * ?y) (nearest (nearest ?x * nearest ?y))"
    by (rule close_product[OF x]) simp
  have "?x * ?y < 10 ^ 20" using bound by simp
  then obtain t where t: "toFixed 1 (Finite (nearest (nearest ?x * nearest ?y))) = fixed_string 1 t"
      "\<bar>of_int t - ?x * ?y * 10 ^ 1\<bar> \<le> 1 / 2 + 1 / 2 ^ 51 * (?x * ?y * 10 ^ 1)"
    using shown_close[OF c, of 1] by auto
  have small: "\<bar>?x\<bar> \<le> of_int (2 ^ 46)" "\<bar>?y\<bar> \<le> of_int 1" using bound by simp_all
  have "\<bar>nearest ?x\<bar> \<le> of_int (2 ^ 46)" "\<bar>nearest ?y\<bar> \<le> of_int 1" by (rule nearest_bound[OF small(1)], simp, rule nearest_bound[OF small(2)], simp)
  then have "\<bar>nearest ?x * nearest ?y\<bar> \<le> 2 ^ 46 * 1" unfolding abs_mult by (intro mult_mono) simp_all
  then have fin: "double ?x = Finite (nearest ?x)" "double ?y = Finite (nearest ?y)"
      "double (nearest ?x * nearest ?y) = Finite (nearest (nearest ?x * nearest ?y))"
    using small by (auto intro!: small_is_finite)
  have "ma_borrowAPY (updated_market E m l apr) = Rates (fixed_string 1 v @ ''%'') (fixed_string 1 (v + 5) @ ''%'')"
    using v(2) stable unfolding updated_market_def Let_def parsed by simp
  moreover have "ma_depositAPY (updated_market E m l apr) = fixed_string 1 t @ ''%''"
    using t(1) fin unfolding updated_market_def Let_def parsed by simp
  moreover have "2 * \<bar>v * 10 - int apr\<bar> \<le> 10" using v(3) by simp
  moreover have "\<bar>of_int t - 7 * of_nat apr / 100\<bar> \<le> (1 / 2 + 7 * of_nat apr / 100 / 2 ^ 51 :: rat)"
    using t(2) by (simp add: field_simps)
  ultimately show ?thesis by blast
qed

lemma shown_rates_witness:
  "\<exists>v t. ma_borrowAPY (updated_market decimal_ethereum (hd initialMarketData) 75 500)
           = Rates (fixed_string 1 v @ ''%'') (fixed_string 1 (v + 5) @ ''%'')
     \<and> 2 * \<bar>v * 10 - int 500\<bar> \<le> 10
     \<and> ma_depositAPY (updated_market decimal_ethereum (hd initialMarketData) 75 500) = fixed_string 1 t @ ''%''
     \<and> \<bar>of_int t - 7 * of_nat 500 / 100\<bar> \<le> (1 / 2 + 7 * of_nat 500 / 100 / 2 ^ 51 :: rat)"
  by (rule shown_rates[OF decimal_ethereum_formats]) simp

text \<open>The menu of a market offers its actions whether or not a wallet is connected; the buttons do not.\<close>

lemma menu_ignores_connection:
  "mr_menu (market_row_of False (Some (ma_symbol m)) m) = [Withdraw_asset, Repay_asset]
   \<and> list_all (\<lambda>(a, enabled). \<not> enabled) (mr_buttons (market_row_of False (Some (ma_symbol m)) m))"
  by (simp add: market_row_of_def)

text \<open>The table shows one row for each market that is found, in their order, and exactly then no text instead.\<close>

lemma market_table_rows:
  "market_table False c d term active data = Table market_header rows \<longleftrightarrow>
     rows = map (market_row_of c d) (filteredMarkets term active data) \<and> filteredMarkets term active data \<noteq> []"
  by (auto simp: market_table_def Let_def)

end
