(* ===== verification/Ui_Components.thy ===== *)
theory Ui_Components
  imports Wallet_Context Market_Page
begin

text \<open>
  The smaller components of the web application: the messages (\<open>components/common/Toast.tsx\<close>), the wallet button
  (\<open>components/wallet/WalletConnect.tsx\<close>), the form of an action (\<open>components/markets/AssetActions.tsx\<close>), the
  details of an asset (\<open>AssetDetails.tsx\<close>, \<open>AssetDetailsClient.tsx\<close>) and the banner of the test network
  (\<open>components/common/TestnetWarning.tsx\<close>).
\<close>

section \<open>Messages\<close>

datatype ToastType = Success_toast | Error_toast | Info_toast | Warning_toast

record ToastMessage =
  tm_id :: string
  tm_message :: string
  tm_type :: ToastType



fun getBgColor :: "ToastType \<Rightarrow> string" where
  "getBgColor Success_toast = ''bg-green-100 border-green-500 text-green-700''"
| "getBgColor Error_toast = ''bg-red-100 border-red-500 text-red-700''"
| "getBgColor Warning_toast = ''bg-yellow-100 border-yellow-500 text-yellow-700''"
| "getBgColor Info_toast = ''bg-blue-100 border-blue-500 text-blue-700''"

text \<open>
  The messages with their timers. A rendering of the list gives every message a new callback, so that the timer of
  each visible message starts again; the fading ones keep the time at which they are removed. Times are in
  milliseconds.
\<close>

definition toast_duration :: nat where
  "toast_duration = 5000"


datatype toast_phase = Visible nat | Fading nat

record live_toast =
  lt_toast :: ToastMessage
  lt_phase :: toast_phase

definition lt_id :: "live_toast \<Rightarrow> string" where
  "lt_id t = tm_id (lt_toast t)"

fun restart :: "nat \<Rightarrow> toast_phase \<Rightarrow> toast_phase" where
  "restart now (Visible deadline) = Visible (now + toast_duration)"
| "restart now (Fading removal) = Fading removal"

text \<open>The list after it has been set: what is new in it is visible, what was in it keeps its phase.\<close>

definition render_toasts :: "nat \<Rightarrow> ToastMessage list \<Rightarrow> live_toast list \<Rightarrow> live_toast list" where
  "render_toasts now toasts shown =
     map (\<lambda>toast. \<lparr>lt_toast = toast, lt_phase =
       (case find (\<lambda>t. lt_id t = tm_id toast) shown of
          Some t \<Rightarrow> restart now (lt_phase t)
        | None \<Rightarrow> Visible (now + toast_duration))\<rparr>) toasts"







section \<open>The wallet button\<close>

definition ELECTRONEUM_TESTNET_ID :: int where
  "ELECTRONEUM_TESTNET_ID = 5201420"

definition formatAddress :: "string \<Rightarrow> string" where
  "formatAddress a = take 6 a @ ''...'' @ drop (length a - 4) a"

definition isCorrectNetwork :: "int option \<Rightarrow> bool" where
  "isCorrectNetwork chain \<longleftrightarrow> chain = Some ELECTRONEUM_TESTNET_ID"

definition getButtonStyle :: "bool \<Rightarrow> bool \<Rightarrow> int option \<Rightarrow> string" where
  "getButtonStyle busy connected_now chain =
     (if busy then ''bg-blue-400 text-white cursor-wait''
      else if connected_now \<and> \<not> isCorrectNetwork chain then ''bg-yellow-500 text-white hover:bg-yellow-600''
      else if connected_now
      then ''bg-blue-100 dark:bg-blue-900 text-blue-900 dark:text-blue-100 hover:bg-blue-200 dark:hover:bg-blue-800''
      else ''bg-blue-600 text-white hover:bg-blue-700'')"

record wallet_button =
  wb_open :: bool
  wb_error :: "string option"

text \<open>
  A press of the button opens or closes the menu of a connected wallet; otherwise it clears the error and connects.
  \<open>outcome\<close> is what \<open>connectWallet\<close> ends with: an exception with a message, or nothing.
\<close>

definition handleConnect :: "bool \<Rightarrow> exn option \<Rightarrow> wallet_button \<Rightarrow> wallet_button" where
  "handleConnect connected_now outcome b =
     (if connected_now then b\<lparr>wb_open := \<not> wb_open b\<rparr>
      else (case outcome of
              None \<Rightarrow> b\<lparr>wb_error := None\<rparr>
            | Some e \<Rightarrow> b\<lparr>wb_error := Some (if ex_message e = '''' then ''Failed to connect wallet'' else ex_message e)\<rparr>))"

definition handleDisconnect :: "wallet \<Rightarrow> wallet_button \<Rightarrow> wallet \<times> wallet_button" where
  "handleDisconnect w b = (disconnectWallet w, b\<lparr>wb_open := False, wb_error := None\<rparr>)"

text \<open>What the button says, and whether its menu is shown with a warning of the network.\<close>

definition button_label :: "bool \<Rightarrow> bool \<Rightarrow> string option \<Rightarrow> string" where
  "button_label busy connected_now a =
     (if busy then ''Connecting...''
      else (case a of
          Some x \<Rightarrow> if connected_now \<and> x \<noteq> '''' then formatAddress x else ''Connect Wallet''
        | None \<Rightarrow> ''Connect Wallet''))"

definition button_menu :: "bool \<Rightarrow> int option \<Rightarrow> wallet_button \<Rightarrow> bool option" where
  "button_menu connected_now chain b =
     (if connected_now \<and> wb_open b then Some (\<not> isCorrectNetwork chain) else None)"

section \<open>The form of an action\<close>

datatype form_action = Deposit_form | Withdraw_form | Borrow_form | Repay_form

fun actionTitle :: "form_action \<Rightarrow> string" where
  "actionTitle Deposit_form = ''Deposit''"
| "actionTitle Withdraw_form = ''Withdraw''"
| "actionTitle Borrow_form = ''Borrow''"
| "actionTitle Repay_form = ''Repay''"

record action_form =
  af_open :: bool
  af_amount :: string
  af_submitting :: bool
  af_error :: string

definition form_closeModal :: "action_form \<Rightarrow> action_form" where
  "form_closeModal f = f\<lparr>af_open := False, af_amount := '''', af_error := ''''\<rparr>"

definition form_openModal :: "action_form \<Rightarrow> action_form" where
  "form_openModal f = f\<lparr>af_open := True\<rparr>"

definition handleMaxAmount :: "string \<Rightarrow> action_form \<Rightarrow> action_form" where
  "handleMaxAmount maxAmount f = f\<lparr>af_amount := maxAmount\<rparr>"

text \<open>What the form says of an amount before anything is done: \<open>None\<close> lets it through.\<close>

definition amount_error :: "string \<Rightarrow> string \<Rightarrow> string \<Rightarrow> string option" where
  "amount_error assetSymbol maxAmount amount =
     (if amount = '''' \<or> num_le (parseFloat amount) (Finite 0) then Some ''Please enter a valid amount''
      else if num_less (parseFloat maxAmount) (parseFloat amount)
      then Some (''Amount exceeds maximum ('' @ maxAmount @ '' '' @ assetSymbol @ '')'')
      else None)"

definition handleSubmit ::
  "(string \<Rightarrow> ('w, exn, unit) eff) \<Rightarrow> string \<Rightarrow> string \<Rightarrow> 'w \<times> action_form \<Rightarrow> 'w \<times> action_form" where
  "handleSubmit onAction assetSymbol maxAmount s =
     (case s of (w, f) \<Rightarrow>
       (case amount_error assetSymbol maxAmount (af_amount f) of
          Some m \<Rightarrow> (w, f\<lparr>af_error := m\<rparr>)
        | None \<Rightarrow>
            (let f1 = f\<lparr>af_submitting := True, af_error := ''''\<rparr>
             in case onAction (af_amount f) w of
                  (Inr u, w') \<Rightarrow> (w', (form_closeModal f1)\<lparr>af_submitting := False\<rparr>)
                | (Inl e, w') \<Rightarrow> (w', f1\<lparr>af_error := ''Transaction failed. Please try again.'', af_submitting := False\<rparr>))))"

section \<open>The details of an asset\<close>

record asset_details =
  ad_symbol :: string
  ad_name :: string
  ad_icon :: string
  ad_depositAPY :: number
  ad_borrowAPY :: number
  ad_totalSupplied :: string
  ad_totalBorrowed :: string
  ad_liquidity :: string
  ad_price :: number
  ad_priceChange :: number
  ad_canBeCollateral :: bool

definition assetsData :: "(string \<times> asset_details) list" where
  "assetsData =
     [(''etn'', \<lparr>ad_symbol = ''ETN'', ad_name = ''Electroneum'', ad_icon = ''/assets/etn-logo.png'',
        ad_depositAPY = double (25 / 10), ad_borrowAPY = double (48 / 10), ad_totalSupplied = ''2,500,000'',
        ad_totalBorrowed = ''1,200,000'', ad_liquidity = ''1,300,000'', ad_price = double (15 / 1000),
        ad_priceChange = double (145 / 100), ad_canBeCollateral = True\<rparr>),
      (''usdc'', \<lparr>ad_symbol = ''USDC'', ad_name = ''USD Coin'', ad_icon = ''/assets/usdc-logo.png'',
        ad_depositAPY = double (32 / 10), ad_borrowAPY = double (55 / 10), ad_totalSupplied = ''1,800,000'',
        ad_totalBorrowed = ''900,000'', ad_liquidity = ''900,000'', ad_price = double 1,
        ad_priceChange = double (5 / 100), ad_canBeCollateral = True\<rparr>),
      (''usdt'', \<lparr>ad_symbol = ''USDT'', ad_name = ''Tether'', ad_icon = ''/assets/usdt-logo.png'',
        ad_depositAPY = double (31 / 10), ad_borrowAPY = double (52 / 10), ad_totalSupplied = ''1,500,000'',
        ad_totalBorrowed = ''750,000'', ad_liquidity = ''750,000'', ad_price = double 1,
        ad_priceChange = double (1 / 100), ad_canBeCollateral = True\<rparr>)]"

text \<open>\<open>None\<close> is the page of a market that does not exist.\<close>

definition AssetDetailsClient :: "string \<Rightarrow> asset_details option" where
  "AssetDetailsClient symb = map_of assetsData (toLowerCase symb)"

definition CONTRACT_ADDRESSES :: "(string \<times> string) list" where
  "CONTRACT_ADDRESSES =
     [(''LENDING_CONTRACT'', ''0x09308a46cb03915a530Cf4365078a3688ec90682''),
      (''ETN_TOKEN'', ''0x154c9fD7F006b92b6afa746098d8081A831DC1FC''),
      (''USDC_TOKEN'', ''0x9a110A3Ecc8704e93Bd4FA1bA44D5CF93327202B''),
      (''USDT_TOKEN'', ''0x02FeC8c559fB598762df8D033bD7A3Df9b374771'')]"

definition details_getTokenAddress :: "string \<Rightarrow> string" where
  "details_getTokenAddress symb =
     (let s = toUpperCase symb; address_of = (\<lambda>k. the (map_of CONTRACT_ADDRESSES k)) in
      if s = ''ETN'' then address_of ''ETN_TOKEN''
      else if s = ''USDC'' then address_of ''USDC_TOKEN''
      else if s = ''USDT'' then address_of ''USDT_TOKEN''
      else address_of ''ETN_TOKEN'')"

record balances =
  bl_userBalance :: string
  bl_userDeposits :: string

text \<open>The two numbers are set together, after both have been read; a failure keeps the ones that are shown.\<close>

definition loadBalances :: "'w ethereum \<Rightarrow> string \<Rightarrow> 'w \<times> balances \<Rightarrow> 'w \<times> balances" where
  "loadBalances E tokenAddress s =
     (case s of (w, b) \<Rightarrow>
       (case eff_bind (handleGetTokenBalance E tokenAddress) (\<lambda>bal.
               eff_bind (handleGetUserDeposits E tokenAddress) (\<lambda>deps. eff_return (bal, deps))) w of
          (Inr (bal, deps), w') \<Rightarrow> (w', b\<lparr>bl_userBalance := bal, bl_userDeposits := deps\<rparr>)
        | (Inl e, w') \<Rightarrow> (w', b)))"

text \<open>What the page of an asset shows above its forms.\<close>

record details_view =
  dv_price :: string
  dv_rising :: bool
  dv_depositAPY :: string
  dv_borrowAPY :: string
  dv_collateral :: string
  dv_totals :: "string list"

definition details_view_of :: "asset_details \<Rightarrow> details_view" where
  "details_view_of d =
     (let up = num_le (Finite 0) (ad_priceChange d) in
      \<lparr>dv_price = ''$'' @ toFixed 2 (ad_price d) @ '' ('' @ (if up then ''+'' else '''') @ toFixed 2 (ad_priceChange d) @ ''%)'',
       dv_rising = up, dv_depositAPY = toFixed 2 (ad_depositAPY d) @ ''%'', dv_borrowAPY = toFixed 2 (ad_borrowAPY d) @ ''%'',
       dv_collateral = (if ad_canBeCollateral d then ''Yes'' else ''No''),
       dv_totals = [ad_totalSupplied d @ '' '' @ ad_symbol d, ad_totalBorrowed d @ '' '' @ ad_symbol d, ad_liquidity d @ '' '' @ ad_symbol d]\<rparr>)"

text \<open>The forms of the two tabs: their heading, the amount above them, and what they are given.\<close>

datatype details_tab = Deposit_tab | Borrow_tab

record form_props =
  fp_heading :: string
  fp_amount :: string
  fp_userBalance :: string
  fp_maxAmount :: string
  fp_actionType :: form_action

definition details_forms :: "details_tab \<Rightarrow> asset_details \<Rightarrow> balances \<Rightarrow> form_props list" where
  "details_forms tab d b =
     (let amount = (\<lambda>label a. label @ toFixed 4 (parseFloat a) @ '' '' @ ad_symbol d)
      in case tab of
         Deposit_tab \<Rightarrow>
           [\<lparr>fp_heading = ''Deposit '' @ ad_symbol d, fp_amount = amount ''Wallet Balance: '' (bl_userBalance b),
             fp_userBalance = bl_userBalance b, fp_maxAmount = bl_userBalance b, fp_actionType = Deposit_form\<rparr>,
            \<lparr>fp_heading = ''Withdraw '' @ ad_symbol d, fp_amount = amount ''Your Deposits: '' (bl_userDeposits b),
             fp_userBalance = bl_userDeposits b, fp_maxAmount = bl_userDeposits b, fp_actionType = Withdraw_form\<rparr>]
       | Borrow_tab \<Rightarrow>
           [\<lparr>fp_heading = ''Borrow '' @ ad_symbol d, fp_amount = amount ''Available to Borrow: '' (ad_liquidity d),
             fp_userBalance = ''0'', fp_maxAmount = ad_liquidity d, fp_actionType = Borrow_form\<rparr>,
            \<lparr>fp_heading = ''Repay '' @ ad_symbol d, fp_amount = amount ''Wallet Balance: '' (bl_userBalance b),
             fp_userBalance = bl_userBalance b, fp_maxAmount = bl_userBalance b, fp_actionType = Repay_form\<rparr>])"

text \<open>Each of the four forms of the details is given the reloading of the balances for its action.\<close>

definition details_onAction :: "'w ethereum \<Rightarrow> string \<Rightarrow> string \<Rightarrow> ('w \<times> balances, exn, unit) eff" where
  "details_onAction E symb amount s = (Inr (), loadBalances E (details_getTokenAddress symb) s)"

section \<open>The banner\<close>

text \<open>
  The time of the dismissal as it is stored, in milliseconds, or nothing; a stored text is the decimal numeral that the
  banner itself has written. The visibility after the check, and what is stored then.
\<close>

definition checkDismissalStatus :: "nat \<Rightarrow> nat option \<Rightarrow> bool \<times> nat option" where
  "checkDismissalStatus now dismissedTime =
     (case dismissedTime of
        Some dismissedAt \<Rightarrow>
          if int now - int dismissedAt > 24 * 60 * 60 * 1000 then (True, None) else (False, Some dismissedAt)
      | None \<Rightarrow> (True, None))"

definition handleDismiss :: "nat \<Rightarrow> bool \<times> nat option" where
  "handleDismiss now = (False, Some now)"

section \<open>The messages share their deadline\<close>


lemma render_toasts_ids: "map lt_toast (render_toasts now toasts shown) = toasts"
  by (simp add: render_toasts_def comp_def)








text \<open>What is left to happen to a message before it is gone: a visible one has to fade, and a fading one to be removed.\<close>

fun steps_left :: "toast_phase \<Rightarrow> nat" where
  "steps_left (Visible d) = 2"
| "steps_left (Fading r) = 1"



lemma steps_left_restart [simp]: "steps_left (restart now p) = steps_left p"
  by (cases p) simp_all





















section \<open>The form of an action\<close>

text \<open>
  The form lets an amount through exactly when its text is not empty and the number it starts with is neither zero nor
  negative nor above the maximum; an amount or a maximum that is no number passes the comparisons.
\<close>

theorem form_lets_through:
  "amount_error symb maximum amount = None \<longleftrightarrow>
     amount \<noteq> '''' \<and> (parseFloat amount = NaN \<or> num_less (Finite 0) (parseFloat amount)
       \<and> (parseFloat maximum = NaN \<or> num_le (parseFloat amount) (parseFloat maximum)))"
proof -
  have trichotomy: "x = NaN \<or> y = NaN \<or> (num_le x y \<longleftrightarrow> \<not> num_less y x)" for x y
    by (cases x; cases y) (auto simp: num_le_def)
  have nan: "\<not> num_less NaN x" "\<not> num_less x NaN" "\<not> num_le NaN x" "\<not> num_le x NaN" for x
    by (cases x; auto simp: num_le_def)+
  show ?thesis
    using trichotomy[of "parseFloat amount" "Finite 0"] trichotomy[of "parseFloat amount" "parseFloat maximum"]
    by (cases "parseFloat amount = NaN"; cases "parseFloat maximum = NaN") (auto simp: amount_error_def nan)
qed

lemma text_is_submitted: "amount_error symb maximum ''abc'' = None"
proof -
  have "parseFloat ''abc'' = NaN" by code_simp
  then show ?thesis by (simp add: form_lets_through)
qed

text \<open>
  Submitting the form either changes nothing but the error that is shown, when the amount is not let through, or runs the
  action with the amount once; it then closes the form and clears it, or says that the transaction has failed and
  keeps the amount. In either case the form can be submitted again.
\<close>

theorem submit_outcomes:
  "handleSubmit act symb maximum (w, f) =
     (case amount_error symb maximum (af_amount f) of
        Some m \<Rightarrow> (w, f\<lparr>af_error := m\<rparr>)
      | None \<Rightarrow> (case act (af_amount f) w of
            (Inr u, w') \<Rightarrow> (w', f\<lparr>af_open := False, af_amount := '''', af_submitting := False, af_error := ''''\<rparr>)
          | (Inl e, w') \<Rightarrow> (w', f\<lparr>af_submitting := False, af_error := ''Transaction failed. Please try again.''\<rparr>)))"
  by (simp add: handleSubmit_def form_closeModal_def Let_def split: option.split prod.split sum.split)

section \<open>The details of an asset\<close>

lemma silent_trace: "silent m (w, evs) = (r, (w', evs')) \<Longrightarrow> evs' = evs"
  by (auto simp: silent_def observe_def split: prod.splits sum.splits)

text \<open>An effect that leaves the trace of events as it is.\<close>

definition unobserved :: "('w \<times> ui_event list, exn, 'a) eff \<Rightarrow> bool" where
  "unobserved m \<longleftrightarrow> (\<forall>w evs. snd (snd (m (w, evs))) = evs)"

lemma unobserved_basic [intro]:
  "unobserved (silent m)" "unobserved (eff_return a)" "unobserved (eff_lift r)" "unobserved (eff_throw e)"
  by (auto simp: unobserved_def silent_def observe_def eff_simps split: prod.splits sum.splits)

lemma unobservedD: "unobserved m \<Longrightarrow> m (w, evs) = (r, (w', evs')) \<Longrightarrow> evs' = evs"
  unfolding unobserved_def by (metis snd_conv)

lemma unobserved_bind [intro]:
  assumes "unobserved m" and "\<And>a. unobserved (f a)"
  shows "unobserved (eff_bind m f)"
  unfolding unobserved_def
proof (intro allI)
  fix w evs
  obtain r w' evs' where run: "m (w, evs) = (r, (w', evs'))" by (metis prod.exhaust)
  then show "snd (snd (eff_bind m f (w, evs))) = evs"
    using unobservedD[OF assms(1) run] assms(2) by (cases r) (simp_all add: eff_bind_def unobserved_def)
qed

lemma unobserved_catch [intro]:
  assumes "unobserved m" and "\<And>e. unobserved (h e)"
  shows "unobserved (eff_catch m h)"
  unfolding unobserved_def
proof (intro allI)
  fix w evs
  obtain r w' evs' where run: "m (w, evs) = (r, (w', evs'))" by (metis prod.exhaust)
  then show "snd (snd (eff_catch m h (w, evs))) = evs"
    using unobservedD[OF assms(1) run] assms(2) by (cases r) (simp_all add: eff_catch_def unobserved_def)
qed

lemma observed_readings:
  "injected (observed E) = injected E" "eth_requestAccounts (observed E) = silent (eth_requestAccounts E)"
  "signer_getAddress (observed E) = silent (signer_getAddress E)"
  "token_decimals (observed E) t = silent (token_decimals E t)"
  "token_balanceOf (observed E) t a = silent (token_balanceOf E t a)"
  "lending_deposits (observed E) a t = silent (lending_deposits E a t)"
  by (simp_all add: observed_def)

lemma unobserved_balances:
  "unobserved (handleGetTokenBalance (observed E) t)" "unobserved (handleGetUserDeposits (observed E) t)"
  unfolding handleGetTokenBalance_def handleGetUserDeposits_def getTokenBalance_def getDepositedAmount_def
    read_amount_def number_or_zero_def getTokenDecimals_def getSigner_def eff_then_def observed_readings
  by (auto intro!: unobserved_bind unobserved_catch)

text \<open>
  The four forms of the details of an asset perform none of their actions: a submission that is let through reads the
  balances, asks for no allowance and sends no transaction, and the form closes as it does after a success.
\<close>

theorem details_forms_send_nothing:
  assumes "amount_error symb maximum (af_amount f) = None"
    and "handleSubmit (details_onAction (observed E) symb) symb maximum (((w, evs), b), f) = (((w', evs'), b'), f')"
  shows "evs' = evs \<and> f' = f\<lparr>af_open := False, af_amount := '''', af_submitting := False, af_error := ''''\<rparr>"
proof -
  let ?load = "eff_bind (handleGetTokenBalance (observed E) (details_getTokenAddress symb)) (\<lambda>bal.
     eff_bind (handleGetUserDeposits (observed E) (details_getTokenAddress symb)) (\<lambda>deps. eff_return (bal, deps)))"
  have quiet: "unobserved ?load" by (intro unobserved_bind unobserved_balances unobserved_basic)
  obtain r v evs1 where run: "?load (w, evs) = (r, (v, evs1))" by (metis prod.exhaust)
  then have "evs1 = evs" by (rule unobservedD[OF quiet])
  then show ?thesis
    using assms run
    by (cases r) (auto simp: handleSubmit_def details_onAction_def loadBalances_def form_closeModal_def Let_def)
qed

lemma details_forms_send_nothing_witness:
  "\<exists>w' b'. handleSubmit (details_onAction (observed sample_ethereum) ''USDC'') ''USDC'' ''100''
       ((((1, True), []), \<lparr>bl_userBalance = ''0'', bl_userDeposits = ''0''\<rparr>),
        \<lparr>af_open = True, af_amount = ''5'', af_submitting = False, af_error = ''''\<rparr>)
     = (((w', []), b'), \<lparr>af_open = False, af_amount = '''', af_submitting = False, af_error = ''''\<rparr>)"
proof -
  let ?f = "\<lparr>af_open = True, af_amount = ''5'', af_submitting = False, af_error = ''''\<rparr>"
  have "parseFloat ''5'' = Finite 5" "parseFloat ''100'' = Finite 100"
    using parseFloat_digits(1)[of "''5''"] parseFloat_digits(1)[of "''100''"] double_of_nat[of 5] double_of_nat[of 100]
    by (simp_all add: is_digit_def digits_val_def digit_val_def)
  then have ok: "amount_error ''USDC'' ''100'' (af_amount ?f) = None" by (simp add: amount_error_def num_le_def)
  obtain w' evs' b' f' where run: "handleSubmit (details_onAction (observed sample_ethereum) ''USDC'') ''USDC'' ''100''
      ((((1, True), []), \<lparr>bl_userBalance = ''0'', bl_userDeposits = ''0''\<rparr>), ?f) = (((w', evs'), b'), f')"
    by (metis prod.exhaust)
  show ?thesis using details_forms_send_nothing[OF ok run] run by simp
qed

text \<open>
  The details of a market open for no market of the list under the symbol it has there but the two stable coins, and the
  maximum of the form for a loan is read up to its first comma.
\<close>

theorem details_of_the_markets:
  "map (\<lambda>m. map_option ad_symbol (AssetDetailsClient (ma_symbol m))) initialMarketData = [None, Some ''USDC'', Some ''USDT'']
   \<and> map (\<lambda>d. parseFloat (ad_liquidity (snd d))) assetsData = [Finite 1, Finite 900, Finite 750]"
proof
  show "map (\<lambda>m. map_option ad_symbol (AssetDetailsClient (ma_symbol m))) initialMarketData = [None, Some ''USDC'', Some ''USDT'']"
    by (simp add: initialMarketData_def initial_market_def AssetDetailsClient_def assetsData_def toLowerCase_def lower_letters)
  have "parseFloat ''1,300,000'' = Finite 1" "parseFloat ''900,000'' = Finite 900" "parseFloat ''750,000'' = Finite 750"
    using parseFloat_prefix[of "''1''" "CHR '',''" "''300,000''"] parseFloat_prefix[of "''900''" "CHR '',''" "''000''"]
      parseFloat_prefix[of "''750''" "CHR '',''" "''000''"] double_of_nat[of 1] double_of_nat[of 900] double_of_nat[of 750]
    by (simp_all add: is_digit_def digits_val_def digit_val_def)
  then show "map (\<lambda>d. parseFloat (ad_liquidity (snd d))) assetsData = [Finite 1, Finite 900, Finite 750]"
    by (simp add: assetsData_def)
qed

section \<open>The banner\<close>

text \<open>
  A banner that is dismissed stays away for a day: a page that is loaded at most 24 hours later does not show it, and one
  that is loaded after that shows it and forgets the dismissal, so that the next page shows it as well.
\<close>

theorem banner_returns_after_a_day:
  "handleDismiss t = (False, Some t)
   \<and> checkDismissalStatus now (snd (handleDismiss t)) = (if now \<le> t + 86400000 then (False, Some t) else (True, None))
   \<and> checkDismissalStatus later None = (True, None)"
  by (auto simp: handleDismiss_def checkDismissalStatus_def)

end
