(* ===== verification/Testnet_Scripts.thy ===== *)
theory Testnet_Scripts
  imports Misc_Utils Js_Number
begin

text \<open>
  The scripts that deploy the market on the test network: \<open>scripts/deploy-electrolend-testnet-quick.js\<close>, which
  does not wait for confirmations, \<open>scripts/deploy-electrolend-testnet.js\<close>, which does, and the two that are run
  afterwards, \<open>scripts/setup-reserves.js\<close> and \<open>scripts/setup-electrolend-oracle.js\<close>. The ethers library with
  the node, the environment and the file system are the operations of the record \<open>node\<close>; each of them may
  fail. The state is that of the process, the file it writes and the rest of the world.
\<close>

section \<open>The node and the process\<close>

datatype argument = Arg_text string | Arg_number nat | Arg_flag bool | Arg_texts "string list"

text \<open>The options of a transaction: no limit of gas leaves it to the library.\<close>

record tx_overrides =
  ov_maxFeePerGas :: nat
  ov_maxPriorityFeePerGas :: nat
  ov_gasLimit :: "number option"
  ov_value :: nat

text \<open>
  A factory is the name of a contract with the libraries it is linked with. A deployment that has been sent has the hash of
  its transaction and the address of the contract. The answer of a read call is the text of the
  result; what \<open>getReserveData\<close> answers are the addresses of the three tokens.
\<close>

record reserve_tokens =
  rt_elTokenAddress :: string
  rt_stableDebtTokenAddress :: string
  rt_variableDebtTokenAddress :: string

record 'w node =
  node_env :: "string \<Rightarrow> string option"
  node_signer :: "('w, js_error, string) eff"
  node_balance :: "string \<Rightarrow> ('w, js_error, nat) eff"
  node_factory :: "string \<Rightarrow> string SymbolMap \<Rightarrow> ('w, js_error, unit) eff"
  node_estimate_deploy :: "string \<Rightarrow> argument list \<Rightarrow> ('w, js_error, nat) eff"
  node_deploy :: "string \<Rightarrow> string SymbolMap \<Rightarrow> argument list \<Rightarrow> tx_overrides \<Rightarrow> ('w, js_error, string \<times> string) eff"
  node_contract_at :: "string \<Rightarrow> string \<Rightarrow> ('w, js_error, unit) eff"
  node_estimate_call :: "string \<Rightarrow> string \<Rightarrow> argument list \<Rightarrow> nat \<Rightarrow> ('w, js_error, nat) eff"
  node_call :: "string \<Rightarrow> string \<Rightarrow> argument list \<Rightarrow> tx_overrides \<Rightarrow> ('w, js_error, string) eff"
  node_wait :: "string \<Rightarrow> nat \<Rightarrow> ('w, js_error, unit) eff"
  node_read :: "string \<Rightarrow> string \<Rightarrow> argument list \<Rightarrow> ('w, js_error, string) eff"
  node_reserve :: "string \<Rightarrow> string \<Rightarrow> ('w, js_error, reserve_tokens) eff"
  node_keccak_text :: "string \<Rightarrow> string"
  node_keccak :: "string \<Rightarrow> string"
  node_create2 :: "string \<Rightarrow> string \<Rightarrow> string \<Rightarrow> string"
  node_now :: "('w, js_error, string) eff"
  node_write :: "('w, js_error, unit) eff"

record deployment_file =
  df_timestamp :: string
  df_deployer :: "string option"
  df_addresses :: "string SymbolMap"
  df_txCount :: nat

record 'w process =
  pc_world :: 'w
  pc_file :: "deployment_file option"
  pc_deployerAddress :: "string option"
  pc_deploymentAddresses :: "string SymbolMap"
  pc_txCount :: nat

text \<open>The state of a process that starts.\<close>

definition start_process :: "'w \<Rightarrow> deployment_file option \<Rightarrow> 'w process" where
  "start_process w file =
     \<lparr>pc_world = w, pc_file = file, pc_deployerAddress = None, pc_deploymentAddresses = [], pc_txCount = 0\<rparr>"

text \<open>\<open>process.exit\<close> ends the script at once; no \<open>catch\<close> sees it.\<close>

datatype script_exn = Raised js_error | Process_exit nat

definition ask :: "('w, js_error, 'a) eff \<Rightarrow> ('w process, script_exn, 'a) eff" where
  "ask m s = (case m (pc_world s) of
      (Inl e, w) \<Rightarrow> (Inl (Raised e), s\<lparr>pc_world := w\<rparr>)
    | (Inr a, w) \<Rightarrow> (Inr a, s\<lparr>pc_world := w\<rparr>))"

definition script_try ::
  "('s, script_exn, 'a) eff \<Rightarrow> (js_error \<Rightarrow> ('s, script_exn, 'a) eff) \<Rightarrow> ('s, script_exn, 'a) eff" where
  "script_try m h = eff_catch m (\<lambda>e. case e of Raised x \<Rightarrow> h x | Process_exit n \<Rightarrow> eff_throw (Process_exit n))"

text \<open>The exit code of a script: \<open>main().then(() => process.exit(0)).catch(() => process.exit(1))\<close>.\<close>

definition run_script :: "('s, script_exn, unit) eff \<Rightarrow> 's \<Rightarrow> nat \<times> 's" where
  "run_script m s = (case m s of
      (Inr _, s') \<Rightarrow> (0, s')
    | (Inl (Raised _), s') \<Rightarrow> (1, s')
    | (Inl (Process_exit n), s') \<Rightarrow> (n, s'))"

text \<open>\<open>obj[key] || ...\<close>: an entry that is missing or empty is not there.\<close>

definition truthy_entry :: "string SymbolMap \<Rightarrow> string \<Rightarrow> string option" where
  "truthy_entry obj k = (case map_of obj k of Some a \<Rightarrow> if a = '''' then None else Some a | None \<Rightarrow> None)"

text \<open>\<open>Math.floor(Number(estimate) * multiplier)\<close>.\<close>

fun js_floor :: "number \<Rightarrow> number" where
  "js_floor (Finite q) = Finite (of_int \<lfloor>q\<rfloor>)"
| "js_floor (Infinite s) = Infinite s"
| "js_floor NaN = NaN"

definition adjusted_gas :: "rat \<Rightarrow> nat \<Rightarrow> number" where
  "adjusted_gas multiplier estimate = js_floor (num_mult (double (of_nat estimate)) (double multiplier))"

section \<open>Tables\<close>

definition gwei :: nat where "gwei = 10 ^ 9"

definition QUICK_MAX_FEE_PER_GAS :: nat where "QUICK_MAX_FEE_PER_GAS = 500 * gwei"
definition QUICK_MAX_PRIORITY_FEE_PER_GAS :: nat where "QUICK_MAX_PRIORITY_FEE_PER_GAS = 50 * gwei"
definition QUICK_GAS_LIMIT_MULTIPLIER :: rat where "QUICK_GAS_LIMIT_MULTIPLIER = 3 / 2"

definition SCRIPT_MARKET_ID :: string where "SCRIPT_MARKET_ID = ''ElectroLend genesis market''"
definition SCRIPT_PROVIDER_ID :: nat where "SCRIPT_PROVIDER_ID = 1"

record script_token =
  st_address :: string
  st_symbol :: string
  st_name :: string
  st_decimals :: nat
  st_baseLTV :: nat
  st_liquidationThreshold :: nat
  st_liquidationBonus :: nat
  st_reserveFactor :: nat
  st_borrowingEnabled :: bool
  st_stableBorrowingEnabled :: bool

text \<open>\<open>process.env.NAME || default\<close>.\<close>

definition env_or :: "(string \<Rightarrow> string option) \<Rightarrow> string \<Rightarrow> string \<Rightarrow> string" where
  "env_or env key fallback = (case env key of Some v \<Rightarrow> if v = '''' then fallback else v | None \<Rightarrow> fallback)"

definition QUICK_TOKENS :: "(string \<Rightarrow> string option) \<Rightarrow> script_token SymbolMap" where
  "QUICK_TOKENS env =
    [(''WETN'', \<lparr>st_address = env_or env ''WETN_ADDRESS'' ''0x154c9fD7F006b92b6afa746098d8081A831DC1FC'',
       st_symbol = ''WETN'', st_name = ''Wrapped ETN'', st_decimals = 18, st_baseLTV = 8000,
       st_liquidationThreshold = 8500, st_liquidationBonus = 10500, st_reserveFactor = 1000,
       st_borrowingEnabled = True, st_stableBorrowingEnabled = True\<rparr>),
     (''TUSDC'', \<lparr>st_address = env_or env ''TUSDC_ADDRESS'' ''0x9a110A3Ecc8704e93Bd4FA1bA44D5CF93327202B'',
       st_symbol = ''TUSDC'', st_name = ''Test USDC'', st_decimals = 6, st_baseLTV = 8000,
       st_liquidationThreshold = 8500, st_liquidationBonus = 10500, st_reserveFactor = 1000,
       st_borrowingEnabled = True, st_stableBorrowingEnabled = True\<rparr>),
     (''TUSDT'', \<lparr>st_address = env_or env ''TUSDT_ADDRESS'' ''0x02FeC8c559fB598762df8D033bD7A3Df9b374771'',
       st_symbol = ''TUSDT'', st_name = ''Test USDT'', st_decimals = 6, st_baseLTV = 8000,
       st_liquidationThreshold = 8500, st_liquidationBonus = 10500, st_reserveFactor = 1000,
       st_borrowingEnabled = True, st_stableBorrowingEnabled = True\<rparr>)]"

record rate_strategy =
  rs_optimalUtilizationRate :: string
  rs_baseVariableBorrowRate :: string
  rs_variableRateSlope1 :: string
  rs_variableRateSlope2 :: string
  rs_stableRateSlope1 :: string
  rs_stableRateSlope2 :: string

definition INTEREST_RATE_STRATEGIES :: "rate_strategy SymbolMap" where
  "INTEREST_RATE_STRATEGIES =
    [(''WETN'', \<lparr>rs_optimalUtilizationRate = ''450000000000000000'', rs_baseVariableBorrowRate = ''0'',
       rs_variableRateSlope1 = ''70000000000000000'', rs_variableRateSlope2 = ''3000000000000000000'',
       rs_stableRateSlope1 = ''90000000000000000'', rs_stableRateSlope2 = ''3000000000000000000''\<rparr>),
     (''TUSDC'', \<lparr>rs_optimalUtilizationRate = ''900000000000000000'', rs_baseVariableBorrowRate = ''0'',
       rs_variableRateSlope1 = ''40000000000000000'', rs_variableRateSlope2 = ''600000000000000000'',
       rs_stableRateSlope1 = ''50000000000000000'', rs_stableRateSlope2 = ''600000000000000000''\<rparr>),
     (''TUSDT'', \<lparr>rs_optimalUtilizationRate = ''900000000000000000'', rs_baseVariableBorrowRate = ''0'',
       rs_variableRateSlope1 = ''40000000000000000'', rs_variableRateSlope2 = ''600000000000000000'',
       rs_stableRateSlope1 = ''50000000000000000'', rs_stableRateSlope2 = ''600000000000000000''\<rparr>)]"

definition BASE_CURRENCY :: string where "BASE_CURRENCY = ZERO_ADDRESS"
definition BASE_CURRENCY_UNIT :: string where "BASE_CURRENCY_UNIT = ''100000000''"

definition PRICE_FEED_ADDRESS :: "(string \<Rightarrow> string option) \<Rightarrow> string" where
  "PRICE_FEED_ADDRESS env = env_or env ''SIMPLE_PRICE_FEED_ADDRESS'' ''0xFba006047BCeCc6E7402D8ae7a3ddCB8DB1CFf53''"

definition ORACLE_TOKEN_SYMBOLS :: "string SymbolMap" where
  "ORACLE_TOKEN_SYMBOLS = [(''WETN'', ''ETN''), (''TUSDC'', ''USDC''), (''TUSDT'', ''USDT'')]"

definition FEED_INITIAL_PRICES :: "string SymbolMap" where
  "FEED_INITIAL_PRICES = [(''ETN'', ''500000''), (''USDC'', ''100000000''), (''USDT'', ''100000000'')]"

section \<open>The script that does not wait\<close>

definition saveState :: "'w node \<Rightarrow> ('w process, script_exn, unit) eff" where
  "saveState N =
     eff_bind (ask (node_now N)) (\<lambda>timestamp.
     eff_then (ask (node_write N))
     (eff_modify (\<lambda>s. s\<lparr>pc_file := Some \<lparr>df_timestamp = timestamp, df_deployer = pc_deployerAddress s,
        df_addresses = pc_deploymentAddresses s, df_txCount = pc_txCount s\<rparr>\<rparr>)))"

text \<open>\<open>state.deploymentAddresses[name] = address; state.txCount++\<close>, and the count alone.\<close>

definition note_deployment :: "string \<Rightarrow> string \<Rightarrow> 'w process \<Rightarrow> 'w process" where
  "note_deployment contractName address s =
     s\<lparr>pc_deploymentAddresses := js_set (pc_deploymentAddresses s) contractName address, pc_txCount := pc_txCount s + 1\<rparr>"

definition quick_overrides :: "number option \<Rightarrow> tx_overrides" where
  "quick_overrides gasLimit =
     \<lparr>ov_maxFeePerGas = QUICK_MAX_FEE_PER_GAS, ov_maxPriorityFeePerGas = QUICK_MAX_PRIORITY_FEE_PER_GAS,
      ov_gasLimit = gasLimit, ov_value = 0\<rparr>"

definition quick_deploy :: "'w node \<Rightarrow> string \<Rightarrow> argument list \<Rightarrow> ('w process, script_exn, string) eff" where
  "quick_deploy N contractName args =
     eff_then (ask (node_factory N contractName []))
     (eff_bind (ask (node_estimate_deploy N contractName args)) (\<lambda>gasEstimate.
      eff_bind (ask (node_deploy N contractName [] args
          (quick_overrides (Some (adjusted_gas QUICK_GAS_LIMIT_MULTIPLIER gasEstimate))))) (\<lambda>(_, address).
      eff_then (eff_modify (note_deployment contractName address))
      (eff_then (saveState N)
      (eff_return address)))))"

definition quick_sendTx :: "'w node \<Rightarrow> string \<Rightarrow> string \<Rightarrow> argument list \<Rightarrow> ('w process, script_exn, unit) eff" where
  "quick_sendTx N contract methodName args =
     eff_bind (ask (node_estimate_call N contract methodName args 0)) (\<lambda>gasEstimate.
     eff_then (ask (node_call N contract methodName args
         (quick_overrides (Some (adjusted_gas QUICK_GAS_LIMIT_MULTIPLIER gasEstimate)))))
     (eff_then (eff_modify (\<lambda>s. s\<lparr>pc_txCount := pc_txCount s + 1\<rparr>))
     (saveState N)))"

text \<open>A contract with libraries is deployed without an estimate, and noted under a name of its own.\<close>

definition quick_linked ::
  "'w node \<Rightarrow> string \<Rightarrow> string \<Rightarrow> string SymbolMap \<Rightarrow> ('w process, script_exn, string) eff" where
  "quick_linked N contractName noted libraries =
     eff_then (ask (node_factory N contractName libraries))
     (eff_bind (ask (node_deploy N contractName libraries [] (quick_overrides None))) (\<lambda>(_, address).
      eff_then (eff_modify (note_deployment noted address))
      (eff_then (saveState N)
      (eff_return address))))"

text \<open>
  The steps that both scripts have, for the deployment, the transaction and the linked deployment of the
  script: the provider with its registry and the implementations of the pool (steps 1 to 7), ...
\<close>

type_synonym 'w deploying = "string \<Rightarrow> argument list \<Rightarrow> ('w process, script_exn, string) eff"
type_synonym 'w sending = "string \<Rightarrow> string \<Rightarrow> argument list \<Rightarrow> ('w process, script_exn, unit) eff"
type_synonym 'w linking = "string \<Rightarrow> string \<Rightarrow> string SymbolMap \<Rightarrow> ('w process, script_exn, string) eff"

record pool_parts =
  pp_addressesProvider :: string
  pp_lendingPoolImpl :: string
  pp_lendingPoolConfiguratorImpl :: string

definition deploy_pool :: "'w deploying \<Rightarrow> 'w sending \<Rightarrow> 'w linking \<Rightarrow> string \<Rightarrow> ('w process, script_exn, pool_parts) eff" where
  "deploy_pool dep snd_tx link deployerAddress =
     eff_bind (dep ''LendingPoolAddressesProviderRegistry'' [Arg_text deployerAddress]) (\<lambda>registry.
     eff_bind (dep ''LendingPoolAddressesProvider'' [Arg_text SCRIPT_MARKET_ID, Arg_text deployerAddress]) (\<lambda>provider.
     eff_then (snd_tx registry ''registerAddressesProvider'' [Arg_text provider, Arg_number SCRIPT_PROVIDER_ID])
     (eff_bind (dep ''ReserveLogic'' []) (\<lambda>reserveLogic.
      eff_bind (dep ''GenericLogic'' []) (\<lambda>genericLogic.
      eff_bind (link ''ValidationLogic'' ''ValidationLogic''
         [(''ReserveLogic'', reserveLogic), (''GenericLogic'', genericLogic)]) (\<lambda>validationLogic.
      eff_bind (link ''LendingPool'' ''LendingPoolImpl''
         [(''ReserveLogic'', reserveLogic), (''ValidationLogic'', validationLogic), (''GenericLogic'', genericLogic)])
        (\<lambda>lendingPoolImpl.
      eff_bind (dep ''LendingPoolConfigurator'' []) (\<lambda>configuratorImpl.
      eff_then (snd_tx provider ''setLendingPoolImpl'' [Arg_text lendingPoolImpl])
      (eff_then (snd_tx provider ''setLendingPoolConfiguratorImpl'' [Arg_text configuratorImpl])
      (eff_return \<lparr>pp_addressesProvider = provider, pp_lendingPoolImpl = lendingPoolImpl,
         pp_lendingPoolConfiguratorImpl = configuratorImpl\<rparr>))))))))))"

text \<open>... the oracles, the provider of data and the implementations of the tokens (steps 9 to 16), ...\<close>

record token_impls =
  ti_elToken :: string
  ti_stableDebtToken :: string
  ti_variableDebtToken :: string

definition deploy_services ::
  "(string \<Rightarrow> string option) \<Rightarrow> 'w deploying \<Rightarrow> 'w sending \<Rightarrow> string \<Rightarrow> string \<Rightarrow> ('w process, script_exn, string \<times> token_impls) eff" where
  "deploy_services env dep snd_tx deployerAddress provider =
     eff_bind (dep ''ElectroOracle'' [Arg_text BASE_CURRENCY, Arg_text BASE_CURRENCY_UNIT, Arg_text deployerAddress])
       (\<lambda>electroOracle.
     eff_then (snd_tx provider ''setPriceOracle'' [Arg_text electroOracle])
     (eff_bind (dep ''SimplePriceFeedAdapter'' [Arg_text (PRICE_FEED_ADDRESS env), Arg_text deployerAddress]) (\<lambda>adapter.
      eff_then (snd_tx electroOracle ''initialize'' [Arg_text adapter])
      (eff_then (snd_tx adapter ''setAssetSymbols''
         [Arg_texts (map (st_address \<circ> snd) (QUICK_TOKENS env)),
          Arg_texts (map (\<lambda>(key, _). the (map_of ORACLE_TOKEN_SYMBOLS key)) (QUICK_TOKENS env))])
      (eff_bind (dep ''LendingRateOracle'' [Arg_text deployerAddress]) (\<lambda>lendingRateOracle.
       eff_then (snd_tx provider ''setLendingRateOracle'' [Arg_text lendingRateOracle])
       (eff_bind (dep ''ElectroProtocolDataProvider'' [Arg_text provider]) (\<lambda>dataProvider.
        eff_then (snd_tx provider ''setElectroProtocolDataProvider'' [Arg_text dataProvider])
        (eff_bind (dep ''ELToken'' []) (\<lambda>elTokenImpl.
         eff_bind (dep ''StableDebtToken'' []) (\<lambda>stableDebtTokenImpl.
         eff_bind (dep ''VariableDebtToken'' []) (\<lambda>variableDebtTokenImpl.
         eff_return (lendingRateOracle, \<lparr>ti_elToken = elTokenImpl, ti_stableDebtToken = stableDebtTokenImpl,
           ti_variableDebtToken = variableDebtTokenImpl\<rparr>)))))))))))))"

text \<open>... and a strategy for each token (step 18).\<close>

definition strategy_args :: "string \<Rightarrow> rate_strategy \<Rightarrow> argument list" where
  "strategy_args provider rates =
     [Arg_text provider, Arg_text (rs_optimalUtilizationRate rates), Arg_text (rs_baseVariableBorrowRate rates),
      Arg_text (rs_variableRateSlope1 rates), Arg_text (rs_variableRateSlope2 rates),
      Arg_text (rs_stableRateSlope1 rates), Arg_text (rs_stableRateSlope2 rates)]"

fun deploy_strategies ::
  "'w deploying \<Rightarrow> string \<Rightarrow> string list \<Rightarrow> ('w process, script_exn, string SymbolMap) eff" where
  "deploy_strategies dep provider [] = eff_return []"
| "deploy_strategies dep provider (tokenKey # keys) =
     (case map_of INTEREST_RATE_STRATEGIES tokenKey of
        None \<Rightarrow> eff_throw (Raised (TypeError ''undefined strategy''))
      | Some rates \<Rightarrow>
          eff_bind (dep ''DefaultReserveInterestRateStrategy'' (strategy_args provider rates)) (\<lambda>address.
          eff_bind (deploy_strategies dep provider keys) (\<lambda>strategies.
          eff_return ((tokenKey, address) # strategies))))"

text \<open>What is sent for a reserve (steps 19.1 to 19.4), and its rate.\<close>

definition configure_reserve ::
  "'w sending \<Rightarrow> string \<Rightarrow> token_impls \<Rightarrow> string \<Rightarrow> script_token \<Rightarrow> ('w process, script_exn, unit) eff" where
  "configure_reserve snd_tx configurator impls strategyAddress token =
     eff_then (snd_tx configurator ''initReserve''
       [Arg_text (ti_elToken impls), Arg_text (ti_stableDebtToken impls), Arg_text (ti_variableDebtToken impls),
        Arg_number (st_decimals token), Arg_text strategyAddress, Arg_text (st_address token)])
     (eff_then (snd_tx configurator ''setReserveFactor'' [Arg_text (st_address token), Arg_number (st_reserveFactor token)])
     (eff_then (snd_tx configurator ''configureReserveAsCollateral''
       [Arg_text (st_address token), Arg_number (st_baseLTV token), Arg_number (st_liquidationThreshold token),
        Arg_number (st_liquidationBonus token)])
     (if st_borrowingEnabled token
      then snd_tx configurator ''enableBorrowingOnReserve'' [Arg_text (st_address token), Arg_flag (st_stableBorrowingEnabled token)]
      else eff_return ())))"

definition set_market_rate :: "'w sending \<Rightarrow> string \<Rightarrow> script_token \<Rightarrow> ('w process, script_exn, unit) eff" where
  "set_market_rate snd_tx lendingRateOracle token =
     snd_tx lendingRateOracle ''setMarketBorrowRate'' [Arg_text (st_address token), Arg_number (39 * 10 ^ 24)]"

text \<open>
  The addresses of the proxies are predicted, not read. The reserves are initialized in a \<open>try\<close> block of their own:
  whatever fails there, the script goes on.
\<close>

definition predict :: "'w node \<Rightarrow> string \<Rightarrow> string \<Rightarrow> string \<Rightarrow> string" where
  "predict N provider label impl = node_create2 N provider (node_keccak_text N label) (node_keccak N impl)"

definition note_proxies :: "string \<Rightarrow> string \<Rightarrow> 'w process \<Rightarrow> 'w process" where
  "note_proxies lendingPool configurator s =
     s\<lparr>pc_deploymentAddresses := js_set (js_set (pc_deploymentAddresses s) ''LendingPoolProxy'' lendingPool)
        ''LendingPoolConfiguratorProxy'' configurator\<rparr>"

definition quick_reserves ::
  "'w node \<Rightarrow> string \<Rightarrow> string \<Rightarrow> string \<Rightarrow> token_impls \<Rightarrow> string SymbolMap \<Rightarrow> ('w process, script_exn, unit) eff" where
  "quick_reserves N lendingPool configurator rateOracle impls strategies =
     eff_then (ask (node_contract_at N ''LendingPool'' lendingPool))
     (eff_then (ask (node_contract_at N ''LendingPoolConfigurator'' configurator))
     (eff_each (\<lambda>(tokenKey, token).
        eff_then (configure_reserve (quick_sendTx N) configurator impls (the (map_of strategies tokenKey)) token)
          (set_market_rate (quick_sendTx N) rateOracle token))
       (QUICK_TOKENS (node_env N))))"

definition quick_steps :: "'w node \<Rightarrow> string \<Rightarrow> ('w process, script_exn, unit) eff" where
  "quick_steps N deployerAddress =
     eff_bind (deploy_pool (quick_deploy N) (quick_sendTx N) (quick_linked N) deployerAddress) (\<lambda>parts.
     let provider = pp_addressesProvider parts;
         lendingPool = predict N provider ''LENDING_POOL_IMPL'' (pp_lendingPoolImpl parts);
         configurator = predict N provider ''LENDING_POOL_CONFIGURATOR_IMPL'' (pp_lendingPoolConfiguratorImpl parts)
     in eff_then (eff_modify (note_proxies lendingPool configurator))
       (eff_then (saveState N)
       (eff_bind (deploy_services (node_env N) (quick_deploy N) (quick_sendTx N) deployerAddress provider)
          (\<lambda>(rateOracle, impls).
        eff_bind (deploy_strategies (quick_deploy N) provider (map fst (QUICK_TOKENS (node_env N)))) (\<lambda>strategies.
        eff_then (script_try (quick_reserves N lendingPool configurator rateOracle impls strategies) (\<lambda>_. eff_return ()))
        (eff_bind (quick_deploy N ''LendingPoolCollateralManager'' []) (\<lambda>collateralManager.
         eff_then (quick_sendTx N provider ''setLendingPoolCollateralManager'' [Arg_text collateralManager])
         (eff_then (quick_deploy N ''WETHGateway''
            [Arg_text (st_address (the (map_of (QUICK_TOKENS (node_env N)) ''WETN''))), Arg_text provider])
         (eff_return ())))))))))"

definition quick_main :: "'w node \<Rightarrow> ('w process, script_exn, unit) eff" where
  "quick_main N =
     eff_bind (ask (node_signer N)) (\<lambda>deployerAddress.
     eff_then (eff_modify (\<lambda>s. s\<lparr>pc_deployerAddress := Some deployerAddress\<rparr>))
     (eff_then (ask (node_balance N deployerAddress))
     (script_try (quick_steps N deployerAddress) (\<lambda>_. eff_throw (Process_exit 1)))))"

section \<open>The script that waits\<close>

definition TX_WAIT_CONFIRMATIONS :: nat where "TX_WAIT_CONFIRMATIONS = 1"
definition WAIT_MAX_FEE_PER_GAS :: nat where "WAIT_MAX_FEE_PER_GAS = 2000 * gwei"
definition WAIT_MAX_PRIORITY_FEE_PER_GAS :: nat where "WAIT_MAX_PRIORITY_FEE_PER_GAS = 200 * gwei"
definition WAIT_GAS_LIMIT :: number where "WAIT_GAS_LIMIT = Finite 4000000"

definition wait_overrides :: "number option \<Rightarrow> tx_overrides" where
  "wait_overrides gasLimit =
     \<lparr>ov_maxFeePerGas = WAIT_MAX_FEE_PER_GAS, ov_maxPriorityFeePerGas = WAIT_MAX_PRIORITY_FEE_PER_GAS,
      ov_gasLimit = gasLimit, ov_value = 0\<rparr>"

definition wait_deploy :: "'w node \<Rightarrow> string \<Rightarrow> argument list \<Rightarrow> ('w process, script_exn, string) eff" where
  "wait_deploy N contractName args =
     eff_then (ask (node_factory N contractName []))
     (eff_bind (ask (node_deploy N contractName [] args (wait_overrides (Some WAIT_GAS_LIMIT)))) (\<lambda>(hash, address).
      eff_then (ask (node_wait N hash TX_WAIT_CONFIRMATIONS))
      (eff_then (eff_modify (note_deployment contractName address))
      (eff_then (saveState N)
      (eff_return address)))))"

definition wait_sendTx :: "'w node \<Rightarrow> string \<Rightarrow> string \<Rightarrow> argument list \<Rightarrow> ('w process, script_exn, unit) eff" where
  "wait_sendTx N contract methodName args =
     eff_bind (ask (node_call N contract methodName args (wait_overrides (Some WAIT_GAS_LIMIT)))) (\<lambda>hash.
     eff_then (ask (node_wait N hash TX_WAIT_CONFIRMATIONS))
     (eff_then (eff_modify (\<lambda>s. s\<lparr>pc_txCount := pc_txCount s + 1\<rparr>))
     (saveState N)))"

definition wait_linked ::
  "'w node \<Rightarrow> string \<Rightarrow> string \<Rightarrow> string SymbolMap \<Rightarrow> ('w process, script_exn, string) eff" where
  "wait_linked N contractName noted libraries =
     eff_then (ask (node_factory N contractName libraries))
     (eff_bind (ask (node_deploy N contractName libraries [] (wait_overrides None))) (\<lambda>(hash, address).
      eff_then (ask (node_wait N hash TX_WAIT_CONFIRMATIONS))
      (eff_then (eff_modify (note_deployment noted address))
      (eff_then (saveState N)
      (eff_return address)))))"

text \<open>The tokens of a reserve that has been initialized are read and noted (step 19.5).\<close>

definition note_tokens :: "string \<Rightarrow> reserve_tokens \<Rightarrow> 'w process \<Rightarrow> 'w process" where
  "note_tokens tokenKey reserve s =
     s\<lparr>pc_deploymentAddresses := js_set (js_set (js_set (pc_deploymentAddresses s)
        (''ELToken_'' @ tokenKey) (rt_elTokenAddress reserve))
        (''StableDebtToken_'' @ tokenKey) (rt_stableDebtTokenAddress reserve))
        (''VariableDebtToken_'' @ tokenKey) (rt_variableDebtTokenAddress reserve)\<rparr>"

definition wait_reserve ::
  "'w node \<Rightarrow> string \<Rightarrow> string \<Rightarrow> string \<Rightarrow> token_impls \<Rightarrow> string SymbolMap \<Rightarrow> string \<Rightarrow> script_token \<Rightarrow> ('w process, script_exn, unit) eff" where
  "wait_reserve N lendingPool configurator rateOracle impls strategies tokenKey token =
     eff_then (configure_reserve (wait_sendTx N) configurator impls (the (map_of strategies tokenKey)) token)
     (eff_bind (ask (node_reserve N lendingPool (st_address token))) (\<lambda>reserve.
      eff_then (ask (node_contract_at N ''ELToken'' (rt_elTokenAddress reserve)))
      (eff_then (ask (node_contract_at N ''StableDebtToken'' (rt_stableDebtTokenAddress reserve)))
      (eff_then (ask (node_contract_at N ''VariableDebtToken'' (rt_variableDebtTokenAddress reserve)))
      (eff_then (eff_modify (note_tokens tokenKey reserve))
      (eff_then (saveState N)
      (set_market_rate (wait_sendTx N) rateOracle token)))))))"

text \<open>The prices (step 22) are set last; a failure there is only logged.\<close>

definition wait_prices :: "'w node \<Rightarrow> ('w process, script_exn, unit) eff" where
  "wait_prices N =
     (let feed = PRICE_FEED_ADDRESS (node_env N);
          symbolsArray = map snd ORACLE_TOKEN_SYMBOLS;
          pricesArray = map (\<lambda>s. the (map_of FEED_INITIAL_PRICES s)) symbolsArray
      in script_try
        (eff_then (ask (node_contract_at N ''SimplePriceFeed'' feed))
        (eff_then (wait_sendTx N feed ''updatePrices'' [Arg_texts symbolsArray, Arg_texts pricesArray])
        (eff_each (\<lambda>s. eff_then (ask (node_read N feed ''getLatestPrice'' [Arg_text s])) (eff_return ())) symbolsArray)))
        (\<lambda>_. eff_return ()))"

definition wait_main :: "'w node \<Rightarrow> ('w process, script_exn, unit) eff" where
  "wait_main N =
     eff_bind (ask (node_signer N)) (\<lambda>deployerAddress.
     eff_then (eff_modify (\<lambda>s. s\<lparr>pc_deployerAddress := Some deployerAddress\<rparr>))
     (eff_then (ask (node_balance N deployerAddress))
     (eff_bind (deploy_pool (wait_deploy N) (wait_sendTx N) (wait_linked N) deployerAddress) (\<lambda>parts.
      let provider = pp_addressesProvider parts
      in eff_bind (ask (node_read N provider ''getLendingPool'' [])) (\<lambda>lendingPool.
         eff_then (ask (node_contract_at N ''LendingPool'' lendingPool))
         (eff_bind (ask (node_read N provider ''getLendingPoolConfigurator'' [])) (\<lambda>configurator.
          eff_then (ask (node_contract_at N ''LendingPoolConfigurator'' configurator))
          (eff_then (eff_modify (note_proxies lendingPool configurator))
          (eff_then (saveState N)
          (eff_bind (deploy_services (node_env N) (wait_deploy N) (wait_sendTx N) deployerAddress provider)
            (\<lambda>(rateOracle, impls).
           eff_bind (deploy_strategies (wait_deploy N) provider (map fst (QUICK_TOKENS (node_env N)))) (\<lambda>strategies.
           eff_then (eff_each (\<lambda>(tokenKey, token).
               wait_reserve N lendingPool configurator rateOracle impls strategies tokenKey token) (QUICK_TOKENS (node_env N)))
           (eff_bind (wait_deploy N ''LendingPoolCollateralManager'' []) (\<lambda>collateralManager.
            eff_then (wait_sendTx N provider ''setLendingPoolCollateralManager'' [Arg_text collateralManager])
            (eff_then (wait_deploy N ''WETHGateway''
               [Arg_text (st_address (the (map_of (QUICK_TOKENS (node_env N)) ''WETN''))), Arg_text provider])
            (wait_prices N))))))))))))))))"

end
