(* ===== verification/Setup_Scripts.thy ===== *)
theory Setup_Scripts
  imports Testnet_Scripts
begin

text \<open>
  The scripts that are run on a deployed market: \<open>scripts/setup-reserves.js\<close>, which initializes the reserves from
  the file of the deployment, and \<open>scripts/setup-electrolend-oracle.js\<close>, which connects the oracle with
  the feed of prices. They are processes of their own: they read the file and do not write it.
\<close>

section \<open>The reserves\<close>

definition SETUP_TX_WAIT_CONFIRMATIONS :: nat where "SETUP_TX_WAIT_CONFIRMATIONS = 1"
definition SETUP_MAX_FEE_PER_GAS :: nat where "SETUP_MAX_FEE_PER_GAS = 500 * gwei"
definition SETUP_MAX_PRIORITY_FEE_PER_GAS :: nat where "SETUP_MAX_PRIORITY_FEE_PER_GAS = 50 * gwei"
definition SETUP_GAS_LIMIT_MULTIPLIER :: rat where "SETUP_GAS_LIMIT_MULTIPLIER = 3 / 2"

definition SETUP_TOKENS :: "(string \<Rightarrow> string option) \<Rightarrow> script_token SymbolMap" where
  "SETUP_TOKENS env =
    [(''WETN'', \<lparr>st_address = env_or env ''WETN_ADDRESS'' ''0x154c9fD7F006b92b6afa746098d8081A831DC1FC'',
       st_symbol = ''WETN'', st_name = ''Wrapped ETN'', st_decimals = 18, st_baseLTV = 8000,
       st_liquidationThreshold = 8500, st_liquidationBonus = 10500, st_reserveFactor = 1000,
       st_borrowingEnabled = True, st_stableBorrowingEnabled = True\<rparr>),
     (''TUSDC'', \<lparr>st_address = env_or env ''TUSDC_ADDRESS'' ''0x9a110A3Ecc8704e93Bd4FA1bA44D5CF93327202B'',
       st_symbol = ''TUSDC'', st_name = ''Test USDC'', st_decimals = 6, st_baseLTV = 8000,
       st_liquidationThreshold = 8500, st_liquidationBonus = 10500, st_reserveFactor = 1000,
       st_borrowingEnabled = True, st_stableBorrowingEnabled = True\<rparr>),
     (''TUSDT'', \<lparr>st_address = env_or env ''TUSDT_ADDRESS'' ''0x02FeC8c559fB598762df8D033bD7A3Df9b374771'',
       st_symbol = ''TUSDT'', st_name = ''Test USDT'', st_decimals = 6, st_baseLTV = 8000,
       st_liquidationThreshold = 8500, st_liquidationBonus = 10500, st_reserveFactor = 1000,
       st_borrowingEnabled = True, st_stableBorrowingEnabled = True\<rparr>)]"

text \<open>A transaction with an estimate of its gas and a confirmation; the scripts differ in the multiplier.\<close>

definition setup_overrides :: "rat \<Rightarrow> nat \<Rightarrow> tx_overrides" where
  "setup_overrides multiplier gasEstimate =
     \<lparr>ov_maxFeePerGas = SETUP_MAX_FEE_PER_GAS, ov_maxPriorityFeePerGas = SETUP_MAX_PRIORITY_FEE_PER_GAS,
      ov_gasLimit = Some (adjusted_gas multiplier gasEstimate), ov_value = 0\<rparr>"

definition setup_sendTx :: "'w node \<Rightarrow> string \<Rightarrow> string \<Rightarrow> argument list \<Rightarrow> ('w process, script_exn, unit) eff" where
  "setup_sendTx N contract methodName args =
     eff_bind (ask (node_estimate_call N contract methodName args 0)) (\<lambda>gasEstimate.
     eff_bind (ask (node_call N contract methodName args (setup_overrides SETUP_GAS_LIMIT_MULTIPLIER gasEstimate))) (\<lambda>hash.
     ask (node_wait N hash SETUP_TX_WAIT_CONFIRMATIONS)))"

definition loadDeploymentAddresses :: "('w process, script_exn, string SymbolMap) eff" where
  "loadDeploymentAddresses =
     eff_bind (eff_read pc_file) (\<lambda>file. case file of
         None \<Rightarrow> eff_throw (Raised (Error ''Deployment file not found. Run deploy-electrolend-testnet-quick.js first.''))
       | Some data \<Rightarrow> eff_return (df_addresses data))"

text \<open>An entry of the file without which the script does not go on.\<close>

definition required :: "string option \<Rightarrow> string \<Rightarrow> ('w process, script_exn, string) eff" where
  "required entry message = (case entry of
      None \<Rightarrow> eff_throw (Raised (Error message))
    | Some address \<Rightarrow> eff_return address)"

text \<open>A reserve that cannot be read is taken for one that is not initialized.\<close>

definition is_initialized :: "'w node \<Rightarrow> string \<Rightarrow> script_token \<Rightarrow> ('w process, script_exn, bool) eff" where
  "is_initialized N lendingPool token =
     script_try
       (eff_bind (ask (node_reserve N lendingPool (st_address token))) (\<lambda>reserve.
         eff_return (rt_elTokenAddress reserve \<noteq> ZERO_ADDRESS)))
       (\<lambda>_. eff_return False)"

text \<open>The strategy of a token: the one noted for it, otherwise the one noted for all.\<close>

definition strategy_entry :: "string SymbolMap \<Rightarrow> string \<Rightarrow> string option" where
  "strategy_entry addresses tokenKey =
     (case truthy_entry addresses (''DefaultReserveInterestRateStrategy_'' @ tokenKey) of
        Some a \<Rightarrow> Some a
      | None \<Rightarrow> truthy_entry addresses ''DefaultReserveInterestRateStrategy'')"

definition setup_reserve ::
  "'w node \<Rightarrow> string SymbolMap \<Rightarrow> string \<Rightarrow> string \<Rightarrow> string \<Rightarrow> token_impls \<Rightarrow> string \<times> script_token
   \<Rightarrow> ('w process, script_exn, unit) eff" where
  "setup_reserve N addresses lendingPool configurator rateOracle impls = (\<lambda>(tokenKey, token).
     eff_bind (is_initialized N lendingPool token) (\<lambda>initialized.
       if initialized then eff_return ()
       else eff_bind (required (strategy_entry addresses tokenKey) (''Interest rate strategy not found for '' @ tokenKey))
         (\<lambda>strategyAddress.
          eff_then (configure_reserve (setup_sendTx N) configurator impls strategyAddress token)
            (set_market_rate (setup_sendTx N) rateOracle token))))"

text \<open>At the end the reserves are read again; what is wrong is only logged, but a failed read fails the script.\<close>

definition setup_reserves ::
  "'w node \<Rightarrow> string SymbolMap \<Rightarrow> string \<Rightarrow> string \<Rightarrow> string \<Rightarrow> ('w process, script_exn, unit) eff" where
  "setup_reserves N addresses provider lendingPool configurator =
     (case (truthy_entry addresses ''ELToken'', truthy_entry addresses ''StableDebtToken'', truthy_entry addresses ''VariableDebtToken'') of
        (Some elToken, Some stableDebtToken, Some variableDebtToken) \<Rightarrow>
          let impls = \<lparr>ti_elToken = elToken, ti_stableDebtToken = stableDebtToken, ti_variableDebtToken = variableDebtToken\<rparr>
          in eff_bind (ask (node_read N provider ''getLendingRateOracle'' [])) (\<lambda>rateOracle.
             eff_then (ask (node_contract_at N ''LendingRateOracle'' rateOracle))
             (eff_then (eff_each (setup_reserve N addresses lendingPool configurator rateOracle impls) (SETUP_TOKENS (node_env N)))
             (eff_each (\<lambda>(_, token). eff_then (ask (node_reserve N lendingPool (st_address token))) (eff_return ()))
                (SETUP_TOKENS (node_env N)))))
      | _ \<Rightarrow> eff_throw (Raised (Error ''Token implementation addresses not found in deployment data'')))"

definition setup_main :: "'w node \<Rightarrow> ('w process, script_exn, unit) eff" where
  "setup_main N =
     eff_bind (ask (node_signer N)) (\<lambda>deployerAddress.
     eff_then (ask (node_balance N deployerAddress))
     (eff_bind loadDeploymentAddresses (\<lambda>addresses.
      eff_bind (required (truthy_entry addresses ''LendingPoolAddressesProvider'')
          ''LendingPoolAddressesProvider address not found in deployment data'') (\<lambda>provider.
      eff_then (ask (node_contract_at N ''LendingPoolAddressesProvider'' provider))
      (eff_bind (ask (node_read N provider ''getLendingPool'' [])) (\<lambda>lendingPool.
       eff_bind (ask (node_read N provider ''getLendingPoolConfigurator'' [])) (\<lambda>configurator.
       if lendingPool = ZERO_ADDRESS \<or> configurator = ZERO_ADDRESS
       then eff_throw (Raised (Error ''LendingPool or LendingPoolConfigurator not properly deployed. Check transactions on Explorer.''))
       else eff_then (ask (node_contract_at N ''LendingPool'' lendingPool))
         (eff_then (ask (node_contract_at N ''LendingPoolConfigurator'' configurator))
         (setup_reserves N addresses provider lendingPool configurator)))))))))"

section \<open>The oracle\<close>

definition ORACLE_GAS_LIMIT_MULTIPLIER :: rat where "ORACLE_GAS_LIMIT_MULTIPLIER = 6 / 5"

definition ORACLE_PRICES :: "string SymbolMap" where
  "ORACLE_PRICES = [(''ETN'', ''500000''), (''USDC'', ''100000000''), (''USDT'', ''100000000'')]"

definition ORACLE_TOKEN_ADDRESSES :: "(string \<Rightarrow> string option) \<Rightarrow> string SymbolMap" where
  "ORACLE_TOKEN_ADDRESSES env =
    [(''WETN'', env_or env ''WETN_ADDRESS'' ''0x154c9fD7F006b92b6afa746098d8081A831DC1FC''),
     (''TUSDC'', env_or env ''TUSDC_ADDRESS'' ''0x9a110A3Ecc8704e93Bd4FA1bA44D5CF93327202B''),
     (''TUSDT'', env_or env ''TUSDT_ADDRESS'' ''0x02FeC8c559fB598762df8D033bD7A3Df9b374771'')]"

definition oracle_sendTx :: "'w node \<Rightarrow> string \<Rightarrow> string \<Rightarrow> argument list \<Rightarrow> ('w process, script_exn, unit) eff" where
  "oracle_sendTx N contract methodName args =
     eff_bind (ask (node_estimate_call N contract methodName args 0)) (\<lambda>gasEstimate.
     eff_bind (ask (node_call N contract methodName args (setup_overrides ORACLE_GAS_LIMIT_MULTIPLIER gasEstimate))) (\<lambda>hash.
     ask (node_wait N hash SETUP_TX_WAIT_CONFIRMATIONS)))"

text \<open>A deployment of the script: without a limit of gas, awaited, not noted.\<close>

definition oracle_deploy :: "'w node \<Rightarrow> string \<Rightarrow> argument list \<Rightarrow> ('w process, script_exn, string) eff" where
  "oracle_deploy N contractName args =
     eff_then (ask (node_factory N contractName []))
     (eff_bind (ask (node_deploy N contractName [] args
        \<lparr>ov_maxFeePerGas = SETUP_MAX_FEE_PER_GAS, ov_maxPriorityFeePerGas = SETUP_MAX_PRIORITY_FEE_PER_GAS,
         ov_gasLimit = None, ov_value = 0\<rparr>)) (\<lambda>(hash, address).
      eff_then (ask (node_wait N hash SETUP_TX_WAIT_CONFIRMATIONS)) (eff_return address)))"

definition promptForAddress :: "string \<Rightarrow> ('w process, script_exn, string) eff" where
  "promptForAddress message =
     eff_throw (Raised (Error (''Please set the ADDRESS_PROVIDER environment variable. '' @ message)))"

text \<open>The oracle of the market, deployed and registered if there is none.\<close>

definition ensure_oracle :: "'w node \<Rightarrow> string \<Rightarrow> string \<Rightarrow> ('w process, script_exn, string) eff" where
  "ensure_oracle N deployerAddress provider =
     eff_bind (ask (node_read N provider ''getPriceOracle'' [])) (\<lambda>found.
       if found = ZERO_ADDRESS then
         eff_bind (oracle_deploy N ''ElectroOracle'' [Arg_text BASE_CURRENCY, Arg_text BASE_CURRENCY_UNIT, Arg_text deployerAddress])
           (\<lambda>oracle.
          eff_then (oracle_sendTx N provider ''setPriceOracle'' [Arg_text oracle]) (eff_return oracle))
       else eff_then (ask (node_contract_at N ''ElectroOracle'' found)) (eff_return found))"

text \<open>The adapter, and whether the oracle has yet to be initialized with it: a failed read means that there is none.\<close>

definition ensure_adapter :: "'w node \<Rightarrow> string \<Rightarrow> string \<Rightarrow> ('w process, script_exn, string \<times> bool) eff" where
  "ensure_adapter N deployerAddress oracle =
     script_try
       (eff_bind (ask (node_read N oracle ''getAdapter'' [])) (\<lambda>adapter.
        eff_then (ask (node_contract_at N ''SimplePriceFeedAdapter'' adapter)) (eff_return (adapter, False))))
       (\<lambda>_. eff_bind (oracle_deploy N ''SimplePriceFeedAdapter'' [Arg_text (PRICE_FEED_ADDRESS (node_env N)), Arg_text deployerAddress])
          (\<lambda>adapter. eff_return (adapter, True)))"

text \<open>Reads whose answers are only logged; of the feed a failure ends the script.\<close>

definition check_feed :: "'w node \<Rightarrow> string \<Rightarrow> string \<Rightarrow> ('w process, script_exn, unit) eff" where
  "check_feed N feed deployerAddress =
     script_try
       (eff_then (ask (node_read N feed ''owner'' []))
       (eff_then (ask (node_read N feed ''updaters'' [Arg_text deployerAddress])) (eff_return ())))
       (\<lambda>_. eff_throw (Process_exit 1))"

definition update_prices :: "'w node \<Rightarrow> string \<Rightarrow> ('w process, script_exn, unit) eff" where
  "update_prices N feed =
     script_try
       (eff_then (oracle_sendTx N feed ''updatePrices'' [Arg_texts (map fst ORACLE_PRICES), Arg_texts (map snd ORACLE_PRICES)])
       (eff_each (\<lambda>s. eff_then (ask (node_read N feed ''getLatestPrice'' [Arg_text s])) (eff_return ())) (map fst ORACLE_PRICES)))
       (\<lambda>_. eff_return ())"

definition test_oracle :: "'w node \<Rightarrow> string \<Rightarrow> ('w process, script_exn, unit) eff" where
  "test_oracle N oracle =
     eff_each (\<lambda>(_, tokenAddress). script_try
         (eff_then (ask (node_read N oracle ''getAssetPrice'' [Arg_text tokenAddress])) (eff_return ()))
         (\<lambda>_. eff_return ()))
       (ORACLE_TOKEN_ADDRESSES (node_env N))"

definition setupOracle :: "'w node \<Rightarrow> ('w process, script_exn, unit) eff" where
  "setupOracle N =
     (let feed = PRICE_FEED_ADDRESS (node_env N); tokens = ORACLE_TOKEN_ADDRESSES (node_env N) in
     eff_bind (ask (node_signer N)) (\<lambda>deployerAddress.
     eff_bind (case node_env N ''ADDRESS_PROVIDER'' of
          Some a \<Rightarrow> if a = '''' then promptForAddress ''What is the LendingPoolAddressesProvider address?'' else eff_return a
        | None \<Rightarrow> promptForAddress ''What is the LendingPoolAddressesProvider address?'') (\<lambda>provider.
     eff_then (ask (node_contract_at N ''LendingPoolAddressesProvider'' provider))
     (eff_bind (ensure_oracle N deployerAddress provider) (\<lambda>oracle.
      eff_then (ask (node_contract_at N ''SimplePriceFeed'' feed))
      (eff_then (check_feed N feed deployerAddress)
      (eff_bind (ensure_adapter N deployerAddress oracle) (\<lambda>(adapter, needToInitOracle).
       eff_then (if needToInitOracle then oracle_sendTx N oracle ''initialize'' [Arg_text adapter] else eff_return ())
       (eff_then (oracle_sendTx N adapter ''setAssetSymbols''
          [Arg_texts (map snd tokens), Arg_texts (map (\<lambda>(key, _). the (map_of ORACLE_TOKEN_SYMBOLS key)) tokens)])
       (eff_then (update_prices N feed)
       (test_oracle N oracle)))))))))))"

end
