(* ===== verification/Script_Properties.thy ===== *)
theory Script_Properties
  imports Setup_Scripts Js_Number_Properties
begin

text \<open>
  What the scripts of the test network send, what they note in the file of the deployment, and what the scripts
  that are run afterwards make of it. Statements about a script are triples of a precondition, a postcondition of its
  result and a postcondition of its failure; the rules follow the composition of effects.
\<close>

section \<open>Observing the node\<close>

datatype sent_event = Deployed string string "argument list" | Called string string "argument list"

definition watch ::
  "('a \<Rightarrow> sent_event list) \<Rightarrow> ('w, js_error, 'a) eff \<Rightarrow> ('w \<times> sent_event list, js_error, 'a) eff" where
  "watch f m = (\<lambda>(w, evs). case m w of
      (Inl e, w') \<Rightarrow> (Inl e, (w', evs))
    | (Inr a, w') \<Rightarrow> (Inr a, (w', evs @ f a)))"

definition watched :: "'w node \<Rightarrow> ('w \<times> sent_event list) node" where
  "watched N =
    \<lparr>node_env = node_env N,
     node_signer = watch (\<lambda>_. []) (node_signer N),
     node_balance = (\<lambda>a. watch (\<lambda>_. []) (node_balance N a)),
     node_factory = (\<lambda>c l. watch (\<lambda>_. []) (node_factory N c l)),
     node_estimate_deploy = (\<lambda>c a. watch (\<lambda>_. []) (node_estimate_deploy N c a)),
     node_deploy = (\<lambda>c l a p. watch (\<lambda>(_, address). [Deployed c address a]) (node_deploy N c l a p)),
     node_contract_at = (\<lambda>c a. watch (\<lambda>_. []) (node_contract_at N c a)),
     node_estimate_call = (\<lambda>c m a v. watch (\<lambda>_. []) (node_estimate_call N c m a v)),
     node_call = (\<lambda>c m a p. watch (\<lambda>_. [Called c m a]) (node_call N c m a p)),
     node_wait = (\<lambda>h n. watch (\<lambda>_. []) (node_wait N h n)),
     node_read = (\<lambda>c m a. watch (\<lambda>_. []) (node_read N c m a)),
     node_reserve = (\<lambda>p t. watch (\<lambda>_. []) (node_reserve N p t)),
     node_keccak_text = node_keccak_text N,
     node_keccak = node_keccak N,
     node_create2 = node_create2 N,
     node_now = watch (\<lambda>_. []) (node_now N),
     node_write = watch (\<lambda>_. []) (node_write N)\<rparr>"

lemma watched_simps [simp]:
  "node_env (watched N) = node_env N"
  "node_signer (watched N) = watch (\<lambda>_. []) (node_signer N)"
  "node_balance (watched N) a = watch (\<lambda>_. []) (node_balance N a)"
  "node_factory (watched N) c l = watch (\<lambda>_. []) (node_factory N c l)"
  "node_estimate_deploy (watched N) c ar = watch (\<lambda>_. []) (node_estimate_deploy N c ar)"
  "node_deploy (watched N) c l ar p = watch (\<lambda>(_, address). [Deployed c address ar]) (node_deploy N c l ar p)"
  "node_contract_at (watched N) c a = watch (\<lambda>_. []) (node_contract_at N c a)"
  "node_estimate_call (watched N) c m ar v = watch (\<lambda>_. []) (node_estimate_call N c m ar v)"
  "node_call (watched N) c m ar p = watch (\<lambda>_. [Called c m ar]) (node_call N c m ar p)"
  "node_wait (watched N) h n = watch (\<lambda>_. []) (node_wait N h n)"
  "node_read (watched N) c m ar = watch (\<lambda>_. []) (node_read N c m ar)"
  "node_reserve (watched N) q t = watch (\<lambda>_. []) (node_reserve N q t)"
  "node_now (watched N) = watch (\<lambda>_. []) (node_now N)"
  "node_write (watched N) = watch (\<lambda>_. []) (node_write N)"
  by (simp_all add: watched_def)

section \<open>Triples\<close>

text \<open>
  What a script can be judged by: its process and the trace of what has been sent, without the rest of the world. A
  triple says what holds of the view after a script that returns, and after one that fails.
\<close>

type_synonym view = "sent_event list process"

definition view :: "('w \<times> sent_event list) process \<Rightarrow> view" where
  "view s = \<lparr>pc_world = snd (pc_world s), pc_file = pc_file s, pc_deployerAddress = pc_deployerAddress s,
     pc_deploymentAddresses = pc_deploymentAddresses s, pc_txCount = pc_txCount s\<rparr>"

lemma view_simps [simp]:
  "pc_world (view s) = snd (pc_world s)" "pc_file (view s) = pc_file s"
  "pc_deployerAddress (view s) = pc_deployerAddress s"
  "pc_deploymentAddresses (view s) = pc_deploymentAddresses s" "pc_txCount (view s) = pc_txCount s"
  "view (start_process (w, evs) file) = start_process evs file"
  by (simp_all add: view_def start_process_def)

lemma view_updates:
  "view (s\<lparr>pc_file := f\<rparr>) = (view s)\<lparr>pc_file := f\<rparr>"
  "view (s\<lparr>pc_deployerAddress := d\<rparr>) = (view s)\<lparr>pc_deployerAddress := d\<rparr>"
  "view (s\<lparr>pc_deploymentAddresses := l\<rparr>) = (view s)\<lparr>pc_deploymentAddresses := l\<rparr>"
  "view (s\<lparr>pc_txCount := n\<rparr>) = (view s)\<lparr>pc_txCount := n\<rparr>"
  "view (note_deployment c a s) = note_deployment c a (view s)"
  "view (note_proxies a c s) = note_proxies a c (view s)"
  by (simp_all add: view_def note_deployment_def note_proxies_def)

definition triple ::
  "(view \<Rightarrow> bool) \<Rightarrow> (('w \<times> sent_event list) process, 'e, 'a) eff \<Rightarrow> ('a \<Rightarrow> view \<Rightarrow> bool) \<Rightarrow> (view \<Rightarrow> bool) \<Rightarrow> bool" where
  "triple P m Q E \<longleftrightarrow>
     (\<forall>s. P (view s) \<longrightarrow> (case m s of (Inr a, s') \<Rightarrow> Q a (view s') | (Inl _, s') \<Rightarrow> E (view s')))"

lemma tripleI:
  "(\<And>s a s'. P (view s) \<Longrightarrow> m s = (Inr a, s') \<Longrightarrow> Q a (view s'))
   \<Longrightarrow> (\<And>s e s'. P (view s) \<Longrightarrow> m s = (Inl e, s') \<Longrightarrow> E (view s')) \<Longrightarrow> triple P m Q E"
  by (auto simp: triple_def split: prod.splits sum.splits)

lemma tripleD_Inr: "triple P m Q E \<Longrightarrow> P (view s) \<Longrightarrow> m s = (Inr a, s') \<Longrightarrow> Q a (view s')"
  and tripleD_Inl: "triple P m Q E \<Longrightarrow> P (view s) \<Longrightarrow> m s = (Inl e, s') \<Longrightarrow> E (view s')"
  by (fastforce simp: triple_def)+

lemma triple_weaken:
  assumes "triple P m Q E" and "\<And>s. P' s \<Longrightarrow> P s" and "\<And>a s. Q a s \<Longrightarrow> Q' a s" and "\<And>s. E s \<Longrightarrow> E' s"
  shows "triple P' m Q' E'"
  by (rule tripleI) (use assms in \<open>blast dest: tripleD_Inr tripleD_Inl\<close>)+

lemma triple_return: "triple (Q a) (eff_return a) Q E"
  and triple_throw: "triple E (eff_throw e) Q E"
  by (simp_all add: triple_def eff_simps)

lemma triple_modify: "(\<And>s. P (view s) \<Longrightarrow> Q () (view (g s))) \<Longrightarrow> triple P (eff_modify g) Q E"
  by (simp add: triple_def eff_simps)

lemma triple_read: "(\<And>s. P (view s) \<Longrightarrow> Q (f s) (view s)) \<Longrightarrow> triple P (eff_read f) Q E"
  by (simp add: triple_def eff_simps)

lemma triple_bind:
  assumes "triple P m R E" and "\<And>a. triple (R a) (f a) Q E"
  shows "triple P (eff_bind m f) Q E"
proof (rule tripleI)
  fix s b s' assume "P (view s)" "eff_bind m f s = (Inr b, s')"
  then show "Q b (view s')"
    unfolding eff_bind_Inr_iff using tripleD_Inr[OF assms(1)] tripleD_Inr[OF assms(2)] by blast
next
  fix s e s' assume "P (view s)" "eff_bind m f s = (Inl e, s')"
  then show "E (view s')"
    unfolding eff_bind_Inl_iff using tripleD_Inr[OF assms(1)] tripleD_Inl[OF assms(1)] tripleD_Inl[OF assms(2)] by blast
qed

lemma eff_bind_known [simp]: "eff_bind (eff_return a) f = f a" "eff_bind (eff_throw e) f = eff_throw e"
  by (auto simp: eff_bind_def eff_simps)

lemma triple_then: "triple P m (\<lambda>_. R) E \<Longrightarrow> triple R m' Q E \<Longrightarrow> triple P (eff_then m m') Q E"
  by (simp add: eff_then_def triple_bind)

lemma script_try_Inr_iff:
  "script_try m h s = (Inr a, s') \<longleftrightarrow>
     m s = (Inr a, s') \<or> (\<exists>x t. m s = (Inl (Raised x), t) \<and> h x t = (Inr a, s'))"
  and script_try_Inl_iff:
  "script_try m h s = (Inl e, s') \<longleftrightarrow>
     (\<exists>n. m s = (Inl (Process_exit n), s') \<and> e = Process_exit n) \<or> (\<exists>x t. m s = (Inl (Raised x), t) \<and> h x t = (Inl e, s'))"
  by (auto simp: script_try_def eff_catch_def eff_simps split: prod.splits sum.splits script_exn.splits)

lemma triple_try:
  assumes "triple P m Q R" and "\<And>x. triple R (h x) Q E" and "\<And>s. R s \<Longrightarrow> E s"
  shows "triple P (script_try m h) Q E"
proof (rule tripleI)
  fix s b s' assume "P (view s)" "script_try m h s = (Inr b, s')"
  then show "Q b (view s')"
    unfolding script_try_Inr_iff
    using tripleD_Inr[OF assms(1)] tripleD_Inl[OF assms(1)] tripleD_Inr[OF assms(2)] by blast
next
  fix s e s' assume "P (view s)" "script_try m h s = (Inl e, s')"
  then show "E (view s')"
    unfolding script_try_Inl_iff using tripleD_Inl[OF assms(1)] tripleD_Inl[OF assms(2)] assms(3) by blast
qed

lemma triple_each:
  "(\<And>x. x \<in> set xs \<Longrightarrow> triple J (f x) (\<lambda>_. J) E) \<Longrightarrow> triple J (eff_each f xs) (\<lambda>_. J) E"
proof (induction xs)
  case Nil
  show ?case by (simp add: triple_def eff_simps)
next
  case (Cons x xs)
  then show ?case by (simp, intro triple_then) auto
qed

lemma triple_if: "(b \<Longrightarrow> triple P m Q E) \<Longrightarrow> (\<not> b \<Longrightarrow> triple P m' Q E) \<Longrightarrow> triple P (if b then m else m') Q E"
  by simp

lemma triple_option:
  "(x = None \<Longrightarrow> triple P m Q E) \<Longrightarrow> (\<And>a. x = Some a \<Longrightarrow> triple P (f a) Q E)
   \<Longrightarrow> triple P (case x of None \<Rightarrow> m | Some a \<Rightarrow> f a) Q E"
  by (cases x) auto

lemma triple_prod:
  "(\<And>a b. x = (a, b) \<Longrightarrow> triple P (f a b) Q E) \<Longrightarrow> triple P (case x of (a, b) \<Rightarrow> f a b) Q E"
  by (cases x) simp

lemma triple_silent: "(\<And>s. P s \<Longrightarrow> E s) \<Longrightarrow> triple P (ask (watch (\<lambda>_. []) m)) (\<lambda>_. P) E"
  by (rule tripleI) (auto simp: ask_def watch_def view_def split: prod.splits sum.splits)

definition with_sent :: "sent_event list \<Rightarrow> view \<Rightarrow> view" where
  "with_sent evs v = v\<lparr>pc_world := pc_world v @ evs\<rparr>"

lemma triple_sent:
  "(\<And>s. P s \<Longrightarrow> E s) \<Longrightarrow> (\<And>s a. P s \<Longrightarrow> Q a (with_sent (f a) s)) \<Longrightarrow> triple P (ask (watch f m)) Q E"
  by (rule tripleI) (force simp: ask_def watch_def view_def with_sent_def split: prod.splits sum.splits)+

text \<open>An operation of the node that always answers.\<close>

definition answers :: "('w, js_error, 'a) eff \<Rightarrow> bool" where
  "answers m \<longleftrightarrow> (\<forall>w. \<exists>a w'. m w = (Inr a, w'))"

lemma triple_answered:
  assumes "answers m" and "\<And>s a. P s \<Longrightarrow> Q a (with_sent (f a) s)"
  shows "triple P (ask (watch f m)) Q E"
proof (rule tripleI)
  fix s a s' assume "P (view s)" and run: "ask (watch f m) s = (Inr a, s')"
  then show "Q a (view s')" using assms(2)[of "view s" a]
    by (auto simp: ask_def watch_def view_def with_sent_def split: prod.splits sum.splits)
next
  fix s e s' assume "ask (watch f m) s = (Inl e, s')"
  moreover obtain a w where "m (fst (pc_world s)) = (Inr a, w)" using assms(1) unfolding answers_def by blast
  ultimately show "E (view s')" by (auto simp: ask_def watch_def split: prod.splits)
qed

lemma triple_answered_silent: "answers m \<Longrightarrow> triple P (ask (watch (\<lambda>_. []) m)) (\<lambda>_. P) E"
  by (rule triple_answered) (auto simp: with_sent_def)

lemma triple_reading:
  assumes "\<And>w. \<exists>a w'. m w = (Inr a, w') \<and> R a"
  shows "triple P (ask (watch (\<lambda>_. []) m)) (\<lambda>a v. R a \<and> P v) E"
proof (rule tripleI)
  fix s a s' assume "P (view s)" "ask (watch (\<lambda>_. []) m) s = (Inr a, s')"
  moreover obtain b w where "m (fst (pc_world s)) = (Inr b, w)" "R b" using assms by blast
  ultimately show "R a \<and> P (view s')" by (auto simp: ask_def watch_def view_def split: prod.splits)
next
  fix s e s' assume "ask (watch (\<lambda>_. []) m) s = (Inl e, s')"
  moreover obtain b w where "m (fst (pc_world s)) = (Inr b, w)" using assms by blast
  ultimately show "E (view s')" by (auto simp: ask_def watch_def split: prod.splits)
qed

lemma run_script_cases:
  "run_script m s = (code, s') \<Longrightarrow> (\<exists>a. m s = (Inr a, s') \<and> code = 0) \<or> (\<exists>e. m s = (Inl e, s'))"
  by (auto simp: run_script_def split: prod.splits sum.splits script_exn.splits)

lemma triple_run: "triple P m (\<lambda>_. Q) Q \<Longrightarrow> P (view s) \<Longrightarrow> run_script m s = (code, s') \<Longrightarrow> Q (view s')"
  by (auto dest!: run_script_cases dest: tripleD_Inr tripleD_Inl)

section \<open>What is noted\<close>

text \<open>A pool is noted under a name of its own; the last deployment of a name counts.\<close>

definition noted_name :: "string \<Rightarrow> string" where
  "noted_name c = (if c = ''LendingPool'' then ''LendingPoolImpl'' else c)"

fun noted_deployments :: "sent_event list \<Rightarrow> string SymbolMap" where
  "noted_deployments [] = []"
| "noted_deployments (Deployed c address _ # evs) = noted_deployments evs @ [(noted_name c, address)]"
| "noted_deployments (Called _ _ _ # evs) = noted_deployments evs"

lemma noted_deployments_append [simp]:
  "noted_deployments (evs @ evs') = noted_deployments evs' @ noted_deployments evs"
  by (induction evs rule: noted_deployments.induct) auto

text \<open>
  The process has counted every transaction, and it knows for every name but those of the proxies the address of the last
  deployment; the file says the same as the process.
\<close>

definition proxy_names :: "string set" where
  "proxy_names = {''LendingPoolProxy'', ''LendingPoolConfiguratorProxy''}"

definition accounted :: "view \<Rightarrow> bool" where
  "accounted v \<longleftrightarrow> pc_txCount v = length (pc_world v)
     \<and> (\<forall>c. c \<notin> proxy_names \<longrightarrow> map_of (pc_deploymentAddresses v) c = map_of (noted_deployments (pc_world v)) c)"

definition filed :: "view \<Rightarrow> bool" where
  "filed v \<longleftrightarrow> (\<exists>f. pc_file v = Some f \<and> df_addresses f = pc_deploymentAddresses v \<and> df_txCount f = pc_txCount v
     \<and> df_deployer f = pc_deployerAddress v)"

definition writes :: "'w node \<Rightarrow> bool" where
  "writes N \<longleftrightarrow> answers (node_now N) \<and> answers (node_write N)"

text \<open>The file is written after every change; \<open>P\<close> is a further property of the process that the file does not touch.\<close>

definition fileless :: "(view \<Rightarrow> bool) \<Rightarrow> bool" where
  "fileless P \<longleftrightarrow> (\<forall>v f. P (v\<lparr>pc_file := f\<rparr>) = P v)"

lemma saveState_triple:
  assumes "writes N" and "fileless P"
  shows "triple P (saveState (watched N)) (\<lambda>_ v. P v \<and> filed v) E"
  unfolding saveState_def watched_simps
proof (intro triple_bind triple_then)
  show "triple P (ask (watch (\<lambda>_. []) (node_now N))) (\<lambda>_. P) E" "triple P (ask (watch (\<lambda>_. []) (node_write N))) (\<lambda>_. P) E"
    using assms(1) by (auto intro!: triple_answered simp: writes_def with_sent_def)
  show "triple P (eff_modify (\<lambda>s. s\<lparr>pc_file := Some \<lparr>df_timestamp = t, df_deployer = pc_deployerAddress s,
      df_addresses = pc_deploymentAddresses s, df_txCount = pc_txCount s\<rparr>\<rparr>)) (\<lambda>_ v. P v \<and> filed v) E" for t
    using assms(2) by (intro triple_modify) (auto simp: fileless_def filed_def view_updates)
qed

text \<open>
  The transactions of the quick script, for any property of the process that survives what they do to it.
\<close>

definition after_deploy :: "string \<Rightarrow> string \<Rightarrow> string \<Rightarrow> argument list \<Rightarrow> view \<Rightarrow> view" where
  "after_deploy noted c address ar v = note_deployment noted address (with_sent [Deployed c address ar] v)"

definition after_call :: "string \<Rightarrow> string \<Rightarrow> argument list \<Rightarrow> view \<Rightarrow> view" where
  "after_call c m ar v = (let v' = with_sent [Called c m ar] v in v'\<lparr>pc_txCount := pc_txCount v' + 1\<rparr>)"

lemma quick_deploy_triple:
  assumes "writes N" and "\<And>a. fileless (Q a)" and "\<And>v a. P v \<Longrightarrow> Q a (after_deploy c c a ar v)"
    and "\<And>v. P v \<Longrightarrow> E v"
  shows "triple P (quick_deploy (watched N) c ar) (\<lambda>a v. Q a v \<and> filed v) E"
  unfolding quick_deploy_def watched_simps
proof (rule triple_then[OF triple_silent[OF assms(4)] triple_bind[OF triple_silent[OF assms(4)] triple_bind]])
  fix n
  show "triple P (ask (watch (\<lambda>(_, a). [Deployed c a ar])
      (node_deploy N c [] ar (quick_overrides (Some (adjusted_gas QUICK_GAS_LIMIT_MULTIPLIER n))))))
     (\<lambda>(_, a) v. Q a (note_deployment c a v)) E"
    using assms(3) by (intro triple_sent assms(4)) (auto simp: after_deploy_def)
next
  fix r :: "string \<times> string"
  obtain h a where [simp]: "r = (h, a)" by force
  show "triple (case r of (_, a) \<Rightarrow> \<lambda>v. Q a (note_deployment c a v))
      (case r of (_, address) \<Rightarrow> eff_then (eff_modify (note_deployment c address))
         (eff_then (saveState (watched N)) (eff_return address))) (\<lambda>a v. Q a v \<and> filed v) E"
    unfolding \<open>r = (h, a)\<close> prod.case
  proof (intro triple_then)
    show "triple (\<lambda>v. Q a (note_deployment c a v)) (eff_modify (note_deployment c a)) (\<lambda>_. Q a) E"
      by (rule triple_modify) (simp add: view_updates)
    show "triple (Q a) (saveState (watched N)) (\<lambda>_ v. Q a v \<and> filed v) E" by (rule saveState_triple[OF assms(1,2)])
    show "triple (\<lambda>v. Q a v \<and> filed v) (eff_return a) (\<lambda>a v. Q a v \<and> filed v) E" by (rule triple_return)
  qed
qed

lemma quick_sendTx_triple:
  assumes "writes N" and "fileless Q" and "\<And>v. P v \<Longrightarrow> Q (after_call c m ar v)" and "\<And>v. P v \<Longrightarrow> E v"
  shows "triple P (quick_sendTx (watched N) c m ar) (\<lambda>_ v. Q v \<and> filed v) E"
  unfolding quick_sendTx_def watched_simps
proof (rule triple_bind[OF triple_silent[OF assms(4)] triple_then[OF _ triple_then]])
  show "triple P (ask (watch (\<lambda>_. [Called c m ar])
      (node_call N c m ar (quick_overrides (Some (adjusted_gas QUICK_GAS_LIMIT_MULTIPLIER n))))))
     (\<lambda>_ v. Q (v\<lparr>pc_txCount := pc_txCount v + 1\<rparr>)) E" for n
    using assms(3) by (intro triple_sent assms(4)) (auto simp: after_call_def Let_def)
  show "triple (\<lambda>v. Q (v\<lparr>pc_txCount := pc_txCount v + 1\<rparr>)) (eff_modify (\<lambda>s. s\<lparr>pc_txCount := pc_txCount s + 1\<rparr>)) (\<lambda>_. Q) E"
    by (rule triple_modify) (simp add: view_updates)
qed (assumption | rule saveState_triple[OF assms(1,2)])+

lemma quick_linked_triple:
  assumes "writes N" and "\<And>a. fileless (Q a)" and "\<And>v a. P v \<Longrightarrow> Q a (after_deploy noted c a [] v)" and "\<And>v. P v \<Longrightarrow> E v"
  shows "triple P (quick_linked (watched N) c noted libs) (\<lambda>a v. Q a v \<and> filed v) E"
  unfolding quick_linked_def watched_simps
proof (rule triple_then[OF triple_silent[OF assms(4)] triple_bind])
  show "triple P (ask (watch (\<lambda>(_, a). [Deployed c a []]) (node_deploy N c libs [] (quick_overrides None))))
     (\<lambda>(_, a) v. Q a (note_deployment noted a v)) E"
    using assms(3) by (intro triple_sent assms(4)) (auto simp: after_deploy_def)
next
  fix r :: "string \<times> string"
  obtain h a where r: "r = (h, a)" by force
  show "triple (case r of (_, a) \<Rightarrow> \<lambda>v. Q a (note_deployment noted a v))
      (case r of (_, address) \<Rightarrow> eff_then (eff_modify (note_deployment noted address))
         (eff_then (saveState (watched N)) (eff_return address))) (\<lambda>a v. Q a v \<and> filed v) E"
    unfolding r prod.case
  proof (intro triple_then)
    show "triple (\<lambda>v. Q a (note_deployment noted a v)) (eff_modify (note_deployment noted a)) (\<lambda>_. Q a) E"
      by (rule triple_modify) (simp add: view_updates)
    show "triple (Q a) (saveState (watched N)) (\<lambda>_ v. Q a v \<and> filed v) E" by (rule saveState_triple[OF assms(1,2)])
    show "triple (\<lambda>v. Q a v \<and> filed v) (eff_return a) (\<lambda>a v. Q a v \<and> filed v) E" by (rule triple_return)
  qed
qed

section \<open>What the steps keep\<close>

text \<open>
  The contract of the three operations a script is made of: each keeps \<open>J\<close> when it returns, and leaves \<open>E\<close> when it fails. The
  steps that the scripts share then do the same.
\<close>

definition service_names :: "string list" where
  "service_names =
     [''LendingPoolAddressesProviderRegistry'', ''LendingPoolAddressesProvider'', ''ReserveLogic'', ''GenericLogic'',
      ''LendingPoolConfigurator'', ''ElectroOracle'', ''SimplePriceFeedAdapter'', ''LendingRateOracle'',
      ''ElectroProtocolDataProvider'', ''ELToken'', ''StableDebtToken'', ''VariableDebtToken'',
      ''DefaultReserveInterestRateStrategy'', ''LendingPoolCollateralManager'', ''WETHGateway'']"

definition linked_names :: "(string \<times> string) list" where
  "linked_names = [(''ValidationLogic'', ''ValidationLogic''), (''LendingPool'', ''LendingPoolImpl'')]"

locale script_steps =
  fixes J E :: "view \<Rightarrow> bool"
    and dep :: "string \<Rightarrow> argument list \<Rightarrow> (('w \<times> sent_event list) process, script_exn, string) eff"
    and snd_tx :: "string \<Rightarrow> string \<Rightarrow> argument list \<Rightarrow> (('w \<times> sent_event list) process, script_exn, unit) eff"
    and link :: "string \<Rightarrow> string \<Rightarrow> string SymbolMap \<Rightarrow> (('w \<times> sent_event list) process, script_exn, string) eff"
  assumes deploys: "c \<in> set service_names \<Longrightarrow> triple J (dep c ar) (\<lambda>_. J) E"
    and sends: "triple J (snd_tx c m ar) (\<lambda>_. J) E"
    and links: "(c, noted) \<in> set linked_names \<Longrightarrow> triple J (link c noted libs) (\<lambda>_. J) E"
    and stops: "J v \<Longrightarrow> E v"
begin

lemma keeps_pool: "triple J (deploy_pool dep snd_tx link d) (\<lambda>_. J) E"
  unfolding deploy_pool_def
  by (rule triple_bind triple_then sends triple_return deploys links | simp add: service_names_def linked_names_def)+

lemma keeps_services: "triple J (deploy_services env dep snd_tx d provider) (\<lambda>_. J) E"
  unfolding deploy_services_def
  by (rule triple_bind triple_then sends triple_return deploys | simp add: service_names_def)+

lemma keeps_reserve: "triple J (configure_reserve snd_tx configurator impls a token) (\<lambda>_. J) E"
  unfolding configure_reserve_def by (rule triple_then triple_if sends triple_return)+

lemma keeps_strategies: "triple J (deploy_strategies dep provider keys) (\<lambda>_. J) E"
proof (induction keys)
  case (Cons key keys)
  have "triple J (eff_throw x) (\<lambda>_. J) E" for x by (rule triple_weaken[OF triple_throw[where E = J]]) (auto intro: stops)
  moreover have "triple J (dep ''DefaultReserveInterestRateStrategy'' ar) (\<lambda>_. J) E" for ar
    by (rule deploys) (simp add: service_names_def)
  ultimately show ?case
    by (cases "map_of INTEREST_RATE_STRATEGIES key") (auto intro!: triple_bind Cons.IH triple_return)
qed (simp add: triple_return[where Q = "\<lambda>_. J"])

lemma keeps_rate: "triple J (set_market_rate snd_tx rate_oracle token) (\<lambda>_. J) E"
  unfolding set_market_rate_def by (rule sends)

end

lemma accounted_fileless: "fileless accounted"
  by (simp add: fileless_def accounted_def)

lemma accounted_call: "accounted v \<Longrightarrow> accounted (after_call c m ar v)"
  by (auto simp: accounted_def after_call_def with_sent_def Let_def)

lemma accounted_deploy: "accounted v \<Longrightarrow> noted = noted_name c \<Longrightarrow> noted \<notin> proxy_names \<Longrightarrow> accounted (after_deploy noted c a ar v)"
  by (auto simp: accounted_def after_deploy_def note_deployment_def with_sent_def)

section \<open>The quick deployment\<close>

text \<open>Between two steps: the process knows what has been sent, and so does the file once anything has been.\<close>

definition settled :: "view \<Rightarrow> bool" where
  "settled v \<longleftrightarrow> accounted v \<and> (pc_world v \<noteq> [] \<longrightarrow> filed v)"

lemma quick_deploy_settled:
  assumes "writes N" and "c \<in> set service_names"
  shows "triple settled (quick_deploy (watched N) c ar) (\<lambda>_. settled) settled"
  by (rule triple_weaken[OF quick_deploy_triple[OF assms(1), where P = settled and Q = "\<lambda>_. accounted" and E = settled]])
    (use assms(2) in \<open>auto simp: accounted_fileless settled_def service_names_def noted_name_def proxy_names_def intro!: accounted_deploy\<close>)

lemma quick_sendTx_settled:
  assumes "writes N"
  shows "triple settled (quick_sendTx (watched N) c m ar) (\<lambda>_. settled) settled"
  by (rule triple_weaken[OF quick_sendTx_triple[OF assms, where P = settled and Q = accounted and E = settled]])
    (auto simp: accounted_fileless settled_def intro: accounted_call)

lemma quick_linked_settled:
  assumes "writes N" and "(c, noted) \<in> set linked_names"
  shows "triple settled (quick_linked (watched N) c noted libs) (\<lambda>_. settled) settled"
  by (rule triple_weaken[OF quick_linked_triple[OF assms(1), where P = settled and Q = "\<lambda>_. accounted" and E = settled]])
    (use assms(2) in \<open>auto simp: accounted_fileless settled_def linked_names_def noted_name_def proxy_names_def intro!: accounted_deploy\<close>)

lemma triple_given: "(H \<Longrightarrow> triple P m Q E) \<Longrightarrow> triple (\<lambda>v. H \<longrightarrow> P v) m (\<lambda>a v. H \<longrightarrow> Q a v) (\<lambda>v. H \<longrightarrow> E v)"
  by (cases H) (auto simp: triple_def split: prod.splits sum.splits)

interpretation quick: script_steps "\<lambda>v. writes N \<longrightarrow> settled v" "\<lambda>v. writes N \<longrightarrow> settled v"
  "quick_deploy (watched N)" "quick_sendTx (watched N)" "quick_linked (watched N)" for N
  by unfold_locales (intro triple_given quick_deploy_settled quick_sendTx_settled quick_linked_settled; assumption)+

lemmas quick_keeps = quick.keeps_pool quick.keeps_services quick.keeps_reserve quick.keeps_strategies quick.keeps_rate

lemma triple_pure: "(H \<Longrightarrow> triple P m Q E) \<Longrightarrow> triple (\<lambda>v. H \<and> P v) m Q E"
  by (auto simp: triple_def)

lemma quick_parts_settled:
  assumes "writes N"
  shows "triple settled (deploy_pool (quick_deploy (watched N)) (quick_sendTx (watched N)) (quick_linked (watched N)) d) (\<lambda>_. settled) settled"
    and "triple settled (deploy_services env (quick_deploy (watched N)) (quick_sendTx (watched N)) d provider) (\<lambda>_. settled) settled"
    and "triple settled (configure_reserve (quick_sendTx (watched N)) configurator impls a token) (\<lambda>_. settled) settled"
    and "triple settled (deploy_strategies (quick_deploy (watched N)) provider keys) (\<lambda>_. settled) settled"
    and "triple settled (set_market_rate (quick_sendTx (watched N)) rate_oracle token) (\<lambda>_. settled) settled"
  using quick_keeps[of N] assms by simp_all

lemma quick_reserves_settled:
  assumes "writes N"
  shows "triple settled (quick_reserves (watched N) lendingPool configurator rate_oracle impls strategies) (\<lambda>_. settled) settled"
  unfolding quick_reserves_def watched_simps
  by (rule triple_then triple_silent triple_each | assumption)+
    (auto intro: triple_then[OF quick_parts_settled(3) quick_parts_settled(5)] assms)

lemma quick_main_settled:
  assumes "writes N"
  shows "triple (\<lambda>v. accounted v \<and> pc_world v = []) (quick_main (watched N)) (\<lambda>_. settled) settled"
proof -
  let ?N = "watched N"
  have signer: "triple (\<lambda>v. accounted v \<and> pc_world v = []) (eff_modify (pc_deployerAddress_update f)) (\<lambda>_. settled) settled" for f
    by (rule triple_modify) (auto simp: settled_def accounted_def view_def)
  have proxies: "triple settled (eff_modify (note_proxies l c)) (\<lambda>_. accounted) settled" for l c
    by (rule triple_modify) (auto simp: settled_def accounted_def note_proxies_def view_updates proxy_names_def)
  have save: "triple accounted (saveState ?N) (\<lambda>_. settled) settled"
    by (rule triple_weaken[OF saveState_triple[OF assms accounted_fileless, of settled]]) (auto simp: settled_def)
  have reserves: "triple settled (script_try (quick_reserves ?N l c rate_oracle impls strategies) (\<lambda>_. eff_return ()))
      (\<lambda>_. settled) settled" for l c rate_oracle impls strategies
    by (rule triple_try[OF quick_reserves_settled[OF assms]]) (auto intro: triple_return)
  have steps: "triple settled (quick_steps ?N d) (\<lambda>_. settled) settled" for d
    unfolding quick_steps_def Let_def
    by (rule triple_bind[OF quick_parts_settled(1)] triple_then[OF proxies] triple_then[OF save] triple_bind[OF quick_parts_settled(2)]
        triple_bind[OF quick_parts_settled(4)] triple_then[OF reserves] triple_bind[OF quick_deploy_settled]
        triple_then[OF quick_sendTx_settled] triple_then[OF quick_deploy_settled] triple_return triple_prod assms
      | simp add: service_names_def)+
  show ?thesis
    unfolding quick_main_def watched_simps
    by (rule triple_bind[OF triple_silent triple_then[OF signer triple_then[OF triple_silent triple_try[OF steps triple_throw]]]])
      (auto simp: settled_def)
qed

lemma accounted_start: "accounted (start_process [] file) \<and> pc_world (start_process [] file) = []"
  by (simp add: accounted_def start_process_def)

lemma quick_run_settled:
  "writes N \<Longrightarrow> run_script (quick_main (watched N)) (start_process (w, []) file) = (code, s) \<Longrightarrow> settled (view s)"
  by (rule triple_run[OF quick_main_settled, rotated 2]) (assumption | simp add: accounted_start)+

text \<open>
  C30. However the quick deployment ends, the file it leaves accounts for the transactions it has sent: it has their number, and
  for every contract but the two proxies, whose addresses are only predicted, the address of its last deployment.
\<close>

theorem quick_file_accounts_for_transactions:
  assumes "writes N" and "run_script (quick_main (watched N)) (start_process (w, []) file) = (code, s)" and "snd (pc_world s) \<noteq> []"
  shows "\<exists>f. pc_file s = Some f \<and> df_txCount f = length (snd (pc_world s))
     \<and> (\<forall>c. c \<notin> proxy_names \<longrightarrow> map_of (df_addresses f) c = map_of (noted_deployments (snd (pc_world s))) c)"
  using quick_run_settled[OF assms(1,2)] assms(3) by (auto simp: settled_def accounted_def filed_def)

section \<open>What stops the quick deployment\<close>

text \<open>
  The provider of data is deployed with the address of the market. A contract without a constructor takes no argument, and
  the factory of such a contract refuses one before anything is sent.
\<close>

definition data_provider_takes_no_argument :: "'w node \<Rightarrow> bool" where
  "data_provider_takes_no_argument N \<longleftrightarrow>
     (\<forall>a w. \<exists>e w'. node_estimate_deploy N ''ElectroProtocolDataProvider'' [Arg_text a] w = (Inl e, w'))"

text \<open>The transactions that come before it, by the name of the contract or the method.\<close>

fun sent_name :: "sent_event \<Rightarrow> string" where
  "sent_name (Deployed c a ar) = c"
| "sent_name (Called c m ar) = m"

definition first_steps :: "string list" where
  "first_steps =
     [''LendingPoolAddressesProviderRegistry'', ''LendingPoolAddressesProvider'', ''registerAddressesProvider'',
      ''ReserveLogic'', ''GenericLogic'', ''ValidationLogic'', ''LendingPool'', ''LendingPoolConfigurator'',
      ''setLendingPoolImpl'', ''setLendingPoolConfiguratorImpl'', ''ElectroOracle'', ''setPriceOracle'',
      ''SimplePriceFeedAdapter'', ''initialize'', ''setAssetSymbols'', ''LendingRateOracle'', ''setLendingRateOracle'']"

definition at_step :: "nat \<Rightarrow> view \<Rightarrow> bool" where
  "at_step k v \<longleftrightarrow> map sent_name (pc_world v) = take k first_steps"

text \<open>A node that carries out all of these.\<close>

definition carries_out :: "'w node \<Rightarrow> bool" where
  "carries_out N \<longleftrightarrow> writes N \<and> answers (node_signer N) \<and> (\<forall>a. answers (node_balance N a)) \<and> (\<forall>c l. answers (node_factory N c l))
     \<and> (\<forall>c \<in> set first_steps. (\<forall>ar. answers (node_estimate_deploy N c ar)) \<and> (\<forall>l ar p. answers (node_deploy N c l ar p)))
     \<and> (\<forall>m \<in> set first_steps. \<forall>c ar. (\<forall>v. answers (node_estimate_call N c m ar v)) \<and> (\<forall>p. answers (node_call N c m ar p)))"

definition stopped :: "'w node \<Rightarrow> view \<Rightarrow> bool" where
  "stopped N v \<longleftrightarrow> (\<exists>k \<le> length first_steps. at_step k v \<and> (carries_out N \<longrightarrow> k = length first_steps))"

lemma at_step_stopped: "\<not> carries_out N \<Longrightarrow> k \<le> length first_steps \<Longrightarrow> at_step k v \<Longrightarrow> stopped N v"
  by (auto simp: stopped_def)

lemma at_step_more: "at_step k v \<Longrightarrow> k < length first_steps \<Longrightarrow> sent_name e = first_steps ! k \<Longrightarrow> at_step (Suc k) (with_sent [e] v)"
  by (simp add: at_step_def with_sent_def take_Suc_conv_app_nth)

lemma step_silent:
  "k \<le> length first_steps \<Longrightarrow> (carries_out N \<Longrightarrow> answers m) \<Longrightarrow>
     triple (at_step k) (ask (watch (\<lambda>_. []) m)) (\<lambda>_. at_step k) (stopped N)"
  by (cases "carries_out N") (auto intro: triple_answered_silent triple_silent at_step_stopped)

lemma step_sent:
  assumes "k < length first_steps" and "carries_out N \<Longrightarrow> answers m" and "\<And>a. \<exists>e. f a = [e] \<and> sent_name e = first_steps ! k"
  shows "triple (at_step k) (ask (watch f m)) (\<lambda>_. at_step (Suc k)) (stopped N)"
proof -
  have more: "at_step (Suc k) (with_sent (f a) v)" if "at_step k v" for v a
    using at_step_more[OF that assms(1)] assms(3)[of a] by auto
  show ?thesis
  proof (cases "carries_out N")
    case True
    then show ?thesis using assms(2) more by (intro triple_answered) auto
  next
    case False
    then show ?thesis using assms(1) more at_step_stopped[OF False, of k] by (intro triple_sent) auto
  qed
qed

lemma step_modify:
  "(\<And>s. pc_world (view (g s)) = pc_world (view s)) \<Longrightarrow> triple (at_step k) (eff_modify g) (\<lambda>_. at_step k) E"
  by (rule triple_modify) (simp add: at_step_def)

lemma step_save: "k \<le> length first_steps \<Longrightarrow> triple (at_step k) (saveState (watched N)) (\<lambda>_. at_step k) (stopped N)"
  unfolding saveState_def watched_simps
  by (rule triple_bind triple_then step_modify step_silent[where k = k] | force simp: carries_out_def writes_def view_def)+

lemma step_deploy:
  assumes "k < length first_steps" and "first_steps ! k = c"
  shows "triple (at_step k) (quick_deploy (watched N) c ar) (\<lambda>_. at_step (Suc k)) (stopped N)"
proof -
  have c: "c \<in> set first_steps" using assms nth_mem by blast
  show ?thesis
    unfolding quick_deploy_def watched_simps
    by (rule triple_bind triple_then triple_prod triple_return step_save step_modify step_sent[where k = k] step_silent
        | use assms c in \<open>force simp: carries_out_def note_deployment_def view_def\<close>)+
qed

lemma step_sendTx:
  assumes "k < length first_steps" and "first_steps ! k = m"
  shows "triple (at_step k) (quick_sendTx (watched N) c m ar) (\<lambda>_. at_step (Suc k)) (stopped N)"
proof -
  have m: "m \<in> set first_steps" using assms nth_mem by blast
  show ?thesis
    unfolding quick_sendTx_def watched_simps
    by (rule triple_bind triple_then step_save step_modify step_sent[where k = k] step_silent
        | use assms m in \<open>force simp: carries_out_def view_def\<close>)+
qed

lemma step_linked:
  assumes "k < length first_steps" and "first_steps ! k = c"
  shows "triple (at_step k) (quick_linked (watched N) c noted libs) (\<lambda>_. at_step (Suc k)) (stopped N)"
proof -
  have c: "c \<in> set first_steps" using assms nth_mem by blast
  show ?thesis
    unfolding quick_linked_def watched_simps
    by (rule triple_bind triple_then triple_prod triple_return step_save step_modify step_sent[where k = k] step_silent
        | use assms c in \<open>force simp: carries_out_def note_deployment_def view_def\<close>)+
qed

lemma triple_never: "triple (\<lambda>_. False) m Q E"
  by (simp add: triple_def)

lemma pool_steps:
  "triple (at_step 0) (deploy_pool (quick_deploy (watched N)) (quick_sendTx (watched N)) (quick_linked (watched N)) d)
     (\<lambda>_. at_step 10) (stopped N)"
proof -
  have "10 = Suc (Suc (Suc (Suc (Suc (Suc (Suc (Suc (Suc (Suc 0)))))))))" by simp
  then show ?thesis
    unfolding deploy_pool_def
    by (simp only:) (rule triple_bind triple_then step_deploy step_sendTx step_linked triple_return | simp add: first_steps_def)+
qed

lemma service_steps:
  assumes "data_provider_takes_no_argument N"
  shows "triple (at_step 10) (deploy_services env (quick_deploy (watched N)) (quick_sendTx (watched N)) d provider) (\<lambda>_ _. False) (stopped N)"
proof -
  let ?n = "Suc (Suc (Suc (Suc (Suc (Suc (Suc 10))))))"
  have refused: "triple (at_step ?n) (quick_deploy (watched N) ''ElectroProtocolDataProvider'' [Arg_text provider]) (\<lambda>_ _. False) (stopped N)"
  proof -
    have "triple (at_step ?n) (ask (watch (\<lambda>_. []) (node_estimate_deploy N ''ElectroProtocolDataProvider'' [Arg_text provider])))
        (\<lambda>_ _. False) (stopped N)"
    proof (rule tripleI)
      fix s a s' assume "ask (watch (\<lambda>_. []) (node_estimate_deploy N ''ElectroProtocolDataProvider'' [Arg_text provider])) s = (Inr a, s')"
      moreover obtain e w where "node_estimate_deploy N ''ElectroProtocolDataProvider'' [Arg_text provider] (fst (pc_world s)) = (Inl e, w)"
        using assms unfolding data_provider_takes_no_argument_def by blast
      ultimately show False by (auto simp: ask_def watch_def split: prod.splits)
    next
      fix s e s' assume at: "at_step ?n (view s)"
        and run: "ask (watch (\<lambda>_. []) (node_estimate_deploy N ''ElectroProtocolDataProvider'' [Arg_text provider])) s = (Inl e, s')"
      have "at_step ?n (view s')" using at run by (auto simp: ask_def watch_def view_def split: prod.splits sum.splits)
      then show "stopped N (view s')" unfolding stopped_def by (intro exI[of _ ?n]) (simp add: first_steps_def)
    qed
    moreover have "triple (at_step ?n) (ask (watch (\<lambda>_. []) (node_factory N ''ElectroProtocolDataProvider'' []))) (\<lambda>_. at_step ?n) (stopped N)"
      by (rule step_silent) (simp_all add: first_steps_def carries_out_def)
    ultimately show ?thesis
      unfolding quick_deploy_def watched_simps by (intro triple_then triple_bind) (assumption | rule triple_never)+
  qed
  show ?thesis
    unfolding deploy_services_def
    by (rule triple_bind[OF refused] triple_bind triple_then step_deploy step_sendTx triple_never | simp add: first_steps_def)+
qed

lemma quick_main_stopped:
  assumes "data_provider_takes_no_argument N"
  shows "triple (at_step 0) (quick_main (watched N)) (\<lambda>_ _. False) (stopped N)"
proof -
  have steps: "triple (at_step 0) (quick_steps (watched N) d) (\<lambda>_ _. False) (stopped N)" for d
    unfolding quick_steps_def Let_def watched_simps
    by (rule triple_bind[OF pool_steps] triple_bind[OF service_steps[OF assms]] triple_then[OF step_modify] triple_then[OF step_save] triple_never
      | simp add: note_proxies_def view_def first_steps_def)+
  show ?thesis
    unfolding quick_main_def watched_simps
    by (rule triple_bind[OF step_silent] triple_then[OF step_modify] triple_then[OF step_silent] triple_try[OF steps triple_throw]
      | force simp: carries_out_def view_def)+
qed

text \<open>No script ends itself with another code than one.\<close>

fun odd_exit :: "script_exn \<Rightarrow> bool" where
  "odd_exit (Process_exit n) \<longleftrightarrow> n \<noteq> 1"
| "odd_exit (Raised e) \<longleftrightarrow> False"

abbreviation exits_with_one :: "('s, script_exn, 'a) eff \<Rightarrow> bool" where
  "exits_with_one \<equiv> eff_no_errors odd_exit"

lemma exits_try: "exits_with_one m \<Longrightarrow> (\<And>x. exits_with_one (h x)) \<Longrightarrow> exits_with_one (script_try m h)"
  unfolding eff_no_errors_def script_try_Inl_iff by blast

lemma exits_basic:
  "exits_with_one (ask m)" "exits_with_one (eff_throw (Process_exit 1))" "exits_with_one (eff_throw (Raised e))"
  by (auto simp: eff_no_errors_def ask_def eff_simps split: prod.splits sum.splits)

lemma exits_then: "exits_with_one m \<Longrightarrow> exits_with_one m' \<Longrightarrow> exits_with_one (eff_then m m')"
  by (auto simp: eff_then_def)

lemma exits_each: "(\<And>x. exits_with_one (f x)) \<Longrightarrow> exits_with_one (eff_each f xs)"
  by (induction xs) (auto intro: exits_then)

lemma exits_cases:
  "exits_with_one m \<Longrightarrow> exits_with_one m' \<Longrightarrow> exits_with_one (if b then m else m')"
  "(\<And>a c. exits_with_one (f a c)) \<Longrightarrow> exits_with_one (case q of (a, c) \<Rightarrow> f a c)"
  "exits_with_one m \<Longrightarrow> (\<And>a. exits_with_one (g a)) \<Longrightarrow> exits_with_one (case x of None \<Rightarrow> m | Some a \<Rightarrow> g a)"
  by (auto split: prod.split option.split)

lemmas exits_intros = eff_no_errors_bind exits_then exits_basic eff_no_errors_basic(1-3) exits_try exits_each exits_cases

lemma exits_strategies:
  "(\<And>c ar. exits_with_one (dep c ar)) \<Longrightarrow> exits_with_one (deploy_strategies dep provider keys)"
  by (induction keys) (auto intro!: exits_intros split: option.split)

lemma exits_quick: "exits_with_one (quick_main N)"
  unfolding quick_main_def quick_steps_def deploy_pool_def deploy_services_def quick_reserves_def configure_reserve_def
    set_market_rate_def quick_deploy_def quick_sendTx_def quick_linked_def saveState_def Let_def
  by (intro exits_intros exits_strategies)

lemma exits_setup: "exits_with_one (setup_main N)"
  unfolding setup_main_def setup_reserves_def setup_reserve_def is_initialized_def required_def loadDeploymentAddresses_def
    configure_reserve_def set_market_rate_def setup_sendTx_def Let_def
  by (intro exits_intros)

lemma failed_run:
  assumes "exits_with_one m" and "triple P m (\<lambda>_ _. False) E" and "P (view s)" and "run_script m s = (code, s')"
  shows "code = 1 \<and> E (view s')"
proof (cases "m s")
  case (Pair r t)
  show ?thesis
  proof (cases r)
    case (Inl e)
    then have "E (view t)" "\<not> odd_exit e"
      using Pair assms(1) tripleD_Inl[OF assms(2,3)] by (auto simp: eff_no_errors_def)
    then show ?thesis using assms(4) Pair Inl by (cases e) (auto simp: run_script_def)
  next
    case (Inr a)
    then show ?thesis using Pair tripleD_Inr[OF assms(2,3)] by auto
  qed
qed

text \<open>
  C31. No run of the quick deployment comes to its end, because a contract without a constructor takes no argument and the
  script deploys the provider of data with one. The run exits with one and has sent, in their order, at most the seventeen transactions
  before that deployment, all of them if the node carries them out: no token implementation and no strategy is ever
  deployed, and no reserve is initialized.
\<close>

theorem quick_deployment_stops:
  assumes "data_provider_takes_no_argument N" and "run_script (quick_main (watched N)) (start_process (w, []) file) = (code, s)"
  shows "code = 1 \<and> (\<exists>k \<le> length first_steps. map sent_name (snd (pc_world s)) = take k first_steps
     \<and> (carries_out N \<longrightarrow> k = length first_steps))"
proof -
  have "at_step 0 (view (start_process (w, []) file))" by (simp add: at_step_def start_process_def)
  from failed_run[OF exits_quick quick_main_stopped[OF assms(1)] this assms(2)]
  show ?thesis by (simp add: stopped_def at_step_def)
qed

section \<open>The reserves afterwards\<close>

text \<open>What is sent for a reserve.\<close>

definition reserve_calls :: "string \<Rightarrow> string \<Rightarrow> token_impls \<Rightarrow> string \<Rightarrow> script_token \<Rightarrow> sent_event list" where
  "reserve_calls configurator rateOracle impls strategyAddress token =
     [Called configurator ''initReserve''
        [Arg_text (ti_elToken impls), Arg_text (ti_stableDebtToken impls), Arg_text (ti_variableDebtToken impls),
         Arg_number (st_decimals token), Arg_text strategyAddress, Arg_text (st_address token)],
      Called configurator ''setReserveFactor'' [Arg_text (st_address token), Arg_number (st_reserveFactor token)],
      Called configurator ''configureReserveAsCollateral''
        [Arg_text (st_address token), Arg_number (st_baseLTV token), Arg_number (st_liquidationThreshold token),
         Arg_number (st_liquidationBonus token)]]
     @ (if st_borrowingEnabled token
        then [Called configurator ''enableBorrowingOnReserve'' [Arg_text (st_address token), Arg_flag (st_stableBorrowingEnabled token)]]
        else [])
     @ [Called rateOracle ''setMarketBorrowRate'' [Arg_text (st_address token), Arg_number (39 * 10 ^ 24)]]"

text \<open>The file is as it was, and everything that has been sent since satisfies \<open>ok\<close>.\<close>

definition only_sent :: "deployment_file option \<Rightarrow> sent_event list \<Rightarrow> (sent_event \<Rightarrow> bool) \<Rightarrow> view \<Rightarrow> bool" where
  "only_sent file evs ok v \<longleftrightarrow> pc_file v = file \<and> (\<exists>new. pc_world v = evs @ new \<and> (\<forall>e\<in>set new. ok e))"

lemma only_sent_more: "only_sent file evs ok v \<Longrightarrow> \<forall>e\<in>set new. ok e \<Longrightarrow> only_sent file evs ok (with_sent new v)"
  by (auto simp: only_sent_def with_sent_def)

lemma setup_sendTx_only:
  assumes "ok (Called c m ar)"
  shows "triple (only_sent file evs ok) (setup_sendTx (watched N) c m ar) (\<lambda>_. only_sent file evs ok) (only_sent file evs ok)"
  unfolding setup_sendTx_def watched_simps
  using assms
  by (intro triple_bind[OF triple_silent triple_bind[OF triple_sent[where Q = "\<lambda>_. only_sent file evs ok"] triple_silent]])
    (auto intro: only_sent_more)

lemma setup_calls_only:
  assumes "\<forall>e\<in>set (reserve_calls configurator rateOracle impls a token). ok e"
  shows "triple (only_sent file evs ok)
     (eff_then (configure_reserve (setup_sendTx (watched N)) configurator impls a token)
       (set_market_rate (setup_sendTx (watched N)) rateOracle token))
     (\<lambda>_. only_sent file evs ok) (only_sent file evs ok)"
  unfolding configure_reserve_def set_market_rate_def
  by (rule triple_then triple_if triple_return setup_sendTx_only bspec[OF assms] | simp add: reserve_calls_def)+

lemma setup_reserve_only:
  assumes "\<And>a. strategy_entry addresses (fst x) = Some a \<Longrightarrow> \<forall>e\<in>set (reserve_calls configurator rateOracle impls a (snd x)). ok e"
  shows "triple (only_sent file evs ok) (setup_reserve (watched N) addresses lendingPool configurator rateOracle impls x)
     (\<lambda>_. only_sent file evs ok) (only_sent file evs ok)"
proof -
  obtain key token where x: "x = (key, token)" by force
  have read: "triple (only_sent file evs ok) (is_initialized (watched N) lendingPool token) (\<lambda>_. only_sent file evs ok)
      (only_sent file evs ok)"
    unfolding is_initialized_def watched_simps
    by (rule triple_try[where R = "only_sent file evs ok"] triple_bind triple_silent triple_return | assumption)+
  have rest: "triple (only_sent file evs ok)
      (eff_bind (required (strategy_entry addresses key) message) (\<lambda>a.
         eff_then (configure_reserve (setup_sendTx (watched N)) configurator impls a token)
           (set_market_rate (setup_sendTx (watched N)) rateOracle token)))
      (\<lambda>_. only_sent file evs ok) (only_sent file evs ok)" for message
    using assms setup_calls_only
    by (cases "strategy_entry addresses key") (auto simp: required_def x intro: triple_throw)
  show ?thesis
    unfolding setup_reserve_def x prod.case
    by (intro triple_bind[OF read] triple_if triple_return rest)
qed

lemma required_cases:
  "triple P (eff_bind (required entry message) f) Q E" if "\<And>a. entry = Some a \<Longrightarrow> triple P (f a) Q E" and "\<And>v. P v \<Longrightarrow> E v"
  using that by (cases entry) (auto simp: required_def intro: triple_weaken[OF triple_throw[where E = P]])

lemma setup_main_only:
  assumes reserve: "\<And>lendingPool configurator rateOracle impls x. x \<in> set (SETUP_TOKENS (node_env N)) \<Longrightarrow>
      triple (only_sent (Some data) evs ok)
        (setup_reserve (watched N) (df_addresses data) lendingPool configurator rateOracle impls x)
        (\<lambda>_. only_sent (Some data) evs ok) (only_sent (Some data) evs ok)"
  shows "triple (only_sent (Some data) evs ok) (setup_main (watched N)) (\<lambda>_. only_sent (Some data) evs ok)
     (only_sent (Some data) evs ok)"
proof -
  let ?K = "only_sent (Some data) evs ok"
  have load: "triple ?K loadDeploymentAddresses (\<lambda>l v. l = df_addresses data \<and> ?K v) ?K"
    unfolding loadDeploymentAddresses_def
  proof (rule triple_bind)
    show "triple ?K (eff_read pc_file) (\<lambda>file v. file = Some data \<and> ?K v) ?K"
      by (rule triple_read) (simp add: only_sent_def)
    show "triple (\<lambda>v. fl = Some data \<and> ?K v)
        (case fl of None \<Rightarrow> eff_throw (Raised (Error ''Deployment file not found. Run deploy-electrolend-testnet-quick.js first.''))
         | Some data \<Rightarrow> eff_return (df_addresses data)) (\<lambda>l v. l = df_addresses data \<and> ?K v) ?K" for fl
      by (rule triple_pure, simp, rule triple_weaken[OF triple_return]) auto
  qed
  have verify: "triple ?K (eff_each (\<lambda>(_, token). eff_then (ask (node_reserve (watched N) lendingPool (st_address token))) (eff_return ()))
      (SETUP_TOKENS (node_env N))) (\<lambda>_. ?K) ?K" for lendingPool
    unfolding watched_simps
    by (rule triple_each) (auto intro!: triple_then[OF triple_silent] triple_return split: prod.split)
  have reserves: "triple ?K (eff_each (setup_reserve (watched N) (df_addresses data) lendingPool configurator rateOracle impls)
      (SETUP_TOKENS (node_env N))) (\<lambda>_. ?K) ?K" for lendingPool configurator rateOracle impls
    by (rule triple_each[OF reserve])
  have tail: "triple ?K (setup_reserves (watched N) (df_addresses data) provider lendingPool configurator) (\<lambda>_. ?K) ?K"
    for provider lendingPool configurator
    unfolding setup_reserves_def watched_simps Let_def
    by (cases "truthy_entry (df_addresses data) ''ELToken''"; cases "truthy_entry (df_addresses data) ''StableDebtToken''";
        cases "truthy_entry (df_addresses data) ''VariableDebtToken''"; simp only: prod.case option.case;
        (rule triple_throw triple_bind[OF triple_silent] triple_then[OF triple_silent]
           triple_then[OF reserves verify[unfolded watched_simps]] | assumption)+)
  show ?thesis
    unfolding setup_main_def watched_simps
    by (rule triple_bind[OF triple_silent] triple_then[OF triple_silent] triple_bind[OF load] triple_pure required_cases triple_if
        triple_throw tail | assumption | hypsubst)+
qed

text \<open>Without an implementation of the token in the file the set-up fails before it has sent anything.\<close>

definition no_token_filed :: "sent_event list \<Rightarrow> view \<Rightarrow> bool" where
  "no_token_filed evs v \<longleftrightarrow> pc_world v = evs
     \<and> (\<forall>data. pc_file v = Some data \<longrightarrow> truthy_entry (df_addresses data) ''ELToken'' = None)"

lemma setup_without_token: "triple (no_token_filed evs) (setup_main (watched N)) (\<lambda>_ _. False) (no_token_filed evs)"
proof -
  let ?K = "no_token_filed evs"
  have load: "triple ?K loadDeploymentAddresses (\<lambda>l v. truthy_entry l ''ELToken'' = None \<and> ?K v) ?K"
    unfolding loadDeploymentAddresses_def
  proof (rule triple_bind)
    show "triple ?K (eff_read pc_file)
        (\<lambda>file v. (\<forall>data. file = Some data \<longrightarrow> truthy_entry (df_addresses data) ''ELToken'' = None) \<and> ?K v) ?K"
      by (rule triple_read) (simp add: no_token_filed_def)
    show "triple (\<lambda>v. (\<forall>data. fl = Some data \<longrightarrow> truthy_entry (df_addresses data) ''ELToken'' = None) \<and> ?K v)
        (case fl of None \<Rightarrow> eff_throw (Raised (Error ''Deployment file not found. Run deploy-electrolend-testnet-quick.js first.''))
         | Some data \<Rightarrow> eff_return (df_addresses data)) (\<lambda>l v. truthy_entry l ''ELToken'' = None \<and> ?K v) ?K" for fl
      by (cases fl) (simp_all add: triple_def eff_simps)
  qed
  have tail: "triple ?K (setup_reserves (watched N) addresses provider lendingPool configurator) (\<lambda>_ _. False) ?K"
    if "truthy_entry addresses ''ELToken'' = None" for addresses provider lendingPool configurator
    unfolding setup_reserves_def that prod.case option.case by (rule triple_throw)
  show ?thesis
    unfolding setup_main_def watched_simps
    by (rule triple_bind[OF triple_silent] triple_then[OF triple_silent] triple_bind[OF load] triple_pure required_cases triple_if
        triple_throw tail | assumption)+
qed

lemma noted_sent: "map_of (noted_deployments evs) ''ELToken'' = Some a \<Longrightarrow> ''ELToken'' \<in> set (map sent_name evs)"
  by (induction evs rule: noted_deployments.induct)
    (auto simp: noted_name_def map_add_def split: option.splits if_splits)

text \<open>
  C34. The set-up of the reserves, which is to complete what the quick deployment has begun, cannot: the file of a quick
  deployment that has sent anything has no implementation of the token, so the set-up exits with one, on whatever node, and sends
  nothing.
\<close>

theorem setup_after_quick_sends_nothing:
  assumes "data_provider_takes_no_argument N" and "writes N"
    and "run_script (quick_main (watched N)) (start_process (w, []) file) = (code, s)" and "snd (pc_world s) \<noteq> []"
    and "run_script (setup_main (watched N')) (start_process (pc_world s) (pc_file s)) = (code', s')"
  shows "code' = 1 \<and> snd (pc_world s') = snd (pc_world s)"
proof -
  have "at_step 0 (view (start_process (w, []) file))" by (simp add: at_step_def start_process_def)
  from failed_run[OF exits_quick quick_main_stopped[OF assms(1)] this assms(3)]
  obtain k where "map sent_name (snd (pc_world s)) = take k first_steps" by (auto simp: stopped_def at_step_def)
  then have "set (map sent_name (snd (pc_world s))) \<subseteq> set first_steps" by (metis set_take_subset)
  moreover have "''ELToken'' \<notin> set first_steps" by (simp add: first_steps_def)
  ultimately have none: "map_of (noted_deployments (snd (pc_world s))) ''ELToken'' = None"
    using noted_sent[of "snd (pc_world s)"] by (meson not_None_eq subsetD)
  have "settled (view s)" by (rule quick_run_settled[OF assms(2,3)])
  then obtain f where f: "pc_file s = Some f" "df_addresses f = pc_deploymentAddresses s"
    and known: "map_of (pc_deploymentAddresses s) ''ELToken'' = map_of (noted_deployments (snd (pc_world s))) ''ELToken''"
    using assms(4) by (auto simp: settled_def accounted_def filed_def proxy_names_def)
  have "no_token_filed (snd (pc_world s)) (view (start_process (pc_world s) (pc_file s)))"
    using f known none by (simp add: no_token_filed_def start_process_def view_def truthy_entry_def)
  from failed_run[OF exits_setup setup_without_token this assms(5)] show ?thesis by (simp add: no_token_filed_def)
qed

text \<open>The token a transaction of the set-up is about.\<close>

fun concerned :: "sent_event \<Rightarrow> argument option" where
  "concerned (Called c m ar) = Some (if m = ''initReserve'' then last ar else hd ar)"
| "concerned (Deployed c a ar) = None"

text \<open>
  C32. For a reserve that is initialized already the script sends nothing, whatever is missing of its configuration: a set-up
  that has been interrupted after the initialization of a reserve is not completed by another run.
\<close>

theorem initialized_reserve_untouched:
  assumes "distinct (map (st_address \<circ> snd) (SETUP_TOKENS (node_env N)))" and "(key, token) \<in> set (SETUP_TOKENS (node_env N))"
    and "\<And>pool w. \<exists>r w'. node_reserve N pool (st_address token) w = (Inr r, w') \<and> rt_elTokenAddress r \<noteq> ZERO_ADDRESS"
    and "run_script (setup_main (watched N)) (start_process (w, evs) (Some data)) = (code, s')"
  shows "\<exists>new. snd (pc_world s') = evs @ new \<and> (\<forall>e\<in>set new. concerned e \<noteq> Some (Arg_text (st_address token)))"
proof -
  let ?ok = "\<lambda>e. concerned e \<noteq> Some (Arg_text (st_address token))"
  let ?K = "only_sent (Some data) evs ?ok"
  have "triple ?K (setup_main (watched N)) (\<lambda>_. ?K) ?K"
  proof (rule setup_main_only)
    fix lendingPool configurator rateOracle impls and x :: "string \<times> script_token"
    assume x: "x \<in> set (SETUP_TOKENS (node_env N))"
    show "triple ?K (setup_reserve (watched N) (df_addresses data) lendingPool configurator rateOracle impls x) (\<lambda>_. ?K) ?K"
    proof (cases "st_address (snd x) = st_address token")
      case False
      then show ?thesis by (intro setup_reserve_only) (auto simp: reserve_calls_def)
    next
      case True
      with x assms(1,2) have x: "x = (key, token)" by (force simp: distinct_map inj_on_def)
      have "triple ?K (is_initialized (watched N) lendingPool token) (\<lambda>b v. b \<and> ?K v) ?K"
        unfolding is_initialized_def watched_simps
        by (intro triple_try[where R = "\<lambda>_. False"] triple_bind[OF triple_reading[OF assms(3)]])
          (auto simp: triple_def eff_simps)
      then show ?thesis
        unfolding setup_reserve_def x prod.case
        by (rule triple_bind) (rule triple_pure, simp add: triple_return[where Q = "\<lambda>_. ?K"])
    qed
  qed
  from triple_run[OF this _ assms(4)] show ?thesis
    by (auto simp: only_sent_def start_process_def view_def)
qed

section \<open>The oracle afterwards\<close>

text \<open>What is sent by the parts of the script, for a property \<open>ok\<close> of the transactions that all but an initialization have.\<close>

lemma oracle_sendTx_only:
  assumes "ok (Called c m ar)"
  shows "triple (only_sent file evs ok) (oracle_sendTx (watched N) c m ar) (\<lambda>_. only_sent file evs ok) (only_sent file evs ok)"
  unfolding oracle_sendTx_def watched_simps
  using assms
  by (intro triple_bind[OF triple_silent triple_bind[OF triple_sent[where Q = "\<lambda>_. only_sent file evs ok"] triple_silent]])
    (auto intro: only_sent_more)

lemma oracle_deploy_only:
  assumes "\<And>a. ok (Deployed c a ar)"
  shows "triple (only_sent file evs ok) (oracle_deploy (watched N) c ar) (\<lambda>_. only_sent file evs ok) (only_sent file evs ok)"
  unfolding oracle_deploy_def watched_simps
  using assms
  by (intro triple_then[OF triple_silent triple_bind[OF triple_sent[where Q = "\<lambda>_. only_sent file evs ok"]]])
    (auto intro: only_sent_more intro!: triple_then[OF triple_silent] triple_return)

lemma triple_quiet:
  "triple P m (\<lambda>_. P) P \<Longrightarrow> (\<And>x. triple P (h x) (\<lambda>_. P) P) \<Longrightarrow> triple P (script_try m h) (\<lambda>_. P) P"
  by (rule triple_try[where R = P])

definition not_initialized :: "sent_event \<Rightarrow> bool" where
  "not_initialized e \<longleftrightarrow> (\<forall>a ar. e \<noteq> Called a ''initialize'' ar \<and> e \<noteq> Deployed ''SimplePriceFeedAdapter'' a ar)"

lemma oracle_parts_only:
  fixes df evs
  defines "K \<equiv> only_sent df evs not_initialized"
  shows "triple K (ensure_oracle (watched N) d a) (\<lambda>_. K) K"
    and "triple K (check_feed (watched N) a d) (\<lambda>_. K) K"
    and "triple K (update_prices (watched N) a) (\<lambda>_. K) K"
    and "triple K (test_oracle (watched N) a) (\<lambda>_. K) K"
proof -
  have call: "triple K (oracle_sendTx (watched N) c m ar) (\<lambda>_. K) K" if "m \<noteq> ''initialize''" for c m ar
    unfolding K_def by (rule oracle_sendTx_only) (use that in \<open>simp add: not_initialized_def\<close>)
  have dep: "triple K (oracle_deploy (watched N) ''ElectroOracle'' ar) (\<lambda>_. K) K" for ar
    unfolding K_def by (rule oracle_deploy_only) (simp add: not_initialized_def)
  show "triple K (ensure_oracle (watched N) d a) (\<lambda>_. K) K"
    unfolding ensure_oracle_def watched_simps
    by (rule triple_bind[OF triple_silent] triple_if triple_bind[OF dep] triple_then[OF call] triple_return
        triple_then[OF triple_silent] | assumption | simp)+
  show "triple K (check_feed (watched N) a d) (\<lambda>_. K) K"
    unfolding check_feed_def watched_simps
    by (rule triple_quiet triple_then[OF triple_silent] triple_return triple_throw | assumption)+
  show "triple K (update_prices (watched N) a) (\<lambda>_. K) K"
    unfolding update_prices_def watched_simps
    by (rule triple_quiet triple_then[OF call] triple_each triple_then[OF triple_silent] triple_return | assumption | simp)+
  show "triple K (test_oracle (watched N) a) (\<lambda>_. K) K"
    unfolding test_oracle_def watched_simps
    by (rule triple_each triple_prod triple_quiet triple_then[OF triple_silent] triple_return | assumption)+
qed

lemma adapter_found:
  assumes "\<And>a. answers (node_read N a ''getAdapter'' [])" and "\<And>a. answers (node_contract_at N ''SimplePriceFeedAdapter'' a)"
  shows "triple K (ensure_adapter (watched N) d a) (\<lambda>r v. \<not> snd r \<and> K v) K"
  unfolding ensure_adapter_def watched_simps
  by (rule triple_try[where R = "\<lambda>_. False"], rule triple_bind[OF triple_answered_silent[OF assms(1)]],
      rule triple_then[OF triple_answered_silent[OF assms(2)]], rule triple_weaken[OF triple_return])
    (auto simp: triple_def)

text \<open>
  C33. The adapter of a deployed oracle is a field that can always be read (\<open>getAdapter\<close> of \<open>ElectroOracle.sol\<close> returns
  zero as long as there is none), and the script takes only a failed read for a missing adapter: it never deploys an
  adapter and never initializes an oracle with one, not even the oracle it has just deployed.
\<close>

theorem oracle_never_initialized:
  assumes "\<And>a. answers (node_read N a ''getAdapter'' [])" and "\<And>a. answers (node_contract_at N ''SimplePriceFeedAdapter'' a)"
    and "run_script (setupOracle (watched N)) (start_process (w, evs) file) = (code, s')"
  shows "\<exists>new. snd (pc_world s') = evs @ new
     \<and> (\<forall>e\<in>set new. \<forall>a ar. e \<noteq> Called a ''initialize'' ar \<and> e \<noteq> Deployed ''SimplePriceFeedAdapter'' a ar)"
proof -
  let ?K = "only_sent file evs not_initialized"
  have prompt: "triple ?K (promptForAddress t) (\<lambda>_. ?K) ?K" for t
    unfolding promptForAddress_def by (rule triple_throw)
  have symbols: "triple ?K (oracle_sendTx (watched N) c ''setAssetSymbols'' ar) (\<lambda>_. ?K) ?K" for c ar
    by (rule oracle_sendTx_only) (simp add: not_initialized_def)
  have rest: "triple (\<lambda>v. \<not> snd r \<and> ?K v)
      (case r of (adapter, needToInitOracle) \<Rightarrow>
        eff_then (if needToInitOracle then oracle_sendTx (watched N) b ''initialize'' [Arg_text adapter] else eff_return ())
          (eff_then (oracle_sendTx (watched N) adapter ''setAssetSymbols'' ar)
          (eff_then (update_prices (watched N) a) (test_oracle (watched N) b)))) (\<lambda>_. ?K) ?K" for r a b ar
    by (rule triple_pure, cases r, simp, rule triple_then[OF triple_return triple_then[OF symbols triple_then]])
      (rule oracle_parts_only)+
  have "triple ?K (setupOracle (watched N)) (\<lambda>_. ?K) ?K"
    unfolding setupOracle_def watched_simps Let_def
    by (rule triple_bind[OF triple_silent] triple_then[OF triple_silent] triple_bind[OF oracle_parts_only(1)]
        triple_then[OF oracle_parts_only(2)] triple_bind[OF adapter_found[OF assms(1,2)] rest] triple_bind[where R = "\<lambda>_. ?K"]
      | assumption | simp add: prompt triple_return[where Q = "\<lambda>_. ?K"] split: option.split)+
  from triple_run[OF this _ assms(3)] show ?thesis
    by (auto simp: only_sent_def start_process_def view_def not_initialized_def)
qed

text \<open>The limits of gas: half as much again as the estimate, exactly.\<close>

lemma quick_gas_limit:
  assumes "n < 2 ^ 50"
  shows "adjusted_gas QUICK_GAS_LIMIT_MULTIPLIER n = Finite (of_nat (3 * n div 2))"
proof -
  have half: "nearest (of_int m / 2) = of_int m / 2" if "0 \<le> m" "m < 2 ^ 53" for m
  proof (rule nearest_exact)
    have "of_int m / 2 = (of_int m * 2 powi - 1 :: rat)" by (simp add: power_int_minus)
    with that show "representable \<bar>of_int m / 2\<bar>"
      unfolding representable_def by (intro exI[of _ m] exI[of _ "- 1"]) simp
  qed
  have "double (3 / 2) = Finite (3 / 2)" using half[of 3] by (simp add: double_finite)
  moreover have "double (of_nat n * (3 / 2)) = Finite (of_nat n * (3 / 2))"
  proof -
    have eq: "of_nat n * (3 / 2) = (of_int (3 * int n) / 2 :: rat)" by simp
    have "int n < 2 ^ 50" using assms by (metis of_nat_less_iff of_nat_numeral of_nat_power)
    then have n: "3 * int n < 2 ^ 53" by simp
    then have "\<bar>of_int (3 * int n) / 2 :: rat\<bar> \<le> 2 ^ 1000"
      by (simp add: field_simps)
    then show ?thesis unfolding eq using half[of "3 * int n"] n by (simp add: double_finite)
  qed
  moreover have "\<lfloor>of_nat n * (3 / 2) :: rat\<rfloor> = int (3 * n div 2)"
    using floor_divide_of_nat_eq[of "3 * n" 2, where 'a = rat] by (simp add: mult.commute)
  ultimately show ?thesis
    using assms by (simp add: adjusted_gas_def QUICK_GAS_LIMIT_MULTIPLIER_def double_of_nat)
qed

text \<open>A node of which every operation answers, at once and with fixed texts, and one that has initialized reserves.\<close>

definition sample_node :: "nat node" where
  "sample_node =
    \<lparr>node_env = (\<lambda>key. if key = ''ADDRESS_PROVIDER'' then Some ''0xaa'' else None),
     node_signer = eff_return ''0xdd'',
     node_balance = (\<lambda>_. eff_return 0),
     node_factory = (\<lambda>_ _. eff_return ()),
     node_estimate_deploy = (\<lambda>_ _. eff_return 100000),
     node_deploy = (\<lambda>c _ _ _ w. (Inr (''0x01'', ''0x'' @ c), Suc w)),
     node_contract_at = (\<lambda>_ _. eff_return ()),
     node_estimate_call = (\<lambda>_ _ _ _. eff_return 100000),
     node_call = (\<lambda>_ _ _ _ w. (Inr ''0x02'', Suc w)),
     node_wait = (\<lambda>_ _. eff_return ()),
     node_read = (\<lambda>_ _ _. eff_return ''0xbb''),
     node_reserve = (\<lambda>_ _. eff_return \<lparr>rt_elTokenAddress = ZERO_ADDRESS, rt_stableDebtTokenAddress = ZERO_ADDRESS,
       rt_variableDebtTokenAddress = ZERO_ADDRESS\<rparr>),
     node_keccak_text = (\<lambda>t. t), node_keccak = (\<lambda>t. t), node_create2 = (\<lambda>a _ _. a),
     node_now = eff_return ''2024'', node_write = eff_return ()\<rparr>"

definition sample_ready :: "nat node" where
  "sample_ready = sample_node\<lparr>node_reserve := (\<lambda>_ _. eff_return
     \<lparr>rt_elTokenAddress = ''0xcc'', rt_stableDebtTokenAddress = ''0xcd'', rt_variableDebtTokenAddress = ''0xce''\<rparr>)\<rparr>"

lemma sample_writes: "writes sample_node"
  by (auto simp: writes_def answers_def sample_node_def eff_simps)

text \<open>The sample with the provider of data that the factory does not deploy.\<close>

definition sample_refusing :: "nat node" where
  "sample_refusing = sample_node\<lparr>node_estimate_deploy := (\<lambda>c _. if c = ''ElectroProtocolDataProvider''
     then eff_throw (Error ''unknown transaction override 0'') else eff_return 100000)\<rparr>"

lemma sample_refuses: "data_provider_takes_no_argument sample_refusing" "writes sample_refusing" "carries_out sample_refusing"
  by (auto simp: data_provider_takes_no_argument_def carries_out_def writes_def answers_def sample_refusing_def sample_node_def
      first_steps_def eff_simps)

definition sample_run :: "(nat \<times> sent_event list) process" where
  "sample_run = snd (run_script (quick_main (watched sample_refusing)) (start_process (0, []) None))"

lemma sample_run_sent:
  "run_script (quick_main (watched sample_refusing)) (start_process (0, []) None) = (1, sample_run)"
  "map sent_name (snd (pc_world sample_run)) = first_steps"
proof -
  obtain code s where run: "run_script (quick_main (watched sample_refusing)) (start_process (0, []) None) = (code, s)" by fastforce
  have "at_step 0 (view (start_process (0, []) None))" by (simp add: at_step_def start_process_def)
  from failed_run[OF exits_quick quick_main_stopped[OF sample_refuses(1)] this run] sample_refuses(3)
  show "run_script (quick_main (watched sample_refusing)) (start_process (0, []) None) = (1, sample_run)"
    "map sent_name (snd (pc_world sample_run)) = first_steps"
    by (auto simp: run sample_run_def stopped_def at_step_def)
qed

lemma quick_deployment_stops_witness:
  "fst (run_script (quick_main (watched sample_refusing)) (start_process (0, []) None)) = 1 \<and> length (snd (pc_world sample_run)) = 17"
  using quick_deployment_stops[OF sample_refuses(1) sample_run_sent(1)] sample_run_sent
  by (auto simp: first_steps_def dest: arg_cong[where f = length])

lemma quick_file_accounts_for_transactions_witness:
  "\<exists>f. pc_file sample_run = Some f \<and> df_txCount f = 17"
proof -
  have sent: "snd (pc_world sample_run) \<noteq> []" "length (snd (pc_world sample_run)) = 17"
    using arg_cong[OF sample_run_sent(2), of length] by (auto simp: first_steps_def)
  show ?thesis
    using quick_file_accounts_for_transactions[OF sample_refuses(2) sample_run_sent(1) sent(1)] sent(2) by auto
qed

lemma setup_after_quick_sends_nothing_witness:
  "\<exists>s. run_script (setup_main (watched sample_node)) (start_process (pc_world sample_run) (pc_file sample_run)) = (1, s)
     \<and> map sent_name (snd (pc_world s)) = first_steps"
proof -
  obtain code s where run: "run_script (setup_main (watched sample_node)) (start_process (pc_world sample_run) (pc_file sample_run)) = (code, s)"
    by fastforce
  have "snd (pc_world sample_run) \<noteq> []" using sample_run_sent(2) by (auto simp: first_steps_def)
  from setup_after_quick_sends_nothing[OF sample_refuses(1,2) sample_run_sent(1) this run] show ?thesis
    using run sample_run_sent(2) by simp
qed

definition sample_file :: deployment_file where
  "sample_file = \<lparr>df_timestamp = ''2024'', df_deployer = None, df_addresses = [(''LendingPoolAddressesProvider'', ''0xaa'')], df_txCount = 1\<rparr>"

lemma initialized_reserve_untouched_witness:
  "\<exists>new. snd (pc_world (snd (run_script (setup_main (watched sample_ready)) (start_process (0, []) (Some sample_file))))) = [] @ new
     \<and> (\<forall>e\<in>set new. concerned e \<noteq> Some (Arg_text ''0x154c9fD7F006b92b6afa746098d8081A831DC1FC''))"
proof -
  obtain code s where run: "run_script (setup_main (watched sample_ready)) (start_process (0, []) (Some sample_file)) = (code, s)"
    by fastforce
  have tokens: "distinct (map (st_address \<circ> snd) (SETUP_TOKENS (node_env sample_ready)))"
    "(''WETN'', snd (hd (SETUP_TOKENS (node_env sample_ready)))) \<in> set (SETUP_TOKENS (node_env sample_ready))"
    "st_address (snd (hd (SETUP_TOKENS (node_env sample_ready)))) = ''0x154c9fD7F006b92b6afa746098d8081A831DC1FC''"
    by (simp_all add: SETUP_TOKENS_def sample_ready_def sample_node_def env_or_def)
  have "\<exists>r w'. node_reserve sample_ready pool t w = (Inr r, w') \<and> rt_elTokenAddress r \<noteq> ZERO_ADDRESS" for pool t w
    by (simp add: sample_ready_def sample_node_def eff_simps ZERO_ADDRESS_def)
  from initialized_reserve_untouched[OF tokens(1,2) this run] show ?thesis by (simp add: run tokens(3))
qed

lemma oracle_never_initialized_witness:
  "\<exists>new. snd (pc_world (snd (run_script (setupOracle (watched sample_node)) (start_process (0, []) None)))) = [] @ new
     \<and> (\<forall>e\<in>set new. \<forall>a ar. e \<noteq> Called a ''initialize'' ar)"
proof -
  obtain code s where run: "run_script (setupOracle (watched sample_node)) (start_process (0, []) None) = (code, s)"
    by fastforce
  have "answers (node_read sample_node a ''getAdapter'' [])" "answers (node_contract_at sample_node ''SimplePriceFeedAdapter'' a)" for a
    by (simp_all add: sample_node_def answers_def eff_simps)
  from oracle_never_initialized[OF this run] show ?thesis by (auto simp: run)
qed

end
