(* ===== verification/Market_Tasks.thy ===== *)
theory Market_Tasks
  imports Reserve_Setup
begin

text \<open>
  The Hardhat tasks that deploy and operate a market: \<open>tasks/full\<close>, \<open>tasks/deployments/add-market-to-registry.ts\<close>,
  \<open>tasks/dev/deploy-electrolend-testnet.ts\<close> and \<open>deploy-electrolend-no-wait.ts\<close>, \<open>tasks/misc/set-bre.ts\<close>,
  \<open>tasks/operations/pause-lending-pool.ts\<close> and \<open>update-oas-reserve-param.ts\<close>, and \<open>tasks/helpers\<close>. A task is an
  effect on a session, the world of the registry and the flag of the runtime environment. It ends with a value, with an
  error, or by leaving the process, which no handler catches. What is only printed is left out.
\<close>

section \<open>Sessions and tasks\<close>

datatype task_error = Threw js_error | Exited nat

record 'w session =
  se_world :: "'w world"
  se_DRE :: bool

type_synonym ('w, 'a) task = "('w session, task_error, 'a) eff"

text \<open>
  The node beside the platform: what a contract answers to a call without arguments, transactions of a signer that are waited
  for, requests to the provider, payments, and the Tenderly plugin.
\<close>

record 'w market =
  mk_setup :: "'w reserve_setup"
  mk_view :: "string \<Rightarrow> string \<Rightarrow> 'w \<Rightarrow> js_error + string"
  mk_transact :: "string \<Rightarrow> string \<Rightarrow> string \<Rightarrow> arg list \<Rightarrow> ('w, js_error, unit) eff"
  mk_request :: "string \<Rightarrow> string list \<Rightarrow> ('w, js_error, string) eff"
  mk_pay :: "string \<Rightarrow> string \<Rightarrow> string \<Rightarrow> ('w, js_error, unit) eff"
  mk_chainId :: "nat option"
  mk_TENDERLY :: "string option"
  mk_TENDERLY_FORK_ID :: "string option"
  mk_TENDERLY_HEAD :: "string option"
  mk_setFork :: "string \<Rightarrow> ('w, js_error, unit) eff"
  mk_setHead :: "string \<Rightarrow> ('w, js_error, unit) eff"
  mk_initializeFork :: "('w, js_error, unit) eff"
  mk_readDeployment :: "'w \<Rightarrow> string option"
  mk_parse :: "string \<Rightarrow> js_error + unit"

abbreviation mk_platform :: "'w market \<Rightarrow> 'w platform" where
  "mk_platform M \<equiv> su_platform (mk_setup M)"

definition job :: "('w world, js_error, 'a) eff \<Rightarrow> ('w, 'a) task" where
  "job m s = (case m (se_world s) of (r, w) \<Rightarrow> (map_sum Threw id r, s\<lparr>se_world := w\<rparr>))"

definition node :: "('w, js_error, 'a) eff \<Rightarrow> ('w, 'a) task" where
  "node m = job (on_chain m)"

definition fail :: "js_error \<Rightarrow> ('w, 'a) task" where
  "fail e = eff_throw (Threw e)"

definition exit :: "nat \<Rightarrow> ('w, 'a) task" where
  "exit code = eff_throw (Exited code)"

text \<open>\<open>try\<close>/\<open>catch\<close> and \<open>try\<close>/\<open>finally\<close>: leaving the process is not caught and skips the rest.\<close>

definition task_catch :: "('w, 'a) task \<Rightarrow> (js_error \<Rightarrow> ('w, 'a) task) \<Rightarrow> ('w, 'a) task" where
  "task_catch m h = eff_catch m (\<lambda>e. case e of Threw err \<Rightarrow> h err | Exited code \<Rightarrow> exit code)"

definition task_finally :: "('w, 'a) task \<Rightarrow> ('w, unit) task \<Rightarrow> ('w, 'a) task" where
  "task_finally m f s =
     (case m s of
        (Inr a, s') \<Rightarrow> eff_then f (eff_return a) s'
      | (Inl (Threw e), s') \<Rightarrow> eff_then f (fail e) s'
      | (Inl (Exited code), s') \<Rightarrow> (Inl (Exited code), s'))"

definition view :: "'w market \<Rightarrow> string \<Rightarrow> string \<Rightarrow> ('w, string) task" where
  "view M address method = node (\<lambda>c. (mk_view M address method c, c))"

definition transact :: "'w market \<Rightarrow> string \<Rightarrow> string \<Rightarrow> string \<Rightarrow> arg list \<Rightarrow> ('w, unit) task" where
  "transact M signer address method args = node (mk_transact M signer address method args)"

definition valid :: "'w market \<Rightarrow> string option \<Rightarrow> bool" where
  "valid M a = notFalsyOrZeroAddress (p_addresses (mk_platform M)) a"

definition or_empty :: "string option \<Rightarrow> string" where
  "or_empty a = (case a of None \<Rightarrow> '''' | Some s \<Rightarrow> s)"

definition arg_of :: "string option \<Rightarrow> arg" where
  "arg_of a = (case a of None \<Rightarrow> Undefined | Some s \<Rightarrow> Arg s)"

text \<open>
  \<open>(await getFirstSigner()).getAddress()\<close>, a transaction of the first signer, and the entry of the configuration for the
  network.
\<close>

definition signer_address :: "'w market \<Rightarrow> ('w, string) task" where
  "signer_address M =
     (case getFirstSigner (mk_platform M) of
        None \<Rightarrow> fail (TypeError ''Cannot read properties of undefined'')
      | Some a \<Rightarrow> eff_return a)"

definition own :: "'w market \<Rightarrow> string \<Rightarrow> string \<Rightarrow> arg list \<Rightarrow> ('w, unit) task" where
  "own M address method args = eff_bind (signer_address M) (\<lambda>signer. transact M signer address method args)"

definition param_address :: "'w market \<Rightarrow> PoolConfiguration \<Rightarrow> string \<Rightarrow> string option" where
  "param_address M poolConfig key =
     getParamPerNetwork (p_FORK (mk_platform M)) (map_of (pool_addresses poolConfig) key) (p_network (mk_platform M))"

text \<open>A call of an imported name that its module does not export.\<close>

definition not_a_function :: "string \<Rightarrow> ('w, 'a) task" where
  "not_a_function f = fail (TypeError (f @ '' is not a function''))"

section \<open>The runtime environment\<close>

definition set_DRE :: "'w market \<Rightarrow> ('w, unit) task" where
  "set_DRE M =
     eff_bind (eff_read se_DRE) (\<lambda>initialized.
     if initialized then eff_return ()
     else
       eff_then
         (if sublist ''tenderly'' (p_network (mk_platform M)) \<or> mk_TENDERLY M = Some ''true'' then
            if truthy (mk_TENDERLY_FORK_ID M) \<and> truthy (mk_TENDERLY_HEAD M)
            then eff_then (node (mk_setFork M (the (mk_TENDERLY_FORK_ID M))))
                          (node (mk_setHead M (the (mk_TENDERLY_HEAD M))))
            else node (mk_initializeFork M)
          else eff_return ())
       (eff_modify (\<lambda>s. s\<lparr>se_DRE := True\<rparr>)))"

section \<open>The addresses providers\<close>

definition deploy_address_provider_registry :: "'n bn \<Rightarrow> 'w market \<Rightarrow> ConfigNames \<Rightarrow> bool \<Rightarrow> ('w, unit) task" where
  "deploy_address_provider_registry B M pool verify =
     eff_then (set_DRE M)
     (eff_bind (job (eff_lift (loadPoolConfig B pool))) (\<lambda>poolConfig.
     eff_bind (signer_address M) (\<lambda>signerAddress.
     let providerRegistryAddress = param_address M poolConfig ''ProviderRegistry'';
         configuredOwner = param_address M poolConfig ''ProviderRegistryOwner'';
         providerRegistryOwner = (if truthy configuredOwner then the configuredOwner else signerAddress)
     in if valid M providerRegistryAddress then eff_return ()
        else eff_then (job (deployLendingPoolAddressesProviderRegistry (mk_platform M) providerRegistryOwner verify))
             (eff_return ()))))"

text \<open>The registry that a market is added to, its owner, and whether it has just been deployed.\<close>

definition choose_registry ::
  "'n bn \<Rightarrow> 'w market \<Rightarrow> ConfigNames \<Rightarrow> bool \<Rightarrow> bool \<Rightarrow> PoolConfiguration
   \<Rightarrow> ('w, string option \<times> string option \<times> bool) task" where
  "choose_registry B M pool verify deployRegistry poolConfig =
     (let providerRegistryAddress = param_address M poolConfig ''ProviderRegistry'';
          providerRegistryOwner = param_address M poolConfig ''ProviderRegistryOwner''
      in if deployRegistry \<or> \<not> valid M providerRegistryAddress then
           eff_then (deploy_address_provider_registry B M pool verify)
           (eff_bind (job (getLendingPoolAddressesProviderRegistry (mk_platform M) None)) (\<lambda>registry.
           eff_bind (signer_address M) (\<lambda>owner.
           eff_return (Some (h_address registry), Some owner, True))))
         else eff_return (providerRegistryAddress, providerRegistryOwner, False))"

text \<open>The signer of the registration: the owner, impersonated and paid on a fork.\<close>

definition registry_signer :: "'w market \<Rightarrow> string option \<Rightarrow> bool \<Rightarrow> string \<Rightarrow> ('w, string) task" where
  "registry_signer M providerRegistryOwner deployed currentSignerAddress =
     (if \<not> valid M providerRegistryOwner
      then fail (Error ''config.ProviderRegistryOwner is missing or is not an address.'')
      else
        let owner = the providerRegistryOwner in
        if truthy (p_FORK (mk_platform M)) then
          eff_then (node (mk_request M ''hardhat_impersonateAccount'' [owner]))
          (eff_bind (signer_address M) (\<lambda>firstAccount.
          eff_then (node (mk_pay M firstAccount owner ''10''))
          (eff_return owner)))
        else if \<not> deployed \<and> toLowerCase owner \<noteq> toLowerCase currentSignerAddress then exit 2
        else eff_return owner)"

definition add_market_to_registry ::
  "'n bn \<Rightarrow> 'w market \<Rightarrow> ConfigNames \<Rightarrow> bool \<Rightarrow> string option \<Rightarrow> bool \<Rightarrow> ('w, unit) task" where
  "add_market_to_registry B M pool verify addressesProvider deployRegistry =
     eff_then (set_DRE M)
     (eff_bind (job (eff_lift (loadPoolConfig B pool))) (\<lambda>poolConfig.
     eff_bind (signer_address M) (\<lambda>firstAddress.
     eff_bind (choose_registry B M pool verify deployRegistry poolConfig)
       (\<lambda>(providerRegistryAddress, providerRegistryOwner, deployed).
     eff_bind (registry_signer M providerRegistryOwner deployed (toLowerCase firstAddress)) (\<lambda>signer.
     eff_bind (job (getLendingPoolAddressesProviderRegistry (mk_platform M) providerRegistryAddress)) (\<lambda>addressesProviderRegistry.
     eff_bind (job (getLendingPoolAddressesProvider (mk_platform M) addressesProvider)) (\<lambda>addressesProviderInstance.
     transact M signer (h_address addressesProviderRegistry) ''registerAddressesProvider''
       [Arg (h_address addressesProviderInstance), Numeral (ProviderId poolConfig)])))))))"

text \<open>
  The task passes the flag \<open>verify\<close> as the owner of the provider, and so does not ask for a verification.
\<close>

definition deploy_address_provider :: "'n bn \<Rightarrow> 'w market \<Rightarrow> ConfigNames \<Rightarrow> bool \<Rightarrow> bool \<Rightarrow> ('w, unit) task" where
  "deploy_address_provider B M pool verify skipRegistry =
     eff_then (set_DRE M)
     (eff_bind (job (eff_lift (loadPoolConfig B pool))) (\<lambda>poolConfig.
     eff_bind (job (deployLendingPoolAddressesProvider (mk_platform M) (MarketId poolConfig) (Flag verify) False))
       (\<lambda>addressesProvider.
     eff_then
       (if skipRegistry then eff_return ()
        else add_market_to_registry B M pool False (Some (i_address addressesProvider))
               (\<not> valid M (param_address M poolConfig ''ProviderRegistry'')))
     (eff_then (own M (i_address addressesProvider) ''setPoolAdmin''
                 [arg_of (getGenesisPoolAdmin (mk_platform M) poolConfig)])
     (eff_then (own M (i_address addressesProvider) ''setEmergencyAdmin''
                 [arg_of (getEmergencyAdmin (mk_platform M) poolConfig)])
     (eff_then (view M (i_address addressesProvider) ''getPoolAdmin'')
     (eff_then (view M (i_address addressesProvider) ''getEmergencyAdmin'')
     (eff_return ()))))))))"


section \<open>The lending pool\<close>

text \<open>
  The two helpers are deployed with an array of addresses in the place of the owner.
\<close>

definition lending_pool_implementation ::
  "'w market \<Rightarrow> string \<Rightarrow> string option \<Rightarrow> bool \<Rightarrow> ('w, string) task" where
  "lending_pool_implementation M provider configured verify =
     (if valid M configured then eff_return (the configured)
      else eff_bind (job (deployLendingPool (mk_platform M) verify)) (\<lambda>lendingPoolImpl.
           eff_then (node (p_call (mk_platform M) (i_address lendingPoolImpl) ''initialize'' [Arg provider]))
           (eff_return (i_address lendingPoolImpl))))"

definition configurator_implementation :: "'w market \<Rightarrow> string option \<Rightarrow> bool \<Rightarrow> ('w, string) task" where
  "configurator_implementation M configured verify =
     (if valid M configured then eff_return (the configured)
      else eff_bind (job (deployLendingPoolConfigurator (mk_platform M) verify)) (\<lambda>impl.
           eff_return (i_address impl)))"

definition lending_pool_steps :: "'n bn \<Rightarrow> 'w market \<Rightarrow> ConfigNames \<Rightarrow> bool \<Rightarrow> ('w, unit) task" where
  "lending_pool_steps B M pool verify =
     eff_then (set_DRE M)
     (eff_bind (job (eff_lift (loadPoolConfig B pool))) (\<lambda>poolConfig.
     eff_bind (job (getLendingPoolAddressesProvider (mk_platform M) None)) (\<lambda>addressesProvider.
     eff_bind (lending_pool_implementation M (h_address addressesProvider) (param_address M poolConfig ''LendingPool'') verify)
       (\<lambda>lendingPoolImplAddress.
     eff_then (own M (h_address addressesProvider) ''setLendingPoolImpl'' [Arg lendingPoolImplAddress])
     (eff_bind (view M (h_address addressesProvider) ''getLendingPool'') (\<lambda>address.
     eff_bind (job (getLendingPool (mk_platform M) (Some address))) (\<lambda>lendingPoolProxy.
     eff_then (job (insertContractAddressInDb (mk_platform M) ''LendingPool'' (h_address lendingPoolProxy)))
     (eff_bind (configurator_implementation M (param_address M poolConfig ''LendingPoolConfigurator'') verify)
       (\<lambda>lendingPoolConfiguratorImplAddress.
     eff_then (if \<not> valid M (Some (h_address lendingPoolProxy)) then fail (Error ''missing lendingPoolProxy'')
               else eff_return ())
     (eff_then (own M (h_address addressesProvider) ''setLendingPoolConfiguratorImpl''
                  [Arg lendingPoolConfiguratorImplAddress])
     (eff_bind (view M (h_address addressesProvider) ''getLendingPoolConfigurator'') (\<lambda>configuratorAddress.
     eff_bind (job (getLendingPoolConfiguratorProxy (mk_platform M) (Some configuratorAddress)))
       (\<lambda>lendingPoolConfiguratorProxy.
     eff_then (job (insertContractAddressInDb (mk_platform M) ''LendingPoolConfigurator''
                      (h_address lendingPoolConfiguratorProxy)))
     (eff_then (job (deployStableAndVariableTokensHelper (mk_platform M)
                  (Args [h_address lendingPoolProxy, h_address addressesProvider]) verify))
     (eff_then (job (deployELTokensAndRatesHelper (mk_platform M)
                  (Args [h_address lendingPoolProxy, h_address addressesProvider, h_address lendingPoolConfiguratorProxy])
                  verify))
     (job (deployELTokenImplementations B (mk_platform M) pool (ReservesConfig poolConfig) verify)))))))))))))))))"

definition deploy_lending_pool :: "'n bn \<Rightarrow> 'w market \<Rightarrow> ConfigNames \<Rightarrow> bool \<Rightarrow> ('w, unit) task" where
  "deploy_lending_pool B M pool verify = task_catch (lending_pool_steps B M pool verify) (\<lambda>error. fail error)"

section \<open>The oracles\<close>

text \<open>
  The deployment functions of the price feed and of its adapter are imported from \<open>contracts-deployments\<close>,
  which does not export them.
\<close>

definition deploySimplePriceFeed :: "string option \<Rightarrow> bool \<Rightarrow> ('w, string) task" where
  "deploySimplePriceFeed admin verify = not_a_function ''deploySimplePriceFeed''"

definition deploySimplePriceFeedAdapter :: "string option \<Rightarrow> bool \<Rightarrow> ('w, string) task" where
  "deploySimplePriceFeedAdapter admin verify = not_a_function ''deploySimplePriceFeedAdapter''"

text \<open>\<open>Object.entries\<close> of a table that is not configured.\<close>

definition entries_of :: "'a SymbolMap option \<Rightarrow> ('w, 'a SymbolMap) task" where
  "entries_of table =
     (case table of
        None \<Rightarrow> fail (TypeError ''Cannot convert undefined or null to object'')
      | Some rows \<Rightarrow> eff_return rows)"

definition use_or_deploy :: "'w market \<Rightarrow> string option \<Rightarrow> ('w, string) task \<Rightarrow> ('w, string) task" where
  "use_or_deploy M configured deployment =
     (if valid M configured then eff_return (the configured) else deployment)"

definition deployed_address :: "('w world, js_error, contract_instance) eff \<Rightarrow> ('w, string) task" where
  "deployed_address m = eff_bind (job m) (\<lambda>inst. eff_return (i_address inst))"

definition electro_oracle ::
  "'w market \<Rightarrow> PoolConfiguration \<Rightarrow> string \<Rightarrow> bool \<Rightarrow> ('w, string) task" where
  "electro_oracle M poolConfig adapter verify =
     (let configured = param_address M poolConfig ''ElectroOracle''
      in if valid M configured
         then eff_then (own M (the configured) ''setAdapter'' [Arg adapter]) (eff_return (the configured))
         else eff_bind (job (getQuoteCurrency (mk_platform M) poolConfig)) (\<lambda>quote.
              deployed_address (deployElectroOracle (mk_platform M) [adapter, quote, OracleQuoteUnit poolConfig] verify)))"

definition lending_rate_oracle ::
  "'w market \<Rightarrow> PoolConfiguration \<Rightarrow> string SymbolMap \<Rightarrow> string SymbolMap \<Rightarrow> string option \<Rightarrow> bool \<Rightarrow> ('w, string) task" where
  "lending_rate_oracle M poolConfig lendingRateOracles tokensToWatch admin verify =
     use_or_deploy M (param_address M poolConfig ''LendingRateOracle'')
       (eff_bind (deployed_address (deployLendingRateOracle (mk_platform M) (arg_of admin) verify)) (\<lambda>rateOracle.
        eff_then (job (setInitialMarketRatesInRatesOracleByHelper (mk_setup M) lendingRateOracles
                         (omit tokensToWatch [''USD'']) rateOracle (or_empty admin)))
        (eff_return rateOracle)))"

definition oracles_steps :: "'n bn \<Rightarrow> 'w market \<Rightarrow> ConfigNames \<Rightarrow> bool \<Rightarrow> ('w, unit) task" where
  "oracles_steps B M pool verify =
     eff_then (set_DRE M)
     (eff_bind (job (eff_lift (loadPoolConfig B pool))) (\<lambda>poolConfig.
     eff_bind (job (eff_lift (getLendingRateOracles (mk_platform M) poolConfig))) (\<lambda>lendingRateOracles.
     eff_bind (job (getLendingPoolAddressesProvider (mk_platform M) None)) (\<lambda>addressesProvider.
     let P = mk_platform M;
         admin = getGenesisPoolAdmin P poolConfig;
         reserveAssets = getParamPerNetwork (p_FORK P) (Some (ReserveAssets poolConfig)) (p_network P);
         feedTokens = getParamPerNetwork (p_FORK P) (Some (DIAAggregator poolConfig)) (p_network P);
         tokensToWatch = js_set (case reserveAssets of None \<Rightarrow> [] | Some assets \<Rightarrow> assets) ''USD''
           (UsdAddress (ProtocolGlobalParams poolConfig))
     in
     eff_bind (use_or_deploy M (param_address M poolConfig ''SimplePriceFeed'') (deploySimplePriceFeed admin verify))
       (\<lambda>simplePriceFeed.
     eff_bind (deploySimplePriceFeedAdapter admin verify) (\<lambda>simplePriceFeedAdapter.
     eff_then (own M simplePriceFeedAdapter ''setPriceFeed'' [Arg simplePriceFeed])
     (eff_bind (entries_of feedTokens) (\<lambda>feeds.
     eff_then (eff_each (\<lambda>(assetSymbol, asset).
                 own M simplePriceFeedAdapter ''setAssetSymbol'' [Arg asset, Arg assetSymbol]) feeds)
     (eff_bind (use_or_deploy M (param_address M poolConfig ''FallbackOracle'')
                  (deployed_address (deployElectroFallbackOracle P (arg_of admin) verify))) (\<lambda>fallbackOracle.
     eff_bind (electro_oracle M poolConfig simplePriceFeedAdapter verify) (\<lambda>electroOracle.
     eff_bind (lending_rate_oracle M poolConfig lendingRateOracles tokensToWatch admin verify) (\<lambda>lendingRateOracle.
     eff_then (own M (h_address addressesProvider) ''setPriceOracle'' [Arg electroOracle])
     (eff_then (own M (h_address addressesProvider) ''setLendingRateOracle'' [Arg lendingRateOracle])
     (eff_bind (entries_of reserveAssets) (\<lambda>assets.
     eff_each (\<lambda>(assetSymbol, asset). own M simplePriceFeed ''setPrice'' [Arg assetSymbol, Arg ''100000000''])
       assets)))))))))))))))"

definition deploy_oracles :: "'n bn \<Rightarrow> 'w market \<Rightarrow> ConfigNames \<Rightarrow> bool \<Rightarrow> ('w, unit) task" where
  "deploy_oracles B M pool verify = task_catch (oracles_steps B M pool verify) (\<lambda>error. fail error)"


section \<open>The data provider, the gateway and the reserves\<close>

text \<open>
  The data provider's deployment function takes only the flag \<open>verify\<close>, and is called with an address in its place: the
  contract is verified. The same holds of the provider for the user interface.
\<close>

definition data_provider :: "'w market \<Rightarrow> bool \<Rightarrow> ('w, unit) task" where
  "data_provider M verify =
     task_catch
       (eff_then (set_DRE M)
        (eff_bind (job (getLendingPoolAddressesProvider (mk_platform M) None)) (\<lambda>addressesProvider.
         eff_then (job (deployElectroProtocolDataProvider (mk_platform M) (h_address addressesProvider \<noteq> '''')))
         (eff_return ()))))
       (\<lambda>err. exit 1)"

definition deploy_weth_gateway :: "'n bn \<Rightarrow> 'w market \<Rightarrow> ConfigNames \<Rightarrow> bool \<Rightarrow> ('w, unit) task" where
  "deploy_weth_gateway B M pool verify =
     eff_then (set_DRE M)
     (eff_bind (job (eff_lift (loadPoolConfig B pool))) (\<lambda>poolConfig.
     eff_bind (job (getWrappedNativeTokenAddress (mk_platform M) poolConfig)) (\<lambda>weth.
     if mk_chainId M = None \<or> mk_chainId M = Some 0 then fail (Error ''INVALID_CHAIN_ID'')
     else eff_then (job (deployWETHGateway (mk_platform M) [weth] verify)) (eff_return ()))))"

definition aggregatorProxy :: "string SymbolMap" where
  "aggregatorProxy =
     [(''tenderly'', ''0x5f4eC3Df9cbd43714FE2740f5E3616155c5b8419''),
      (''mainnet'', ''0x0000000000000000000000000000000000000000''),
      (''testnet'', ''0xFba006047BCeCc6E7402D8ae7a3ddCB8DB1CFf53'')]"

definition initialize_steps :: "'n bn \<Rightarrow> 'w market \<Rightarrow> ConfigNames \<Rightarrow> bool \<Rightarrow> ('w, unit) task" where
  "initialize_steps B M pool verify =
     eff_then (set_DRE M)
     (eff_bind (job (eff_lift (loadPoolConfig B pool))) (\<lambda>poolConfig.
     let P = mk_platform M;
         reserveAssets = getParamPerNetwork (p_FORK P) (Some (ReserveAssets poolConfig)) (p_network P);
         incentives = param_address M poolConfig ''IncentivesController''
     in
     eff_bind (job (getLendingPoolAddressesProvider P None)) (\<lambda>addressesProvider.
     eff_bind (job (getElectroProtocolDataProvider P None)) (\<lambda>testHelpers.
     eff_bind (view M (h_address addressesProvider) ''getPoolAdmin'') (\<lambda>admin.
     eff_bind (view M (h_address addressesProvider) ''getPriceOracle'') (\<lambda>priceOracle.
     eff_bind
       (case reserveAssets of
          None \<Rightarrow> fail (Thrown ''Reserve assets is undefined. Check ReserveAssets configuration at config directory'')
        | Some assets \<Rightarrow> eff_return assets) (\<lambda>assets.
     eff_then (job (initReservesByHelper B (mk_setup M)
       \<lparr>elTokenNamePrefix = ELTokenNamePrefix poolConfig, stableDebtTokenNamePrefix = StableDebtTokenNamePrefix poolConfig,
        variableDebtTokenNamePrefix = VariableDebtTokenNamePrefix poolConfig, symbolPrefix = SymbolPrefix poolConfig,
        treasuryAddress = or_empty (getTreasuryAddress P poolConfig), incentivesController = or_empty incentives,
        poolName = pool\<rparr> (ReservesConfig poolConfig) assets verify None None []))
     (eff_then (job (configureReservesByHelper (mk_setup M) (ReservesConfig poolConfig) assets (h_address testHelpers) admin None None))
     (eff_bind (use_or_deploy M (param_address M poolConfig ''LendingPoolCollateralManager'')
                  (deployed_address (deployLendingPoolCollateralManager P verify))) (\<lambda>collateralManagerAddress.
     eff_then (own M (h_address addressesProvider) ''setLendingPoolCollateralManager'' [Arg collateralManagerAddress])
     (eff_bind (job (getElectroProtocolDataProvider P None)) (\<lambda>electroProtocolDataProvider.
     eff_then (own M (h_address addressesProvider) ''setAddress''
       [Arg ''0x0100000000000000000000000000000000000000000000000000000000000000'',
        Arg (h_address electroProtocolDataProvider)])
     (eff_then (job (deployWalletBalancerProvider P verify))
     (eff_then (job (deployUiPoolDataProviderV2 P (truthy (map_of aggregatorProxy (p_network P)))))
     (eff_then (job (deployUiIncentiveDataProviderV2 P False))
     (eff_bind (view M (h_address addressesProvider) ''getLendingPool'') (\<lambda>lendingPoolAddress.
     eff_bind (use_or_deploy M (param_address M poolConfig ''WethGateway'')
                 (eff_bind (job (getWETHGateway P None)) (\<lambda>h. eff_return (h_address h)))) (\<lambda>gateWay.
     job (authorizeWETHGateway P gateWay lendingPoolAddress)))))))))))))))))))"

definition initialize_lending_pool :: "'n bn \<Rightarrow> 'w market \<Rightarrow> ConfigNames \<Rightarrow> bool \<Rightarrow> ('w, unit) task" where
  "initialize_lending_pool B M pool verify = task_catch (initialize_steps B M pool verify) (\<lambda>err. exit 1)"

section \<open>Running tasks by their names\<close>

record task_args =
  ta_pool :: ConfigNames
  ta_verify :: bool
  ta_skipWait :: bool

text \<open>The full deployment's tasks under the names they are declared with; Hardhat refuses a name that is not declared.\<close>

definition full_task :: "'n bn \<Rightarrow> 'w market \<Rightarrow> string \<Rightarrow> task_args \<Rightarrow> ('w, unit) task" where
  "full_task B M taskName args =
     (if taskName = ''full:deploy-address-provider-registry''
        then deploy_address_provider_registry B M (ta_pool args) (ta_verify args)
      else if taskName = ''full:deploy-address-provider'' then deploy_address_provider B M (ta_pool args) (ta_verify args) False
      else if taskName = ''full:deploy-lending-pool'' then deploy_lending_pool B M (ta_pool args) (ta_verify args)
      else if taskName = ''full:deploy-oracles'' then deploy_oracles B M (ta_pool args) (ta_verify args)
      else if taskName = ''full:data-provider'' then data_provider M (ta_verify args)
      else if taskName = ''full-deploy-weth-gateway'' then deploy_weth_gateway B M (ta_pool args) (ta_verify args)
      else if taskName = ''full:initialize-lending-pool'' then initialize_lending_pool B M (ta_pool args) (ta_verify args)
      else fail (Error (''HH303: Unrecognized task '' @ taskName)))"

text \<open>
  \<open>patchDREForSkipWait\<close>: with \<open>skipWait\<close> a task runs between a snapshot of the chain and the return to it. The
  replaced \<open>send\<close> of the provider only prints and passes the request on.
\<close>

definition evmSnapshot :: "'w market \<Rightarrow> ('w, string) task" where
  "evmSnapshot M = node (mk_request M ''evm_snapshot'' [])"

definition evmRevert :: "'w market \<Rightarrow> string \<Rightarrow> ('w, unit) task" where
  "evmRevert M snapshotId = eff_then (node (mk_request M ''evm_revert'' [snapshotId])) (eff_return ())"

definition patched_run :: "'w market \<Rightarrow> (string \<Rightarrow> task_args \<Rightarrow> ('w, unit) task) \<Rightarrow> string \<Rightarrow> task_args \<Rightarrow> ('w, unit) task" where
  "patched_run M originalRun taskName args =
     (if ta_skipWait args then
        eff_bind (evmSnapshot M) (\<lambda>snapshotId.
        task_finally (task_catch (originalRun taskName args) (\<lambda>error. fail error)) (evmRevert M snapshotId))
      else originalRun taskName args)"

section \<open>The deployment to the test network\<close>

definition on_testnet :: "'w market \<Rightarrow> ('w, unit) task" where
  "on_testnet M =
     (if p_network (mk_platform M) \<noteq> eElectroneumNetwork_name testnet
      then fail (Error (''You need to be on electroneum testnet to run this task. Currently on ''
                        @ p_network (mk_platform M)))
      else eff_return ())"

definition deployment_tasks :: "string list" where
  "deployment_tasks =
     [''full:deploy-address-provider-registry'', ''full:deploy-address-provider'', ''full:deploy-lending-pool'',
      ''full:deploy-oracles'', ''full:deploy-data-provider'', ''full:deploy-wethgateway'']"

definition deploy_electrolend_testnet :: "'n bn \<Rightarrow> 'w market \<Rightarrow> bool \<Rightarrow> ('w, unit) task" where
  "deploy_electrolend_testnet B M verify =
     eff_then (on_testnet M)
     (eff_then (set_DRE M)
     (task_catch
       (eff_each (\<lambda>t. full_task B M t \<lparr>ta_pool = ElectroLend, ta_verify = verify, ta_skipWait = False\<rparr>)
          (deployment_tasks @ [''full:initialize-lending-pool'']))
       (\<lambda>error. fail error)))"

text \<open>Without the patch, which nothing applies, \<open>skipWait\<close> is an argument that no task reads.\<close>

definition deploy_electrolend_no_wait :: "'n bn \<Rightarrow> 'w market \<Rightarrow> ('w, unit) task" where
  "deploy_electrolend_no_wait B M =
     eff_then (on_testnet M)
     (eff_then (set_DRE M)
     (eff_bind (signer_address M) (\<lambda>deployerAddress.
     task_catch
       (eff_each (\<lambda>t. full_task B M t \<lparr>ta_pool = ElectroLend, ta_verify = False, ta_skipWait = True\<rparr>) deployment_tasks)
       (\<lambda>error. fail error))))"

definition initialize_electrolend_reserves :: "'n bn \<Rightarrow> 'w market \<Rightarrow> ('w, unit) task" where
  "initialize_electrolend_reserves B M =
     eff_then (on_testnet M)
     (eff_then (set_DRE M)
     (task_catch
       (eff_bind (node (eff_read (mk_readDeployment M))) (\<lambda>contents.
        case contents of
          None \<Rightarrow> fail (Error ''Deployment file not found. Run dev:deploy-electrolend-no-wait first.'')
        | Some json \<Rightarrow>
            eff_then (job (eff_lift (mk_parse M json)))
            (full_task B M ''initialize-lending-pool'' \<lparr>ta_pool = ElectroLend, ta_verify = False, ta_skipWait = False\<rparr>)))
       (\<lambda>error. fail error)))"

section \<open>Operating the pool\<close>

text \<open>The second signer is the emergency administrator.\<close>

definition pause_lending_pool :: "'n bn \<Rightarrow> 'w market \<Rightarrow> ConfigNames \<Rightarrow> bool \<Rightarrow> ('w, unit) task" where
  "pause_lending_pool B M pool stop =
     eff_then (set_DRE M)
     (eff_bind (job (eff_lift (loadPoolConfig B pool))) (\<lambda>poolConfig.
     eff_bind
       (case p_signers (mk_platform M) of
          _ # emergencyAdmin # _ \<Rightarrow> eff_return emergencyAdmin
        | _ \<Rightarrow> fail (TypeError ''Cannot read properties of undefined'')) (\<lambda>emergencyAdmin.
     eff_bind (job (getLendingPoolConfiguratorProxy (mk_platform M) (param_address M poolConfig ''LendingPoolConfigurator'')))
       (\<lambda>configuratorInstance.
     eff_then (transact M emergencyAdmin (h_address configuratorInstance) ''setPoolPause'' [Flag stop])
     (eff_bind (job (getLendingPool (mk_platform M) (param_address M poolConfig ''LendingPool''))) (\<lambda>lendingPoolInstance.
     eff_then (view M (h_address lendingPoolInstance) ''paused'') (eff_return ())))))))"

definition update_oas_reserve_param :: "'n bn \<Rightarrow> 'w market \<Rightarrow> ConfigNames \<Rightarrow> ('w, unit) task" where
  "update_oas_reserve_param B M pool =
     eff_then (set_DRE M)
     (eff_bind (job (eff_lift (loadPoolConfig B pool))) (\<lambda>poolConfig.
     eff_bind (job (getLendingPoolConfiguratorProxy (mk_platform M) (param_address M poolConfig ''LendingPoolConfigurator'')))
       (\<lambda>configuratorInstance.
     own M (h_address configuratorInstance) ''configureReserveAsCollateral''
       [Arg ''0x5200000000000000000000000000000000000001'', Numeral 3000, Numeral (3000 + 500), Numeral 11500])))"


section \<open>Listing an asset and the prices of the fallback oracle\<close>

definition reserveConfigs :: "'n bn \<Rightarrow> IReserveParams SymbolMap" where
  "reserveConfigs B =
     [(''strategyWETN'', strategyWETN B), (''strategyTUSDC'', strategyTUSDC B), (''strategyTUSDT'', strategyTUSDT B)]"

text \<open>The configured address of the asset when the symbol has parameters; looking it up on an unknown network throws.\<close>

definition isSymbolValid :: "'n bn \<Rightarrow> string \<Rightarrow> string \<Rightarrow> js_error + bool" where
  "isSymbolValid B symb network =
     (case map_of (reserveConfigs B) (''strategy'' @ symb) of
        None \<Rightarrow> Inr False
      | Some params \<Rightarrow>
          (case map_of (ReserveAssets (ElectroConfig B)) network of
             None \<Rightarrow> Inl (TypeError ''Cannot read properties of undefined'')
           | Some assets \<Rightarrow>
               Inr (truthy (map_of assets symb) \<and> map_of (ReservesConfig (ElectroConfig B)) symb = Some params)))"

definition LENDING_POOL_ADDRESS_PROVIDER :: "string SymbolMap" where
  "LENDING_POOL_ADDRESS_PROVIDER =
     [(''main'', ''0xb53c1a33016b2dc2ff3653530bff1848a515c8c5''),
      (''shiden'', ''0xa70fFbaFE4B048798bBCBDdfB995fcCec2D1f2CA'')]"

text \<open>
  The task reads \<open>lTokenImpl\<close> of the parameters, which have \<open>elTokenImpl\<close>: the choice of the deployment is
  called with \<open>undefined\<close>.
\<close>

definition read_lTokenImpl :: "IReserveParams \<Rightarrow> string" where
  "read_lTokenImpl strategyParams = ''undefined''"

definition deploy_new_asset :: "'n bn \<Rightarrow> 'w market \<Rightarrow> ConfigNames \<Rightarrow> string \<Rightarrow> bool \<Rightarrow> ('w, string list) task" where
  "deploy_new_asset B M pool symb verify =
     (let P = mk_platform M; network = p_network P in
      eff_bind (job (eff_lift (isSymbolValid B symb network))) (\<lambda>valid_symbol.
      if \<not> valid_symbol then fail (Error ''WRONG RESERVE ASSET SETUP'')
      else
        eff_then (eff_modify (\<lambda>s. s\<lparr>se_DRE := True\<rparr>))
        (eff_bind (job (eff_lift (loadPoolConfig B pool))) (\<lambda>poolConfig.
        let strategyParams = the (map_of (reserveConfigs B) (''strategy'' @ symb));
            reserveAssetAddress = the (map_of (the (map_of (ReserveAssets (ElectroConfig B)) network)) symb)
        in
        eff_bind (job (eff_lift (chooseELTokenDeployment P (read_lTokenImpl strategyParams)))) (\<lambda>deployCustomELToken.
        eff_bind (job (getLendingPoolAddressesProvider P (map_of LENDING_POOL_ADDRESS_PROVIDER network))) (\<lambda>addressProvider.
        eff_bind (view M (h_address addressProvider) ''getLendingPool'') (\<lambda>poolAddress.
        eff_bind (job (deployCustomELToken verify)) (\<lambda>elToken.
        let incentives = or_empty (param_address M poolConfig ''IncentivesController'') in
        eff_bind (job (deployStableDebtToken P (poolAddress, reserveAssetAddress, incentives,
                    ''ElectroLend stable debt bearing '' @ symb, ''sd'' @ symb) verify)) (\<lambda>stableDebt.
        eff_bind (job (deployVariableDebtToken P (poolAddress, reserveAssetAddress, incentives,
                    ''ElectroLend variable debt bearing '' @ symb, ''vd'' @ symb) verify)) (\<lambda>variableDebt.
        let st = strategy strategyParams in
        eff_then (job (deployDefaultReserveInterestRateStrategy P
          [h_address addressProvider, optimalUtilizationRate st, baseVariableBorrowRate st, variableRateSlope1 st,
           variableRateSlope2 st, stableRateSlope1 st, stableRateSlope2 st] verify))
        (eff_return [i_address elToken, i_address variableDebt, i_address stableDebt])))))))))))"

text \<open>The prices are looked up in the list of tokens, in which the configured assets replace empty addresses.\<close>

definition set_price_in_fallback_oracle :: "'n bn \<Rightarrow> 'w market \<Rightarrow> ('w, unit) task" where
  "set_price_in_fallback_oracle B M =
     eff_then (set_DRE M)
     (eff_bind (job (eff_lift (loadPoolConfig B ElectroLend))) (\<lambda>poolConfig.
     let P = mk_platform M;
         usd = UsdAddress (ProtocolGlobalParams poolConfig);
         reserveAssets = getParamPerNetwork (p_FORK P) (Some (ReserveAssets poolConfig)) (p_network P);
         fallbackOracleAddress = param_address M poolConfig ''FallbackOracle''
     in
     if \<not> valid M fallbackOracleAddress
     then fail (Thrown ''Fallback Oracle Address is undefined. Check configuration at config directory'')
     else
       eff_bind (job (getElectroFallbackOracle P fallbackOracleAddress)) (\<lambda>fallbackOracle.
       let allReserveAssets = js_set (case reserveAssets of None \<Rightarrow> [] | Some assets \<Rightarrow> assets) ''USD'' usd;
           defaultTokenList = js_set (map (\<lambda>tokenSymbol. (tokenSymbol, '''')) TokenContractId) ''USD'' usd
       in job (setAssetPricesInFallbackOracle (mk_setup M) (INITIAL_PRICES B)
                (foldl (\<lambda>prev (curr, asset). js_set prev curr asset) defaultTokenList allReserveAssets)
                (h_address fallbackOracle)))))"

end
