(* ===== verification/Task_Properties.thy ===== *)
theory Task_Properties
  imports Market_Tasks Pool_Admin
begin

text \<open>
  Properties of the deployment tasks: what they leave alone in the registry (locale \<open>frame\<close>, interpreted on the registry
  and on the sessions), which of them can complete, where a market is registered, what a run without waiting leaves
  behind, and whom the pause is sent to.
\<close>

section \<open>Jobs\<close>

lemma job_eq: "m (se_world s) = (r, w) \<Longrightarrow> job m s = (map_sum Threw id r, s\<lparr>se_world := w\<rparr>)"
  by (simp add: job_def)

lemma job_Inr_iff: "job m s = (Inr a, s') \<longleftrightarrow> (\<exists>w. m (se_world s) = (Inr a, w) \<and> s' = s\<lparr>se_world := w\<rparr>)"
  by (cases "m (se_world s)", cases "fst (m (se_world s))") (auto simp: job_def)

lemma job_no_exit: "job m s \<noteq> (Inl (Exited code), s')"
  by (cases "m (se_world s)", cases "fst (m (se_world s))") (auto simp: job_def)

lemma job_lift_Inr: "job (eff_lift (Inr a)) = eff_return a"
  by (rule ext) (simp add: job_def eff_simps)

lemma eff_lift_simps [simp]: "eff_lift (Inr a) = eff_return a" "eff_lift (Inl e) = eff_throw e"
  by (rule ext, simp add: eff_simps)+

lemma eff_bind_return [simp]: "eff_bind (eff_return a) f = f a"
  by (rule ext) (simp add: eff_bind_def eff_simps)

lemma eff_bind_throw [simp]: "eff_bind (eff_throw e) f = eff_throw e"
  by (rule ext) (simp add: eff_bind_def eff_simps)

lemma eff_then_return [simp]: "eff_then (eff_return a) m = m"
  by (simp add: eff_then_def)

lemma eff_then_throw [simp]: "eff_then (eff_throw e) m = eff_throw e"
  by (simp add: eff_then_def)

lemma task_catch_rethrow [simp]: "task_catch m (\<lambda>e. fail e) = m"
proof
  fix s show "task_catch m (\<lambda>e. fail e) s = m s"
    by (cases "m s", cases "fst (m s)")
      (auto simp: task_catch_def eff_catch_def fail_def exit_def eff_simps split: task_error.split)
qed

section \<open>Frames\<close>

text \<open>Worlds and sessions whose registries agree on every network but one.\<close>

definition registry_elsewhere :: "string \<Rightarrow> 'w world \<Rightarrow> 'w world \<Rightarrow> bool" where
  "registry_elsewhere n w w' \<longleftrightarrow> (\<forall>i k. k \<noteq> n \<longrightarrow> w_db w' (i, k) = w_db w (i, k))"

definition session_elsewhere :: "string \<Rightarrow> 'w session \<Rightarrow> 'w session \<Rightarrow> bool" where
  "session_elsewhere n s s' \<longleftrightarrow> registry_elsewhere n (se_world s) (se_world s')"

interpretation reg: frame "registry_elsewhere n"
  by unfold_locales (auto simp: registry_elsewhere_def)

interpretation ses: frame "session_elsewhere n"
  by unfold_locales (auto simp: registry_elsewhere_def session_elsewhere_def)

lemma frames_on_chain: "frames (registry_elsewhere n) (on_chain m)"
  by (auto simp: frames_def registry_elsewhere_def on_chain_def split: prod.splits)

lemma frames_db_set: "frames (registry_elsewhere (p_network P)) (db_set P i e)"
  by (auto simp: frames_def registry_elsewhere_def db_set_def eff_simps)

lemma frames_job: "frames (registry_elsewhere n) m \<Longrightarrow> frames (session_elsewhere n) (job m)"
  by (auto simp: frames_def session_elsewhere_def job_def split: prod.splits) (metis snd_conv)

lemma frames_DRE: "frames (session_elsewhere n) (eff_modify (\<lambda>s. s\<lparr>se_DRE := b\<rparr>))"
  by (simp add: frames_def session_elsewhere_def registry_elsewhere_def eff_simps)

text \<open>The getters and the deployments.\<close>

lemma frames_connect: "frames (registry_elsewhere n) (connect_registered P f i)"
  by (rule reg.pure) (auto simp: connect_registered_def split: option.split)

lemma frames_connect_or_db: "frames (registry_elsewhere n) (connect_or_db P f i a)"
  by (auto simp: connect_or_db_def frames_connect intro: reg.pure split: option.split)

lemma frames_fallback: "frames (registry_elsewhere n) (getContractAddressWithJsonFallback B P i pool)"
  by (rule reg.pure) (auto simp: getContractAddressWithJsonFallback_def Let_def intro!: eff_pure_bind)

lemma frames_registry: "frames (registry_elsewhere n) (getLendingPoolAddressesProviderRegistry P a)"
  by (auto simp: getLendingPoolAddressesProviderRegistry_def frames_connect intro: reg.pure)

lemma frames_save: "frames (registry_elsewhere (p_network P)) (withSaveAndVerify P inst i args v now)"
  unfolding withSaveAndVerify_def registerContractInJsonDb_def verifyContract_def
  by (rule reg.rules reg.pure eff_pure_basic frames_on_chain frames_db_set)+

lemma frames_deploy_and_save: "frames (registry_elsewhere (p_network P)) (deploy_and_save P f dargs i args v)"
  unfolding deploy_and_save_def by (rule reg.rules frames_on_chain frames_save)+

lemmas frames_basic =
  reg.rules frames_on_chain frames_db_set frames_connect frames_connect_or_db frames_fallback frames_registry frames_save
  frames_deploy_and_save


lemmas deployment_defs =
  simple_deployments implementation_deployments deployLendingPoolAddressesProviderRegistry_def
  deployUiPoolDataProviderV2_def deployUiIncentiveDataProviderV2_def deployElectroLibraries_def
  deployValidationLogic_def deployDelegationAwareELTokenImpl_def deployRateStrategy_def
  insertContractAddressInDb_def rawInsertContractAddressInDb_def authorizeWETHGateway_def

lemma frames_deployments:
  "frames (registry_elsewhere (p_network P)) (deployLendingPoolAddressesProviderRegistry P a v)"
  "frames (registry_elsewhere (p_network P)) (deployLendingPoolAddressesProvider P a o' v)"
  "frames (registry_elsewhere (p_network P)) (deployLendingPool P v)"
  "frames (registry_elsewhere (p_network P)) (deployLendingPoolConfigurator P v)"
  "frames (registry_elsewhere (p_network P)) (deployLendingPoolCollateralManager P v)"
  "frames (registry_elsewhere (p_network P)) (deployStableAndVariableTokensHelper P o' v)"
  "frames (registry_elsewhere (p_network P)) (deployELTokensAndRatesHelper P o' v)"
  "frames (registry_elsewhere (p_network P)) (deployElectroFallbackOracle P o' v)"
  "frames (registry_elsewhere (p_network P)) (deployElectroOracle P args v)"
  "frames (registry_elsewhere (p_network P)) (deployLendingRateOracle P o' v)"
  "frames (registry_elsewhere (p_network P)) (deployElectroProtocolDataProvider P v)"
  "frames (registry_elsewhere (p_network P)) (deployWETHGateway P args v)"
  "frames (registry_elsewhere (p_network P)) (deployWETHMocked P v)"
  "frames (registry_elsewhere (p_network P)) (deployWalletBalancerProvider P v)"
  "frames (registry_elsewhere (p_network P)) (deployUiPoolDataProviderV2 P v)"
  "frames (registry_elsewhere (p_network P)) (deployUiIncentiveDataProviderV2 P v)"
  "frames (registry_elsewhere (p_network P)) (deployGenericStableDebtToken P v)"
  "frames (registry_elsewhere (p_network P)) (deployGenericVariableDebtToken P v)"
  "frames (registry_elsewhere (p_network P)) (deployGenericELTokenImpl P v)"
  "frames (registry_elsewhere (p_network P)) (deployDelegationAwareELTokenImpl P v)"
  "frames (registry_elsewhere (p_network P)) (deployRateStrategy P a args v)"
  "frames (registry_elsewhere (p_network P)) (authorizeWETHGateway P a b)"
  unfolding deployment_defs by (rule frames_basic reg.pure eff_pure_basic)+


lemma frames_implementation:
  "frames (registry_elsewhere (p_network P)) (deployELTokenImplementation P poolConfig verify implementation)"
  unfolding deployELTokenImplementation_def Let_def chooseELTokenDeployment_def
  by (auto intro!: reg.after frames_deployments reg.pure[OF eff_pure_basic(1)] reg.pure[OF eff_pure_basic(2)])

lemma frames_implementations:
  "frames (registry_elsewhere (p_network P)) (deployELTokenImplementations B P pool reserves verify)"
  unfolding deployELTokenImplementations_def
  by (rule frames_basic frames_implementation frames_deployments reg.pure eff_pure_basic)+

lemma frames_currencies:
  "frames (registry_elsewhere (p_network P)) (getWrappedNativeTokenAddress P config)"
  "frames (registry_elsewhere (p_network P)) (getQuoteCurrency P config)"
  unfolding getQuoteCurrency_def getWrappedNativeTokenAddress_def Let_def
  by (rule frames_basic frames_deployments reg.pure eff_pure_basic)+

lemma frames_ensure_strategy:
  "frames (registry_elsewhere (p_network (su_platform S))) (ensure_strategy S provider st verify strategies)"
  unfolding ensure_strategy_def rawInsertContractAddressInDb_def
  by (rule frames_basic frames_deployments reg.pure eff_pure_basic)+

lemma frames_init_reserve_input: "frames (registry_elsewhere n) (init_reserve_input B S N t params a b)"
  unfolding init_reserve_input_def require_def
  by (rule frames_basic reg.pure eff_pure_basic)+

lemma frames_init_inputs:
  "frames (registry_elsewhere (p_network (su_platform S)))
     (init_inputs B S N provider verify tokenAddresses reserves strategies)"
proof (induction reserves arbitrary: strategies)
  case (Cons r reserves)
  then show ?case
    by (cases r, simp only: init_inputs.simps)
      (rule reg.choice reg.bind frames_ensure_strategy frames_init_reserve_input Cons reg.pure eff_pure_basic)+
qed (simp add: reg.pure)

lemma frames_reserves:
  "frames (registry_elsewhere (p_network (su_platform S)))
     (initReservesByHelper B S N reservesParams tokenAddresses verify a b strategies)"
  "frames (registry_elsewhere n) (configureReservesByHelper S reservesParams tokenAddresses helpers admin a b)"
  "frames (registry_elsewhere n) (setInitialMarketRatesInRatesOracleByHelper S rates assets oracle' admin)"
  unfolding initReservesByHelper_def configureReservesByHelper_def setInitialMarketRatesInRatesOracleByHelper_def
    getLendingPoolAddressesProvider_def getLendingPoolConfiguratorProxy_def getELTokensAndRatesHelper_def
    getStableAndVariableTokensHelper_def send_def
  by (rule frames_basic frames_init_inputs config_inputs_pure reg.pure eff_pure_basic)+

section \<open>The registry of other networks\<close>

lemma frames_node: "frames (session_elsewhere n) (node m)"
  unfolding node_def by (intro frames_job frames_on_chain)

lemma frames_fail: "frames (session_elsewhere n) (fail e)" "frames (session_elsewhere n) (exit code)"
  by (simp_all add: fail_def exit_def ses.pure)

lemma frames_signer: "frames (session_elsewhere n) (signer_address M)"
  unfolding signer_address_def by (rule ses.option_case frames_fail ses.pure eff_pure_basic)+

lemma frames_calls:
  "frames (session_elsewhere n) (view M address method)"
  "frames (session_elsewhere n) (transact M signer address method args)"
  "frames (session_elsewhere n) (own M address method args)"
  unfolding view_def transact_def own_def by (rule ses.bind frames_node frames_signer)+

lemma frames_set_DRE: "frames (session_elsewhere n) (set_DRE M)"
  unfolding set_DRE_def by (rule ses.rules frames_node frames_DRE ses.pure eff_pure_basic)+

lemma frames_task_catch:
  "frames (session_elsewhere n) m \<Longrightarrow> (\<And>e. frames (session_elsewhere n) (h e)) \<Longrightarrow> frames (session_elsewhere n) (task_catch m h)"
  unfolding task_catch_def by (rule ses.caught) (auto simp: frames_fail split: task_error.split)

lemmas frames_task =
  ses.rules frames_job frames_node frames_fail frames_signer frames_calls frames_set_DRE frames_task_catch

lemma frames_lift: "frames (registry_elsewhere n) (eff_lift r)"
  by (simp add: reg.pure)

lemmas frames_world =
  frames_lift frames_deployments frames_implementations frames_currencies frames_reserves frames_connect_or_db frames_registry
  frames_db_set

lemmas getter_defs =
  getLendingPoolAddressesProvider_def getLendingPool_def getLendingPoolConfiguratorProxy_def getWETHGateway_def
  getElectroProtocolDataProvider_def

lemma frames_registry_task:
  "frames (session_elsewhere (p_network (mk_platform M))) (deploy_address_provider_registry B M pool verify)"
  unfolding deploy_address_provider_registry_def Let_def
  by (rule frames_task frames_world ses.pure eff_pure_basic)+

lemma frames_add_market:
  "frames (session_elsewhere (p_network (mk_platform M))) (add_market_to_registry B M pool verify provider deployRegistry)"
  unfolding add_market_to_registry_def choose_registry_def registry_signer_def Let_def getter_defs
  by (rule frames_task frames_registry_task frames_world ses.pure eff_pure_basic)+

lemma frames_provider_task:
  "frames (session_elsewhere (p_network (mk_platform M))) (deploy_address_provider B M pool verify skipRegistry)"
  unfolding deploy_address_provider_def
  by (rule frames_task frames_add_market frames_world ses.pure eff_pure_basic)+

lemma frames_lending_pool_task:
  "frames (session_elsewhere (p_network (mk_platform M))) (deploy_lending_pool B M pool verify)"
  unfolding deploy_lending_pool_def lending_pool_steps_def lending_pool_implementation_def configurator_implementation_def
    getter_defs insertContractAddressInDb_def
  by (rule frames_task frames_world ses.pure eff_pure_basic)+

lemma oracles_stop:
  "oracles_steps B M pool verify =
     eff_then (set_DRE M)
     (eff_bind (job (eff_lift (loadPoolConfig B pool))) (\<lambda>poolConfig.
     eff_bind (job (eff_lift (getLendingRateOracles (mk_platform M) poolConfig))) (\<lambda>lendingRateOracles.
     eff_bind (job (getLendingPoolAddressesProvider (mk_platform M) None)) (\<lambda>addressesProvider.
     eff_bind (use_or_deploy M (param_address M poolConfig ''SimplePriceFeed'') (not_a_function ''deploySimplePriceFeed''))
       (\<lambda>simplePriceFeed. not_a_function ''deploySimplePriceFeedAdapter'')))))"
  by (simp add: oracles_steps_def deploySimplePriceFeedAdapter_def deploySimplePriceFeed_def not_a_function_def fail_def Let_def)

lemma frames_oracles_task: "frames (session_elsewhere (p_network (mk_platform M))) (deploy_oracles B M pool verify)"
  unfolding deploy_oracles_def oracles_stop use_or_deploy_def not_a_function_def getter_defs
  by (rule frames_task frames_world ses.pure eff_pure_basic)+


lemma frames_late_tasks:
  "frames (session_elsewhere (p_network (mk_platform M))) (data_provider M verify)"
  "frames (session_elsewhere (p_network (mk_platform M))) (deploy_weth_gateway B M pool verify)"
  "frames (session_elsewhere (p_network (mk_platform M))) (initialize_lending_pool B M pool verify)"
  unfolding data_provider_def deploy_weth_gateway_def initialize_lending_pool_def initialize_steps_def use_or_deploy_def
    deployed_address_def Let_def getter_defs
  by (rule frames_task frames_world ses.pure eff_pure_basic)+

lemma frames_full_task: "frames (session_elsewhere (p_network (mk_platform M))) (full_task B M taskName args)"
  unfolding full_task_def
  by (rule ses.choice frames_registry_task frames_provider_task frames_lending_pool_task frames_oracles_task
      frames_late_tasks frames_fail)+

lemma frames_deployments_of_tasks:
  "frames (session_elsewhere (p_network (mk_platform M))) (deploy_electrolend_testnet B M verify)"
  "frames (session_elsewhere (p_network (mk_platform M))) (deploy_electrolend_no_wait B M)"
  unfolding deploy_electrolend_testnet_def deploy_electrolend_no_wait_def on_testnet_def
  by (rule frames_task frames_full_task ses.pure eff_pure_basic)+

text \<open>
  C24. Whatever a task of the full deployment does and however it ends, the addresses registered for the other networks stay
  as they are; so do the two deployments to the test network.
\<close>

theorem tasks_keep_other_networks:
  assumes "t = full_task B M taskName args \<or> t = deploy_electrolend_testnet B M verify \<or> t = deploy_electrolend_no_wait B M"
    and "t s = (r, s')" and "n \<noteq> p_network (mk_platform M)"
  shows "w_db (se_world s') (i, n) = w_db (se_world s) (i, n)"
proof -
  have "frames (session_elsewhere (p_network (mk_platform M))) t"
    using assms(1) frames_full_task frames_deployments_of_tasks by blast
  then have "session_elsewhere (p_network (mk_platform M)) s (snd (t s))" by (simp add: frames_def)
  then show ?thesis using assms(2,3) by (simp add: session_elsewhere_def registry_elsewhere_def)
qed

section \<open>The deployments that do not complete\<close>

lemma eff_each_Inr_all:
  "eff_each f xs s = (Inr u, s') \<Longrightarrow> x \<in> set xs \<Longrightarrow> \<exists>v v'. f x v = (Inr (), v')"
  by (induction xs arbitrary: s) (auto simp: eff_then_Inr_iff)

lemma not_Inr_iff: "(\<exists>e. fst p = Inl e) \<longleftrightarrow> (\<forall>a s'. p \<noteq> (Inr a, s'))"
  by (cases p, cases "fst p") auto

lemma unknown_task:
  "full_task B M ''full:deploy-data-provider'' args v \<noteq> (Inr (), v')"
  "full_task B M ''initialize-lending-pool'' args v \<noteq> (Inr (), v')"
  by (simp_all add: full_task_def fail_def eff_simps)

lemma oracles_fail: "oracles_steps B M pool verify s \<noteq> (Inr u, s')"
  by (auto simp: oracles_stop eff_result_iff not_a_function_def fail_def eff_simps)

text \<open>The market with another way to send the transactions that set up reserves.\<close>

definition with_send :: "(setup_call \<Rightarrow> ('w, js_error, unit) eff) \<Rightarrow> 'w market \<Rightarrow> 'w market" where
  "with_send f M = M\<lparr>mk_setup := (mk_setup M)\<lparr>su_send := f\<rparr>\<rparr>"

lemma with_send_simps [simp]:
  "mk_platform (with_send f M) = mk_platform M" "view (with_send f M) = view M"
  "transact (with_send f M) = transact M" "set_DRE (with_send f M) = set_DRE M"
  "mk_request (with_send f M) = mk_request M" "mk_pay (with_send f M) = mk_pay M"
  "signer_address (with_send f M) = signer_address M" "param_address (with_send f M) = param_address M"
  "own (with_send f M) = own M" "valid (with_send f M) = valid M" "on_testnet (with_send f M) = on_testnet M"
  by (cases M, simp_all add: with_send_def fun_eq_iff view_def transact_def set_DRE_def signer_address_def param_address_def
      own_def valid_def on_testnet_def cong: if_cong)

lemma with_send_tasks:
  "deploy_address_provider_registry B (with_send f M) pool verify = deploy_address_provider_registry B M pool verify"
  "add_market_to_registry B (with_send f M) pool verify provider dr = add_market_to_registry B M pool verify provider dr"
  "deploy_address_provider B (with_send f M) pool verify skip = deploy_address_provider B M pool verify skip"
  "deploy_lending_pool B (with_send f M) pool verify = deploy_lending_pool B M pool verify"
  "deploy_oracles B (with_send f M) pool verify = deploy_oracles B M pool verify"
  unfolding deploy_address_provider_registry_def add_market_to_registry_def choose_registry_def registry_signer_def
    deploy_address_provider_def deploy_lending_pool_def lending_pool_steps_def lending_pool_implementation_def
    configurator_implementation_def deploy_oracles_def oracles_stop use_or_deploy_def with_send_simps
  by (rule refl)+

text \<open>
  C25. No run of the two deployments to the test network completes, and neither does the deployment of the oracles or the
  initialization of the reserves after a deployment: names of tasks and functions that do not exist are reached at the latest.
  The deployment never comes to the initialization of the reserves: its effect does not depend on how the
  transactions that set up reserves are sent.
\<close>

theorem testnet_deployment_incomplete:
  "(\<exists>e. fst (deploy_electrolend_testnet B M verify s) = Inl e)
   \<and> (\<exists>e. fst (deploy_electrolend_no_wait B M s) = Inl e)
   \<and> (\<exists>e. fst (initialize_electrolend_reserves B M s) = Inl e)
   \<and> (\<exists>e. fst (deploy_oracles B M pool verify s) = Inl e)
   \<and> deploy_electrolend_testnet B (with_send f M) verify s = deploy_electrolend_testnet B M verify s"
proof -
  have last: "eff_each (\<lambda>t. full_task B M t args) (deployment_tasks @ ts) v \<noteq> (Inr u, v')" for args ts v u v'
    using eff_each_Inr_all[of "\<lambda>t. full_task B M t args" "deployment_tasks @ ts" v u v' "''full:deploy-data-provider''"]
      unknown_task(1) by (fastforce simp: deployment_tasks_def)
  have stop: "eff_each (\<lambda>t. full_task B M' t args) (deployment_tasks @ ts)
      = eff_each (\<lambda>t. full_task B M' t args)
          [''full:deploy-address-provider-registry'', ''full:deploy-address-provider'', ''full:deploy-lending-pool'',
           ''full:deploy-oracles'', ''full:deploy-data-provider'']" for M' args ts
    by (simp add: deployment_tasks_def full_task_def fail_def)
  have same: "full_task B (with_send f M) t args = full_task B M t args" if "t \<in> set deployment_tasks" for t args
    using that by (auto simp: deployment_tasks_def full_task_def with_send_tasks)
  have "deploy_electrolend_testnet B (with_send f M) verify = deploy_electrolend_testnet B M verify"
    unfolding deploy_electrolend_testnet_def stop with_send_simps eff_each.simps by (simp add: same deployment_tasks_def)
  moreover have "deploy_electrolend_no_wait B M s \<noteq> (Inr u, s')" for u s'
    using last[of _ "[]"] by (simp add: deploy_electrolend_no_wait_def eff_result_iff)
  moreover have "initialize_electrolend_reserves B M s \<noteq> (Inr u, s')" for u s'
    unfolding initialize_electrolend_reserves_def task_catch_rethrow
    by (auto simp: eff_result_iff unknown_task fail_def eff_simps split: option.splits)
  ultimately show ?thesis
    using last by (simp add: not_Inr_iff deploy_electrolend_testnet_def eff_result_iff deploy_oracles_def oracles_fail)
qed


section \<open>Registering a market\<close>

lemma loaded_config:
  "pool \<in> {Commons, ElectroLend} \<Longrightarrow> loadPoolConfig B pool = Inr (if pool = Commons then CommonsConfig B else ElectroConfig B)"
  by (auto simp: loadPoolConfig_def)

lemma map_of_range: "map_of p k = Some a \<Longrightarrow> a \<in> snd ` set p"
  by (auto dest!: map_of_SomeD simp: rev_image_eqI)

lemma getParamPerNetwork_range: "getParamPerNetwork FORK (Some param) network = Some a \<Longrightarrow> a \<in> snd ` set param"
  unfolding getParamPerNetwork_def option.case
  by (simp only: split: if_split_asm) (erule map_of_range | simp only: option.distinct)+

lemma shipped_fields:
  "ProviderRegistry (CommonsConfig B) = Commons_ProviderRegistry"
  "ProviderRegistry (ElectroConfig B) = Commons_ProviderRegistry"
  "LendingPoolConfigurator (CommonsConfig B) = Commons_LendingPoolConfigurator"
  "LendingPoolConfigurator (ElectroConfig B) = Commons_LendingPoolConfigurator"
  by (simp_all add: ElectroConfig_def CommonsConfig_def)

lemma shipped_addresses:
  assumes "poolConfig \<in> {CommonsConfig B, ElectroConfig B}"
  shows "map_of (pool_addresses poolConfig) ''ProviderRegistry'' = Some Commons_ProviderRegistry"
    and "map_of (pool_addresses poolConfig) ''LendingPoolConfigurator'' = Some Commons_LendingPoolConfigurator"
    and "map_of (pool_addresses poolConfig) ''LendingPool'' = None"
proof -
  have c: "poolConfig = CommonsConfig B \<or> poolConfig = ElectroConfig B" using assms by blast
  have "ProviderRegistry poolConfig = Commons_ProviderRegistry"
    "LendingPoolConfigurator poolConfig = Commons_LendingPoolConfigurator"
    by (rule disjE[OF c]; simp only: shipped_fields)+
  then show "map_of (pool_addresses poolConfig) ''ProviderRegistry'' = Some Commons_ProviderRegistry"
    "map_of (pool_addresses poolConfig) ''LendingPoolConfigurator'' = Some Commons_LendingPoolConfigurator"
    "map_of (pool_addresses poolConfig) ''LendingPool'' = None"
    by (simp_all add: pool_addresses_def)
qed

lemma no_registry_configured:
  assumes "poolConfig \<in> {CommonsConfig B, ElectroConfig B}"
  shows "\<not> valid M (param_address M poolConfig ''ProviderRegistry'')"
proof -
  have "snd ` set Commons_ProviderRegistry = {''''}" by (simp add: Commons_ProviderRegistry_def)
  then have "a = ''''" if "param_address M poolConfig ''ProviderRegistry'' = Some a" for a
    using getParamPerNetwork_range[OF that[unfolded param_address_def shipped_addresses(1)[OF assms]]] by simp
  then show ?thesis
    by (cases "param_address M poolConfig ''ProviderRegistry''") (simp_all add: valid_def notFalsyOrZeroAddress_def)
qed

text \<open>The owner of a new registry: the configured one, or the first signer.\<close>

definition new_owner :: "'w market \<Rightarrow> PoolConfiguration \<Rightarrow> string \<Rightarrow> string" where
  "new_owner M poolConfig signer =
     (let configuredOwner = param_address M poolConfig ''ProviderRegistryOwner''
      in if truthy configuredOwner then the configuredOwner else signer)"

lemma new_registry:
  assumes "poolConfig \<in> {CommonsConfig B, ElectroConfig B}" "loadPoolConfig B pool = Inr poolConfig"
    and "getFirstSigner (mk_platform M) = Some signer"
    and "choose_registry B M pool verify deployRegistry poolConfig s = (Inr (registry, owner, deployed), s')"
  shows "deployed \<and> owner = Some signer
    \<and> (\<exists>inst c c'. p_deploy (mk_platform M) ''LendingPoolAddressesProviderRegistryFactory'' []
          [Arg (new_owner M poolConfig signer)] c = (Inr inst, c')
        \<and> registry = Some (i_address inst)
        \<and> map_option db_address (w_db (se_world s') (''LendingPoolAddressesProviderRegistry'', p_network (mk_platform M)))
            = Some (i_address inst))"
proof -
  from assms obtain s1 s2 h where
    task: "deploy_address_provider_registry B M pool verify s = (Inr (), s1)"
    and get: "job (getLendingPoolAddressesProviderRegistry (mk_platform M) None) s1 = (Inr h, s2)"
    and res: "registry = Some (h_address h)" "owner = Some signer" "deployed" "s' = s2"
    by (auto simp: choose_registry_def no_registry_configured eff_result_iff signer_address_def eff_simps)
  from task obtain s0 inst w where
    inst: "deployLendingPoolAddressesProviderRegistry (mk_platform M) (new_owner M poolConfig signer) verify (se_world s0) = (Inr inst, w)"
    and s1: "s1 = s0\<lparr>se_world := w\<rparr>"
    using assms(2,3) no_registry_configured[OF assms(1), where M = M]
    by (auto simp: deploy_address_provider_registry_def eff_result_iff job_lift_Inr signer_address_def eff_simps Let_def
        new_owner_def job_Inr_iff)
  have reg: "map_option db_address (w_db w (''LendingPoolAddressesProviderRegistry'', p_network (mk_platform M)))
      = Some (i_address inst)"
    using inst registersD[OF registers_deploy_and_save] by (simp add: deployLendingPoolAddressesProviderRegistry_def)
  have "h_address h = i_address inst" "se_world s2 = w"
    using get connect_registered_eq[OF reg]
    by (auto simp: job_Inr_iff getLendingPoolAddressesProviderRegistry_def notFalsyOrZeroAddress_def s1)
  moreover obtain c c' where "p_deploy (mk_platform M) ''LendingPoolAddressesProviderRegistryFactory'' []
          [Arg (new_owner M poolConfig signer)] c = (Inr inst, c')"
    using inst by (auto simp: deployLendingPoolAddressesProviderRegistry_def deploy_and_save_def eff_bind_Inr_iff
        on_chain_Inr_iff dest!: withSaveAndVerify_Inr)
  ultimately show ?thesis using reg res by auto
qed


text \<open>Tasks that do not leave the process.\<close>

abbreviation no_exit :: "('w, 'a) task \<Rightarrow> bool" where
  "no_exit \<equiv> eff_no_errors (\<lambda>e. \<exists>code. e = Exited code)"

lemma no_exitD: "no_exit m \<Longrightarrow> m s \<noteq> (Inl (Exited code), s')"
  by (auto simp: eff_no_errors_def)

lemma no_exit_then: "no_exit m \<Longrightarrow> no_exit m' \<Longrightarrow> no_exit (eff_then m m')"
  by (simp add: eff_then_def eff_no_errors_bind)

lemma no_exit_basic: "no_exit (job m)" "no_exit (node c)" "no_exit (fail e)" "no_exit (signer_address M)"
  "no_exit (transact M signer address method args)"
  by (auto simp: eff_no_errors_def node_def transact_def fail_def signer_address_def job_no_exit eff_simps split: option.splits)

lemma no_exit_choice: "no_exit m \<Longrightarrow> no_exit m' \<Longrightarrow> no_exit (if b then m else m')"
  by simp

lemma no_exit_set_DRE: "no_exit (set_DRE M)"
  unfolding set_DRE_def
  by (rule eff_no_errors_bind no_exit_then no_exit_basic no_exit_choice eff_no_errors_basic)+

lemma no_exit_registry_task: "no_exit (deploy_address_provider_registry B M pool verify)"
  unfolding deploy_address_provider_registry_def Let_def
  by (rule eff_no_errors_bind no_exit_then no_exit_basic no_exit_choice no_exit_set_DRE eff_no_errors_basic)+

lemma no_exit_choose: "no_exit (choose_registry B M pool verify deployRegistry poolConfig)"
  unfolding choose_registry_def Let_def
  by (rule eff_no_errors_bind no_exit_then no_exit_basic no_exit_choice no_exit_registry_task eff_no_errors_basic)+

lemma registry_signer_deployed:
  assumes "\<not> truthy (p_FORK (mk_platform M))"
  shows "registry_signer M (Some owner) True current
    = (if valid M (Some owner) then eff_return owner
       else fail (Error ''config.ProviderRegistryOwner is missing or is not an address.''))"
  using assms by (simp add: registry_signer_def Let_def)

lemma add_market_run:
  assumes "pool \<in> {Commons, ElectroLend}" and "poolConfig = (if pool = Commons then CommonsConfig B else ElectroConfig B)"
    and "getFirstSigner (mk_platform M) = Some signer"
  shows "add_market_to_registry B M pool verify addressesProvider deployRegistry =
     eff_then (set_DRE M)
     (eff_bind (choose_registry B M pool verify deployRegistry poolConfig)
       (\<lambda>(providerRegistryAddress, providerRegistryOwner, deployed).
     eff_bind (registry_signer M providerRegistryOwner deployed (toLowerCase signer)) (\<lambda>signer'.
     eff_bind (job (getLendingPoolAddressesProviderRegistry (mk_platform M) providerRegistryAddress)) (\<lambda>addressesProviderRegistry.
     eff_bind (job (getLendingPoolAddressesProvider (mk_platform M) addressesProvider)) (\<lambda>addressesProviderInstance.
     transact M signer' (h_address addressesProviderRegistry) ''registerAddressesProvider''
       [Arg (h_address addressesProviderInstance), Numeral (ProviderId poolConfig)])))))"
  unfolding add_market_to_registry_def loaded_config[OF assms(1)] assms(2)[symmetric] job_lift_Inr eff_bind_return
    signer_address_def assms(3) option.case ..

text \<open>
  C26. With the configurations of the repository, and not on a fork, the check that the signer owns the registry never ends
  the process: a new registry is always deployed, for the configured owner. When the task completes, the new registry is
  the registered one, and the last transaction registers the market in it, sent by the first signer, who need not be that owner.
\<close>

theorem market_gets_new_registry:
  assumes "pool \<in> {Commons, ElectroLend}" and "poolConfig = (if pool = Commons then CommonsConfig B else ElectroConfig B)"
    and "getFirstSigner (mk_platform M) = Some signer" and "\<not> truthy (p_FORK (mk_platform M))"
    and "add_market_to_registry B M pool verify addressesProvider deployRegistry s = (r, s')"
  shows "(\<forall>code. r \<noteq> Inl (Exited code))
    \<and> (r = Inr () \<longrightarrow>
        (\<exists>inst c c' c'' provider.
           p_deploy (mk_platform M) ''LendingPoolAddressesProviderRegistryFactory'' []
             [Arg (new_owner M poolConfig signer)] c = (Inr inst, c')
         \<and> map_option db_address (w_db (se_world s') (''LendingPoolAddressesProviderRegistry'', p_network (mk_platform M)))
             = Some (i_address inst)
         \<and> mk_transact M signer (i_address inst) ''registerAddressesProvider''
             [Arg provider, Numeral (ProviderId poolConfig)] c'' = (Inr (), w_chain (se_world s'))))"
proof -
  have cfg: "poolConfig \<in> {CommonsConfig B, ElectroConfig B}" "loadPoolConfig B pool = Inr poolConfig"
    using assms(1,2) loaded_config[OF assms(1), where B = B] by auto
  note run = assms(5)[unfolded add_market_run[OF assms(1-3)]]
  note new = new_registry[OF cfg assms(3)]
  define rest where "rest = (\<lambda>registry owner deployed. eff_bind (registry_signer M owner deployed (toLowerCase signer)) (\<lambda>signer'.
        eff_bind (job (getLendingPoolAddressesProviderRegistry (mk_platform M) registry)) (\<lambda>addressesProviderRegistry.
        eff_bind (job (getLendingPoolAddressesProvider (mk_platform M) addressesProvider)) (\<lambda>addressesProviderInstance.
        transact M signer' (h_address addressesProviderRegistry) ''registerAddressesProvider''
          [Arg (h_address addressesProviderInstance), Numeral (ProviderId poolConfig)]))))"
  have run': "eff_then (set_DRE M) (eff_bind (choose_registry B M pool verify deployRegistry poolConfig)
      (\<lambda>(registry, owner, deployed). rest registry owner deployed)) s = (r, s')"
    using run by (simp only: rest_def)
  have "r \<noteq> Inl (Exited code)" for code
  proof
    assume "r = Inl (Exited code)"
    then obtain s1 registry owner deployed s2 where
      c: "choose_registry B M pool verify deployRegistry poolConfig s1 = (Inr (registry, owner, deployed), s2)"
      and rest: "rest registry owner deployed s2 = (Inl (Exited code), s')"
      using run' by (auto simp: eff_then_Inl_iff eff_bind_Inl_iff no_exitD[OF no_exit_set_DRE] no_exitD[OF no_exit_choose])
    have "no_exit (registry_signer M owner deployed (toLowerCase signer))"
      using new[OF c] registry_signer_deployed[OF assms(4)] no_exit_basic(3) by auto
    then have "no_exit (rest registry owner deployed)"
      unfolding rest_def by (rule eff_no_errors_bind) (rule eff_no_errors_bind no_exit_basic)+
    then show False using rest no_exitD by blast
  qed
  moreover have "\<exists>inst c c' c'' provider.
           p_deploy (mk_platform M) ''LendingPoolAddressesProviderRegistryFactory'' []
             [Arg (new_owner M poolConfig signer)] c = (Inr inst, c')
         \<and> map_option db_address (w_db (se_world s') (''LendingPoolAddressesProviderRegistry'', p_network (mk_platform M)))
             = Some (i_address inst)
         \<and> mk_transact M signer (i_address inst) ''registerAddressesProvider''
             [Arg provider, Numeral (ProviderId poolConfig)] c'' = (Inr (), w_chain (se_world s'))"
    if "r = Inr ()"
  proof -
    from run' that obtain s1 registry owner deployed s2 where
      c: "choose_registry B M pool verify deployRegistry poolConfig s1 = (Inr (registry, owner, deployed), s2)"
      and rest: "rest registry owner deployed s2 = (Inr (), s')"
      by (auto simp: eff_then_Inr_iff eff_bind_Inr_iff)
    obtain inst c1 c1' where n: "deployed" "owner = Some signer" "registry = Some (i_address inst)"
      "p_deploy (mk_platform M) ''LendingPoolAddressesProviderRegistryFactory'' []
          [Arg (new_owner M poolConfig signer)] c1 = (Inr inst, c1')"
      and db: "map_option db_address (w_db (se_world s2) (''LendingPoolAddressesProviderRegistry'', p_network (mk_platform M)))
            = Some (i_address inst)"
      using new[OF c] by blast
    have signed: "registry_signer M owner deployed (toLowerCase signer) s2 = (Inr a, s3) \<Longrightarrow> a = signer \<and> s3 = s2" for a s3
      using registry_signer_deployed[OF assms(4)] n(1,2) by (auto simp: fail_def eff_simps split: if_splits)
    have "getLendingPoolAddressesProviderRegistry (mk_platform M) registry (se_world s2) = (Inr h, w) \<Longrightarrow>
        h_address h = i_address inst \<and> w = se_world s2" for h w
      using connect_registered_eq[OF db]
      by (auto simp: getLendingPoolAddressesProviderRegistry_def n(3) eff_simps split: if_splits)
    then obtain provider s4 where
      t: "transact M signer (i_address inst) ''registerAddressesProvider'' [Arg provider, Numeral (ProviderId poolConfig)] s4
        = (Inr (), s')" and s4: "se_world s4 = se_world s2"
      using rest[unfolded rest_def] signed
      by (fastforce simp: eff_bind_Inr_iff job_Inr_iff dest: eff_pureD[OF getters_pure(4)])
    from t obtain c'' where "mk_transact M signer (i_address inst) ''registerAddressesProvider''
        [Arg provider, Numeral (ProviderId poolConfig)] c'' = (Inr (), w_chain (se_world s'))"
      and "w_db (se_world s') = w_db (se_world s4)"
      by (auto simp: transact_def node_def job_Inr_iff on_chain_Inr_iff)
    then show ?thesis using n(4) db s4 by auto
  qed
  ultimately show ?thesis by blast
qed


section \<open>Running without waiting\<close>

text \<open>
  With the patch and \<open>skipWait\<close> a task that ends, with a value or an error, ends in the same way, but on a node that
  returns to its snapshot nothing of what it did to the chain is left; the registry keeps what it has written.
\<close>

theorem skip_wait_undoes:
  assumes "ta_skipWait args"
    and "mk_request M ''evm_snapshot'' [] (w_chain (se_world s)) = (Inr snapshotId, c)"
    and "\<And>c'. mk_request M ''evm_revert'' [snapshotId] c' = (Inr answer, reverted)"
    and "full_task B M taskName args (s\<lparr>se_world := (se_world s)\<lparr>w_chain := c\<rparr>\<rparr>) = (r, s')" and "\<forall>code. r \<noteq> Inl (Exited code)"
  shows "patched_run M (full_task B M) taskName args s = (r, s'\<lparr>se_world := (se_world s')\<lparr>w_chain := reverted\<rparr>\<rparr>)"
proof -
  have snapshot: "evmSnapshot M s = (Inr snapshotId, s\<lparr>se_world := (se_world s)\<lparr>w_chain := c\<rparr>\<rparr>)"
    using assms(2) by (simp add: evmSnapshot_def node_def job_def on_chain_def)
  have revert: "evmRevert M snapshotId t = (Inr (), t\<lparr>se_world := (se_world t)\<lparr>w_chain := reverted\<rparr>\<rparr>)" for t
    using assms(3) by (simp add: evmRevert_def node_def job_def on_chain_def eff_then_def eff_bind_def eff_simps)
  show ?thesis
    using assms(1,4,5)
    by (cases r; cases "projl r")
      (auto simp: patched_run_def eff_bind_def snapshot task_finally_def eff_then_def revert fail_def eff_simps)
qed

section \<open>Pausing the pool\<close>

lemma shipped_configurator:
  assumes "poolConfig \<in> {CommonsConfig B, ElectroConfig B}" and "\<not> truthy (p_FORK (mk_platform M))"
    and "p_network (mk_platform M) \<in> set [eElectroneumNetwork_name testnet, eElectroneumNetwork_name mainnet,
       eEthereumNetwork_name coverage, eEthereumNetwork_name buidlerevm, eEthereumNetwork_name hardhat,
       eEthereumNetwork_name tenderly]"
  shows "param_address M poolConfig ''LendingPoolConfigurator'' = Some ZERO_ADDRESS"
proof -
  have "getParamPerNetwork FORK (Some Commons_LendingPoolConfigurator) n = Some ZERO_ADDRESS"
    if "\<not> truthy FORK" and "n \<in> set [eElectroneumNetwork_name testnet, eElectroneumNetwork_name mainnet,
       eEthereumNetwork_name coverage, eEthereumNetwork_name buidlerevm, eEthereumNetwork_name hardhat,
       eEthereumNetwork_name tenderly]" for FORK n
    using that by (auto simp: getParamPerNetwork_def Commons_LendingPoolConfigurator_def)
  then show ?thesis unfolding param_address_def shipped_addresses(2)[OF assms(1)] using assms(2,3) .
qed

text \<open>
  C27. With the configurations of the repository the task that pauses the pool sends its transaction to the zero address, on every
  network they name: the registered configurator is not looked up.
\<close>

theorem pause_sent_to_zero_address:
  assumes "pool \<in> {Commons, ElectroLend}" and "\<not> truthy (p_FORK (mk_platform M))"
    and "p_network (mk_platform M) \<in> set [eElectroneumNetwork_name testnet, eElectroneumNetwork_name mainnet,
       eEthereumNetwork_name coverage, eEthereumNetwork_name buidlerevm, eEthereumNetwork_name hardhat,
       eEthereumNetwork_name tenderly]"
    and "p_signers (mk_platform M) = first # emergencyAdmin # others"
  shows "pause_lending_pool B M pool stop =
     eff_then (set_DRE M)
     (eff_then (transact M emergencyAdmin ZERO_ADDRESS ''setPoolPause'' [Flag stop])
     (eff_bind (job (getLendingPool (mk_platform M) None)) (\<lambda>lendingPool.
      eff_then (view M (h_address lendingPool) ''paused'') (eff_return ()))))"
proof -
  define poolConfig where "poolConfig = (if pool = Commons then CommonsConfig B else ElectroConfig B)"
  have cfg: "poolConfig \<in> {CommonsConfig B, ElectroConfig B}" "loadPoolConfig B pool = Inr poolConfig"
    using loaded_config[OF assms(1), where B = B] by (auto simp: poolConfig_def)
  have configurator: "getLendingPoolConfiguratorProxy (mk_platform M) (Some ZERO_ADDRESS)
      = eff_return \<lparr>h_factory = ''LendingPoolConfiguratorFactory'', h_address = ZERO_ADDRESS\<rparr>"
    by (simp add: getLendingPoolConfiguratorProxy_def connect_or_db_def ZERO_ADDRESS_def)
  have return: "job (eff_return a) = eff_return a" for a
    by (rule ext) (simp add: job_def eff_simps)
  have none: "param_address M poolConfig ''LendingPool'' = None"
    by (simp add: param_address_def shipped_addresses(3)[OF cfg(1)] getParamPerNetwork_def)
  show ?thesis
    unfolding pause_lending_pool_def cfg(2) job_lift_Inr eff_bind_return assms(4) list.case
      shipped_configurator[OF cfg(1) assms(2,3)] configurator return none contract_handle.simps ..
qed


section \<open>Samples\<close>

text \<open>A node that counts transactions and returns to its start, with two signers, on the test network.\<close>

definition task_platform :: "nat platform" where
  "task_platform = sample_platform\<lparr>p_signers := [sample_address 8, sample_address 9]\<rparr>"

definition sample_market :: "nat market" where
  "sample_market =
     \<lparr>mk_setup = sample_setup\<lparr>su_platform := task_platform\<rparr>,
      mk_view = (\<lambda>address method n. Inr (sample_address 7)), mk_transact = (\<lambda>signer address method args n. (Inr (), Suc n)),
      mk_request = (\<lambda>method args n. if method = ''evm_revert'' then (Inr ''true'', 0) else (Inr ''0x1'', n)),
      mk_pay = (\<lambda>sender receiver amount n. (Inr (), Suc n)), mk_chainId = Some 5201420, mk_TENDERLY = None,
      mk_TENDERLY_FORK_ID = None, mk_TENDERLY_HEAD = None, mk_setFork = (\<lambda>i n. (Inr (), n)), mk_setHead = (\<lambda>i n. (Inr (), n)),
      mk_initializeFork = (\<lambda>n. (Inr (), n)), mk_readDeployment = (\<lambda>n. None), mk_parse = (\<lambda>json. Inr ())\<rparr>"

definition sample_session :: "nat session" where
  "sample_session = \<lparr>se_world = sample_world, se_DRE = True\<rparr>"

definition waiting :: task_args where
  "waiting = \<lparr>ta_pool = ElectroLend, ta_verify = False, ta_skipWait = True\<rparr>"

lemma sample_market_fields:
  "mk_platform sample_market = task_platform" "p_network task_platform = ''testnet''" "p_FORK task_platform = None"
  "p_signers task_platform = [sample_address 8, sample_address 9]"
  "getFirstSigner task_platform = Some (sample_address 8)"
  by (simp_all add: sample_market_def task_platform_def sample_platform_def getFirstSigner_def)

theorem tasks_keep_other_networks_witness:
  "w_db (se_world (snd (full_task (decimal scenario_config) sample_market ''full:deploy-lending-pool'' waiting sample_session)))
     (''LendingPool'', ''mainnet'') = None"
proof -
  obtain r s' where run: "full_task (decimal scenario_config) sample_market ''full:deploy-lending-pool'' waiting sample_session
      = (r, s')" by fastforce
  have "w_db (se_world s') (''LendingPool'', ''mainnet'') = w_db (se_world sample_session) (''LendingPool'', ''mainnet'')"
    by (rule tasks_keep_other_networks[OF disjI1[OF refl] run]) (simp add: sample_market_fields)
  moreover have "w_db (se_world sample_session) (''LendingPool'', ''mainnet'') = None"
    by (simp add: sample_session_def sample_world_def)
  ultimately show ?thesis by (simp add: run)
qed

text \<open>The world after the registry has been deployed.\<close>

definition registry_world :: "nat world" where
  "registry_world =
     \<lparr>w_db = (\<lambda>_. None)((''LendingPoolAddressesProviderRegistry'', ''testnet'') \<mapsto>
        \<lparr>db_address = sample_address 1, db_deployer = Some ''0xa0'', db_salt = None\<rparr>), w_chain = 1\<rparr>"

lemma sample_market_run:
  "fst (add_market_to_registry (decimal scenario_config) sample_market ElectroLend False (Some (sample_address 2)) True
     sample_session) = Inr ()"
proof -
  let ?c = "ElectroConfig (decimal scenario_config)"
  have cfg: "?c \<in> {CommonsConfig (decimal scenario_config), ElectroConfig (decimal scenario_config)}" by simp
  have valid8: "valid sample_market (Some (sample_address 8))"
    using sample_address_nonzero[of 8]
    by (simp add: valid_def sample_market_fields notFalsyOrZeroAddress_def)
      (simp add: task_platform_def sample_platform_def sample_address_def)
  have start: "set_DRE sample_market sample_session = (Inr (), sample_session)" "se_world sample_session = sample_world"
    by (simp_all add: set_DRE_def eff_bind_def eff_simps sample_session_def)
  have load: "loadPoolConfig (decimal scenario_config) ElectroLend = Inr ?c" by (simp add: loadPoolConfig_def)
  have deploy: "\<exists>inst. deployLendingPoolAddressesProviderRegistry task_platform owner False sample_world
      = (Inr inst, registry_world)" for owner
    by (simp add: deployLendingPoolAddressesProviderRegistry_def task_platform_def platform_eval registry_world_def)
  then obtain inst where deploy: "deployLendingPoolAddressesProviderRegistry task_platform owner False sample_world
      = (Inr (inst owner), registry_world)" for owner by metis
  have conn: "connect_registered task_platform f ''LendingPoolAddressesProviderRegistry'' registry_world
      = (Inr \<lparr>h_factory = f, h_address = sample_address 1\<rparr>, registry_world)" for f
    by (simp add: connect_registered_def eff_bind_def eff_simps sample_market_fields registry_world_def)
  have send: "mk_transact sample_market a b c d n = (Inr (), Suc n)" for a b c d n
    by (simp add: sample_market_def)
  have new: "choose_registry (decimal scenario_config) sample_market ElectroLend False True ?c sample_session
      = (Inr (Some (sample_address 1), Some (sample_address 8), True), sample_session\<lparr>se_world := registry_world\<rparr>)"
    using no_registry_configured[OF cfg, of sample_market]
    by (simp add: choose_registry_def deploy_address_provider_registry_def start load job_lift_Inr eff_then_def eff_bind_def
        Let_def signer_address_def sample_market_fields eff_simps job_def deploy
        getLendingPoolAddressesProviderRegistry_def notFalsyOrZeroAddress_def conn del: One_nat_def)
  show ?thesis
    unfolding add_market_run[of ElectroLend, OF _ refl sample_market_fields(5)[folded sample_market_fields(1)], simplified]
    by (simp add: start new eff_then_def eff_bind_def registry_signer_deployed sample_market_fields truthy_def valid8 eff_simps
        job_def getLendingPoolAddressesProviderRegistry_def conn getLendingPoolAddressesProvider_def connect_or_db_def
        transact_def node_def on_chain_def send del: One_nat_def)
qed

theorem market_gets_new_registry_witness:
  "\<exists>inst c c'. p_deploy task_platform ''LendingPoolAddressesProviderRegistryFactory'' []
       [Arg (new_owner sample_market (ElectroConfig (decimal scenario_config)) (sample_address 8))] c = (Inr inst, c')
     \<and> map_option db_address (w_db (se_world (snd (add_market_to_registry (decimal scenario_config) sample_market ElectroLend False
           (Some (sample_address 2)) True sample_session))) (''LendingPoolAddressesProviderRegistry'', ''testnet''))
         = Some (i_address inst)"
proof -
  obtain r s' where run: "add_market_to_registry (decimal scenario_config) sample_market ElectroLend False
      (Some (sample_address 2)) True sample_session = (r, s')" by fastforce
  have ended: "r = Inr ()" using sample_market_run by (simp add: run)
  have mem: "ElectroLend \<in> {Commons, ElectroLend}" by simp
  have first: "getFirstSigner (mk_platform sample_market) = Some (sample_address 8)"
    and fork: "\<not> truthy (p_FORK (mk_platform sample_market))"
    by (simp_all add: sample_market_fields truthy_def)
  have cfg: "(if ElectroLend = Commons then a else b) = b" for a b :: PoolConfiguration by simp
  note new = mp[OF conjunct2[OF market_gets_new_registry[OF mem refl first fork run]] ended,
      unfolded cfg sample_market_fields(1,2)]
  then show ?thesis unfolding run snd_conv by (elim exE conjE) (intro exI conjI)
qed

theorem skip_wait_undoes_witness:
  "w_chain (se_world (snd (patched_run sample_market (full_task (decimal scenario_config) sample_market)
     ''full:deploy-address-provider-registry'' waiting sample_session))) = 0"
proof -
  let ?s = "sample_session\<lparr>se_world := (se_world sample_session)\<lparr>w_chain := 0\<rparr>\<rparr>"
  obtain r s' where run: "full_task (decimal scenario_config) sample_market ''full:deploy-address-provider-registry'' waiting ?s
      = (r, s')" by fastforce
  have "no_exit (full_task (decimal scenario_config) sample_market ''full:deploy-address-provider-registry'' waiting)"
    by (simp add: full_task_def no_exit_registry_task)
  then have "\<forall>code. r \<noteq> Inl (Exited code)" using run no_exitD by blast
  moreover have "mk_request sample_market ''evm_snapshot'' [] (w_chain (se_world sample_session)) = (Inr ''0x1'', 0)"
    "mk_request sample_market ''evm_revert'' [''0x1''] c = (Inr ''true'', 0)" for c
    by (simp_all add: sample_market_def sample_session_def sample_world_def)
  ultimately have "patched_run sample_market (full_task (decimal scenario_config) sample_market)
      ''full:deploy-address-provider-registry'' waiting sample_session = (r, s'\<lparr>se_world := (se_world s')\<lparr>w_chain := 0\<rparr>\<rparr>)"
    using skip_wait_undoes[OF _ _ _ run] by (simp add: waiting_def)
  then show ?thesis by simp
qed

theorem pause_sent_to_zero_address_witness:
  "pause_lending_pool (decimal scenario_config) sample_market ElectroLend True =
     eff_then (set_DRE sample_market)
     (eff_then (transact sample_market (sample_address 9) ZERO_ADDRESS ''setPoolPause'' [Flag True])
     (eff_bind (job (getLendingPool task_platform None)) (\<lambda>lendingPool.
      eff_then (view sample_market (h_address lendingPool) ''paused'') (eff_return ()))))"
  using pause_sent_to_zero_address[of ElectroLend sample_market "sample_address 8" "sample_address 9" "[]"
      "decimal scenario_config" True]
  by (simp add: sample_market_fields truthy_def)

end
