(* ===== verification/Registry_Scripts.thy ===== *)
theory Registry_Scripts
  imports Testnet_Scripts
begin

text \<open>
  The scripts that deploy only the registry of the market, each with its own options of gas and its own way to wait
  (\<open>scripts/deploy-registry-only.js\<close>, \<open>deploy-eip1559.js\<close>, \<open>deploy-no-wait.js\<close>, \<open>deploy-nowait.js\<close>,
  \<open>deploy-simple.js\<close>, \<open>deploy-and-wait.js\<close>, \<open>raw-deploy.js\<close>, \<open>deploy-simple-registry.js\<close>,
  \<open>deploy-web3.js\<close>), and the one that runs the Hardhat tasks one after the other (\<open>deploy-electrolend-step-by-step.js\<close>).
  The libraries with the node, the environment and the disk are the operations of the record \<open>rpc\<close>; the state is the rest
  of the world and the files of the directory \<open>deployments\<close>. What is only printed is left out, and so are the pauses
  between two commands; the operations throw errors of the class \<open>Error\<close>, which have a message.
\<close>

section \<open>The node, the files and the exit code\<close>

datatype json = J_text string | J_number nat | J_array "json list" | J_object "(string \<times> json) list"

text \<open>A transaction that creates a contract.\<close>

record raw_tx =
  rt_contract :: string
  rt_args :: "string list"
  rt_gasPrice :: "nat option"
  rt_gasLimit :: "number option"
  rt_maxFeePerGas :: "nat option"
  rt_maxPriorityFeePerGas :: "nat option"
  rt_type :: "nat option"

record receipt =
  rc_contractAddress :: string
  rc_transactionHash :: string
  rc_blockNumber :: nat
  rc_gasUsed :: string
  rc_status :: nat

datatype dir_entry = File_entry string | Dir_entry string "dir_entry list"

record 'w rpc =
  rpc_env :: "string \<Rightarrow> string option"
  rpc_parseUnits :: "string \<Rightarrow> nat \<Rightarrow> nat"
  rpc_formatUnits :: "nat \<Rightarrow> nat \<Rightarrow> string"
  rpc_blockNumber :: "string \<Rightarrow> ('w, js_error, nat) eff"
  rpc_wallet :: "string option \<Rightarrow> string \<Rightarrow> ('w, js_error, string) eff"
  rpc_nonce :: "string \<Rightarrow> ('w, js_error, nat) eff"
  rpc_balance :: "string \<Rightarrow> ('w, js_error, nat) eff"
  rpc_feeData :: "('w, js_error, unit) eff"
  rpc_artifacts :: "('w, js_error, dir_entry list) eff"
  rpc_artifact :: "string \<Rightarrow> ('w, js_error, unit) eff"
  rpc_estimate :: "string \<Rightarrow> raw_tx \<Rightarrow> ('w, js_error, nat) eff"
  rpc_send :: "string \<Rightarrow> raw_tx \<Rightarrow> ('w, js_error, string \<times> nat) eff"
  rpc_wait :: "string \<Rightarrow> nat \<Rightarrow> ('w, js_error, receipt) eff"
  rpc_getContractAddress :: "string \<Rightarrow> nat \<Rightarrow> string"
  rpc_read :: "string \<Rightarrow> string \<Rightarrow> ('w, js_error, string) eff"
  rpc_now :: "('w, js_error, string) eff"
  rpc_write :: "string \<Rightarrow> ('w, js_error, unit) eff"
  rpc_web3_deploy :: "string \<Rightarrow> raw_tx \<Rightarrow> ('w, js_error, string \<times> string) eff"
  rpc_exec :: "string \<Rightarrow> ('w, js_error, unit) eff"

record 'w disk =
  dk_world :: 'w
  dk_files :: "string \<Rightarrow> json SymbolMap option"

type_synonym ('w, 'a) script = "('w disk, js_error, 'a) eff"

definition with_node :: "('w, js_error, 'a) eff \<Rightarrow> ('w, 'a) script" where
  "with_node m s = (case m (dk_world s) of (r, w) \<Rightarrow> (r, s\<lparr>dk_world := w\<rparr>))"

definition save_file :: "'w rpc \<Rightarrow> string \<Rightarrow> json SymbolMap \<Rightarrow> ('w, unit) script" where
  "save_file R f obj =
     eff_then (with_node (rpc_write R f)) (eff_modify (\<lambda>s. s\<lparr>dk_files := (dk_files s)(f \<mapsto> obj)\<rparr>))"

text \<open>The exit code: an error that reaches the end of the script, while it is loaded or in \<open>main\<close>, is 1.\<close>

definition exit_code :: "('w, 'a) script \<Rightarrow> 'w disk \<Rightarrow> nat" where
  "exit_code m s = (case fst (m s) of Inl _ \<Rightarrow> 1 | Inr _ \<Rightarrow> 0)"

definition REGISTRY :: string where "REGISTRY = ''LendingPoolAddressesProviderRegistry''"
definition REGISTRY_PATH :: string where
  "REGISTRY_PATH = ''protocol/configuration/LendingPoolAddressesProviderRegistry.sol/LendingPoolAddressesProviderRegistry.json''"
definition ANKR_URL :: string where "ANKR_URL = ''https://rpc.ankr.com/electroneum_testnet''"

text \<open>\<open>factory.getDeployTransaction(...args)\<close>, and the same with a price and a limit of gas.\<close>

definition deploy_tx :: "string \<Rightarrow> string list \<Rightarrow> raw_tx" where
  "deploy_tx contract args =
     \<lparr>rt_contract = contract, rt_args = args, rt_gasPrice = None, rt_gasLimit = None, rt_maxFeePerGas = None,
      rt_maxPriorityFeePerGas = None, rt_type = None\<rparr>"

definition priced :: "nat \<Rightarrow> nat \<Rightarrow> raw_tx \<Rightarrow> raw_tx" where
  "priced gasPrice gasLimit tx = tx\<lparr>rt_gasPrice := Some gasPrice, rt_gasLimit := Some (double (of_nat gasLimit))\<rparr>"

definition given :: "string option \<Rightarrow> bool" where
  "given v \<longleftrightarrow> v \<noteq> None \<and> v \<noteq> Some ''''"

section \<open>One contract, several prices: \<open>deploy-registry-only.js\<close>\<close>

definition PROVIDER_URLS :: "string list" where "PROVIDER_URLS = [ANKR_URL]"

definition GAS_OPTIONS :: "(string \<times> nat) list" where
  "GAS_OPTIONS = [(''1'', 2000000), (''0.1'', 2000000), (''0.01'', 2000000), (''5'', 5000000)]"

text \<open>The search for an artifact in the directories, in their order.\<close>

fun findContractRecursively :: "string \<Rightarrow> string \<Rightarrow> dir_entry list \<Rightarrow> string option" where
  "findContractRecursively contractName dir [] = None"
| "findContractRecursively contractName dir (Dir_entry d entries # files) =
     (case findContractRecursively contractName (dir @ ''/'' @ d) entries of
        Some p \<Rightarrow> Some p
      | None \<Rightarrow> findContractRecursively contractName dir files)"
| "findContractRecursively contractName dir (File_entry f # files) =
     (if f = contractName @ ''.json'' then Some (dir @ ''/'' @ f) else findContractRecursively contractName dir files)"

definition only_loadArtifact :: "'w rpc \<Rightarrow> string \<Rightarrow> ('w, unit) script" where
  "only_loadArtifact R contractName =
     eff_bind (with_node (rpc_artifacts R)) (\<lambda>entries.
     case findContractRecursively contractName ''contracts'' entries of
       None \<Rightarrow> eff_throw (Error (''Artifact not found for '' @ contractName))
     | Some p \<Rightarrow> with_node (rpc_artifact R p))"

definition trySendTransaction :: "'w rpc \<Rightarrow> string \<Rightarrow> raw_tx \<Rightarrow> string \<times> nat \<Rightarrow> ('w, (string \<times> nat) option) script" where
  "trySendTransaction R wallet tx gasOption =
     eff_catch
       (eff_bind (with_node (rpc_send R wallet (priced (rpc_parseUnits R (fst gasOption) 9) (snd gasOption) tx)))
         (\<lambda>sent. eff_return (Some sent)))
       (\<lambda>e. eff_return None)"

fun try_gas_options :: "'w rpc \<Rightarrow> string \<Rightarrow> raw_tx \<Rightarrow> (string \<times> nat) list \<Rightarrow> ('w, (string \<times> nat) option) script" where
  "try_gas_options R wallet tx [] = eff_return None"
| "try_gas_options R wallet tx (g # gs) =
     eff_bind (trySendTransaction R wallet tx g) (\<lambda>sent.
     case sent of Some t \<Rightarrow> eff_return (Some t) | None \<Rightarrow> try_gas_options R wallet tx gs)"

fun try_urls :: "'w rpc \<Rightarrow> string list \<Rightarrow> ('w, string option) script" where
  "try_urls R [] = eff_return None"
| "try_urls R (url # urls) =
     eff_bind
       (eff_catch (eff_bind (with_node (rpc_blockNumber R url)) (\<lambda>_. eff_return (Some url))) (\<lambda>e. eff_return None)) (\<lambda>connected_to.
     case connected_to of Some u \<Rightarrow> eff_return (Some u) | None \<Rightarrow> try_urls R urls)"

text \<open>The information that most of the scripts save.\<close>

definition registry_info :: "string \<Rightarrow> string \<Rightarrow> nat \<Rightarrow> string \<Rightarrow> string \<Rightarrow> json SymbolMap" where
  "registry_info txHash expectedAddress nonce timestamp deployer =
     [(''contract'', J_text REGISTRY), (''transactionHash'', J_text txHash), (''expectedAddress'', J_text expectedAddress),
      (''nonce'', J_number nonce), (''timestamp'', J_text timestamp), (''deployer'', J_text deployer)]"

definition only_deploy :: "'w rpc \<Rightarrow> string \<Rightarrow> ('w, unit) script" where
  "only_deploy R deployer =
     eff_bind (with_node (rpc_nonce R deployer)) (\<lambda>nonce.
     eff_then (with_node (rpc_balance R deployer))
     (eff_then (only_loadArtifact R REGISTRY)
     (eff_bind (try_gas_options R deployer (deploy_tx REGISTRY [deployer]) GAS_OPTIONS) (\<lambda>sent.
     case sent of
       None \<Rightarrow> eff_throw (Error ''Failed to send transaction with any gas configuration'')
     | Some (txHash, _) \<Rightarrow>
         eff_bind (with_node (rpc_now R)) (\<lambda>timestamp.
         save_file R ''registry-deployment.json''
           (registry_info txHash (rpc_getContractAddress R deployer nonce) nonce timestamp deployer))))))"

definition registry_only_main :: "'w rpc \<Rightarrow> ('w, unit) script" where
  "registry_only_main R =
     (let key = rpc_env R ''PRIVATE_KEY'' in
      if \<not> given key \<or> key = Some ''YOUR_PRIVATE_KEY_HERE''
      then eff_throw (Error ''Please set your PRIVATE_KEY in the .env file'')
      else
        eff_bind (try_urls R PROVIDER_URLS) (\<lambda>provider.
        case provider of
          None \<Rightarrow> eff_throw (Error ''Failed to connect to any provider URL'')
        | Some url \<Rightarrow>
            eff_bind (with_node (rpc_wallet R key url)) (\<lambda>deployer.
            eff_catch (only_deploy R deployer) (\<lambda>e. eff_return ()))))"


section \<open>Options of EIP-1559: \<open>deploy-eip1559.js\<close>\<close>

fun error_message :: "js_error \<Rightarrow> string" where
  "error_message (TypeError m) = m" | "error_message (Error m) = m"
| "error_message (AssertionError m) = m" | "error_message (Thrown m) = ''undefined''"

text \<open>An error while saving is only printed.\<close>

definition saveDeployment :: "'w rpc \<Rightarrow> string \<Rightarrow> string \<Rightarrow> nat \<Rightarrow> string \<Rightarrow> ('w, unit) script" where
  "saveDeployment R txHash expectedAddress nonce deployer =
     eff_catch
       (eff_bind (with_node (rpc_now R)) (\<lambda>timestamp.
        save_file R ''eip1559-deployment.json'' (registry_info txHash expectedAddress nonce timestamp deployer)))
       (\<lambda>e. eff_return ())"

definition EIP1559_GAS_LIMIT :: nat where "EIP1559_GAS_LIMIT = 3000000"

definition fee_tx :: "'w rpc \<Rightarrow> string \<Rightarrow> raw_tx" where
  "fee_tx R deployer =
     (deploy_tx REGISTRY [deployer])
       \<lparr>rt_maxFeePerGas := Some (rpc_parseUnits R ''50'' 9), rt_maxPriorityFeePerGas := Some (rpc_parseUnits R ''2'' 9),
        rt_gasLimit := Some (double (of_nat EIP1559_GAS_LIMIT))\<rparr>"

definition legacy_tx :: "'w rpc \<Rightarrow> string \<Rightarrow> raw_tx" where
  "legacy_tx R deployer =
     (priced (rpc_parseUnits R ''20'' 9) EIP1559_GAS_LIMIT (deploy_tx REGISTRY [deployer]))\<lparr>rt_type := Some 0\<rparr>"

definition eip1559_main :: "'w rpc \<Rightarrow> ('w, unit) script" where
  "eip1559_main R =
     (let key = rpc_env R ''PRIVATE_KEY'' in
      if \<not> given key then eff_throw (Error ''PRIVATE_KEY is required in .env file'')
      else
        eff_then (eff_catch (with_node (rpc_feeData R)) (\<lambda>e. eff_return ()))
        (eff_bind (with_node (rpc_wallet R key ANKR_URL)) (\<lambda>deployer.
        eff_bind (with_node (rpc_nonce R deployer)) (\<lambda>nonce.
        eff_then (with_node (rpc_balance R deployer))
        (eff_then (with_node (rpc_artifact R REGISTRY_PATH))
        (eff_catch
          (eff_bind (with_node (rpc_send R deployer (fee_tx R deployer))) (\<lambda>(txHash, _).
           saveDeployment R txHash (rpc_getContractAddress R deployer nonce) nonce deployer))
          (\<lambda>e. if sublist ''EIP-1559'' (error_message e) \<or> sublist ''type'' (error_message e)
               then eff_catch (eff_then (with_node (rpc_send R deployer (legacy_tx R deployer))) (eff_return ()))
                      (\<lambda>legacyError. eff_return ())
               else eff_return ())))))))"

section \<open>Two contracts: \<open>deploy-no-wait.js\<close>\<close>

record direct_deployments =
  dd_timestamp :: string
  dd_transactions :: "json list"
  dd_addresses :: "string SymbolMap"

definition direct_json :: "direct_deployments \<Rightarrow> json SymbolMap" where
  "direct_json d =
     [(''timestamp'', J_text (dd_timestamp d)), (''transactions'', J_array (dd_transactions d)),
      (''addresses'', J_object (map (\<lambda>(k, a). (k, J_text a)) (dd_addresses d)))]"

definition DIRECT_GAS_LIMIT :: nat where "DIRECT_GAS_LIMIT = 5000000"

definition deployWithoutWaiting ::
  "'w rpc \<Rightarrow> string \<Rightarrow> string \<Rightarrow> string list \<Rightarrow> direct_deployments \<Rightarrow> ('w, direct_deployments) script" where
  "deployWithoutWaiting R wallet contractName args d =
     eff_then (with_node (rpc_artifact R (contractName @ ''.sol/'' @ contractName @ ''.json'')))
     (eff_bind (with_node (rpc_send R wallet (priced (rpc_parseUnits R ''10'' 9) DIRECT_GAS_LIMIT (deploy_tx contractName args))))
       (\<lambda>(txHash, nonce).
     let expectedAddress = rpc_getContractAddress R wallet nonce in
     eff_bind (with_node (rpc_now R)) (\<lambda>timestamp.
     let d' = d\<lparr>dd_transactions := dd_transactions d @
             [J_object [(''contract'', J_text contractName), (''transactionHash'', J_text txHash),
                        (''expectedAddress'', J_text expectedAddress), (''nonce'', J_number nonce),
                        (''timestamp'', J_text timestamp)]],
           dd_addresses := js_set (dd_addresses d) contractName expectedAddress\<rparr>
     in eff_then (save_file R ''direct-deployment.json'' (direct_json d')) (eff_return d'))))"

definition no_wait_main :: "'w rpc \<Rightarrow> ('w, unit) script" where
  "no_wait_main R =
     eff_bind (with_node (rpc_now R)) (\<lambda>started.
     let key = rpc_env R ''PRIVATE_KEY'' in
     if \<not> given key then eff_throw (Error ''PRIVATE_KEY is required in .env file'')
     else
       eff_bind (with_node (rpc_wallet R key (env_or (rpc_env R) ''ELECTRONEUM_TESTNET_URL'' ANKR_URL))) (\<lambda>deployer.
       eff_catch
         (eff_then (with_node (rpc_balance R deployer))
         (eff_bind (deployWithoutWaiting R deployer REGISTRY [deployer]
                      \<lparr>dd_timestamp = started, dd_transactions = [], dd_addresses = []\<rparr>) (\<lambda>d.
          eff_then (deployWithoutWaiting R deployer ''LendingPoolAddressesProvider'' [SCRIPT_MARKET_ID, deployer] d)
          (eff_return ()))))
         (\<lambda>e. eff_return ())))"

section \<open>The registry without a confirmation: \<open>deploy-simple.js\<close>, \<open>deploy-nowait.js\<close>\<close>

definition simple_main :: "'w rpc \<Rightarrow> ('w, unit) script" where
  "simple_main R =
     (let key = rpc_env R ''PRIVATE_KEY'' in
      if \<not> given key then eff_throw (Error ''PRIVATE_KEY is required in .env file'')
      else
        eff_bind (with_node (rpc_wallet R key ANKR_URL)) (\<lambda>deployer.
        eff_bind (with_node (rpc_nonce R deployer)) (\<lambda>nonce.
        eff_then (with_node (rpc_balance R deployer))
        (eff_then (with_node (rpc_artifact R REGISTRY_PATH))
        (eff_catch
          (eff_then (with_node (rpc_send R deployer (priced 20000000000 3000000 (deploy_tx REGISTRY [deployer])))) (eff_return ()))
          (\<lambda>e. eff_return ()))))))"

definition nowait_main :: "'w rpc \<Rightarrow> ('w, unit) script" where
  "nowait_main R =
     eff_bind (with_node (rpc_wallet R (rpc_env R ''PRIVATE_KEY'') ANKR_URL)) (\<lambda>deployer.
     eff_then (with_node (rpc_balance R deployer))
     (eff_bind (with_node (rpc_nonce R deployer)) (\<lambda>nonce.
     eff_then (with_node (rpc_artifact R REGISTRY_PATH))
     (eff_catch
       (eff_bind (with_node (rpc_send R deployer (priced (rpc_parseUnits R ''100'' 9) 3000000 (deploy_tx REGISTRY [deployer]))))
         (\<lambda>(txHash, _).
        eff_bind (with_node (rpc_now R)) (\<lambda>timestamp.
        save_file R ''nowait-deployment.json''
          [(''contract'', J_text REGISTRY), (''expectedAddress'', J_text (rpc_getContractAddress R deployer nonce)),
           (''transactionHash'', J_text txHash), (''deployer'', J_text deployer), (''nonce'', J_number nonce),
           (''gasPrice'', J_text (rpc_formatUnits R (rpc_parseUnits R ''100'' 9) 9)), (''timestamp'', J_text timestamp)])))
       (\<lambda>e. eff_return ())))))"

section \<open>The registry with a confirmation\<close>

text \<open>\<open>deploy-and-wait.js\<close>; the contract is asked for its owner afterwards, and an error there is only printed.\<close>

definition and_wait_main :: "'w rpc \<Rightarrow> ('w, unit) script" where
  "and_wait_main R =
     eff_bind (with_node (rpc_wallet R (rpc_env R ''PRIVATE_KEY'') ANKR_URL)) (\<lambda>deployer.
     eff_then (with_node (rpc_balance R deployer))
     (eff_then (with_node (rpc_artifact R REGISTRY_PATH))
     (eff_bind (with_node (rpc_send R deployer (priced (rpc_parseUnits R ''50'' 9) 4000000 (deploy_tx REGISTRY [deployer]))))
       (\<lambda>(txHash, _).
     eff_bind (with_node (rpc_wait R txHash 1)) (\<lambda>receipt.
     eff_bind (with_node (rpc_now R)) (\<lambda>timestamp.
     eff_then (save_file R ''confirmed-deployment.json''
       [(''contract'', J_text REGISTRY), (''address'', J_text (rc_contractAddress receipt)),
        (''transactionHash'', J_text (rc_transactionHash receipt)), (''blockNumber'', J_number (rc_blockNumber receipt)),
        (''gasUsed'', J_text (rc_gasUsed receipt)), (''status'', J_number (rc_status receipt)),
        (''timestamp'', J_text timestamp)])
     (eff_catch (eff_then (with_node (rpc_read R (rc_contractAddress receipt) ''owner'')) (eff_return ()))
       (\<lambda>e. eff_return ()))))))))"

text \<open>\<open>raw-deploy.js\<close>; the artifact is read when the script is loaded.\<close>

definition raw_main :: "'w rpc \<Rightarrow> ('w, unit) script" where
  "raw_main R =
     eff_then (with_node (rpc_artifact R REGISTRY_PATH))
     (eff_bind (with_node (rpc_wallet R (rpc_env R ''PRIVATE_KEY'') ANKR_URL)) (\<lambda>deployer.
     eff_then (with_node (rpc_balance R deployer))
     (eff_then (with_node (rpc_nonce R deployer))
     (eff_catch
       (eff_bind (with_node (rpc_send R deployer (priced (rpc_parseUnits R ''20'' 9) 4000000 (deploy_tx REGISTRY [deployer]))))
         (\<lambda>(txHash, txNonce).
        let address = rpc_getContractAddress R deployer txNonce in
        eff_then (with_node (rpc_wait R txHash 1))
        (eff_then (with_node (rpc_read R address ''owner''))
        (eff_bind (with_node (rpc_read R address ''owner'')) (\<lambda>owner.
        eff_bind (with_node (rpc_now R)) (\<lambda>timestamp.
        save_file R ''successful-deployment.json''
          [(''contract'', J_text REGISTRY), (''address'', J_text address), (''transactionHash'', J_text txHash),
           (''owner'', J_text owner), (''timestamp'', J_text timestamp)]))))))
       (\<lambda>e. eff_return ())))))"

definition simple_registry_main :: "'w rpc \<Rightarrow> ('w, unit) script" where
  "simple_registry_main R =
     eff_then (with_node (rpc_artifact R REGISTRY_PATH))
     (let key = rpc_env R ''PRIVATE_KEY'' in
      if \<not> given key then eff_throw (Error ''Missing PRIVATE_KEY in .env file'')
      else
        eff_bind (with_node (rpc_wallet R key (env_or (rpc_env R) ''ELECTRONEUM_TESTNET_URL'' ANKR_URL))) (\<lambda>deployer.
        eff_then (with_node (rpc_balance R deployer))
        (eff_bind (with_node (rpc_send R deployer (priced (rpc_parseUnits R ''1000'' 9) 3000000 (deploy_tx REGISTRY [deployer]))))
          (\<lambda>(txHash, txNonce).
        eff_then (with_node (rpc_wait R txHash 1))
        (eff_bind (with_node (rpc_now R)) (\<lambda>timestamp.
        save_file R ''registry-deployment.json''
          [(''timestamp'', J_text timestamp), (''network'', J_text ''electroneum_testnet''), (''contract'', J_text REGISTRY),
           (''address'', J_text (rpc_getContractAddress R deployer txNonce)), (''deployer'', J_text deployer),
           (''transactionHash'', J_text txHash)]))))))"

text \<open>\<open>deploy-web3.js\<close>, with another library, whose sending waits for the receipt. It ends with the address, or without one.\<close>

fun js_round :: "number \<Rightarrow> number" where
  "js_round (Finite q) = Finite (of_int \<lfloor>q + 1 / 2\<rfloor>)"
| "js_round (Infinite s) = Infinite s"
| "js_round NaN = NaN"

definition web3_deploy :: "'w rpc \<Rightarrow> string \<Rightarrow> ('w, string option) script" where
  "web3_deploy R deployer =
     (let tx = deploy_tx REGISTRY [deployer] in
      eff_bind (with_node (rpc_estimate R deployer tx)) (\<lambda>estimate.
      eff_bind (with_node (rpc_web3_deploy R deployer
        (tx\<lparr>rt_gasPrice := Some (150 * gwei), rt_gasLimit := Some (js_round (num_mult (double (of_nat estimate)) (double (3 / 2))))\<rparr>)))
        (\<lambda>(address, txHash).
      eff_bind (with_node (rpc_now R)) (\<lambda>timestamp.
      eff_then (save_file R ''web3-deployment.json''
        [(''contract'', J_text REGISTRY), (''address'', J_text address), (''transactionHash'', J_text txHash),
         (''deployer'', J_text deployer), (''timestamp'', J_text timestamp)])
      (eff_return (Some address))))))"

definition web3_main :: "'w rpc \<Rightarrow> ('w, string option) script" where
  "web3_main R =
     eff_then (with_node (rpc_artifact R REGISTRY_PATH))
     (eff_bind (with_node (rpc_wallet R (rpc_env R ''PRIVATE_KEY'') ''https://testnet-rpc.electroneum.com'')) (\<lambda>deployer.
     eff_then (with_node (rpc_balance R deployer))
     (eff_catch (web3_deploy R deployer) (\<lambda>e. eff_return None))))"

definition web3_exit_code :: "'w rpc \<Rightarrow> 'w disk \<Rightarrow> nat" where
  "web3_exit_code R s = (case fst (web3_main R s) of Inr result \<Rightarrow> if given result then 0 else 1 | Inl _ \<Rightarrow> 1)"

section \<open>Commands one after the other: \<open>deploy-electrolend-step-by-step.js\<close>\<close>

definition runCommandNoWait :: "'w rpc \<Rightarrow> string \<Rightarrow> ('w, unit) script" where
  "runCommandNoWait R command = eff_catch (with_node (rpc_exec R command)) (\<lambda>e. eff_return ())"

definition STEP_TASKS :: "string list" where
  "STEP_TASKS =
     [''full:deploy-address-provider-registry'', ''full:deploy-address-provider'', ''full:deploy-lending-pool'',
      ''full:deploy-oracles'', ''full:deploy-data-provider'', ''full:deploy-wethgateway'']"

definition step_command :: "string \<Rightarrow> string" where
  "step_command taskName = ''npx hardhat '' @ taskName @ '' --pool ElectroLend --network testnet''"

definition step_by_step :: "'w rpc \<Rightarrow> ('w, unit) script" where
  "step_by_step R = eff_each (\<lambda>t. runCommandNoWait R (step_command t)) STEP_TASKS"

end
