(* ===== verification/Registry_Script_Properties.thy ===== *)
theory Registry_Script_Properties
  imports Registry_Scripts
begin

text \<open>
  Properties of the scripts that deploy the registry: which transaction the file of the first accounts for, and which scripts
  tell of a deployment that failed.
\<close>

section \<open>Searching an artifact\<close>

text \<open>The paths and names of all files, in the order of the directories.\<close>

fun files_below :: "string \<Rightarrow> dir_entry list \<Rightarrow> (string \<times> string) list" where
  "files_below dir [] = []"
| "files_below dir (Dir_entry d entries # files) = files_below (dir @ ''/'' @ d) entries @ files_below dir files"
| "files_below dir (File_entry f # files) = (dir @ ''/'' @ f, f) # files_below dir files"

lemma find_append: "find P (xs @ ys) = (case find P xs of None \<Rightarrow> find P ys | Some x \<Rightarrow> Some x)"
  by (induction xs) auto

lemma findContractRecursively_first:
  "findContractRecursively contractName dir entries
   = map_option fst (find (\<lambda>(p, f). f = contractName @ ''.json'') (files_below dir entries))"
  by (induction contractName dir entries rule: findContractRecursively.induct)
    (auto simp: find_append split: option.splits)

section \<open>The first price the node accepts\<close>

lemma with_node_eq: "m (dk_world s) = (r, w) \<Longrightarrow> with_node m s = (r, s\<lparr>dk_world := w\<rparr>)"
  by (simp add: with_node_def)

lemma with_node_Inr_iff:
  "with_node m s = (Inr a, s') \<longleftrightarrow> (\<exists>w. m (dk_world s) = (Inr a, w) \<and> s' = s\<lparr>dk_world := w\<rparr>)"
  by (auto simp: with_node_def split: prod.splits)

text \<open>The node refuses the transaction with every one of the options, in order.\<close>

fun refused :: "'w rpc \<Rightarrow> string \<Rightarrow> raw_tx \<Rightarrow> (string \<times> nat) list \<Rightarrow> 'w \<Rightarrow> 'w \<Rightarrow> bool" where
  "refused R wallet tx [] w w' \<longleftrightarrow> w' = w"
| "refused R wallet tx (g # gs) w w'' \<longleftrightarrow>
     (\<exists>e w'. rpc_send R wallet (priced (rpc_parseUnits R (fst g) 9) (snd g) tx) w = (Inl e, w') \<and> refused R wallet tx gs w' w'')"

lemma trySendTransaction_cases:
  obtains (sent) t w where "rpc_send R wallet (priced (rpc_parseUnits R (fst g) 9) (snd g) tx) (dk_world s) = (Inr t, w)"
      "trySendTransaction R wallet tx g s = (Inr (Some t), s\<lparr>dk_world := w\<rparr>)"
    | (refused) e w where "rpc_send R wallet (priced (rpc_parseUnits R (fst g) 9) (snd g) tx) (dk_world s) = (Inl e, w)"
      "trySendTransaction R wallet tx g s = (Inr None, s\<lparr>dk_world := w\<rparr>)"
  by (cases "rpc_send R wallet (priced (rpc_parseUnits R (fst g) 9) (snd g) tx) (dk_world s)";
      cases "fst (rpc_send R wallet (priced (rpc_parseUnits R (fst g) 9) (snd g) tx) (dk_world s))")
    (auto simp: trySendTransaction_def with_node_def eff_catch_def eff_bind_def eff_simps)

text \<open>What the loop over the options comes to.\<close>

lemma try_gas_options_result:
  "\<exists>s'. (try_gas_options R wallet tx gs s = (Inr None, s') \<and> refused R wallet tx gs (dk_world s) (dk_world s'))
      \<or> (\<exists>t before g after w. try_gas_options R wallet tx gs s = (Inr (Some t), s') \<and> gs = before @ g # after
           \<and> refused R wallet tx before (dk_world s) w
           \<and> rpc_send R wallet (priced (rpc_parseUnits R (fst g) 9) (snd g) tx) w = (Inr t, dk_world s'))"
proof (induction gs arbitrary: s)
  case (Cons g gs)
  show ?case
  proof (cases rule: trySendTransaction_cases[of R wallet g tx s])
    case (sent t w)
    then have "try_gas_options R wallet tx (g # gs) s = (Inr (Some t), s\<lparr>dk_world := w\<rparr>)"
      by (simp add: eff_bind_def eff_simps)
    moreover have "refused R wallet tx [] (dk_world s) (dk_world s)" by simp
    ultimately show ?thesis using sent(1) by fastforce
  next
    case (refused e w)
    then have step: "try_gas_options R wallet tx (g # gs) s = try_gas_options R wallet tx gs (s\<lparr>dk_world := w\<rparr>)"
      by (simp add: eff_bind_def)
    have more: "refused R wallet tx (g # bs) (dk_world s) w'" if "refused R wallet tx bs w w'" for bs w'
      using refused(1) that by auto
    show ?thesis
      using Cons[of "s\<lparr>dk_world := w\<rparr>"] more step by (simp, metis append_Cons)
  qed
qed (simp add: eff_simps)


section \<open>The file of the script\<close>

definition same_files :: "'w disk \<Rightarrow> 'w disk \<Rightarrow> bool" where
  "same_files s s' \<longleftrightarrow> dk_files s' = dk_files s"

interpretation files: frame same_files
  by unfold_locales (simp_all add: same_files_def)

lemma files_with_node: "frames same_files (with_node m)"
  by (auto simp: frames_def same_files_def with_node_def split: prod.splits)

lemma files_try_gas_options: "frames same_files (try_gas_options R wallet tx gs)"
  by (induction gs)
    (auto simp: trySendTransaction_def intro!: files.bind files.caught files.option_case files_with_node files.pure[OF eff_pure_basic(1)])

lemma files_try_urls: "frames same_files (try_urls R urls)"
  by (induction urls)
    (auto intro!: files.bind files.caught files.option_case files_with_node files.pure[OF eff_pure_basic(1)])

lemma files_only_loadArtifact: "frames same_files (only_loadArtifact R contractName)"
  unfolding only_loadArtifact_def
  by (intro files.bind files.option_case files_with_node files.pure eff_pure_basic)

lemma bind_changed:
  assumes "frames same_files m" and "eff_bind m f v = (r, v')" and "dk_files v' \<noteq> dk_files v"
  obtains a v1 where "m v = (Inr a, v1)" "dk_files v1 = dk_files v" "f a v1 = (r, v')"
proof -
  obtain x v1 where m: "m v = (x, v1)" by fastforce
  have "same_files v (snd (m v))" using assms(1) by (simp add: frames_def)
  then have same: "dk_files v1 = dk_files v" by (simp add: m same_files_def)
  show ?thesis
  proof (cases x)
    case (Inl e)
    then show ?thesis using assms(2,3) same by (simp add: eff_bind_def m)
  next
    case (Inr a)
    then show ?thesis using assms(2) m same by (intro that) (auto simp: eff_bind_def)
  qed
qed

lemma save_file_changed:
  assumes "save_file R f obj v = (r, v')" and "dk_files v' \<noteq> dk_files v"
  shows "dk_files v' = (dk_files v)(f \<mapsto> obj)"
  using assms
  by (auto simp: save_file_def eff_then_def eff_simps elim!: bind_changed[OF files_with_node])

text \<open>The file says which transaction the node has accepted.\<close>

definition accounts_for :: "'w rpc \<Rightarrow> string \<Rightarrow> json SymbolMap \<Rightarrow> bool" where
  "accounts_for R deployer info \<longleftrightarrow>
     (\<exists>before g after w w' w'' txHash txNonce nonce timestamp.
        GAS_OPTIONS = before @ g # after
      \<and> refused R deployer (deploy_tx REGISTRY [deployer]) before w w'
      \<and> rpc_send R deployer (priced (rpc_parseUnits R (fst g) 9) (snd g) (deploy_tx REGISTRY [deployer])) w'
          = (Inr (txHash, txNonce), w'')
      \<and> info = registry_info txHash (rpc_getContractAddress R deployer nonce) nonce timestamp deployer)"

lemma only_deploy_changed:
  assumes "only_deploy R deployer v = (r, v')" and "dk_files v' \<noteq> dk_files v"
  shows "\<exists>info. dk_files v' = (dk_files v)(''registry-deployment.json'' \<mapsto> info) \<and> accounts_for R deployer info"
proof -
  let ?rest = "\<lambda>nonce sent. case sent of
       None \<Rightarrow> eff_throw (Error ''Failed to send transaction with any gas configuration'')
     | Some (txHash, _) \<Rightarrow>
         eff_bind (with_node (rpc_now R)) (\<lambda>timestamp.
         save_file R ''registry-deployment.json''
           (registry_info txHash (rpc_getContractAddress R deployer nonce) nonce timestamp deployer))"
  note steps = assms(1)[unfolded only_deploy_def eff_then_def]
  from bind_changed[OF files_with_node steps assms(2)] obtain nonce v1 where 1: "dk_files v1 = dk_files v"
    and s1: "eff_bind (with_node (rpc_balance R deployer)) (\<lambda>_. eff_bind (only_loadArtifact R REGISTRY) (\<lambda>_.
      eff_bind (try_gas_options R deployer (deploy_tx REGISTRY [deployer]) GAS_OPTIONS) (?rest nonce))) v1 = (r, v')" by blast
  from bind_changed[OF files_with_node s1] assms(2) 1 obtain v2 where 2: "dk_files v2 = dk_files v"
    and s2: "eff_bind (only_loadArtifact R REGISTRY) (\<lambda>_.
      eff_bind (try_gas_options R deployer (deploy_tx REGISTRY [deployer]) GAS_OPTIONS) (?rest nonce)) v2 = (r, v')" by metis
  from bind_changed[OF files_only_loadArtifact s2] assms(2) 2 obtain v3 where 3: "dk_files v3 = dk_files v"
    and s3: "eff_bind (try_gas_options R deployer (deploy_tx REGISTRY [deployer]) GAS_OPTIONS) (?rest nonce) v3 = (r, v')" by metis
  from bind_changed[OF files_try_gas_options s3] assms(2) 3 obtain sent v4 where 4: "dk_files v4 = dk_files v"
    and sent: "try_gas_options R deployer (deploy_tx REGISTRY [deployer]) GAS_OPTIONS v3 = (Inr sent, v4)"
    and s4: "?rest nonce sent v4 = (r, v')" by metis
  have "sent \<noteq> None"
  proof
    assume "sent = None"
    then have "v' = v4" using s4 by (simp add: eff_simps)
    then show False using assms(2) 4 by simp
  qed
  then obtain txHash txNonce where t: "sent = Some (txHash, txNonce)" by auto
  from s4 have s5: "eff_bind (with_node (rpc_now R)) (\<lambda>timestamp. save_file R ''registry-deployment.json''
      (registry_info txHash (rpc_getContractAddress R deployer nonce) nonce timestamp deployer)) v4 = (r, v')" by (simp add: t)
  from bind_changed[OF files_with_node s5] assms(2) 4 obtain timestamp v5 where 5: "dk_files v5 = dk_files v"
    and s6: "save_file R ''registry-deployment.json''
      (registry_info txHash (rpc_getContractAddress R deployer nonce) nonce timestamp deployer) v5 = (r, v')" by metis
  obtain before g after w where "GAS_OPTIONS = before @ g # after"
    "refused R deployer (deploy_tx REGISTRY [deployer]) before (dk_world v3) w"
    "rpc_send R deployer (priced (rpc_parseUnits R (fst g) 9) (snd g) (deploy_tx REGISTRY [deployer])) w
      = (Inr (txHash, txNonce), dk_world v4)"
    using try_gas_options_result[of R deployer "deploy_tx REGISTRY [deployer]" GAS_OPTIONS v3] sent t
    by (simp del: split_paired_Ex) blast
  then have "accounts_for R deployer (registry_info txHash (rpc_getContractAddress R deployer nonce) nonce timestamp deployer)"
    unfolding accounts_for_def by blast
  then show ?thesis using save_file_changed[OF s6] assms(2) 5 by auto
qed

lemma registry_only_main_changed:
  assumes "registry_only_main R s = (r, s')" and changed: "dk_files s' \<noteq> dk_files s"
  shows "\<exists>deployer info. dk_files s' = (dk_files s)(''registry-deployment.json'' \<mapsto> info) \<and> accounts_for R deployer info"
proof -
  let ?key = "rpc_env R ''PRIVATE_KEY''"
  have "eff_bind (try_urls R PROVIDER_URLS) (\<lambda>provider.
        case provider of
          None \<Rightarrow> eff_throw (Error ''Failed to connect to any provider URL'')
        | Some url \<Rightarrow>
            eff_bind (with_node (rpc_wallet R ?key url)) (\<lambda>deployer.
            eff_catch (only_deploy R deployer) (\<lambda>e. eff_return ()))) s = (r, s')"
    using assms(1) changed by (auto simp: registry_only_main_def Let_def eff_simps split: if_splits)
  from bind_changed[OF files_try_urls this changed] obtain provider s1 where 1: "dk_files s1 = dk_files s"
    and s1: "(case provider of
          None \<Rightarrow> eff_throw (Error ''Failed to connect to any provider URL'')
        | Some url \<Rightarrow>
            eff_bind (with_node (rpc_wallet R ?key url)) (\<lambda>deployer.
            eff_catch (only_deploy R deployer) (\<lambda>e. eff_return ()))) s1 = (r, s')" by blast
  then obtain url where "eff_bind (with_node (rpc_wallet R ?key url)) (\<lambda>deployer.
            eff_catch (only_deploy R deployer) (\<lambda>e. eff_return ())) s1 = (r, s')"
    using changed by (cases provider) (auto simp: eff_simps)
  from bind_changed[OF files_with_node this] changed 1 obtain deployer s2 where 2: "dk_files s2 = dk_files s"
    and s2: "eff_catch (only_deploy R deployer) (\<lambda>e. eff_return ()) s2 = (r, s')" by metis
  obtain r' where "only_deploy R deployer s2 = (r', s')"
    using s2 by (auto simp: eff_catch_def eff_simps split: prod.splits sum.splits)
  from only_deploy_changed[OF this] changed 2 obtain info where
    "dk_files s' = (dk_files s)(''registry-deployment.json'' \<mapsto> info)" "accounts_for R deployer info" by auto
  then show ?thesis by auto
qed

text \<open>
  C28. However \<open>deploy-registry-only.js\<close> ends: a file it has changed is its own, and says the hash of a transaction that the
  node has accepted, with the first of the options of gas that it has not refused.
\<close>

theorem registry_file_accounts_for_transaction:
  assumes "registry_only_main R s = (r, s')" and "dk_files s' f \<noteq> dk_files s f"
  shows "f = ''registry-deployment.json'' \<and> (\<exists>deployer info. dk_files s' f = Some info \<and> accounts_for R deployer info)"
proof -
  have "dk_files s' \<noteq> dk_files s" using assms(2) by auto
  with registry_only_main_changed[OF assms(1)] show ?thesis using assms(2) by (auto split: if_splits)
qed

text \<open>A node that refuses the first option, which the registry is then deployed without.\<close>

definition sample_rpc :: "unit rpc" where
  "sample_rpc =
     \<lparr>rpc_env = (\<lambda>_. Some ''0x1''), rpc_parseUnits = (\<lambda>v d. if v = ''1'' then 1000000000 else 100000000),
      rpc_formatUnits = (\<lambda>v d. ''100''), rpc_blockNumber = (\<lambda>url. eff_return 7), rpc_wallet = (\<lambda>k url. eff_return ''0xaa''),
      rpc_nonce = (\<lambda>a. eff_return 0), rpc_balance = (\<lambda>a. eff_return 5), rpc_feeData = eff_return (),
      rpc_artifacts = eff_return [Dir_entry ''registry'' [File_entry ''LendingPoolAddressesProviderRegistry.json'']],
      rpc_artifact = (\<lambda>p. eff_return ()), rpc_estimate = (\<lambda>a tx. eff_return 21000),
      rpc_send = (\<lambda>a tx. if rt_gasPrice tx = Some 1000000000 then eff_throw (Error ''underpriced'') else eff_return (''0xfe'', 0)),
      rpc_wait = (\<lambda>h n. eff_throw (Error ''timeout'')), rpc_getContractAddress = (\<lambda>a n. ''0xbb''),
      rpc_read = (\<lambda>a f. eff_return ''0xaa''), rpc_now = eff_return ''2025'', rpc_write = (\<lambda>f. eff_return ()),
      rpc_web3_deploy = (\<lambda>a tx. eff_throw (Error ''timeout'')), rpc_exec = (\<lambda>c. eff_return ())\<rparr>"

definition no_files :: "unit disk" where
  "no_files = \<lparr>dk_world = (), dk_files = (\<lambda>_. None)\<rparr>"

lemma sample_registry_run:
  "registry_only_main sample_rpc no_files
   = (Inr (), no_files\<lparr>dk_files := [''registry-deployment.json'' \<mapsto> registry_info ''0xfe'' ''0xbb'' 0 ''2025'' ''0xaa'']\<rparr>)"
  by (simp add: registry_only_main_def only_deploy_def only_loadArtifact_def trySendTransaction_def sample_rpc_def no_files_def
      given_def PROVIDER_URLS_def GAS_OPTIONS_def REGISTRY_def priced_def deploy_tx_def save_file_def with_node_def
      eff_bind_def eff_then_def eff_catch_def eff_simps)

lemma registry_file_accounts_for_transaction_witness:
  "\<exists>deployer info. dk_files (snd (registry_only_main sample_rpc no_files)) ''registry-deployment.json'' = Some info
     \<and> accounts_for sample_rpc deployer info"
  using registry_file_accounts_for_transaction[OF sample_registry_run, of "''registry-deployment.json''"]
  unfolding sample_registry_run by (simp add: no_files_def)

section \<open>What the scripts tell of a deployment that fails\<close>

text \<open>Operations that never answer with an error, and operations that always do.\<close>

definition succeeds :: "('s, 'e, 'a) eff \<Rightarrow> bool" where
  "succeeds m \<longleftrightarrow> (\<forall>s. \<exists>a s'. m s = (Inr a, s'))"

definition always_fails :: "('s, 'e, 'a) eff \<Rightarrow> bool" where
  "always_fails m \<longleftrightarrow> (\<forall>s. \<exists>e s'. m s = (Inl e, s'))"

lemma succeeds_return: "succeeds (eff_return a)"
  by (simp add: succeeds_def eff_simps)

lemma succeeds_node: "succeeds m \<Longrightarrow> succeeds (with_node m)"
  by (metis succeeds_def with_node_eq)

lemma succeeds_bind: "succeeds m \<Longrightarrow> (\<And>a. succeeds (f a)) \<Longrightarrow> succeeds (eff_bind m f)"
  unfolding succeeds_def by (metis eff_bind_eq(2))

lemma succeeds_after: "succeeds m \<Longrightarrow> succeeds m' \<Longrightarrow> succeeds (eff_then m m')"
  by (simp add: eff_then_def succeeds_bind)

lemma succeeds_caught: "(\<And>e. succeeds (h e)) \<Longrightarrow> succeeds (eff_catch m h)"
  unfolding succeeds_def eff_catch_def by (auto split: prod.splits sum.splits)

lemma always_fails_node: "always_fails m \<Longrightarrow> always_fails (with_node m)"
  by (metis always_fails_def with_node_eq)

lemma always_fails_first: "always_fails m \<Longrightarrow> always_fails (eff_bind m f)"
  unfolding always_fails_def by (metis eff_bind_eq(1))

lemma always_fails_bind: "(\<And>a. always_fails (f a)) \<Longrightarrow> always_fails (eff_bind m f)"
  unfolding always_fails_def eff_bind_def by (auto split: prod.splits sum.splits)

lemma always_fails_after: "always_fails m' \<Longrightarrow> always_fails (eff_then m m')"
  by (simp add: eff_then_def always_fails_bind)

lemma exit_succeeds: "succeeds m \<Longrightarrow> exit_code m s = 0"
  and exit_fails: "always_fails m \<Longrightarrow> exit_code m s = 1"
  by (auto simp: succeeds_def always_fails_def exit_code_def split: sum.splits) (metis fst_conv Inl_Inr_False)+

text \<open>The node refuses every transaction, and answers all that the scripts read from it.\<close>

definition refuses :: "'w rpc \<Rightarrow> bool" where
  "refuses R \<longleftrightarrow> (\<forall>wallet tx. always_fails (rpc_send R wallet tx)) \<and> (\<forall>wallet tx. always_fails (rpc_web3_deploy R wallet tx))"

definition answers_reads :: "'w rpc \<Rightarrow> bool" where
  "answers_reads R \<longleftrightarrow>
     (\<forall>url. succeeds (rpc_blockNumber R url)) \<and> (\<forall>k url. succeeds (rpc_wallet R k url)) \<and> (\<forall>a. succeeds (rpc_nonce R a))
   \<and> (\<forall>a. succeeds (rpc_balance R a)) \<and> (\<forall>p. succeeds (rpc_artifact R p)) \<and> succeeds (rpc_now R)"

lemma unsent_fails:
  "refuses R \<Longrightarrow> always_fails (eff_bind (with_node (rpc_send R wallet tx)) f)"
  "refuses R \<Longrightarrow> always_fails (eff_bind (with_node (rpc_web3_deploy R wallet tx)) g)"
  by (simp_all add: refuses_def always_fails_first always_fails_node)

lemma failing_first: "always_fails m \<Longrightarrow> frames same_files m \<Longrightarrow> frames same_files (eff_bind m f)"
  unfolding frames_def always_fails_def by (metis eff_bind_eq(1) snd_conv)

lemma unsent_files:
  "refuses R \<Longrightarrow> frames same_files (eff_bind (with_node (rpc_send R wallet tx)) f)"
  "refuses R \<Longrightarrow> frames same_files (eff_then (with_node (rpc_send R wallet tx)) m)"
  "refuses R \<Longrightarrow> frames same_files (eff_bind (with_node (rpc_web3_deploy R wallet tx)) g)"
  by (auto simp: refuses_def eff_then_def intro!: failing_first files_with_node always_fails_node)

lemmas no_file = unsent_files files_with_node files.pure[OF eff_pure_basic(1)] files.pure[OF eff_pure_basic(2)]
  files.caught files.bind files.after

lemma scripts_unsent_files:
  assumes "refuses R"
  shows "frames same_files (eip1559_main R)" "frames same_files (no_wait_main R)" "frames same_files (simple_main R)"
    "frames same_files (nowait_main R)" "frames same_files (raw_main R)" "frames same_files (and_wait_main R)"
    "frames same_files (simple_registry_main R)" "frames same_files (web3_main R)"
  using assms
  by (auto simp: eip1559_main_def no_wait_main_def deployWithoutWaiting_def simple_main_def nowait_main_def raw_main_def
      and_wait_main_def simple_registry_main_def web3_main_def web3_deploy_def Let_def intro!: no_file)

lemma registry_only_unsent:
  assumes "refuses R"
  shows "dk_files (snd (registry_only_main R s)) = dk_files s"
proof (rule ccontr)
  assume changed: "\<not> ?thesis"
  obtain r s' where "registry_only_main R s = (r, s')" by fastforce
  from registry_only_main_changed[OF this] changed this obtain deployer info where "accounts_for R deployer info" by auto
  then obtain tx w t w' where "rpc_send R deployer tx w = (Inr t, w')" unfolding accounts_for_def by blast
  then show False using assms unfolding refuses_def always_fails_def by (metis Inl_Inr_False fst_conv)
qed

lemma try_urls_some: "answers_reads R \<Longrightarrow> \<exists>s'. try_urls R (url # urls) s = (Inr (Some url), s')"
  unfolding answers_reads_def succeeds_def
  by (auto simp: eff_bind_def eff_catch_def with_node_def eff_simps split: prod.splits sum.splits) (metis Inl_Inr_False fst_conv)

lemma registry_only_ends:
  assumes "answers_reads R" and "given (rpc_env R ''PRIVATE_KEY'')" and "rpc_env R ''PRIVATE_KEY'' \<noteq> Some ''YOUR_PRIVATE_KEY_HERE''"
  shows "exit_code (registry_only_main R) s = 0"
proof -
  let ?rest = "\<lambda>url. eff_bind (with_node (rpc_wallet R (rpc_env R ''PRIVATE_KEY'') url)) (\<lambda>deployer.
            eff_catch (only_deploy R deployer) (\<lambda>e. eff_return ()))"
  obtain s1 where "try_urls R PROVIDER_URLS s = (Inr (Some ANKR_URL), s1)"
    using try_urls_some[OF assms(1)] by (metis PROVIDER_URLS_def)
  then have run: "registry_only_main R s = ?rest ANKR_URL s1"
    using assms(2,3) by (simp add: registry_only_main_def eff_bind_def)
  have "succeeds (?rest ANKR_URL)"
    using assms(1) unfolding answers_reads_def by (intro succeeds_bind succeeds_node succeeds_caught succeeds_return) blast
  then show ?thesis using exit_succeeds[of "?rest ANKR_URL" s1] by (simp add: exit_code_def run)
qed

lemmas ends = succeeds_bind succeeds_after succeeds_caught succeeds_node succeeds_return

lemma scripts_end:
  assumes "answers_reads R" and "given (rpc_env R ''PRIVATE_KEY'')"
  shows "succeeds (eip1559_main R)" "succeeds (no_wait_main R)" "succeeds (simple_main R)" "succeeds (nowait_main R)"
    "succeeds (raw_main R)"
  using assms
  by (auto simp: eip1559_main_def no_wait_main_def simple_main_def nowait_main_def raw_main_def Let_def answers_reads_def
      intro!: ends)

lemma scripts_fail:
  assumes "refuses R" and "given (rpc_env R ''PRIVATE_KEY'')"
  shows "always_fails (and_wait_main R)" "always_fails (simple_registry_main R)"
  using assms by (simp_all add: and_wait_main_def simple_registry_main_def Let_def eff_then_def always_fails_bind unsent_fails)

lemma web3_unsent:
  assumes "refuses R"
  shows "web3_exit_code R s = 1"
proof -
  have "always_fails (web3_deploy R deployer)" for deployer
    using assms by (simp add: web3_deploy_def Let_def always_fails_bind unsent_fails)
  then have "fst (eff_catch (web3_deploy R deployer) (\<lambda>e. eff_return None) s') = Inr None" for deployer s'
    by (auto simp: always_fails_def eff_catch_def eff_simps split: prod.splits sum.splits) (metis Inl_Inr_False fst_conv)
  then have "\<exists>e. fst (web3_main R s) \<in> {Inl e, Inr None}"
    by (auto simp: web3_main_def eff_then_def eff_bind_def split: prod.splits sum.splits)
  then show ?thesis by (auto simp: web3_exit_code_def given_def)
qed

text \<open>
  C29. When the node refuses every transaction, none of the scripts changes a file; the exit codes of the six that catch the
  error say that all went well, those of the other three do not.
\<close>

theorem refused_deployments_told:
  assumes "refuses R" and "answers_reads R"
    and "given (rpc_env R ''PRIVATE_KEY'')" and "rpc_env R ''PRIVATE_KEY'' \<noteq> Some ''YOUR_PRIVATE_KEY_HERE''"
  shows "list_all (\<lambda>m. exit_code m s = 0 \<and> dk_files (snd (m s)) = dk_files s)
      [registry_only_main R, eip1559_main R, no_wait_main R, simple_main R, nowait_main R, raw_main R]
    \<and> list_all (\<lambda>m. exit_code m s = 1 \<and> dk_files (snd (m s)) = dk_files s) [and_wait_main R, simple_registry_main R]
    \<and> web3_exit_code R s = 1 \<and> dk_files (snd (web3_main R s)) = dk_files s"
  using scripts_unsent_files[OF assms(1)] scripts_end[OF assms(2,3)] scripts_fail[OF assms(1,3)]
  by (simp add: exit_succeeds exit_fails web3_unsent registry_only_unsent registry_only_ends assms frames_def same_files_def)

lemma refused_deployments_told_witness:
  "let R = sample_rpc\<lparr>rpc_send := \<lambda>a tx. eff_throw (Error ''underpriced'')\<rparr> in
     exit_code (raw_main R) no_files = 0 \<and> exit_code (and_wait_main R) no_files = 1"
proof -
  let ?R = "sample_rpc\<lparr>rpc_send := \<lambda>a tx. eff_throw (Error ''underpriced'')\<rparr>"
  have "refuses ?R" "answers_reads ?R"
    by (simp_all add: refuses_def answers_reads_def sample_rpc_def succeeds_def always_fails_def eff_simps)
  then show ?thesis using refused_deployments_told[of ?R no_files] by (simp add: sample_rpc_def given_def)
qed

section \<open>The commands one after the other\<close>

text \<open>
  However its commands end, the script runs the next one, keeps the files, and ends with exit code 0.
\<close>

fun run_in_turn :: "'w rpc \<Rightarrow> string list \<Rightarrow> 'w \<Rightarrow> 'w" where
  "run_in_turn R [] w = w"
| "run_in_turn R (c # cs) w = run_in_turn R cs (snd (rpc_exec R c w))"

lemma runCommandNoWait_run:
  "runCommandNoWait R c s = (Inr (), s\<lparr>dk_world := snd (rpc_exec R c (dk_world s))\<rparr>)"
  by (auto simp: runCommandNoWait_def eff_catch_def with_node_def eff_simps split: prod.splits sum.splits)

lemma each_command:
  "eff_each (\<lambda>t. runCommandNoWait R (g t)) ts s = (Inr (), s\<lparr>dk_world := run_in_turn R (map g ts) (dk_world s)\<rparr>)"
  by (induction ts arbitrary: s) (simp_all add: eff_simps eff_then_def eff_bind_def runCommandNoWait_run)

theorem step_by_step_runs_all:
  "step_by_step R s = (Inr (), s\<lparr>dk_world := run_in_turn R (map step_command STEP_TASKS) (dk_world s)\<rparr>)"
  by (simp add: step_by_step_def each_command)

end
