(* ===== verification/Spec2Isabelle.thy ===== *)
theory Spec2Isabelle
  imports Error_Codes User_Properties Scenario_Properties Pool_Admin Factory_Deployment Market_Properties Ui_Components Script_Properties
    Task_Properties Registry_Script_Properties
begin

text \<open>
  A verification library for the TypeScript and JavaScript of ElectroLend, a lending market with deposits,
  loans at stable and variable rates, and interest that accrues into the balances.

  The program has four parts. The scenario tests (\<open>test-suites/test-palmy\<close>) execute stories
  of actions against the contracts and compare the states they read with states that they calculate
  themselves. The deployment code (\<open>helpers\<close>, \<open>markets\<close>) deploys the contracts, registers
  them in a database, and initializes the reserves. The web application (\<open>electrolend-ui\<close>) connects a wallet and
  sends transactions to a lending contract. The scripts (\<open>scripts\<close>) deploy a market on the test network, step by
  step and without the deployment code, or only the registry of the market. The parts share no state; the tests use the deployment code's configuration
  and getters, and the scripts that run after a deployment read the file it has left.

  \<^bold>\<open>Conventions.\<close> A record of operations stands for what is not in the repository: \<open>B\<close>, the
  \<open>bignumber.js\<close> package (locale \<open>bignumber\<close> in Big_Number, interpreted on decimals with an integer
  coefficient); \<open>chain\<close>, the node the tests talk to; \<open>platform\<close> and \<open>reserve_setup\<close>, the node, the compiled
  contracts and the verifier of the deployment code; \<open>ethereum\<close>, the wallet and the ethers library of the web
  application; \<open>node\<close>, the ethers library, the node and the file system of the scripts, and
  \<open>rpc\<close> those of the scripts that deploy one contract; \<open>market\<close>, the build tool of the tasks. Code with effects is
  a state transformer with exceptions (Effects: \<open>eff_bind\<close> is an await followed by the rest, \<open>eff_catch\<close> a try
  block); exceptions are values, and the locale \<open>frame\<close> has the rules by which a computation keeps a part of the state. Objects with symbols as keys are association
  lists in the order of insertion. Numerals of contracts are naturals below \<open>2 ^ 256\<close> with the reverts of
  SafeMath as \<open>None\<close>. The numbers of JavaScript are doubles (Js_Number: exact rationals with the rounding of IEEE 754,
  \<open>toFixed\<close>, \<open>parseFloat\<close>); Js_Number_Properties has their errors, round trips and the calculus \<open>close\<close> of relative
  errors that the statements about shown figures use.

  \<^bold>\<open>The calculator and its reference.\<close> Contract_Math holds \<open>SafeMath\<close>, \<open>WadRayMath\<close>,
  \<open>PercentageMath\<close> and \<open>MathUtils\<close> of the contracts; Ray_Math the constants and the operations of
  \<open>helpers/utils/math.ts\<close>; Protocol_Types, Error_Codes and Market_Config the types, the error table and
  the market of \<open>helpers/types.ts\<close> and \<open>markets/electrolend\<close>; Reserve_Data, Interest, Expected_Reserve and
  Expected_User the functions of \<open>helpers/utils/calculations.ts\<close>. Proved: the arithmetic and the
  interest of the tests are those of the contracts (and by how much the variable and the liquidity rate differ where
  their roundings are in another order), the accounting identity of the reserve, conservation of the underlying asset, monotonicity
  of the indices and of the rates, the repayment and withdrawal of everything, and when the
  calculation fails.

  \<^bold>\<open>The scenarios.\<close> Comparison models the tolerant comparison of states (\<open>almost-equal.ts\<close>, \<open>actions.ts\<close>) and
  the reading of states (\<open>utils/helpers.ts\<close>), Scenario the actions and the interpreter of stories
  (\<open>actions.ts\<close>, \<open>scenario-engine.ts\<close>), Scenario_Properties what an action that passes has established. Proved: which
  states are accepted, that a passing deposit, withdrawal, loan or repayment has moved its amount between the wallet and the pool as the
  contracts report them, that rejected actions send nothing and those with an unknown expected result check nothing, and
  that the seven actions that call the pool do not look at the reason of an expected revert.

  \<^bold>\<open>The deployment.\<close> Misc_Utils and Verification model \<open>misc-utils.ts\<close>, \<open>mock-helpers.ts\<close> and
  \<open>etherscan-verification.ts\<close>; Contract_Registry the database and the getters (\<open>contracts-helpers.ts\<close>,
  \<open>contracts-getters.ts\<close>), Network_Config the configuration per network (\<open>configuration.ts\<close>),
  Deployments every deployment function (\<open>contracts-deployments.ts\<close>), Factory_Deployment the factory, the
  permits and the networks of the build (\<open>contracts-helpers.ts\<close>, \<open>helper-hardhat-config.ts\<close>), Reserve_Setup \<open>init-helpers.ts\<close> and
  \<open>oracles-helpers.ts\<close>. Proved: what is deployed is found by its getter, linking, the bounded retries, what
  the initialization of the reserves sends, and who administers the pool after their configuration (locale
  \<open>pool_admin_chain\<close> in Pool_Admin, interpreted on the functions of \<open>LendingPoolAddressesProvider.sol\<close>).

  \<^bold>\<open>The tasks.\<close> Market_Tasks models the tasks of the build tool (\<open>tasks/full\<close>, \<open>tasks/dev\<close>,
  \<open>tasks/operations\<close>, \<open>tasks/helpers\<close>): their lookups of other tasks by name, their arguments as they are passed, and the
  end of the process. Task_Properties has two interpretations of \<open>frame\<close>, for the registry of the other networks and for the session.
  Proved: no task of the full deployment touches another network, which runs of the test network end and where, what
  adding a market does to its registry, and where the transaction that pauses the pool goes.

  \<^bold>\<open>The web application.\<close> Lending_Service and Web3 model \<open>utils/lendingService.ts\<close> and
  \<open>utils/web3.ts\<close>; Lending_Properties the protocol of a payment, an abstract transition system of allowances,
  approvals and confirmations that the operations of the service refine; Wallet_Context the provider of
  \<open>context/WalletContext.tsx\<close> as a state machine whose pending calls are interleaved with the events of the
  wallet and of the user; App_Pages the operations the pages call and the confirmation of an action. Dashboard_Page and
  Market_Page are the two pages: their tables, the loops that read positions and markets from the contract, and what they
  show; Ui_Components the messages with their timers, the button of the wallet, the form of an action, the details of
  an asset (\<open>components\<close>).
  Proved: the refinement, the well-formedness of every reachable state, the end of every connection, what
  holds of a connected wallet when no connection is interrupted and fails otherwise, the network after
  an initialization, and the withdrawal of the largest amount; of the pages (Dashboard_Properties, Market_Properties,
  Ui_Components) which readings they show, how far the shown figures are from the exact ones, the colour of an account,
  the deadline that messages share and how they leave the page, and that the forms of the details send nothing.

  \<^bold>\<open>The scripts.\<close> Testnet_Scripts models the two scripts that deploy the market on the test network, with and without
  waiting for confirmations, and Setup_Scripts the two that configure the reserves and the oracle
  afterwards. Script_Properties states triples with a postcondition for success and one for failure; the locale
  \<open>script_steps\<close> is the contract of a script's three operations (deploy, call, deploy with libraries), interpreted on
  those of the quick script. Proved: what the file of a deployment says at the end, however the script ends; that the quick
  deployment always stops at the provider of data, and after which transactions (\<open>ElectroProtocolDataProvider.sol\<close> has no constructor
  for the argument it is deployed with, which is the hypothesis \<open>data_provider_takes_no_argument\<close> on the node; the steps that would come after, the methods
  \<open>setElectroProtocolDataProvider\<close> and \<open>initReserve\<close>, are not in the contracts either); that the set-up of the reserves then sends nothing; and two defects
  of the scripts that follow a deployment, as theorems about what they send.
  Registry_Scripts models the nine scripts that deploy the registry of the market alone and the one that runs the tasks in turn, with their
  exit codes. Registry_Script_Properties interprets \<open>frame\<close> on the files. Proved: which transaction the file of
  \<open>deploy-registry-only.js\<close> accounts for, and which scripts end with an error when the node refuses the deployment.

  \<^bold>\<open>Bounds.\<close> The only loop that is not structural is the retry of the verification, which recurses on the
  number of attempts. A connection of the wallet has five awaits, and five answers end it; nothing else
  needs fuel. Doubles are exact rationals, rounded to 53 bits; the statements about shown figures bound the
  amounts, far above what the contracts can hold, so that no product or quotient leaves the range.

  \<^bold>\<open>Not modelled.\<close> The contracts beyond the parts named above, which are Solidity; the lending contract
  of the web application, whose source is not in the repository; the rendering of the pages beyond what is shown of the
  state, and the static pages; the tasks that print, verify or export call data, and those that import
  names of the Palmy repository, which do not exist in this one; the test specifications with their assertions; logging.
\<close>

end
